(* ===== verification/Prelude.thy ===== *)
theory Prelude
  imports Main "HOL-Library.Sublist" "HOL-Library.AList" "HOL-Library.Monad_Syntax" "HOL-Library.Signed_Division"
begin

text \<open>
  The base of the library: the collections of simplification rules the component
  theories share, the type names of the model, and the generic facts on lists, options
  and finite maps that the component proofs use.

  \<^item> \<open>go_simps\<close> collects the equations of the small, always-unfolded definitions
    (accessors, state updates, effect recording); \<open>frame\<close> collects the facts that say
    which part of a state an operation leaves alone.
  \<^item> \<open>'a go\<close> is the result of Go code that may panic: \<open>None\<close> is the panic
    (a nil dereference, an index out of range), \<open>Some r\<close> a normal return.
  \<^item> Go's \<open>int\<close> is 64 bits wide; \<open>wrap64\<close> is its wrap-around.
\<close>

named_theorems go_simps "equations of the model's small definitions"
named_theorems frame "what an operation leaves unchanged"

type_synonym 'a go = "'a option"

section \<open>Machine integers\<close>

text \<open>Two's complement wrap-around of Go's 64-bit \<open>int\<close>.\<close>

definition wrap64 :: "int \<Rightarrow> int" where
  "wrap64 x = (x + 2 ^ 63) mod 2 ^ 64 - 2 ^ 63"

definition int64 :: "int \<Rightarrow> bool" where
  "int64 x \<longleftrightarrow> - (2 ^ 63) \<le> x \<and> x < 2 ^ 63"

lemma wrap64_id [simp]: "int64 x \<Longrightarrow> wrap64 x = x"
  by (simp add: int64_def wrap64_def)

lemma int64_wrap64 [simp]: "int64 (wrap64 x)"
  by (simp add: int64_def wrap64_def)

lemma wrap64_idem [simp]: "wrap64 (wrap64 x) = wrap64 x"
  by simp

lemma wrap64_cong: "x mod 2 ^ 64 = y mod 2 ^ 64 \<Longrightarrow> wrap64 x = wrap64 y"
  unfolding wrap64_def by (metis mod_add_left_eq)

lemma int64_between: "\<lbrakk>int64 a; int64 b; a \<le> x; x \<le> b\<rbrakk> \<Longrightarrow> int64 x"
  by (simp add: int64_def)

section \<open>Lists\<close>

lemma takeWhile_all: "(\<And>x. x \<in> set xs \<Longrightarrow> P x) \<Longrightarrow> takeWhile P xs = xs"
  by simp

lemma dropWhile_all: "(\<And>x. x \<in> set xs \<Longrightarrow> P x) \<Longrightarrow> dropWhile P xs = []"
  by simp

lemma dropWhile_hd: "dropWhile P xs = y # ys \<Longrightarrow> \<not> P y"
  by (metis hd_dropWhile list.distinct(1) list.sel(1))

lemma set_dropWhile_subset: "set (dropWhile P xs) \<subseteq> set xs"
  by (auto dest: set_dropWhileD)

lemma find_append: "find P (xs @ ys) = (case find P xs of None \<Rightarrow> find P ys | r \<Rightarrow> r)"
  by (induction xs) auto

section \<open>Go maps\<close>

text \<open>
  A Go map is an association list with distinct keys (\<open>gomap_ok\<close>): \<open>map_of m k\<close>
  is \<open>m[k]\<close>, \<open>mput\<close> is assignment, \<open>mdel\<close> is \<open>delete\<close> and
  \<open>length m\<close> is \<open>len(m)\<close>. A \<open>range\<close> loop visits the entries in list order, one of
  the orders Go may choose; statements about such loops do not depend on the order.
\<close>

type_synonym ('k, 'v) gomap = "('k \<times> 'v) list"

definition gomap_ok :: "('k, 'v) gomap \<Rightarrow> bool" where
  "gomap_ok m \<longleftrightarrow> distinct (map fst m)"

definition mput :: "'k \<Rightarrow> 'v \<Rightarrow> ('k, 'v) gomap \<Rightarrow> ('k, 'v) gomap" where
  "mput k v m = AList.update k v m"

definition mdel :: "'k \<Rightarrow> ('k, 'v) gomap \<Rightarrow> ('k, 'v) gomap" where
  "mdel k m = AList.delete k m"

lemma map_of_mput [simp]: "map_of (mput k v m) = (map_of m)(k \<mapsto> v)"
  by (simp add: mput_def update_conv')

lemma map_of_mdel [simp]: "map_of (mdel k m) = (map_of m)(k := None)"
  by (simp add: mdel_def delete_conv')

lemma mput_Nil [simp]: "mput k v [] = [(k, v)]"
  by (simp add: mput_def)

lemma mput_Cons [simp]:
  "mput k v ((k', v') # m) = (if k' = k then (k, v) # m else (k', v') # mput k v m)"
  by (simp add: mput_def)

lemma mdel_Nil [simp]: "mdel k [] = []"
  by (simp add: mdel_def)

lemma mdel_Cons [simp]: "mdel k ((k', v') # m) = (if k' = k then mdel k m else (k', v') # mdel k m)"
  by (auto simp: mdel_def)

lemma gomap_ok_Nil [simp, intro!]: "gomap_ok []"
  by (simp add: gomap_ok_def)

lemma gomap_ok_mput [simp, intro]: "gomap_ok m \<Longrightarrow> gomap_ok (mput k v m)"
  unfolding gomap_ok_def mput_def by (rule distinct_update)

lemma gomap_ok_mdel [simp, intro]: "gomap_ok m \<Longrightarrow> gomap_ok (mdel k m)"
  unfolding gomap_ok_def mdel_def by (rule distinct_delete)

lemma keys_mput: "fst ` set (mput k v m) = insert k (fst ` set m)"
  by (simp add: mput_def dom_update flip: dom_map_of_conv_image_fst)
    (simp add: update_conv' dom_map_of_conv_image_fst)

lemma keys_mdel: "fst ` set (mdel k m) = fst ` set m - {k}"
  by (simp flip: dom_map_of_conv_image_fst)

lemma length_mput: "gomap_ok m \<Longrightarrow>
  length (mput k v m) = (if k \<in> fst ` set m then length m else Suc (length m))"
proof (induction m)
  case Nil
  then show ?case by simp
next
  case (Cons e m)
  then show ?case by (cases e) (force simp: gomap_ok_def)
qed

lemma length_mdel_le: "length (mdel k m) \<le> length m"
  by (induction m) auto

lemma length_mdel: "gomap_ok m \<Longrightarrow>
  length (mdel k m) = (if k \<in> fst ` set m then length m - 1 else length m)"
proof (induction m)
  case Nil
  then show ?case by simp
next
  case (Cons e m)
  obtain k' v' where e: "e = (k', v')" by (cases e)
  from Cons.prems have ok: "gomap_ok m" and new: "k' \<notin> fst ` set m"
    by (auto simp: gomap_ok_def e)
  show ?case
  proof (cases "k' = k")
    case True
    with new Cons.IH [OF ok] show ?thesis by (simp add: e)
  next
    case False
    then show ?thesis
      using Cons.IH [OF ok] by (cases m) (auto simp: e)
  qed
qed

lemma set_mput: "e \<in> set (mput k v m) \<Longrightarrow> e = (k, v) \<or> e \<in> set m"
  by (induction m) (auto split: if_splits)

lemma set_mdel: "e \<in> set (mdel k m) \<Longrightarrow> e \<in> set m"
  by (induction m) (auto split: if_splits)

lemma map_of_in_set: "gomap_ok m \<Longrightarrow> (k, v) \<in> set m \<Longrightarrow> map_of m k = Some v"
  by (simp add: gomap_ok_def)

end
