(* ===== verification/GoLib.thy ===== *)
theory GoLib
  imports Complex_Main Prelude
begin

text \<open>
  What the program uses of Go's standard library, as executable functions.

  \<^item> \<^verbatim>\<open>time\<close>: a \<open>time\<close> is the number of nanoseconds since the Unix epoch and a
    duration a number of nanoseconds; \<open>timeSub\<close> saturates as \<^verbatim>\<open>Time.Sub\<close> does.
  \<^item> \<^verbatim>\<open>float64\<close> values are exact rationals; a conversion to \<open>int\<close> truncates
    towards zero, and a value out of range gives the smallest \<open>int\<close> (amd64).
  \<^item> \<^verbatim>\<open>strings\<close> on ASCII text: \<open>TrimSpace\<close>, \<open>Split\<close> and \<open>Join\<close>
    with a one-character separator, \<open>ToLower\<close>, \<open>EqualFold\<close>.
  \<^item> \<^verbatim>\<open>strconv\<close>: \<open>Itoa\<close>, \<open>Atoi\<close> (decimal digits with an optional sign, and the
    64-bit range check) and \<open>ParseFloat\<close> on the decimal grammar: sign, digits,
    fraction, exponent. The spellings of infinity and NaN, hexadecimal mantissas and
    digit separators are outside the model and count as syntax errors.
\<close>

section \<open>Time and floating point\<close>

type_synonym time = int
type_synonym float64 = rat

abbreviation nanos_per_second :: int where "nanos_per_second \<equiv> 1000000000"
abbreviation nanos_per_minute :: int where "nanos_per_minute \<equiv> 60000000000"

text \<open>The zero \<^verbatim>\<open>time.Time\<close>: January 1 of the year 1, UTC.\<close>

definition zeroTime :: time where
  "zeroTime = - 62135596800000000000"

definition timeSub :: "time \<Rightarrow> time \<Rightarrow> int" where
  "timeSub t u = max (- (2 ^ 63)) (min (2 ^ 63 - 1) (t - u))"

lemma timeSub_exact [simp]: "int64 (t - u) \<Longrightarrow> timeSub t u = t - u"
  by (auto simp: timeSub_def int64_def)

lemma timeSub_mono: "t \<le> t' \<Longrightarrow> timeSub t u \<le> timeSub t' u"
  by (auto simp: timeSub_def)

lemma int64_timeSub: "int64 (timeSub t u)"
  by (simp add: timeSub_def int64_def)

definition Minutes :: "int \<Rightarrow> float64" where
  "Minutes d = of_int d / of_int nanos_per_minute"

definition Seconds :: "int \<Rightarrow> float64" where
  "Seconds d = of_int d / of_int nanos_per_second"

definition Unix :: "time \<Rightarrow> int" where
  "Unix t = t div nanos_per_second"

text \<open>The conversion \<^verbatim>\<open>int(f)\<close>.\<close>

definition int_of_float :: "float64 \<Rightarrow> int" where
  "int_of_float f =
     (let n = (if f < 0 then \<lceil>f\<rceil> else \<lfloor>f\<rfloor>)
      in if int64 n then n else - (2 ^ 63))"

lemma int64_int_of_float: "int64 (int_of_float f)"
  by (simp add: int_of_float_def Let_def) (simp add: int64_def)

lemma int_of_float_of_int [simp]: "int64 n \<Longrightarrow> int_of_float (of_int n) = n"
  by (simp add: int_of_float_def Let_def)

section \<open>Strings\<close>

definition isSpace :: "char \<Rightarrow> bool" where
  "isSpace c \<longleftrightarrow> c = CHR '' '' \<or> (9 \<le> (of_char c :: nat) \<and> (of_char c :: nat) \<le> 13)"

definition TrimSpace :: "string \<Rightarrow> string" where
  "TrimSpace s = rev (dropWhile isSpace (rev (dropWhile isSpace s)))"

fun Split :: "char \<Rightarrow> string \<Rightarrow> string list" where
  "Split d [] = [[]]"
| "Split d (c # cs) =
     (if c = d then [] # Split d cs
      else (case Split d cs of [] \<Rightarrow> [[c]] | w # ws \<Rightarrow> (c # w) # ws))"

fun Join :: "char \<Rightarrow> string list \<Rightarrow> string" where
  "Join d [] = []"
| "Join d [w] = w"
| "Join d (w # v # ws) = w @ d # Join d (v # ws)"

definition lowerChar :: "char \<Rightarrow> char" where
  "lowerChar c =
     (let n = (of_char c :: nat) in if 65 \<le> n \<and> n \<le> 90 then char_of (n + 32) else c)"

definition ToLower :: "string \<Rightarrow> string" where
  "ToLower s = map lowerChar s"

definition EqualFold :: "string \<Rightarrow> string \<Rightarrow> bool" where
  "EqualFold s t \<longleftrightarrow> ToLower s = ToLower t"

lemma Split_nonempty [simp]: "Split d s \<noteq> []"
  by (induction s) (auto split: list.splits)

lemma Join_Split [simp]: "Join d (Split d s) = s"
proof (induction s)
  case Nil
  then show ?case by simp
next
  case (Cons c cs)
  obtain w ws where "Split d cs = w # ws" by (cases "Split d cs") auto
  with Cons show ?case by (cases ws) auto
qed

lemma Split_no_sep: "w \<in> set (Split d s) \<Longrightarrow> d \<notin> set w"
  by (induction s arbitrary: w) (auto split: if_splits list.splits)

lemma Split_word: "d \<notin> set w \<Longrightarrow> Split d w = [w]"
  by (induction w) auto

lemma Split_append_sep: "d \<notin> set w \<Longrightarrow> Split d (w @ d # s) = w # Split d s"
  by (induction w) auto

lemma Split_Join: "ws \<noteq> [] \<Longrightarrow> \<forall>w \<in> set ws. d \<notin> set w \<Longrightarrow> Split d (Join d ws) = ws"
  by (induction d ws rule: Join.induct) (auto simp: Split_word Split_append_sep)

lemma set_TrimSpace: "set (TrimSpace s) \<subseteq> set s"
  by (auto simp: TrimSpace_def dest!: set_dropWhileD)

lemma lowerChar_idem [simp]: "lowerChar (lowerChar c) = lowerChar c"
  by (auto simp: lowerChar_def Let_def)

lemma ToLower_idem [simp]: "ToLower (ToLower s) = ToLower s"
  by (simp add: ToLower_def comp_def)

lemma ToLower_Nil [simp]: "ToLower [] = []"
  by (simp add: ToLower_def)

lemma ToLower_eq_Nil [simp]: "ToLower s = [] \<longleftrightarrow> s = []"
  by (simp add: ToLower_def)

section \<open>Numbers as text\<close>

definition digitChar :: "nat \<Rightarrow> char" where
  "digitChar n = char_of (48 + n)"

definition isDigit :: "char \<Rightarrow> bool" where
  "isDigit c \<longleftrightarrow> 48 \<le> (of_char c :: nat) \<and> (of_char c :: nat) \<le> 57"

definition digitVal :: "char \<Rightarrow> nat" where
  "digitVal c = of_char c - 48"

lemma of_char_digitChar: "n < 10 \<Longrightarrow> (of_char (digitChar n) :: nat) = 48 + n"
  by (simp add: digitChar_def)

lemma isDigit_digitChar [simp]: "n < 10 \<Longrightarrow> isDigit (digitChar n)"
  by (simp add: isDigit_def of_char_digitChar)

lemma digitVal_digitChar [simp]: "n < 10 \<Longrightarrow> digitVal (digitChar n) = n"
  by (simp add: digitVal_def of_char_digitChar)

fun showNat :: "nat \<Rightarrow> string" where
  "showNat n = (if n < 10 then [digitChar n] else showNat (n div 10) @ [digitChar (n mod 10)])"

declare showNat.simps [simp del]

definition Itoa :: "int \<Rightarrow> string" where
  "Itoa i = (if i < 0 then CHR ''-'' # showNat (nat (- i)) else showNat (nat i))"

definition digitsVal :: "string \<Rightarrow> nat" where
  "digitsVal ds = foldl (\<lambda>a c. 10 * a + digitVal c) 0 ds"

definition readSign :: "string \<Rightarrow> bool \<times> string" where
  "readSign s = (case s of [] \<Rightarrow> (False, [])
     | c # cs \<Rightarrow> if c = CHR ''-'' then (True, cs) else if c = CHR ''+'' then (False, cs)
                else (False, s))"

definition readDigits :: "string \<Rightarrow> string \<times> string" where
  "readDigits s = (takeWhile isDigit s, dropWhile isDigit s)"

text \<open>\<^verbatim>\<open>strconv.Atoi\<close>, and \<^verbatim>\<open>ParseInt\<close> with base 10 and 64 bits: \<open>None\<close> is the error.\<close>

definition Atoi :: "string \<Rightarrow> int option" where
  "Atoi s =
     (let (neg, ds) = readSign s
      in if ds = [] \<or> \<not> list_all isDigit ds then None
         else let n = int (digitsVal ds); v = (if neg then - n else n)
              in if int64 v then Some v else None)"

definition maxFloatBound :: float64 where
  "maxFloatBound = (2 ^ 54 - 1) * 2 ^ 970"

text \<open>\<^verbatim>\<open>strconv.ParseFloat\<close> with 64 bits; too large a value is a range error.\<close>

definition ParseFloat :: "string \<Rightarrow> float64 option" where
  "ParseFloat s =
     (let (neg, s1) = readSign s;
          (ip, s2) = readDigits s1;
          (fp, s3) = (case s2 of [] \<Rightarrow> ([], []) | c # r \<Rightarrow> if c = CHR ''.'' then readDigits r else ([], s2))
      in if ip = [] \<and> fp = [] then None
         else let m = of_nat (digitsVal (ip @ fp)) / 10 ^ length fp;
                  v = (if neg then - m else m)
              in (case (case s3 of [] \<Rightarrow> Some v
                   | e # r \<Rightarrow>
                      if e = CHR ''e'' \<or> e = CHR ''E'' then
                        (let (eneg, r1) = readSign r; (ed, r2) = readDigits r1
                         in if ed = [] \<or> r2 \<noteq> [] then None
                            else Some (if eneg then v / 10 ^ digitsVal ed else v * 10 ^ digitsVal ed))
                      else None) of
                   None \<Rightarrow> None
                 | Some x \<Rightarrow> if \<bar>x\<bar> < maxFloatBound then Some x else None))"

lemma showNat_nonempty [simp]: "showNat n \<noteq> []"
  by (subst showNat.simps) simp

lemma showNat_digits: "c \<in> set (showNat n) \<Longrightarrow> isDigit c"
proof (induction n rule: showNat.induct)
  case (1 n)
  then show ?case by (subst (asm) (2) showNat.simps) (auto split: if_splits)
qed

lemma digitsVal_showNat [simp]: "digitsVal (showNat n) = n"
proof (induction n rule: showNat.induct)
  case (1 n)
  then show ?case by (subst showNat.simps) (auto simp: digitsVal_def)
qed

lemma not_isDigit_sign [simp]: "\<not> isDigit (CHR ''-'')" "\<not> isDigit (CHR ''+'')"
  by (simp_all add: isDigit_def)

lemma hd_showNat: "showNat n = c # cs \<Longrightarrow> isDigit c"
  using showNat_digits [of c n] by simp

lemma readSign_showNat [simp]: "readSign (showNat n) = (False, showNat n)"
  using hd_showNat [of n] by (auto simp: readSign_def split: list.splits)

lemma list_all_isDigit_showNat [simp]: "list_all isDigit (showNat n)"
  by (auto simp: list_all_iff dest: showNat_digits)

text \<open>Printing an \<open>int\<close> and parsing it back gives the number.\<close>

lemma Atoi_Itoa: "int64 i \<Longrightarrow> Atoi (Itoa i) = Some i"
proof (cases "i < 0")
  case True
  then have sign: "readSign (Itoa i) = (True, showNat (nat (- i)))"
    by (simp add: Itoa_def readSign_def)
  from True have "- int (nat (- i)) = i" by simp
  then show "int64 i \<Longrightarrow> ?thesis"
    by (simp add: Atoi_def sign Let_def)
next
  case False
  then show "int64 i \<Longrightarrow> ?thesis"
    by (simp add: Atoi_def Itoa_def Let_def)
qed

lemma Itoa_inject: "int64 i \<Longrightarrow> int64 j \<Longrightarrow> Itoa i = Itoa j \<Longrightarrow> i = j"
  by (metis Atoi_Itoa option.inject)

end
