(* ===== verification/Entities.thy ===== *)
theory Entities
  imports GoLib
begin

text \<open>
  The business entities of \<^verbatim>\<open>src/entity\<close> as records, with their constructors and
  methods. Field names carry the initials of their struct (\<open>c_\<close> connector, \<open>cp_\<close>
  charge point, \<open>t_\<close> transaction, \<open>m_\<close> meter reading, \<open>ut_\<close> user tag,
  \<open>pl_\<close> payment plan, \<open>loc_\<close> location), because HOL has one name space for the fields
  of all records. A pointer that may be nil is an \<open>option\<close>; the mutexes are left out;
  fields no modelled code reads or writes (addresses, descriptions, payment orders,
  tariffs) are left out.
\<close>

section \<open>Connectors\<close>

record ProfileVerdict =
  pv_Status :: string
  pv_Limit :: int
  pv_StackLevel :: int
  pv_Time :: time

definition ProfileStatusAccepted :: string where "ProfileStatusAccepted = ''Accepted''"
definition ProfileStatusRejected :: string where "ProfileStatusRejected = ''Rejected''"
definition ProfileStatusNotSupported :: string where "ProfileStatusNotSupported = ''NotSupported''"
definition ProfileStatusNoResponse :: string where "ProfileStatusNoResponse = ''NoResponse''"
definition ProfileStatusUnreadable :: string where "ProfileStatusUnreadable = ''Unreadable''"

definition Accepted :: "ProfileVerdict option \<Rightarrow> bool" where
  "Accepted v = (case v of None \<Rightarrow> False | Some p \<Rightarrow> pv_Status p = ProfileStatusAccepted)"

record Connector =
  c_Id :: int
  c_ChargePointId :: string
  c_IsEnabled :: bool
  c_Status :: string
  c_StatusTime :: time
  c_State :: string
  c_Info :: string
  c_VendorId :: string
  c_ErrorCode :: string
  c_CurrentPowerLimit :: int
  c_CurrentTransactionId :: int
  c_EvseId :: "int option"
  c_LastProfile :: "ProfileVerdict option"

definition NewConnector :: "int \<Rightarrow> string \<Rightarrow> Connector" where
  "NewConnector i chargePointId =
     \<lparr>c_Id = i, c_ChargePointId = chargePointId, c_IsEnabled = True, c_Status = [],
      c_StatusTime = zeroTime, c_State = [], c_Info = [], c_VendorId = [], c_ErrorCode = [],
      c_CurrentPowerLimit = 0, c_CurrentTransactionId = -1, c_EvseId = None,
      c_LastProfile = None\<rparr>"

section \<open>Charge points and locations\<close>

text \<open>The device model of a charge point holds the reports its handler stores, by name.\<close>

record DeviceReport =
  dr_RequestId :: int
  dr_SeqNo :: int
  dr_GeneratedAt :: time
  dr_Tbc :: bool

record ChargePoint =
  cp_Id :: string
  cp_LocationId :: string
  cp_IsEnabled :: bool
  cp_Title :: string
  cp_Model :: string
  cp_SerialNumber :: string
  cp_Vendor :: string
  cp_FirmwareVersion :: string
  cp_LocalAuthVersion :: int
  cp_SmartCharging :: bool
  cp_TriggerMessage :: bool
  cp_Status :: string
  cp_StatusTime :: time
  cp_Info :: string
  cp_AccessType :: string
  cp_AccessLevel :: int
  cp_ErrorCode :: string
  cp_IsOnline :: bool
  cp_EventTime :: time
  cp_Connectors :: "Connector list"
  cp_ProtocolVersion :: string
  cp_DeviceModel :: "(string, DeviceReport) gomap"

definition zeroChargePoint :: ChargePoint where
  "zeroChargePoint =
     \<lparr>cp_Id = [], cp_LocationId = [], cp_IsEnabled = False, cp_Title = [], cp_Model = [],
      cp_SerialNumber = [], cp_Vendor = [], cp_FirmwareVersion = [], cp_LocalAuthVersion = 0,
      cp_SmartCharging = False, cp_TriggerMessage = False, cp_Status = [],
      cp_StatusTime = zeroTime, cp_Info = [], cp_AccessType = [], cp_AccessLevel = 0,
      cp_ErrorCode = [], cp_IsOnline = False, cp_EventTime = zeroTime, cp_Connectors = [],
      cp_ProtocolVersion = [], cp_DeviceModel = []\<rparr>"

text \<open>\<^verbatim>\<open>ChargePoint.EvseId\<close>: the OCPI identifier of a connector.\<close>

definition cp_EvseId :: "ChargePoint \<Rightarrow> int \<Rightarrow> string" where
  "cp_EvseId cp connectorId =
     (if connectorId = 0 then [] else cp_Id cp @ CHR ''*'' # Itoa connectorId)"

record Location =
  loc_Id :: string
  loc_PowerLimit :: int
  loc_DefaultPowerLimit :: int
  loc_Evses :: "ChargePoint list"

section \<open>User tags\<close>

record UserTag =
  ut_Username :: string
  ut_UserId :: string
  ut_IdTag :: string
  ut_Source :: string
  ut_IsEnabled :: bool
  ut_Local :: bool
  ut_Note :: string
  ut_DateRegistered :: time
  ut_LastSeen :: time

definition SplitIdTag :: "string \<Rightarrow> string \<times> string" where
  "SplitIdTag idTag =
     (case Split (CHR '':'') idTag of s0 # s1 # _ \<Rightarrow> (s0, s1) | _ \<Rightarrow> ([], idTag))"

definition NewUserTag :: "string \<Rightarrow> UserTag" where
  "NewUserTag idTag =
     (let (source, tag) = SplitIdTag idTag
      in \<lparr>ut_Username = [], ut_UserId = [], ut_IdTag = tag, ut_Source = source,
          ut_IsEnabled = False, ut_Local = False, ut_Note = [],
          ut_DateRegistered = zeroTime, ut_LastSeen = zeroTime\<rparr>)"

text \<open>
  The source splits only when the tag contains a colon; \<^verbatim>\<open>strings.Split\<close> then has at least
  two parts, so the case analysis above is the source's branch on \<^verbatim>\<open>strings.Contains\<close>.
\<close>

lemma Split_two_iff: "(\<exists>s0 s1 r. Split d s = s0 # s1 # r) \<longleftrightarrow> d \<in> set s"
proof (induction s)
  case Nil
  then show ?case by simp
next
  case (Cons c cs)
  obtain w ws where "Split d cs = w # ws" by (cases "Split d cs") auto
  with Cons show ?case by (cases ws) auto
qed

lemma SplitIdTag_no_colon: "CHR '':'' \<notin> set s \<Longrightarrow> SplitIdTag s = ([], s)"
  by (simp add: SplitIdTag_def Split_word)

lemma SplitIdTag_colon:
  "CHR '':'' \<notin> set src \<Longrightarrow> CHR '':'' \<notin> set tag \<Longrightarrow>
   SplitIdTag (src @ CHR '':'' # tag) = (src, tag)"
  by (simp add: SplitIdTag_def Split_append_sep Split_word)

lemma SplitIdTag_id_clean: "SplitIdTag s = (src, tag) \<Longrightarrow> CHR '':'' \<notin> set tag"
  using Split_no_sep [of _ "CHR '':''" s] Split_two_iff [of "CHR '':''" s]
  by (auto simp: SplitIdTag_def split: list.splits)

section \<open>Payment plans\<close>

record PaymentPlan =
  pl_PlanId :: string
  pl_IsDefault :: bool
  pl_IsActive :: bool
  pl_PricePerKwh :: int
  pl_PricePerHour :: int
  pl_StartTime :: string
  pl_EndTime :: string

text \<open>
  \<^verbatim>\<open>time.Parse("15:04", s)\<close>: an hour of one or two digits, a colon, a minute of two digits,
  both in range; the result is the minute of the day.
\<close>

definition parseClock :: "string \<Rightarrow> int option" where
  "parseClock s =
     (let (h, r) = readDigits s
      in (case r of [] \<Rightarrow> None
          | c # m \<Rightarrow>
             if c = CHR '':'' \<and> 1 \<le> length h \<and> length h \<le> 2 \<and> length m = 2 \<and> list_all isDigit m
                \<and> digitsVal h < 24 \<and> digitsVal m < 60
             then Some (int (digitsVal h) * 60 + int (digitsVal m)) else None))"

text \<open>
  \<^verbatim>\<open>IsCurrentTimeRange\<close>, with the minute of the day that the source reads from the clock
  (\<^verbatim>\<open>now.Hour()*60 + now.Minute()\<close>) as an argument.
\<close>

definition IsCurrentTimeRange :: "int \<Rightarrow> PaymentPlan \<Rightarrow> bool" where
  "IsCurrentTimeRange current p =
     (if pl_StartTime p = [] \<and> pl_EndTime p = [] then True
      else if pl_StartTime p = [] \<or> pl_EndTime p = [] then False
      else case (parseClock (pl_StartTime p), parseClock (pl_EndTime p)) of
             (Some startMinute, Some endMinute) \<Rightarrow>
               if startMinute \<le> endMinute then startMinute \<le> current \<and> current \<le> endMinute
               else startMinute \<le> current \<or> current \<le> endMinute
           | _ \<Rightarrow> False)"

section \<open>Transactions and meter readings\<close>

record TransactionMeter =
  m_Id :: int
  m_Value :: int
  m_PowerRate :: int
  m_PowerRateWh :: float64
  m_PowerActive :: int
  m_Voltage :: float64
  m_CurrentImport :: float64
  m_CurrentOffered :: float64
  m_Price :: int
  m_BatteryLevel :: int
  m_ConsumedEnergy :: int
  m_Time :: time
  m_Minute :: int
  m_Unit :: string
  m_Measurand :: string
  m_ConnectorId :: int
  m_ConnectorStatus :: string

definition zeroMeter :: TransactionMeter where
  "zeroMeter =
     \<lparr>m_Id = 0, m_Value = 0, m_PowerRate = 0, m_PowerRateWh = 0, m_PowerActive = 0,
      m_Voltage = 0, m_CurrentImport = 0, m_CurrentOffered = 0, m_Price = 0,
      m_BatteryLevel = 0, m_ConsumedEnergy = 0, m_Time = zeroTime, m_Minute = 0,
      m_Unit = [], m_Measurand = [], m_ConnectorId = 0, m_ConnectorStatus = []\<rparr>"

definition NewMeter :: "int \<Rightarrow> int \<Rightarrow> string \<Rightarrow> time \<Rightarrow> TransactionMeter" where
  "NewMeter i connectorId status timestamp =
     zeroMeter\<lparr>m_Id := i, m_ConnectorId := connectorId, m_ConnectorStatus := status,
       m_Time := timestamp, m_Minute := Unix timestamp sdiv 60\<rparr>"

text \<open>The metadata of a transaction holds strings and integers.\<close>

datatype MetaValue = MetaString string | MetaInt int

record Transaction =
  t_Id :: int
  t_SessionId :: string
  t_IsFinished :: bool
  t_ConnectorId :: int
  t_ChargePointId :: string
  t_IdTag :: string
  t_ReservationId :: "int option"
  t_MeterStart :: int
  t_MeterStop :: int
  t_TimeStart :: time
  t_TimeStop :: time
  t_Reason :: string
  t_IdTagNote :: string
  t_Username :: string
  t_PaymentAmount :: int
  t_Plan :: "PaymentPlan option"
  t_MeterValues :: "TransactionMeter list"
  t_UserTag :: "UserTag option"
  t_ProtocolVersion :: string
  t_EvseId :: "int option"
  t_PowerLimit :: int
  t_Metadata :: "(string, MetaValue) gomap"

definition zeroTransaction :: Transaction where
  "zeroTransaction =
     \<lparr>t_Id = 0, t_SessionId = [], t_IsFinished = False, t_ConnectorId = 0,
      t_ChargePointId = [], t_IdTag = [], t_ReservationId = None, t_MeterStart = 0,
      t_MeterStop = 0, t_TimeStart = zeroTime, t_TimeStop = zeroTime, t_Reason = [],
      t_IdTagNote = [], t_Username = [], t_PaymentAmount = 0, t_Plan = None,
      t_MeterValues = [], t_UserTag = None, t_ProtocolVersion = [], t_EvseId = None,
      t_PowerLimit = 0, t_Metadata = []\<rparr>"

record SweptTransaction =
  sw_Transaction :: Transaction
  sw_Cause :: string
  sw_LastActivity :: time

record ConsumedEnergy =
  ce_Location :: string
  ce_ChargePointID :: string
  ce_Consumed :: int
  ce_Count :: int

record ErrorData =
  ed_Location :: string
  ed_ChargePointID :: string
  ed_ConnectorID :: int
  ed_ErrorCode :: string
  ed_Info :: string
  ed_Status :: string
  ed_Timestamp :: time
  ed_VendorId :: string
  ed_VendorErrorCode :: string

section \<open>Properties\<close>

lemma NewConnector_simps [simp]:
  "c_Id (NewConnector i cp) = i" "c_ChargePointId (NewConnector i cp) = cp"
  "c_CurrentTransactionId (NewConnector i cp) = -1" "c_CurrentPowerLimit (NewConnector i cp) = 0"
  "c_EvseId (NewConnector i cp) = None" "c_Status (NewConnector i cp) = []"
  by (simp_all add: NewConnector_def)

lemma IsCurrentTimeRange_complement:
  assumes "parseClock a = Some s" "parseClock b = Some e" "s > e" "a \<noteq> []" "b \<noteq> []"
  shows "IsCurrentTimeRange c (p\<lparr>pl_StartTime := a, pl_EndTime := b\<rparr>)
     \<longleftrightarrow> \<not> (e < c \<and> c < s)"
  using assms by (auto simp: IsCurrentTimeRange_def)

lemma parseClock_range: "parseClock s = Some m \<Longrightarrow> 0 \<le> m \<and> m < 1440"
  by (auto simp: parseClock_def Let_def readDigits_def split: list.splits if_splits)

end
