(* ===== verification/Core16.thy ===== *)
theory Core16
  imports Entities
begin

text \<open>
  The OCPP 1.6 messages of \<^verbatim>\<open>src/ocpp/v16\<close> and \<^verbatim>\<open>src/types\<close>: the request records the
  handlers consume with their \<^verbatim>\<open>Validate\<close> and \<^verbatim>\<open>GetTimestamp\<close> methods, the requests the
  system sends, the charging profile constructors, and the reading of stored status and
  error codes. Go's string enumerations are strings here too, because a value decoded from
  JSON may be any string until it is validated. An absent pointer is \<open>None\<close>, and the
  clock reading of \<^verbatim>\<open>time.Now()\<close> is an argument.
\<close>

section \<open>Statuses, error codes and reasons\<close>

abbreviation ChargePointStatusAvailable :: string where "ChargePointStatusAvailable \<equiv> ''Available''"
abbreviation ChargePointStatusPreparing :: string where "ChargePointStatusPreparing \<equiv> ''Preparing''"
abbreviation ChargePointStatusCharging :: string where "ChargePointStatusCharging \<equiv> ''Charging''"
abbreviation ChargePointStatusSuspendedEVSE :: string where "ChargePointStatusSuspendedEVSE \<equiv> ''SuspendedEVSE''"
abbreviation ChargePointStatusSuspendedEV :: string where "ChargePointStatusSuspendedEV \<equiv> ''SuspendedEV''"
abbreviation ChargePointStatusFinishing :: string where "ChargePointStatusFinishing \<equiv> ''Finishing''"
abbreviation ChargePointStatusReserved :: string where "ChargePointStatusReserved \<equiv> ''Reserved''"
abbreviation ChargePointStatusUnavailable :: string where "ChargePointStatusUnavailable \<equiv> ''Unavailable''"
abbreviation ChargePointStatusFaulted :: string where "ChargePointStatusFaulted \<equiv> ''Faulted''"
abbreviation NoError :: string where "NoError \<equiv> ''NoError''"

definition chargePointStatuses :: "string list" where
  "chargePointStatuses =
     [ChargePointStatusAvailable, ChargePointStatusPreparing, ChargePointStatusCharging,
      ChargePointStatusSuspendedEVSE, ChargePointStatusSuspendedEV, ChargePointStatusFinishing,
      ChargePointStatusReserved, ChargePointStatusUnavailable, ChargePointStatusFaulted]"

definition chargePointErrorCodes :: "string list" where
  "chargePointErrorCodes =
     [''ConnectorLockFailure'', ''EVCommunicationError'', ''GroundFailure'', ''HighTemperature'',
      ''InternalError'', ''LocalListConflict'', NoError, ''OtherError'', ''OverCurrentFailure'',
      ''OverVoltage'', ''PowerMeterFailure'', ''PowerSwitchFailure'', ''ReaderFailure'',
      ''ResetFailure'', ''UnderVoltage'', ''WeakSignal'']"

definition stopReasons :: "string list" where
  "stopReasons =
     [''DeAuthorized'', ''EmergencyStop'', ''EVDisconnected'', ''HardReset'', ''Local'', ''Other'',
      ''PowerLoss'', ''Reboot'', ''Remote'', ''SoftReset'', ''UnlockCommand'']"

definition diagnosticsStatuses :: "string list" where
  "diagnosticsStatuses = [''Idle'', ''Uploaded'', ''UploadFailed'', ''Uploading'']"

definition firmwareStatuses :: "string list" where
  "firmwareStatuses =
     [''Downloaded'', ''DownloadFailed'', ''Downloading'', ''Idle'', ''InstallationFailed'',
      ''Installing'', ''Installed'']"

definition ChargePointStatus_IsValid :: "string \<Rightarrow> bool" where
  "ChargePointStatus_IsValid s \<longleftrightarrow> s \<in> set chargePointStatuses"

definition ChargePointErrorCode_IsValid :: "string \<Rightarrow> bool" where
  "ChargePointErrorCode_IsValid s \<longleftrightarrow> s \<in> set chargePointErrorCodes"

definition Reason_IsValid :: "string \<Rightarrow> bool" where
  "Reason_IsValid s \<longleftrightarrow> s \<in> set stopReasons"

definition DiagnosticsStatus_IsValid :: "string \<Rightarrow> bool" where
  "DiagnosticsStatus_IsValid s \<longleftrightarrow> s \<in> set diagnosticsStatuses"

definition FirmwareStatus_IsValid :: "string \<Rightarrow> bool" where
  "FirmwareStatus_IsValid s \<longleftrightarrow> s \<in> set firmwareStatuses"

text \<open>
  \<^verbatim>\<open>GetStatus\<close> and \<^verbatim>\<open>GetErrorCode\<close> are switches whose cases map each known name to the constant
  of the same text; an unknown name becomes the default.
\<close>

definition GetStatus :: "string \<Rightarrow> string" where
  "GetStatus s = (if s \<in> set chargePointStatuses then s else ChargePointStatusAvailable)"

definition GetErrorCode :: "string \<Rightarrow> string" where
  "GetErrorCode s = (if s \<in> set chargePointErrorCodes then s else NoError)"

datatype AuthorizationStatus =
    AuthorizationStatusAccepted | AuthorizationStatusBlocked | AuthorizationStatusExpired
  | AuthorizationStatusInvalid | AuthorizationStatusConcurrentTx

section \<open>Requests from a charge point\<close>

record SampledValue =
  sv_Value :: string
  sv_Context :: string
  sv_Format :: string
  sv_Measurand :: string
  sv_Phase :: string
  sv_Location :: string
  sv_Unit :: string

record MeterValue =
  mv_Timestamp :: "time option"
  mv_SampledValue :: "SampledValue list"

record BootNotificationRequest =
  bn_ChargePointVendor :: string
  bn_ChargePointModel :: string
  bn_ChargePointSerialNumber :: string
  bn_ChargeBoxSerialNumber :: string
  bn_FirmwareVersion :: string
  bn_Iccid :: string
  bn_Imsi :: string
  bn_MeterType :: string
  bn_MeterSerialNumber :: string

record StartTransactionRequest =
  sr_ConnectorId :: int
  sr_IdTag :: string
  sr_MeterStart :: int
  sr_ReservationId :: "int option"
  sr_Timestamp :: "time option"

record StopTransactionRequest =
  st_IdTag :: string
  st_MeterStop :: int
  st_Timestamp :: "time option"
  st_TransactionId :: int
  st_Reason :: string
  st_TransactionData :: "MeterValue list"

record MeterValuesRequest =
  mr_ConnectorId :: int
  mr_TransactionId :: "int option"
  mr_MeterValue :: "MeterValue list"

record StatusNotificationRequest =
  sn_ConnectorId :: int
  sn_ErrorCode :: string
  sn_Info :: string
  sn_Status :: string
  sn_Timestamp :: "time option"
  sn_VendorId :: string
  sn_VendorErrorCode :: string

record DataTransferRequest =
  dt_VendorId :: string
  dt_MessageId :: string

definition sr_GetTimestamp :: "time \<Rightarrow> StartTransactionRequest \<Rightarrow> time" where
  "sr_GetTimestamp now r = (case sr_Timestamp r of None \<Rightarrow> now | Some t \<Rightarrow> t)"

definition st_GetTimestamp :: "time \<Rightarrow> StopTransactionRequest \<Rightarrow> time" where
  "st_GetTimestamp now r = (case st_Timestamp r of None \<Rightarrow> now | Some t \<Rightarrow> t)"

definition mv_GetTimestamp :: "time \<Rightarrow> MeterValue \<Rightarrow> time" where
  "mv_GetTimestamp now m = (case mv_Timestamp m of None \<Rightarrow> now | Some t \<Rightarrow> t)"

definition sn_GetTimestamp :: "time \<Rightarrow> StatusNotificationRequest \<Rightarrow> time" where
  "sn_GetTimestamp now r = (case sn_Timestamp r of None \<Rightarrow> now | Some t \<Rightarrow> t)"

section \<open>Validation\<close>

text \<open>The errors of the \<^verbatim>\<open>Validate\<close> methods; \<open>None\<close> is success.\<close>

datatype ValidationError =
    MustBePositive string | MustBeNonNegative string | IsRequired string
  | Exceeds string nat | IsInvalid string string | AtIndex string nat ValidationError

definition StartTransactionRequest_Validate :: "StartTransactionRequest \<Rightarrow> ValidationError option" where
  "StartTransactionRequest_Validate r =
     (if sr_ConnectorId r \<le> 0 then Some (MustBePositive ''connectorId'')
      else if sr_IdTag r = [] then Some (IsRequired ''idTag'')
      else if length (sr_IdTag r) > 20 then Some (Exceeds ''idTag'' 20)
      else if sr_MeterStart r < 0 then Some (MustBeNonNegative ''meterStart'')
      else None)"

definition MeterValue_Validate :: "MeterValue \<Rightarrow> ValidationError option" where
  "MeterValue_Validate m =
     (if length (mv_SampledValue m) = 0 then Some (IsRequired ''sampledValue'') else None)"

text \<open>The loops over the meter values of a request stop at the first bad one.\<close>

fun validateMeterValues :: "string \<Rightarrow> nat \<Rightarrow> MeterValue list \<Rightarrow> ValidationError option" where
  "validateMeterValues field i [] = None"
| "validateMeterValues field i (m # ms) =
     (case MeterValue_Validate m of
        Some err \<Rightarrow> Some (AtIndex field i err)
      | None \<Rightarrow> validateMeterValues field (Suc i) ms)"

definition StopTransactionRequest_Validate :: "StopTransactionRequest \<Rightarrow> ValidationError option" where
  "StopTransactionRequest_Validate r =
     (if length (st_IdTag r) > 20 then Some (Exceeds ''idTag'' 20)
      else if st_Reason r \<noteq> [] \<and> \<not> Reason_IsValid (st_Reason r)
      then Some (IsInvalid ''reason'' (st_Reason r))
      else validateMeterValues ''transactionData'' 0 (st_TransactionData r))"

definition MeterValuesRequest_Validate :: "MeterValuesRequest \<Rightarrow> ValidationError option" where
  "MeterValuesRequest_Validate r =
     (if mr_ConnectorId r < 0 then Some (MustBeNonNegative ''connectorId'')
      else if length (mr_MeterValue r) = 0 then Some (IsRequired ''meterValue'')
      else validateMeterValues ''meterValue'' 0 (mr_MeterValue r))"

definition AuthorizeRequest_Validate :: "string \<Rightarrow> ValidationError option" where
  "AuthorizeRequest_Validate idTag =
     (if idTag = [] then Some (IsRequired ''idTag'')
      else if length idTag > 20 then Some (Exceeds ''idTag'' 20) else None)"

definition BootNotificationRequest_Validate :: "BootNotificationRequest \<Rightarrow> ValidationError option" where
  "BootNotificationRequest_Validate r =
     (if bn_ChargePointVendor r = [] then Some (IsRequired ''chargePointVendor'')
      else if length (bn_ChargePointVendor r) > 20 then Some (Exceeds ''chargePointVendor'' 20)
      else if bn_ChargePointModel r = [] then Some (IsRequired ''chargePointModel'')
      else if length (bn_ChargePointModel r) > 20 then Some (Exceeds ''chargePointModel'' 20)
      else None)"

definition DataTransferRequest_Validate :: "DataTransferRequest \<Rightarrow> ValidationError option" where
  "DataTransferRequest_Validate r =
     (if dt_VendorId r = [] then Some (IsRequired ''vendorId'')
      else if length (dt_VendorId r) > 255 then Some (Exceeds ''vendorId'' 255)
      else if length (dt_MessageId r) > 50 then Some (Exceeds ''messageId'' 50)
      else None)"

definition StatusNotificationRequest_Validate :: "StatusNotificationRequest \<Rightarrow> ValidationError option" where
  "StatusNotificationRequest_Validate r =
     (if sn_ConnectorId r < 0 then Some (MustBeNonNegative ''connectorId'')
      else if sn_Status r = [] \<or> \<not> ChargePointStatus_IsValid (sn_Status r)
      then Some (IsInvalid ''status'' (sn_Status r))
      else if sn_ErrorCode r = [] \<or> \<not> ChargePointErrorCode_IsValid (sn_ErrorCode r)
      then Some (IsInvalid ''errorCode'' (sn_ErrorCode r))
      else if length (sn_Info r) > 50 then Some (Exceeds ''info'' 50)
      else if length (sn_VendorId r) > 255 then Some (Exceeds ''vendorId'' 255)
      else None)"

definition DiagnosticsStatusNotificationRequest_Validate :: "string \<Rightarrow> ValidationError option" where
  "DiagnosticsStatusNotificationRequest_Validate s =
     (if s = [] \<or> \<not> DiagnosticsStatus_IsValid s then Some (IsInvalid ''status'' s) else None)"

definition FirmwareStatusNotificationRequest_Validate :: "string \<Rightarrow> ValidationError option" where
  "FirmwareStatusNotificationRequest_Validate s =
     (if s = [] \<or> \<not> FirmwareStatus_IsValid s then Some (IsInvalid ''status'' s) else None)"

section \<open>Charging profiles\<close>

record ChargingSchedulePeriod =
  csp_StartPeriod :: int
  csp_Limit :: float64
  csp_NumberPhases :: "int option"

record ChargingSchedule =
  cs_Duration :: "int option"
  cs_StartSchedule :: "time option"
  cs_ChargingRateUnit :: string
  cs_ChargingSchedulePeriod :: "ChargingSchedulePeriod list"

record ChargingProfile =
  pr_ChargingProfileId :: int
  pr_TransactionId :: int
  pr_StackLevel :: int
  pr_ChargingProfilePurpose :: string
  pr_ChargingProfileKind :: string
  pr_RecurrencyKind :: string
  pr_ChargingSchedule :: ChargingSchedule

definition txProfileIdBase :: int where "txProfileIdBase = 10"

definition TxProfileStackLevel :: int where "TxProfileStackLevel = 10"

definition NewDefaultChargingProfile :: "time \<Rightarrow> int \<Rightarrow> ChargingProfile" where
  "NewDefaultChargingProfile now limit =
     \<lparr>pr_ChargingProfileId = 1, pr_TransactionId = 0, pr_StackLevel = 1,
      pr_ChargingProfilePurpose = ''TxDefaultProfile'', pr_ChargingProfileKind = ''Recurring'',
      pr_RecurrencyKind = ''Daily'',
      pr_ChargingSchedule =
        \<lparr>cs_Duration = Some 86400, cs_StartSchedule = Some now, cs_ChargingRateUnit = ''A'',
         cs_ChargingSchedulePeriod =
           [\<lparr>csp_StartPeriod = 0, csp_Limit = of_int limit, csp_NumberPhases = None\<rparr>]\<rparr>\<rparr>"

definition NewTransactionChargingProfile :: "int \<Rightarrow> int \<Rightarrow> int \<Rightarrow> int \<Rightarrow> ChargingProfile" where
  "NewTransactionChargingProfile connectorId transactionId limit stackLevel =
     \<lparr>pr_ChargingProfileId = txProfileIdBase + connectorId, pr_TransactionId = transactionId,
      pr_StackLevel = stackLevel, pr_ChargingProfilePurpose = ''TxProfile'',
      pr_ChargingProfileKind = ''Relative'', pr_RecurrencyKind = [],
      pr_ChargingSchedule =
        \<lparr>cs_Duration = None, cs_StartSchedule = None, cs_ChargingRateUnit = ''A'',
         cs_ChargingSchedulePeriod =
           [\<lparr>csp_StartPeriod = 0, csp_Limit = of_int limit, csp_NumberPhases = None\<rparr>]\<rparr>\<rparr>"

section \<open>Requests to a charge point\<close>

text \<open>
  The requests the system builds, by the constructor of their struct. A remote command that
  carries a profile decoded from the API payload keeps the decoded profile.
\<close>

datatype Request =
    TriggerMessageRequest string "int option"
  | ChangeConfigurationRequest string string
  | GetConfigurationRequest "string list"
  | SendLocalListRequest int "(string \<times> AuthorizationStatus) list" string
  | RemoteStartTransactionRequest "int option" string
  | RemoteStopTransactionRequest int
  | SetChargingProfileRequest int ChargingProfile
  | GetCompositeScheduleRequest int int string
  | ClearChargingProfileRequest "int option" "int option" string "int option"
  | GetDiagnosticsRequest string
  | ResetRequest string

definition NewTriggerMessageRequest :: "string \<Rightarrow> int \<Rightarrow> Request" where
  "NewTriggerMessageRequest requestedMessage connectorId =
     TriggerMessageRequest requestedMessage (if connectorId \<ge> 0 then Some connectorId else None)"

definition NewClearDefaultChargingProfileRequest :: Request where
  "NewClearDefaultChargingProfileRequest =
     ClearChargingProfileRequest (Some 1) None ''TxDefaultProfile'' (Some 1)"

fun GetFeatureName :: "Request \<Rightarrow> string" where
  "GetFeatureName (TriggerMessageRequest _ _) = ''TriggerMessage''"
| "GetFeatureName (ChangeConfigurationRequest _ _) = ''ChangeConfiguration''"
| "GetFeatureName (GetConfigurationRequest _) = ''GetConfiguration''"
| "GetFeatureName (SendLocalListRequest _ _ _) = ''SendLocalList''"
| "GetFeatureName (RemoteStartTransactionRequest _ _) = ''RemoteStartTransaction''"
| "GetFeatureName (RemoteStopTransactionRequest _) = ''RemoteStopTransaction''"
| "GetFeatureName (SetChargingProfileRequest _ _) = ''SetChargingProfile''"
| "GetFeatureName (GetCompositeScheduleRequest _ _ _) = ''GetCompositeSchedule''"
| "GetFeatureName (ClearChargingProfileRequest _ _ _ _) = ''ClearChargingProfile''"
| "GetFeatureName (GetDiagnosticsRequest _) = ''GetDiagnostics''"
| "GetFeatureName (ResetRequest _) = ''Reset''"

section \<open>Lemmas\<close>

lemma GetStatus_valid: "ChargePointStatus_IsValid (GetStatus s)"
  by (simp add: ChargePointStatus_IsValid_def GetStatus_def chargePointStatuses_def)

lemma GetStatus_fixed: "GetStatus s = s \<longleftrightarrow> ChargePointStatus_IsValid s"
  by (auto simp: ChargePointStatus_IsValid_def GetStatus_def chargePointStatuses_def)

lemma GetErrorCode_valid: "ChargePointErrorCode_IsValid (GetErrorCode s)"
  by (simp add: ChargePointErrorCode_IsValid_def GetErrorCode_def chargePointErrorCodes_def)

lemma GetErrorCode_fixed: "GetErrorCode s = s \<longleftrightarrow> ChargePointErrorCode_IsValid s"
  by (auto simp: ChargePointErrorCode_IsValid_def GetErrorCode_def chargePointErrorCodes_def)

lemma validateMeterValues_None:
  "validateMeterValues field i ms = None \<longleftrightarrow> (\<forall>m \<in> set ms. mv_SampledValue m \<noteq> [])"
  by (induction field i ms rule: validateMeterValues.induct)
    (auto simp: MeterValue_Validate_def)

text \<open>The index in the error is that of the first meter value without samples.\<close>

lemma validateMeterValues_Some:
  "validateMeterValues field i ms = Some err \<longleftrightarrow>
   (\<exists>j < length ms. mv_SampledValue (ms ! j) = [] \<and> (\<forall>k < j. mv_SampledValue (ms ! k) \<noteq> [])
     \<and> err = AtIndex field (i + j) (IsRequired ''sampledValue''))"
proof (induction field i ms rule: validateMeterValues.induct)
  case (1 field i)
  then show ?case by simp
next
  case (2 field i m ms)
  show ?case
  proof (cases "mv_SampledValue m = []")
    case True
    then show ?thesis
      by (auto simp: MeterValue_Validate_def nth_Cons' intro!: exI [of _ "0 :: nat"])
  next
    case False
    with 2 show ?thesis
      by (auto simp: MeterValue_Validate_def Ex_less_Suc2 All_less_Suc2)
  qed
qed

end
