(* ===== verification/Database.thy ===== *)
theory Database
  imports Core16
begin

text \<open>
  The storage interface of \<^verbatim>\<open>src/internal/database_service.go\<close> and the power manager's
  \<^verbatim>\<open>Repository\<close>, as the handlers see it: a record of functions over an abstract state
  \<open>'db\<close>. A read returns what Go returns, a pointer that may be nil and an error that may be
  nil. The writes are the constructors of one datatype, executed by one function, so that an
  ordered trace of them can be kept beside the state. The operations the modelled code does not
  call (log tables, subscriptions, payment orders) are left out.
\<close>

datatype DbErr = NotFound | Failed string

definition IsNotFound :: "DbErr option \<Rightarrow> bool" where
  "IsNotFound err \<longleftrightarrow> err = Some NotFound"

text \<open>\<^verbatim>\<open>err.Error()\<close>; the first is the driver's \<^verbatim>\<open>mongo.ErrNoDocuments\<close>.\<close>

fun errText :: "DbErr \<Rightarrow> string" where
  "errText NotFound = ''mongo: no documents in result''"
| "errText (Failed msg) = msg"

datatype DbWrite =
    ResetOnlineStatus
  | AddChargePoint ChargePoint
  | UpdateChargePoint ChargePoint
  | UpdateChargePointStatus ChargePoint
  | UpdateOnlineStatus string bool
  | AddConnector Connector
  | UpdateConnector Connector
  | UpdateConnectorCurrentPower Connector
  | UpdateConnectorProfileVerdict string int ProfileVerdict
  | AddUserTag UserTag
  | UpdateTag UserTag
  | UpdateTagLastSeen UserTag
  | AddTransaction Transaction
  | UpdateTransaction Transaction
  | UpdateTransactionPowerLimit int int
  | SaveStopTransactionRequest StopTransactionRequest
  | AddTransactionMeterValue TransactionMeter
  | DeleteTransactionMeterValues int

type_synonym 'a ptr_err = "'a option \<times> DbErr option"
type_synonym 'a slice_err = "'a list \<times> DbErr option"

record 'db Database =
  exec :: "DbWrite \<Rightarrow> 'db \<Rightarrow> DbErr option \<times> 'db"
  OnlineCounter :: "'db \<Rightarrow> (string \<times> int) slice_err"
  GetChargePoints :: "'db \<Rightarrow> ChargePoint slice_err"
  GetChargePoint :: "string \<Rightarrow> 'db \<Rightarrow> ChargePoint ptr_err"
  GetConnector :: "int \<Rightarrow> string \<Rightarrow> 'db \<Rightarrow> Connector ptr_err"
  GetLocation :: "string \<Rightarrow> 'db \<Rightarrow> Location ptr_err"
  GetLocations :: "'db \<Rightarrow> Location slice_err"
  GetUserTag :: "string \<Rightarrow> 'db \<Rightarrow> UserTag ptr_err"
  GetActiveUserTags :: "string \<Rightarrow> int \<Rightarrow> 'db \<Rightarrow> UserTag slice_err"
  GetUserPaymentPlan :: "string \<Rightarrow> 'db \<Rightarrow> PaymentPlan ptr_err"
  GetDefaultPaymentPlan :: "'db \<Rightarrow> PaymentPlan ptr_err"
  GetLastTransaction :: "'db \<Rightarrow> Transaction ptr_err"
  GetTransaction :: "int \<Rightarrow> 'db \<Rightarrow> Transaction ptr_err"
  GetUnfinishedTransactions :: "time \<Rightarrow> time \<Rightarrow> 'db \<Rightarrow> SweptTransaction slice_err"
  GetUnfinishedTransactionsForChargePoint :: "string \<Rightarrow> 'db \<Rightarrow> Transaction slice_err"
  GetTodayConsumedEnergy :: "'db \<Rightarrow> ConsumedEnergy slice_err"
  ReadTransactionMeterValue :: "int \<Rightarrow> 'db \<Rightarrow> TransactionMeter ptr_err"
  ReadAllTransactionMeterValues :: "int \<Rightarrow> 'db \<Rightarrow> TransactionMeter slice_err"
  ReadLastMeterValues :: "'db \<Rightarrow> TransactionMeter slice_err"

section \<open>The contract of a reachable database\<close>

text \<open>The writes that concern the transaction with a given id.\<close>

fun writesTransaction :: "int \<Rightarrow> DbWrite \<Rightarrow> bool" where
  "writesTransaction t (AddTransaction tr) = (t_Id tr = t)"
| "writesTransaction t (UpdateTransaction tr) = (t_Id tr = t)"
| "writesTransaction t (UpdateTransactionPowerLimit i _) = (i = t)"
| "writesTransaction t _ = False"

text \<open>The outcome of a session, which a stored transaction must keep.\<close>

definition sameOutcome :: "Transaction \<Rightarrow> Transaction \<Rightarrow> bool" where
  "sameOutcome a b \<longleftrightarrow> t_Id a = t_Id b \<and> t_IsFinished a = t_IsFinished b \<and> t_MeterStart a = t_MeterStart b
     \<and> t_MeterStop a = t_MeterStop b \<and> t_TimeStart a = t_TimeStart b \<and> t_TimeStop a = t_TimeStop b
     \<and> t_Reason a = t_Reason b \<and> t_PaymentAmount a = t_PaymentAmount b
     \<and> t_ConnectorId a = t_ConnectorId b \<and> t_ChargePointId a = t_ChargePointId b"

text \<open>
  What the handlers rely on while the database answers: a lookup by id finds the document of that id or
  reports that there is none, an added transaction is found, an updated one is found with its new
  outcome, and other writes leave it alone.
\<close>

locale database =
  fixes D :: "'db Database" and up :: "'db \<Rightarrow> bool"
  assumes exec_up: "up d \<Longrightarrow> up (snd (exec D w d))"
    and get_cases: "up d \<Longrightarrow> GetTransaction D t d = (None, Some NotFound)
        \<or> (\<exists>tr. GetTransaction D t d = (Some tr, None) \<and> t_Id tr = t)"
    and add_get: "\<lbrakk>up d; fst (GetTransaction D (t_Id tr) d) = None\<rbrakk> \<Longrightarrow>
        fst (exec D (AddTransaction tr) d) = None
        \<and> GetTransaction D (t_Id tr) (snd (exec D (AddTransaction tr) d)) = (Some tr, None)"
    and update_get: "\<lbrakk>up d; fst (GetTransaction D (t_Id tr) d) \<noteq> None\<rbrakk> \<Longrightarrow>
        fst (exec D (UpdateTransaction tr) d) = None
        \<and> (\<exists>tr'. GetTransaction D (t_Id tr) (snd (exec D (UpdateTransaction tr) d)) = (Some tr', None)
             \<and> sameOutcome tr' tr)"
    and write_get: "\<lbrakk>up d; \<not> writesTransaction t w\<rbrakk> \<Longrightarrow>
        GetTransaction D t (snd (exec D w d)) = GetTransaction D t d"

end
