(* ===== verification/Billing.thy ===== *)
theory Billing
  imports Database
begin

text \<open>
  The billing service \<^verbatim>\<open>Affleck\<close> of \<^verbatim>\<open>src/billing/affleck.go\<close>: the choice of a payment plan
  when a transaction starts, the running price of a meter reading and the final amount when the
  transaction stops. \<open>Go\<close> integer arithmetic wraps at 64 bits and divides towards zero; both
  are written out. The contract of the \<^verbatim>\<open>BillingService\<close> interface of
  \<^verbatim>\<open>src/server/system_handler.go\<close> is the locale \<open>billing_service\<close>.
\<close>

section \<open>Definitions\<close>

text \<open>
  \<open>af_database\<close> says whether \<^verbatim>\<open>SetDatabase\<close> has been called; \<open>af_defaultPlan\<close> is the cached
  default plan.
\<close>

record Affleck =
  af_database :: bool
  af_defaultPlan :: "PaymentPlan option"

definition NewAffleck :: Affleck where
  "NewAffleck = \<lparr>af_database = False, af_defaultPlan = None\<rparr>"

definition SetDatabase :: "Affleck \<Rightarrow> Affleck" where
  "SetDatabase a = a\<lparr>af_database := True\<rparr>"

text \<open>
  The price computation, which the source writes twice: minutes beyond the first hour at the hourly
  price, and the energy consumed at the price of a kWh.
\<close>

definition OnTransactionFinished :: "Transaction \<Rightarrow> string option \<times> Transaction" where
  "OnTransactionFinished tr =
     (case t_Plan tr of None \<Rightarrow> (None, tr)
      | Some plan \<Rightarrow>
         let pricePerHour = pl_PricePerHour plan;
             pricePerKw = pl_PricePerKwh plan;
             duration = Minutes (timeSub (t_TimeStop tr) (t_TimeStart tr)) - 60;
             consumed = wrap64 (t_MeterStop tr - t_MeterStart tr);
             price = (if duration > 0 then wrap64 (int_of_float duration * pricePerHour) sdiv 60 else 0);
             price = (if consumed > 0 then wrap64 (price + wrap64 (consumed * pricePerKw) sdiv 1000)
                      else price)
         in (None, tr\<lparr>t_PaymentAmount := price\<rparr>))"

definition OnMeterValue :: "Transaction \<Rightarrow> TransactionMeter \<Rightarrow> string option \<times> TransactionMeter" where
  "OnMeterValue tr mv =
     (case t_Plan tr of None \<Rightarrow> (None, mv)
      | Some plan \<Rightarrow>
         let pricePerHour = pl_PricePerHour plan;
             pricePerKw = pl_PricePerKwh plan;
             duration = Minutes (timeSub (m_Time mv) (t_TimeStart tr)) - 60;
             consumed = wrap64 (m_Value mv - t_MeterStart tr);
             price = (if duration > 0 then wrap64 (int_of_float duration * pricePerHour) sdiv 60 else 0);
             price = (if consumed > 0 then wrap64 (price + wrap64 (consumed * pricePerKw) sdiv 1000)
                      else price)
         in (None, mv\<lparr>m_Price := price\<rparr>))"

text \<open>\<open>current\<close> is the minute of the day at which the plan's time range is tested.\<close>

definition choosePaymentPlan ::
    "'db Database \<Rightarrow> int \<Rightarrow> 'db \<Rightarrow> Affleck \<Rightarrow> Transaction \<Rightarrow> string option \<times> Transaction \<times> Affleck" where
  "choosePaymentPlan D current db a tr =
     (if \<not> af_database a then (None, tr, a)
      else if t_Username tr = [] then (None, tr, a)
      else let plan = fst (GetUserPaymentPlan D (t_Username tr) db)
           in if (case plan of None \<Rightarrow> False | Some p \<Rightarrow> IsCurrentTimeRange current p)
              then (None, tr\<lparr>t_Plan := plan\<rparr>, a)
              else let a = (if af_defaultPlan a = None
                            then a\<lparr>af_defaultPlan := fst (GetDefaultPaymentPlan D db)\<rparr> else a);
                       tr = tr\<lparr>t_Plan := af_defaultPlan a\<rparr>
                   in (if t_Plan tr = None then Some (''no payment plan for '' @ t_Username tr)
                       else None, tr, a))"

definition OnTransactionStart ::
    "'db Database \<Rightarrow> int \<Rightarrow> 'db \<Rightarrow> Affleck \<Rightarrow> Transaction \<Rightarrow> string option \<times> Transaction \<times> Affleck" where
  "OnTransactionStart D current db a tr = choosePaymentPlan D current db a tr"

section \<open>The reference price\<close>

text \<open>
  The tariff without machine arithmetic: the whole minutes of an interval of nanoseconds beyond
  the first hour, and the energy, each rounded down to the cent.
\<close>

definition paidMinutes :: "int \<Rightarrow> int" where
  "paidMinutes d = max 0 (d div nanos_per_minute - 60)"

definition tariff :: "PaymentPlan \<Rightarrow> int \<Rightarrow> int \<Rightarrow> int" where
  "tariff p d wh =
     paidMinutes d * pl_PricePerHour p div 60 + max 0 wh * pl_PricePerKwh p div 1000"

text \<open>
  The range in which the computation cannot overflow: prices below a million per unit, energy
  below a billion Wh. The minutes of any duration are bounded by the 64 bits of the duration.
\<close>

definition plan_ok :: "PaymentPlan \<Rightarrow> bool" where
  "plan_ok p \<longleftrightarrow> 0 \<le> pl_PricePerHour p \<and> pl_PricePerHour p \<le> 1000000
     \<and> 0 \<le> pl_PricePerKwh p \<and> pl_PricePerKwh p \<le> 1000000"

definition energy_ok :: "int \<Rightarrow> int \<Rightarrow> bool" where
  "energy_ok a b \<longleftrightarrow> \<bar>b - a\<bar> \<le> 1000000000"

section \<open>The price equals the tariff\<close>

lemma Minutes_gt_60: "Minutes d - 60 > 0 \<longleftrightarrow> d > 60 * nanos_per_minute"
proof -
  have "Minutes d - 60 > 0 \<longleftrightarrow> (of_int (60 * nanos_per_minute) :: rat) < of_int d"
    by (simp add: Minutes_def field_simps)
  then show ?thesis by (simp only: of_int_less_iff)
qed

lemma floor_Minutes: "\<lfloor>Minutes d\<rfloor> = d div nanos_per_minute"
  unfolding Minutes_def by (rule floor_divide_of_int_eq)

lemma int64_small: "\<bar>x\<bar> \<le> 10 ^ 17 \<Longrightarrow> int64 x"
  by (auto simp: int64_def)

lemma paid_minutes_of_duration:
  assumes "int64 d"
  shows "(if Minutes d - 60 > 0 then int_of_float (Minutes d - 60) else 0) = paidMinutes d"
proof (cases "Minutes d - 60 > 0")
  case True
  from True have "d > 60 * nanos_per_minute" by (simp only: Minutes_gt_60)
  then have lo: "60 \<le> d div nanos_per_minute" by linarith
  from assms have "d div nanos_per_minute \<le> 2 ^ 63 div nanos_per_minute"
    unfolding int64_def by (intro zdiv_mono1) simp_all
  then have "int64 (d div nanos_per_minute - 60)" using lo by (intro int64_small) simp
  with True lo show ?thesis
    by (simp add: int_of_float_def floor_Minutes paidMinutes_def Let_def)
next
  case False
  then have "d \<le> 60 * nanos_per_minute" by (simp only: Minutes_gt_60)
  then have "d div nanos_per_minute \<le> 60" by linarith
  with False show ?thesis by (simp add: paidMinutes_def)
qed

lemma paidMinutes_bounds: "int64 d \<Longrightarrow> 0 \<le> paidMinutes d \<and> paidMinutes d \<le> 200000000"
proof -
  assume "int64 d"
  then have "d div nanos_per_minute \<le> 2 ^ 63 div nanos_per_minute"
    unfolding int64_def by (intro zdiv_mono1) simp_all
  then show ?thesis by (auto simp: paidMinutes_def)
qed

lemma mult_bounds: "0 \<le> (a :: int) \<Longrightarrow> a \<le> A \<Longrightarrow> 0 \<le> b \<Longrightarrow> b \<le> B \<Longrightarrow> 0 \<le> a * b \<and> a * b \<le> A * B"
  by (simp add: mult_mono)

lemma sdiv_pos: "0 \<le> (a :: int) \<Longrightarrow> 0 < b \<Longrightarrow> a sdiv b = a div b"
  by (cases "a = 0") (simp_all add: signed_divide_int_def)

text \<open>The computation both operations share, against the reference.\<close>

lemma price_is_tariff:
  assumes p: "plan_ok p" and d: "int64 d" and wh: "\<bar>wh\<bar> \<le> 1000000000"
  shows "(let price = (if Minutes d - 60 > 0
                       then wrap64 (int_of_float (Minutes d - 60) * pl_PricePerHour p) sdiv 60 else 0)
          in if wh > 0 then wrap64 (price + wrap64 (wh * pl_PricePerKwh p) sdiv 1000) else price)
         = tariff p d wh"
proof -
  let ?t = "paidMinutes d * pl_PricePerHour p" and ?e = "max 0 wh * pl_PricePerKwh p"
  have t: "0 \<le> ?t \<and> ?t \<le> 200000000 * 1000000"
    using paidMinutes_bounds [OF d] p unfolding plan_ok_def by (intro mult_bounds) auto
  have e: "0 \<le> ?e \<and> ?e \<le> 1000000000 * 1000000"
    using wh p unfolding plan_ok_def by (intro mult_bounds) auto
  have tq: "0 \<le> ?t div 60 \<and> ?t div 60 \<le> 200000000 * 1000000" using t by auto
  have eq: "0 \<le> ?e div 1000 \<and> ?e div 1000 \<le> 1000000000 * 1000000" using e by auto
  have price: "(if Minutes d - 60 > 0
      then wrap64 (int_of_float (Minutes d - 60) * pl_PricePerHour p) sdiv 60 else 0) = ?t div 60"
    using paid_minutes_of_duration [OF d] t
    by (auto simp: int64_small sdiv_pos split: if_splits)
  show ?thesis
  proof (cases "wh > 0")
    case True
    then have "wrap64 (wh * pl_PricePerKwh p) sdiv 1000 = ?e div 1000"
      using e by (simp add: int64_small sdiv_pos)
    with True price tq eq show ?thesis
      by (simp add: tariff_def int64_small)
  next
    case False
    with price show ?thesis by (simp add: tariff_def)
  qed
qed

lemma energy_ok_wrap: "energy_ok a b \<Longrightarrow> wrap64 (b - a) = b - a \<and> \<bar>b - a\<bar> \<le> 1000000000"
  by (auto simp: energy_ok_def intro!: wrap64_id int64_small)

lemma OnTransactionFinished_tariff:
  assumes "t_Plan tr = Some p" "plan_ok p" "energy_ok (t_MeterStart tr) (t_MeterStop tr)"
  shows "OnTransactionFinished tr =
    (None, tr\<lparr>t_PaymentAmount := tariff p (timeSub (t_TimeStop tr) (t_TimeStart tr))
                                  (t_MeterStop tr - t_MeterStart tr)\<rparr>)"
  using energy_ok_wrap [OF assms(3)]
  by (simp only: OnTransactionFinished_def assms(1) option.case Let_def
      price_is_tariff [OF assms(2) int64_timeSub, unfolded Let_def])

lemma OnMeterValue_tariff:
  assumes "t_Plan tr = Some p" "plan_ok p" "energy_ok (t_MeterStart tr) (m_Value mv)"
  shows "OnMeterValue tr mv =
    (None, mv\<lparr>m_Price := tariff p (timeSub (m_Time mv) (t_TimeStart tr))
                                  (m_Value mv - t_MeterStart tr)\<rparr>)"
  using energy_ok_wrap [OF assms(3)]
  by (simp only: OnMeterValue_def assms(1) option.case Let_def
      price_is_tariff [OF assms(2) int64_timeSub, unfolded Let_def])

lemma paidMinutes_mono: "d \<le> d' \<Longrightarrow> paidMinutes d \<le> paidMinutes d'"
  using zdiv_mono1 [of d d' nanos_per_minute] by (auto simp: paidMinutes_def)

lemma tariff_mono:
  assumes "plan_ok p" "d \<le> d'" "wh \<le> wh'"
  shows "tariff p d wh \<le> tariff p d' wh'"
  unfolding tariff_def
  by (intro add_mono zdiv_mono1 mult_right_mono paidMinutes_mono)
    (use assms in \<open>auto simp: plan_ok_def\<close>)

lemma tariff_nonneg: "plan_ok p \<Longrightarrow> 0 \<le> tariff p d wh"
  unfolding tariff_def plan_ok_def paidMinutes_def
  by (intro add_nonneg_nonneg) (auto intro!: pos_imp_zdiv_nonneg_iff [THEN iffD2])

section \<open>The choice of a plan\<close>

text \<open>The specification: the user's plan while its time range holds, else the default plan.\<close>

definition plan_for :: "'db Database \<Rightarrow> int \<Rightarrow> 'db \<Rightarrow> Affleck \<Rightarrow> string \<Rightarrow> PaymentPlan option" where
  "plan_for D current db a username =
     (case fst (GetUserPaymentPlan D username db) of
        Some p \<Rightarrow> if IsCurrentTimeRange current p then Some p
                  else (case af_defaultPlan a of None \<Rightarrow> fst (GetDefaultPaymentPlan D db) | d \<Rightarrow> d)
      | None \<Rightarrow> (case af_defaultPlan a of None \<Rightarrow> fst (GetDefaultPaymentPlan D db) | d \<Rightarrow> d))"

lemma choosePaymentPlan_spec:
  assumes "af_database a" "t_Username tr \<noteq> []" "choosePaymentPlan D c db a tr = (err, tr', a')"
  shows "tr' = tr\<lparr>t_Plan := plan_for D c db a (t_Username tr)\<rparr>"
    and "err = None \<longleftrightarrow> t_Plan tr' \<noteq> None"
  using assms
  by (auto simp: choosePaymentPlan_def plan_for_def Let_def split: option.splits if_splits)

lemma choosePaymentPlan_skip:
  "\<not> af_database a \<or> t_Username tr = [] \<Longrightarrow> choosePaymentPlan D c db a tr = (None, tr, a)"
  by (auto simp: choosePaymentPlan_def)

text \<open>The cache only ever fills: a default plan that was read once is kept.\<close>

lemma choosePaymentPlan_cache:
  "choosePaymentPlan D c db a tr = (err, tr', a') \<Longrightarrow>
   af_database a' = af_database a \<and> (af_defaultPlan a = None \<or> af_defaultPlan a' = af_defaultPlan a)"
  by (auto simp: choosePaymentPlan_def Let_def split: if_splits)

section \<open>The contract of a billing service\<close>

text \<open>
  What the handlers rely on: each operation touches only its own field of the transaction or the
  reading, and a transaction without a plan is not charged.
\<close>

locale billing_service =
  fixes start :: "'b \<Rightarrow> Transaction \<Rightarrow> string option \<times> Transaction \<times> 'b"
    and finish :: "Transaction \<Rightarrow> string option \<times> Transaction"
    and meter :: "Transaction \<Rightarrow> TransactionMeter \<Rightarrow> string option \<times> TransactionMeter"
  assumes start_plan: "start b tr = (err, tr', b') \<Longrightarrow> \<exists>p. tr' = tr\<lparr>t_Plan := p\<rparr>"
    and finish_amount: "finish tr = (err, tr') \<Longrightarrow> \<exists>n. tr' = tr\<lparr>t_PaymentAmount := n\<rparr>"
    and meter_price: "meter tr mv = (err, mv') \<Longrightarrow> \<exists>n. mv' = mv\<lparr>m_Price := n\<rparr>"
    and unplanned: "t_Plan tr = None \<Longrightarrow> finish tr = (None, tr)"
begin

lemma start_keeps:
  assumes "start b tr = (err, tr', b')"
  shows "t_Id tr' = t_Id tr \<and> t_IsFinished tr' = t_IsFinished tr
    \<and> t_ConnectorId tr' = t_ConnectorId tr \<and> t_ChargePointId tr' = t_ChargePointId tr
    \<and> t_IdTag tr' = t_IdTag tr \<and> t_Username tr' = t_Username tr
    \<and> t_MeterStart tr' = t_MeterStart tr \<and> t_TimeStart tr' = t_TimeStart tr
    \<and> t_PaymentAmount tr' = t_PaymentAmount tr"
  using start_plan [OF assms] by auto

lemma finish_keeps:
  assumes "finish tr = (err, tr')"
  shows "t_Id tr' = t_Id tr \<and> t_IsFinished tr' = t_IsFinished tr
    \<and> t_ConnectorId tr' = t_ConnectorId tr \<and> t_ChargePointId tr' = t_ChargePointId tr
    \<and> t_MeterStart tr' = t_MeterStart tr \<and> t_MeterStop tr' = t_MeterStop tr
    \<and> t_TimeStart tr' = t_TimeStart tr \<and> t_TimeStop tr' = t_TimeStop tr
    \<and> t_Reason tr' = t_Reason tr \<and> t_Plan tr' = t_Plan tr \<and> t_UserTag tr' = t_UserTag tr"
  using finish_amount [OF assms] by auto

lemma meter_keeps:
  assumes "meter tr mv = (err, mv')"
  shows "m_Id mv' = m_Id mv \<and> m_Value mv' = m_Value mv \<and> m_Time mv' = m_Time mv
    \<and> m_Minute mv' = m_Minute mv \<and> m_Measurand mv' = m_Measurand mv
    \<and> m_ConsumedEnergy mv' = m_ConsumedEnergy mv \<and> m_PowerRate mv' = m_PowerRate mv"
  using meter_price [OF assms] by auto

lemma session_amount:
  assumes "start b tr = (e1, tr1, b')" "finish (tr1\<lparr>t_TimeStop := u, t_MeterStop := v, t_IsFinished := True\<rparr>) = (e2, tr2)"
  shows "t_Id tr2 = t_Id tr \<and> t_IsFinished tr2 \<and> t_TimeStop tr2 = u \<and> t_MeterStop tr2 = v
    \<and> t_Plan tr2 = t_Plan tr1"
  using start_keeps [OF assms(1)] finish_keeps [OF assms(2)] by simp

end

interpretation aff: billing_service "OnTransactionStart D current db" OnTransactionFinished OnMeterValue
  for D :: "'db Database" and current db
proof unfold_locales
  show "\<exists>p. tr' = tr\<lparr>t_Plan := p\<rparr>" if "OnTransactionStart D current db b tr = (err, tr', b')" for b tr err tr' b'
    using that by (auto simp: OnTransactionStart_def choosePaymentPlan_def Let_def split: if_splits
        intro: exI [of _ "t_Plan tr"])
  show "\<exists>n. tr' = tr\<lparr>t_PaymentAmount := n\<rparr>" if "OnTransactionFinished tr = (err, tr')" for tr err tr'
    using that by (auto simp: OnTransactionFinished_def Let_def split: option.splits
        intro: exI [of _ "t_PaymentAmount tr"])
  show "\<exists>n. mv' = mv\<lparr>m_Price := n\<rparr>" if "OnMeterValue tr mv = (err, mv')" for tr mv err mv'
    using that by (auto simp: OnMeterValue_def Let_def split: option.splits
        intro: exI [of _ "m_Price mv"])
  show "OnTransactionFinished tr = (None, tr)" if "t_Plan tr = None" for tr
    using that by (simp add: OnTransactionFinished_def)
qed

text \<open>Neither computation reports an error.\<close>

lemma OnTransactionFinished_no_error [simp]: "fst (OnTransactionFinished tr) = None"
  by (simp add: OnTransactionFinished_def Let_def split: option.split)

lemma OnMeterValue_no_error [simp]: "fst (OnMeterValue tr mv) = None"
  by (simp add: OnMeterValue_def Let_def split: option.split)

section \<open>Properties\<close>


definition demoPlan :: PaymentPlan where
  "demoPlan = \<lparr>pl_PlanId = ''p1'', pl_IsDefault = True, pl_IsActive = True, pl_PricePerKwh = 30,
     pl_PricePerHour = 60, pl_StartTime = [], pl_EndTime = []\<rparr>"


text \<open>
  C19. The running price shown with a meter reading is the amount the session would be billed if it
  stopped at that reading: the two copies of the price computation agree, overflow included.
\<close>

theorem running_price_is_final_price:
  "m_Price (snd (OnMeterValue tr mv)) =
     (if t_Plan tr = None then m_Price mv
      else t_PaymentAmount (snd (OnTransactionFinished
             (tr\<lparr>t_TimeStop := m_Time mv, t_MeterStop := m_Value mv\<rparr>))))"
  by (auto simp: OnMeterValue_def OnTransactionFinished_def Let_def)

text \<open>
  The running price never decreases: a later reading with a register at least as high is priced at
  least as high, and no price is negative.
\<close>

theorem running_price_mono:
  assumes "t_Plan tr = Some p" "plan_ok p" "energy_ok (t_MeterStart tr) (m_Value m1)"
    "energy_ok (t_MeterStart tr) (m_Value m2)" "m_Time m1 \<le> m_Time m2" "m_Value m1 \<le> m_Value m2"
  shows "0 \<le> m_Price (snd (OnMeterValue tr m1))
    \<and> m_Price (snd (OnMeterValue tr m1)) \<le> m_Price (snd (OnMeterValue tr m2))"
  using OnMeterValue_tariff [OF assms(1,2,3)] OnMeterValue_tariff [OF assms(1,2,4)]
    tariff_mono [OF assms(2) timeSub_mono [OF assms(5), of "t_TimeStart tr"],
      of "m_Value m1 - t_MeterStart tr" "m_Value m2 - t_MeterStart tr"] assms(6) tariff_nonneg [OF assms(2)]
  by simp

theorem running_price_mono_witness:
  "m_Price (snd (OnMeterValue (zeroTransaction\<lparr>t_Plan := Some demoPlan, t_TimeStart := 0\<rparr>)
       (zeroMeter\<lparr>m_Value := 1000, m_Time := 0\<rparr>)))
   \<le> m_Price (snd (OnMeterValue (zeroTransaction\<lparr>t_Plan := Some demoPlan, t_TimeStart := 0\<rparr>)
       (zeroMeter\<lparr>m_Value := 2000, m_Time := 90 * nanos_per_minute\<rparr>)))"
  using running_price_mono [of "zeroTransaction\<lparr>t_Plan := Some demoPlan, t_TimeStart := 0\<rparr>" demoPlan
      "zeroMeter\<lparr>m_Value := 1000, m_Time := 0\<rparr>"
      "zeroMeter\<lparr>m_Value := 2000, m_Time := 90 * nanos_per_minute\<rparr>"]
  by (simp add: plan_ok_def demoPlan_def energy_ok_def zeroTransaction_def zeroMeter_def)

text \<open>
  The plan chosen when a transaction of a known user starts is the user's plan while its time range
  holds and the default plan otherwise; an error is reported exactly when there is neither, and a default
  plan once read stays cached.
\<close>

theorem payment_plan_choice:
  assumes "af_database a" "t_Username tr \<noteq> []" "OnTransactionStart D c d a tr = (err, tr', a')"
  shows "tr' = tr\<lparr>t_Plan := plan_for D c d a (t_Username tr)\<rparr>
    \<and> (err = None \<longleftrightarrow> plan_for D c d a (t_Username tr) \<noteq> None)
    \<and> (af_defaultPlan a \<noteq> None \<longrightarrow> af_defaultPlan a' = af_defaultPlan a)"
proof -
  have run: "choosePaymentPlan D c d a tr = (err, tr', a')" using assms(3) by (simp add: OnTransactionStart_def)
  show ?thesis
    using choosePaymentPlan_spec [OF assms(1,2) run] choosePaymentPlan_cache [OF run] by auto
qed

definition demoPlanDatabase :: "PaymentPlan list Database" where
  "demoPlanDatabase =
     \<lparr>exec = (\<lambda>w d. (None, d)), OnlineCounter = (\<lambda>d. ([], None)), GetChargePoints = (\<lambda>d. ([], None)),
      GetChargePoint = (\<lambda>i d. (None, Some NotFound)), GetConnector = (\<lambda>i c d. (None, Some NotFound)),
      GetLocation = (\<lambda>i d. (None, Some NotFound)), GetLocations = (\<lambda>d. ([], None)),
      GetUserTag = (\<lambda>i d. (None, Some NotFound)), GetActiveUserTags = (\<lambda>i v d. ([], None)),
      GetUserPaymentPlan = (\<lambda>u d. (None, Some NotFound)),
      GetDefaultPaymentPlan = (\<lambda>d. (case d of [] \<Rightarrow> (None, Some NotFound) | p # _ \<Rightarrow> (Some p, None))),
      GetLastTransaction = (\<lambda>d. (None, Some NotFound)), GetTransaction = (\<lambda>i d. (None, Some NotFound)),
      GetUnfinishedTransactions = (\<lambda>a b d. ([], None)),
      GetUnfinishedTransactionsForChargePoint = (\<lambda>i d. ([], None)),
      GetTodayConsumedEnergy = (\<lambda>d. ([], None)), ReadTransactionMeterValue = (\<lambda>i d. (None, Some NotFound)),
      ReadAllTransactionMeterValues = (\<lambda>i d. ([], None)), ReadLastMeterValues = (\<lambda>d. ([], None))\<rparr>"

theorem payment_plan_choice_witness:
  "fst (OnTransactionStart demoPlanDatabase 600 [demoPlan] (SetDatabase NewAffleck)
     (zeroTransaction\<lparr>t_Username := ''ann''\<rparr>)) = None"
proof -
  obtain err tr' a' where r: "OnTransactionStart demoPlanDatabase 600 [demoPlan] (SetDatabase NewAffleck)
      (zeroTransaction\<lparr>t_Username := ''ann''\<rparr>) = (err, tr', a')"
    by (cases "OnTransactionStart demoPlanDatabase 600 [demoPlan] (SetDatabase NewAffleck)
      (zeroTransaction\<lparr>t_Username := ''ann''\<rparr>)") auto
  show ?thesis
    using payment_plan_choice [OF _ _ r] r
    by (simp add: SetDatabase_def NewAffleck_def demoPlanDatabase_def plan_for_def)
qed

end
