(* ===== verification/Utility.thy ===== *)
theory Utility
  imports GoLib
begin

text \<open>
  The helpers of \<^verbatim>\<open>src/utility\<close>: number conversion for meter readings, the formatting of
  energy and prices in notifications, the relative times of the status messages, and
  \<^verbatim>\<open>Contains\<close>, which the web socket server uses to negotiate the protocol version.
\<close>

section \<open>Definitions\<close>

definition ToInt :: "string \<Rightarrow> int" where
  "ToInt s = (case ParseFloat s of None \<Rightarrow> 0 | Some f \<Rightarrow> int_of_float f)"

definition IntToString :: "int \<Rightarrow> string" where
  "IntToString i =
     (if i < 100 then ''0.0''
      else let firstPart = i sdiv 1000; secondPart = (i smod 1000) sdiv 100
           in Itoa firstPart @ ''.'' @ Itoa secondPart)"

text \<open>
  \<^verbatim>\<open>strconv.FormatFloat(float64(i)/100, 'f', 2, 64)\<close>: the sign, the whole part and two
  decimals.
\<close>

definition IntAsPrice :: "int \<Rightarrow> string" where
  "IntAsPrice i =
     (let a = nat \<bar>i\<bar>
      in (if i < 0 then ''-'' else []) @ showNat (a div 100) @ ''.''
         @ [digitChar (a mod 100 div 10), digitChar (a mod 10)])"

fun containsLoop :: "string list \<Rightarrow> string \<Rightarrow> bool" where
  "containsLoop [] s = True"
| "containsLoop (v # vs) s = (if v = s then True else containsLoop vs s)"

definition Contains :: "string list \<Rightarrow> string \<Rightarrow> bool" where
  "Contains array s = (if array = [] then False else containsLoop array s)"

text \<open>\<^verbatim>\<open>Duration.Round(time.Minute)\<close>: to the nearest minute, halves away from zero.\<close>

definition roundMinute :: "int \<Rightarrow> int" where
  "roundMinute d =
     (let a = \<bar>d\<bar>; r = a mod nanos_per_minute
      in sgn d * (if 2 * r < nanos_per_minute then a - r else a + nanos_per_minute - r))"

text \<open>\<^verbatim>\<open>TimeAgo\<close>, with \<^verbatim>\<open>time.Since(t)\<close> as the argument.\<close>

definition TimeAgo :: "int \<Rightarrow> string" where
  "TimeAgo since =
     (let minutes = int_of_float \<bar>Minutes (roundMinute since)\<bar>
      in if minutes = 0 then ''just now''
         else if minutes = 1 then ''1 minute''
         else if minutes < 60 then Itoa minutes @ '' minutes''
         else if minutes < 120 then ''1 hour''
         else if minutes < 1440 then Itoa (minutes sdiv 60) @ '' hours''
         else if minutes < 2880 then ''1 day''
         else if minutes < 525600 then Itoa (minutes sdiv 1440) @ '' days''
         else ''too long ago'')"

section \<open>Lemmas\<close>

lemma sdiv_nonneg: "0 \<le> (a :: int) \<Longrightarrow> 0 < b \<Longrightarrow> a sdiv b = a div b"
  by (cases "a = 0") (simp_all add: signed_divide_int_def)

lemma smod_nonneg: "0 \<le> (a :: int) \<Longrightarrow> 0 < b \<Longrightarrow> a smod b = a mod b"
  by (cases "a = 0") (simp_all add: signed_modulo_int_def)

lemma int64_ToInt: "int64 (ToInt s)"
  by (simp add: ToInt_def int64_int_of_float split: option.split) (simp add: int64_def)

lemma readDigits_showNat [simp]: "readDigits (showNat n) = (showNat n, [])"
  by (simp add: readDigits_def showNat_digits)

lemma int64_below_maxFloat: "int64 i \<Longrightarrow> \<bar>of_int i :: rat\<bar> < maxFloatBound"
proof -
  assume "int64 i"
  then have "\<bar>i\<bar> \<le> 2 ^ 63" by (auto simp: int64_def)
  then have "\<bar>of_int i :: rat\<bar> \<le> 2 ^ 63"
    by (metis of_int_abs of_int_le_iff of_int_numeral of_int_power)
  also have "(2 ^ 63 :: rat) < 2 ^ 970" by (rule power_strict_increasing) simp_all
  also have "(2 ^ 970 :: rat) \<le> maxFloatBound"
    unfolding maxFloatBound_def by (rule mult_left_le_imp_le [of "1 :: rat"]) simp_all
  finally show ?thesis .
qed

lemma readSign_Itoa: "readSign (Itoa i) = (i < 0, showNat (nat \<bar>i\<bar>))"
proof (cases "i < 0")
  case True
  then show ?thesis by (simp add: Itoa_def) (simp add: readSign_def)
next
  case False
  then show ?thesis by (simp add: Itoa_def)
qed

lemma ParseFloat_Itoa: "int64 i \<Longrightarrow> ParseFloat (Itoa i) = Some (of_int i)"
proof -
  assume i: "int64 i"
  have v: "(if i < 0 then - rat_of_nat (nat \<bar>i\<bar>) else rat_of_nat (nat \<bar>i\<bar>)) = of_int i"
    by (simp add: of_nat_nat)
  show ?thesis
    using int64_below_maxFloat [OF i]
    by (simp add: ParseFloat_def readSign_Itoa Let_def v split del: if_split cong: if_cong)
qed

text \<open>A meter reading printed in decimal is read back unchanged.\<close>

lemma ToInt_Itoa [simp]: "int64 i \<Longrightarrow> ToInt (Itoa i) = i"
  by (simp add: ToInt_def ParseFloat_Itoa)

lemma containsLoop_True [simp]: "containsLoop vs s"
  by (induction vs) auto

lemma Contains_iff: "Contains vs s \<longleftrightarrow> vs \<noteq> []"
  by (simp add: Contains_def)

end
