(* ===== verification/SystemState.thy ===== *)
theory SystemState
  imports Billing Utility
begin

text \<open>
  The state of the system handler of \<^verbatim>\<open>src/server/system_handler.go\<close>, its effects, and the
  operations every handler is built from: the loading of charge points and connectors, the
  transaction table of a charge point, the gauges, the events and the meter value trigger of
  \<^verbatim>\<open>src/server/trigger.go\<close>.

  The handlers share charge point states and connectors through pointers. Here a charge point state is
  found by its key in \<open>chargePoints\<close> and a connector by its key in the state's \<open>cps_connectors\<close>; a
  handler that changes one writes it back with \<open>putCP\<close> and \<open>putConn\<close> before the next
  operation that reads it. A handler runs under the handler's mutex and is one step. A goroutine it
  starts is recorded in \<open>spawned\<close> and runs later, in any order. A send to the trigger's unbuffered
  channels is received by the trigger's loop, so it acts at once on \<open>trigger\<close>. The
  central system installs the billing service and the trigger before any handler runs, so they are
  present; the database may be absent. Log lines are left out, as is the request that an event
  carries as its payload.
\<close>

section \<open>State\<close>

record ChargePointState =
  cps_status :: string
  cps_diagnosticsStatus :: string
  cps_firmwareStatus :: string
  cps_connectors :: "(int, Connector) gomap"
  cps_transactions :: "(int, int) gomap"
  cps_errorCode :: string
  cps_model :: ChargePoint
  cps_triggerMessage :: bool

record EventMessage =
  ev_ChargePointId :: string
  ev_ConnectorId :: int
  ev_LocationId :: string
  ev_Evse :: string
  ev_Time :: time
  ev_Username :: string
  ev_IdTag :: string
  ev_TransactionId :: int
  ev_Consumed :: int
  ev_Status :: string
  ev_Info :: string

definition zeroEvent :: EventMessage where
  "zeroEvent =
     \<lparr>ev_ChargePointId = [], ev_ConnectorId = 0, ev_LocationId = [], ev_Evse = [],
      ev_Time = zeroTime, ev_Username = [], ev_IdTag = [], ev_TransactionId = 0,
      ev_Consumed = 0, ev_Status = [], ev_Info = []\<rparr>"

datatype Event =
    StatusNotification | TransactionStart | TransactionStop | Authorize | TransactionEvent
  | Alert | Information

datatype Goroutine =
    GoSweepTransactions
  | GoCheckAndFinishTransactions
  | GoReconcileChargePointTransactions string
  | GoEnforceMeterValueInterval string bool
  | GoEnforceMeterMeasurands string
  | GoReportStop string string string Transaction string

datatype Effect =
    Wrote DbWrite "DbErr option"
  | Notified Event EventMessage
  | Sent string Request
  | ConnectionsGauge string int
  | TransactionsGauge string int
  | ErrorCounter string string string
  | TransactionCountGauge string string int
  | ConsumedPowerGauge string string float64
  | ConsumedPowerCounter string string float64
  | PowerRateGauge string string string float64
  | ErrorReported ErrorData

record 'db sys =
  chargePoints :: "(string, ChargePointState) gomap"
  lastMeter :: "(int, TransactionMeter) gomap"
  billing :: Affleck
  trigger :: "(int, string \<times> int) gomap"
  newTransactionId :: int
  consumedSeries :: "(string \<times> string) list"
  db :: 'db
  spawned :: "Goroutine list"
  out :: "Effect list"

record authResult =
  ar_allowed :: bool
  ar_expired :: bool
  ar_blocked :: bool
  ar_info :: string

text \<open>
  What the handlers are configured with. \<open>auth\<close> is the roaming authorization service (an HTTP client
  of an external platform), \<open>sendRequestSync\<close> the decoded answer of a charge point to a
  configuration query, \<open>sendOk\<close> whether a charge point is connected, and \<open>minuteOfDay\<close> the local
  clock of a time.
\<close>

record 'db env =
  database :: "'db Database option"
  auth :: "(string \<Rightarrow> string \<Rightarrow> string \<Rightarrow> authResult) option"
  errorListener :: bool
  acceptTags :: bool
  acceptPoints :: bool
  meterSampleInterval :: int
  meterMeasurands :: "string list"
  triggerSet :: bool
  serverSet :: bool
  sendOk :: "string \<Rightarrow> bool"
  readConfiguration :: "string \<Rightarrow> (string \<times> string option) list option"
  minuteOfDay :: "time \<Rightarrow> int"

definition NewSystemHandler :: "Affleck \<Rightarrow> 'db \<Rightarrow> 'db sys" where
  "NewSystemHandler a d =
     \<lparr>chargePoints = [], lastMeter = [], billing = a, trigger = [], newTransactionId = 1,
      consumedSeries = [], db = d, spawned = [], out = []\<rparr>"

section \<open>Effects\<close>

definition emit :: "Effect \<Rightarrow> 'db sys \<Rightarrow> 'db sys" where
  "emit e s = s\<lparr>out := out s @ [e]\<rparr>"

definition spawn :: "Goroutine \<Rightarrow> 'db sys \<Rightarrow> 'db sys" where
  "spawn g s = s\<lparr>spawned := spawned s @ [g]\<rparr>"

definition dbExec :: "'db Database \<Rightarrow> DbWrite \<Rightarrow> 'db sys \<Rightarrow> DbErr option \<times> 'db sys" where
  "dbExec D w s =
     (let (err, d) = exec D w (db s) in (err, s\<lparr>db := d, out := out s @ [Wrote w err]\<rparr>))"

text \<open>A write whose error is only logged, and one made only with a database.\<close>

definition dbDo :: "'db Database \<Rightarrow> DbWrite \<Rightarrow> 'db sys \<Rightarrow> 'db sys" where
  "dbDo D w s = snd (dbExec D w s)"

definition dbTry :: "'db env \<Rightarrow> DbWrite \<Rightarrow> 'db sys \<Rightarrow> 'db sys" where
  "dbTry env w s = (case database env of None \<Rightarrow> s | Some D \<Rightarrow> dbDo D w s)"

definition notifyEventListeners :: "Event \<Rightarrow> EventMessage \<Rightarrow> 'db sys \<Rightarrow> 'db sys" where
  "notifyEventListeners event msg s = emit (Notified event msg) s"

definition ObserveConnections :: "string \<Rightarrow> int \<Rightarrow> 'db sys \<Rightarrow> 'db sys" where
  "ObserveConnections location count s =
     (if length location = 0 then s else emit (ConnectionsGauge location count) s)"

definition ObserveTransactions :: "string \<Rightarrow> int \<Rightarrow> 'db sys \<Rightarrow> 'db sys" where
  "ObserveTransactions location count s =
     (if length location = 0 then s else emit (TransactionsGauge location count) s)"

definition ObserveError :: "string \<Rightarrow> string \<Rightarrow> string \<Rightarrow> 'db sys \<Rightarrow> 'db sys" where
  "ObserveError location chargePointId code s =
     (if length location = 0 \<or> length code = 0 \<or> length chargePointId = 0 then s
      else emit (ErrorCounter location chargePointId code) s)"

definition ObserveTransactionCount :: "string \<Rightarrow> string \<Rightarrow> int \<Rightarrow> 'db sys \<Rightarrow> 'db sys" where
  "ObserveTransactionCount location chargePointId count s =
     (if length location = 0 \<or> length chargePointId = 0 then s
      else emit (TransactionCountGauge location chargePointId count) s)"

definition ObserveConsumedPower :: "string \<Rightarrow> string \<Rightarrow> float64 \<Rightarrow> 'db sys \<Rightarrow> 'db sys" where
  "ObserveConsumedPower location chargePointId pw s =
     (if length location = 0 \<or> length chargePointId = 0 then s
      else emit (ConsumedPowerGauge location chargePointId pw) s)"

definition CountConsumedPower :: "string \<Rightarrow> string \<Rightarrow> float64 \<Rightarrow> 'db sys \<Rightarrow> 'db sys" where
  "CountConsumedPower location chargePointId pw s =
     (if length location = 0 \<or> length chargePointId = 0 then s
      else emit (ConsumedPowerCounter location chargePointId pw) s)"

definition ObservePowerRate :: "string \<Rightarrow> string \<Rightarrow> string \<Rightarrow> float64 \<Rightarrow> 'db sys \<Rightarrow> 'db sys" where
  "ObservePowerRate location chargePointId connectorId pw s =
     (if length location = 0 then s
      else emit (PowerRateGauge location chargePointId connectorId pw) s)"

lemmas effect_defs = emit_def spawn_def notifyEventListeners_def ObserveConnections_def
  ObserveTransactions_def ObserveError_def ObserveTransactionCount_def
  ObserveConsumedPower_def CountConsumedPower_def ObservePowerRate_def

section \<open>Charge point states\<close>

definition newChargePointState :: "ChargePoint \<Rightarrow> ChargePointState" where
  "newChargePointState chp =
     \<lparr>cps_status = [], cps_diagnosticsStatus = [], cps_firmwareStatus = [], cps_connectors = [],
      cps_transactions = [], cps_errorCode = [], cps_model = chp,
      cps_triggerMessage = cp_TriggerMessage chp\<rparr>"

definition registerTransaction :: "int \<Rightarrow> ChargePointState \<Rightarrow> ChargePointState" where
  "registerTransaction transactionId st =
     st\<lparr>cps_transactions := mput transactionId transactionId (cps_transactions st)\<rparr>"

definition unregisterTransaction :: "int \<Rightarrow> ChargePointState \<Rightarrow> ChargePointState" where
  "unregisterTransaction transactionId st =
     st\<lparr>cps_transactions := mdel transactionId (cps_transactions st)\<rparr>"

definition cps_EvseId :: "ChargePointState \<Rightarrow> int \<Rightarrow> string" where
  "cps_EvseId st connectorId = cp_EvseId (cps_model st) connectorId"

definition putCP :: "string \<Rightarrow> ChargePointState \<Rightarrow> 'db sys \<Rightarrow> 'db sys" where
  "putCP k st s = s\<lparr>chargePoints := mput k st (chargePoints s)\<rparr>"

definition putConn :: "int \<Rightarrow> Connector \<Rightarrow> ChargePointState \<Rightarrow> ChargePointState" where
  "putConn i c st = st\<lparr>cps_connectors := mput i c (cps_connectors st)\<rparr>"

text \<open>\<^verbatim>\<open>getTime\<close>: the clock truncated to a second.\<close>

definition getTime :: "time \<Rightarrow> time" where
  "getTime now = now - now mod nanos_per_second"

text \<open>
  \<^verbatim>\<open>updateActiveTransactionsCounter\<close>: the first loop sums the open transactions of each location, the
  second reports the sums.
\<close>

fun countTransactions :: "ChargePointState list \<Rightarrow> (string, int) gomap \<Rightarrow> (string, int) gomap" where
  "countTransactions [] locations = locations"
| "countTransactions (cp # cps) locations =
     countTransactions cps
       (let l = cp_LocationId (cps_model cp)
        in if l \<noteq> []
           then mput l ((case map_of locations l of None \<Rightarrow> 0 | Some n \<Rightarrow> n)
                        + int (length (cps_transactions cp))) locations
           else locations)"

fun observeCounts :: "(string \<times> int) list \<Rightarrow> 'db sys \<Rightarrow> 'db sys" where
  "observeCounts [] s = s"
| "observeCounts ((l, n) # rest) s = observeCounts rest (ObserveTransactions l n s)"

definition updateActiveTransactionsCounter :: "'db sys \<Rightarrow> 'db sys" where
  "updateActiveTransactionsCounter s =
     observeCounts (countTransactions (map snd (chargePoints s)) []) s"

definition releaseFinishedTransaction ::
    "'db env \<Rightarrow> Connector \<Rightarrow> 'db sys \<Rightarrow> bool \<times> Connector \<times> 'db sys" where
  "releaseFinishedTransaction env connector s =
     (case database env of None \<Rightarrow> (False, connector, s)
      | Some D \<Rightarrow>
         (case GetTransaction D (c_CurrentTransactionId connector) (db s) of
            (Some tr, None) \<Rightarrow>
              if \<not> t_IsFinished tr then (False, connector, s)
              else let connector = connector\<lparr>c_CurrentTransactionId := -1, c_CurrentPowerLimit := 0\<rparr>
                   in (True, connector, dbDo D (UpdateConnector connector) s)
          | _ \<Rightarrow> (False, connector, s)))"

text \<open>The loop of \<^verbatim>\<open>initializeChargePointState\<close> over the connectors of the charge point.\<close>

fun initConnectors ::
    "'db env \<Rightarrow> Connector list \<Rightarrow> ChargePointState \<Rightarrow> 'db sys \<Rightarrow> ChargePointState \<times> 'db sys" where
  "initConnectors env [] state s = (state, s)"
| "initConnectors env (c # cs) state s =
     (if c_CurrentTransactionId c = -1 then initConnectors env cs (putConn (c_Id c) c state) s
      else case releaseFinishedTransaction env c s of
             (True, c', s) \<Rightarrow> initConnectors env cs (putConn (c_Id c) c' state) s
           | (False, c', s) \<Rightarrow>
               initConnectors env cs
                 (registerTransaction (c_CurrentTransactionId c') (putConn (c_Id c) c' state)) s)"

definition initializeChargePointState ::
    "'db env \<Rightarrow> ChargePoint \<Rightarrow> 'db sys \<Rightarrow> ChargePointState \<times> 'db sys" where
  "initializeChargePointState env chp s =
     (let state = (newChargePointState chp)
                    \<lparr>cps_status := (if \<not> cp_IsEnabled chp then ChargePointStatusUnavailable
                                    else GetStatus (cp_Status chp)),
                     cps_errorCode := GetErrorCode (cp_ErrorCode chp)\<rparr>;
          (state, s) = initConnectors env (cp_Connectors chp) state s
      in (state, putCP (cp_Id chp) state s))"

definition unknownChargePoint :: "string \<Rightarrow> ChargePoint" where
  "unknownChargePoint chargePointId =
     zeroChargePoint\<lparr>cp_Id := chargePointId, cp_Title := ''(new) '' @ chargePointId,
       cp_IsEnabled := True, cp_Status := ChargePointStatusAvailable,
       cp_ErrorCode := NoError, cp_AccessType := ''private'', cp_AccessLevel := 10\<rparr>"

definition addChargePoint ::
    "'db env \<Rightarrow> string \<Rightarrow> 'db sys \<Rightarrow> (string \<times> ChargePointState) option \<times> 'db sys" where
  "addChargePoint env chargePointId s =
     (if chargePointId = [] then (None, s)
      else let cp = unknownChargePoint chargePointId;
               s = dbTry env (AddChargePoint cp) s;
               (state, s) = initializeChargePointState env cp s
           in (Some (cp_Id cp, state), s))"

definition getConnector ::
    "'db env \<Rightarrow> string \<Rightarrow> ChargePointState \<Rightarrow> int \<Rightarrow> 'db sys \<Rightarrow> Connector \<times> ChargePointState \<times> 'db sys" where
  "getConnector env k cps i s =
     (case map_of (cps_connectors cps) i of
        Some connector \<Rightarrow> (connector, cps, s)
      | None \<Rightarrow>
         (case (case database env of None \<Rightarrow> None
                | Some D \<Rightarrow> fst (GetConnector D i (cp_Id (cps_model cps)) (db s))) of
            Some c \<Rightarrow> let cps = putConn i c cps in (c, cps, putCP k cps s)
          | None \<Rightarrow>
             let connector = NewConnector i (cp_Id (cps_model cps));
                 cps = putConn i connector cps
             in (connector, cps, dbTry env (AddConnector connector) (putCP k cps s))))"

text \<open>The result names the key under which the state is stored.\<close>

definition getChargePoint ::
    "'db env \<Rightarrow> string \<Rightarrow> 'db sys \<Rightarrow> (string \<times> ChargePointState) option \<times> 'db sys" where
  "getChargePoint env chargePointId s =
     (case map_of (chargePoints s) chargePointId of
        Some state \<Rightarrow> (Some (chargePointId, state), s)
      | None \<Rightarrow>
         (case (case database env of None \<Rightarrow> None
                | Some D \<Rightarrow> fst (GetChargePoint D chargePointId (db s))) of
            Some chargePoint \<Rightarrow>
              (let (state, s) = initializeChargePointState env chargePoint s
               in (Some (cp_Id chargePoint, state), s))
          | None \<Rightarrow> if acceptPoints env then addChargePoint env chargePointId s else (None, s)))"

section \<open>The meter value trigger\<close>

text \<open>
  \<^verbatim>\<open>Trigger.listen\<close>: one case of its select per function. A connector is watched through its key,
  because the trigger holds a pointer to it.
\<close>

definition triggerRegister :: "string \<Rightarrow> int \<Rightarrow> Connector \<Rightarrow> 'db sys \<Rightarrow> 'db sys" where
  "triggerRegister k i connector s =
     s\<lparr>trigger := mput (c_CurrentTransactionId connector) (k, i) (trigger s)\<rparr>"

definition triggerUnregister :: "int \<Rightarrow> 'db sys \<Rightarrow> 'db sys" where
  "triggerUnregister transactionId s =
     (case map_of (trigger s) transactionId of None \<Rightarrow> s
      | Some _ \<Rightarrow> s\<lparr>trigger := mdel transactionId (trigger s)\<rparr>)"

fun unregisterIds :: "int list \<Rightarrow> 'db sys \<Rightarrow> 'db sys" where
  "unregisterIds [] s = s"
| "unregisterIds (i # is) s = unregisterIds is (triggerUnregister i s)"

definition UnregisterConnector :: "string \<Rightarrow> int \<Rightarrow> 'db sys \<Rightarrow> 'db sys" where
  "UnregisterConnector k i s = unregisterIds (map fst (filter (\<lambda>(_, c). c = (k, i)) (trigger s))) s"

text \<open>One tick of \<^verbatim>\<open>triggerMeterValues\<close>: a request per watched connector.\<close>

fun requestMeterValues :: "'db env \<Rightarrow> (string \<times> int) list \<Rightarrow> 'db sys \<Rightarrow> 'db sys" where
  "requestMeterValues env [] s = s"
| "requestMeterValues env ((k, i) # ps) s =
     requestMeterValues env ps
       (case map_of (chargePoints s) k of None \<Rightarrow> s
        | Some st \<Rightarrow>
           (case map_of (cps_connectors st) i of None \<Rightarrow> s
            | Some c \<Rightarrow>
               if sendOk env (c_ChargePointId c)
               then emit (Sent (c_ChargePointId c) (NewTriggerMessageRequest ''MeterValues'' (c_Id c))) s
               else s))"

definition triggerMeterValues :: "'db env \<Rightarrow> 'db sys \<Rightarrow> 'db sys" where
  "triggerMeterValues env s = requestMeterValues env (map snd (trigger s)) s"

definition checkListenTransaction ::
    "'db env \<Rightarrow> string \<Rightarrow> int \<Rightarrow> Connector \<Rightarrow> bool \<Rightarrow> 'db sys \<Rightarrow> 'db sys" where
  "checkListenTransaction env k i connector isOnline s =
     (let (chp, s) = getChargePoint env (c_ChargePointId connector) s
      in if (case chp of None \<Rightarrow> False | Some (_, st) \<Rightarrow> \<not> cps_triggerMessage st) then s
         else if c_CurrentTransactionId connector \<ge> 0 then
           (if \<not> isOnline then triggerUnregister (c_CurrentTransactionId connector) s
            else if length (c_Status connector) \<noteq> 0 \<and> c_Status connector \<noteq> ChargePointStatusCharging
            then triggerUnregister (c_CurrentTransactionId connector) s
            else triggerRegister k i connector s)
         else triggerUnregister (c_CurrentTransactionId connector) s)"

section \<open>What the building blocks change\<close>

lemma dbDo_simps [simp]:
  "chargePoints (dbDo D w s) = chargePoints s" "lastMeter (dbDo D w s) = lastMeter s"
  "billing (dbDo D w s) = billing s" "trigger (dbDo D w s) = trigger s"
  "newTransactionId (dbDo D w s) = newTransactionId s"
  "consumedSeries (dbDo D w s) = consumedSeries s" "spawned (dbDo D w s) = spawned s"
  "db (dbDo D w s) = snd (exec D w (db s))"
  "out (dbDo D w s) = out s @ [Wrote w (fst (exec D w (db s)))]"
  by (simp_all add: dbDo_def dbExec_def split: prod.split)

lemma dbTry_simps [simp]:
  "chargePoints (dbTry env w s) = chargePoints s" "lastMeter (dbTry env w s) = lastMeter s"
  "billing (dbTry env w s) = billing s" "trigger (dbTry env w s) = trigger s"
  "newTransactionId (dbTry env w s) = newTransactionId s"
  "consumedSeries (dbTry env w s) = consumedSeries s" "spawned (dbTry env w s) = spawned s"
  by (simp_all add: dbTry_def split: option.split)

lemma putCP_simps [simp]:
  "chargePoints (putCP k st s) = mput k st (chargePoints s)" "lastMeter (putCP k st s) = lastMeter s"
  "billing (putCP k st s) = billing s" "trigger (putCP k st s) = trigger s"
  "newTransactionId (putCP k st s) = newTransactionId s"
  "consumedSeries (putCP k st s) = consumedSeries s" "spawned (putCP k st s) = spawned s"
  "db (putCP k st s) = db s" "out (putCP k st s) = out s"
  by (simp_all add: putCP_def)

lemma emit_simps [simp]:
  "chargePoints (emit e s) = chargePoints s" "lastMeter (emit e s) = lastMeter s"
  "billing (emit e s) = billing s" "trigger (emit e s) = trigger s"
  "newTransactionId (emit e s) = newTransactionId s"
  "consumedSeries (emit e s) = consumedSeries s" "spawned (emit e s) = spawned s"
  "db (emit e s) = db s" "out (emit e s) = out s @ [e]"
  by (simp_all add: emit_def)

lemma notify_simps [simp]:
  "chargePoints (notifyEventListeners ev m s) = chargePoints s"
  "lastMeter (notifyEventListeners ev m s) = lastMeter s"
  "billing (notifyEventListeners ev m s) = billing s"
  "trigger (notifyEventListeners ev m s) = trigger s"
  "newTransactionId (notifyEventListeners ev m s) = newTransactionId s"
  "consumedSeries (notifyEventListeners ev m s) = consumedSeries s"
  "spawned (notifyEventListeners ev m s) = spawned s" "db (notifyEventListeners ev m s) = db s"
  "out (notifyEventListeners ev m s) = out s @ [Notified ev m]"
  by (simp_all add: notifyEventListeners_def)

lemma spawn_simps [simp]:
  "chargePoints (spawn g s) = chargePoints s" "lastMeter (spawn g s) = lastMeter s"
  "billing (spawn g s) = billing s" "trigger (spawn g s) = trigger s"
  "newTransactionId (spawn g s) = newTransactionId s"
  "consumedSeries (spawn g s) = consumedSeries s" "spawned (spawn g s) = spawned s @ [g]"
  "db (spawn g s) = db s" "out (spawn g s) = out s"
  by (simp_all add: spawn_def)

text \<open>A gauge changes the trace only, by at most its own entry.\<close>

definition traces :: "(Effect \<Rightarrow> bool) \<Rightarrow> 'db sys \<Rightarrow> 'db sys \<Rightarrow> bool" where
  "traces P s s' \<longleftrightarrow> (\<exists>es. s' = s\<lparr>out := out s @ es\<rparr> \<and> (\<forall>e \<in> set es. P e))"

lemma traces_refl [simp, intro]: "traces P s s"
  unfolding traces_def by (intro exI [of _ "[]"]) simp

lemma traces_trans [trans]: "traces P s t \<Longrightarrow> traces P t u \<Longrightarrow> traces P s u"
  unfolding traces_def by (elim exE conjE, rule exI, rule conjI, simp, simp) auto

lemma traces_emit: "P e \<Longrightarrow> traces P s (emit e s)"
  unfolding traces_def emit_def by (intro exI [of _ "[e]"]) simp

lemma traces_mono: "traces P s s' \<Longrightarrow> (\<And>e. P e \<Longrightarrow> Q e) \<Longrightarrow> traces Q s s'"
  unfolding traces_def by auto

lemma traces_simps:
  assumes "traces P s s'"
  shows "chargePoints s' = chargePoints s" "lastMeter s' = lastMeter s" "billing s' = billing s"
    "trigger s' = trigger s" "newTransactionId s' = newTransactionId s"
    "consumedSeries s' = consumedSeries s" "spawned s' = spawned s" "db s' = db s"
  using assms by (auto simp: traces_def)

lemma traces_outD: "traces P s s' \<Longrightarrow> \<exists>es. out s' = out s @ es \<and> (\<forall>e \<in> set es. P e)"
  by (auto simp: traces_def)

text \<open>An effect that is neither a database write nor a negative increment of a counter.\<close>

fun gauge :: "Effect \<Rightarrow> bool" where
  "gauge (Wrote _ _) = False"
| "gauge (ConsumedPowerCounter _ _ x) = (0 \<le> x)"
| "gauge (ErrorReported _) = True"
| "gauge _ = True"

lemma traces_gauges [simp, intro]:
  "traces gauge s (ObserveConnections l n s)" "traces gauge s (ObserveTransactions l n s)"
  "traces gauge s (ObserveError l cp code s)" "traces gauge s (ObserveTransactionCount l cp n s)"
  "traces gauge s (ObserveConsumedPower l cp x s)" "traces gauge s (ObservePowerRate l cp c x s)"
  "0 \<le> x \<Longrightarrow> traces gauge s (CountConsumedPower l cp x s)"
  "traces gauge s (notifyEventListeners ev m s)"
  by (simp_all add: ObserveConnections_def ObserveTransactions_def ObserveError_def
      ObserveTransactionCount_def ObserveConsumedPower_def ObservePowerRate_def
      CountConsumedPower_def notifyEventListeners_def traces_emit)

lemma traces_observeCounts: "traces gauge s (observeCounts ls s)"
proof (induction ls s rule: observeCounts.induct)
  case (2 l n rest s)
  show ?case using traces_trans [OF traces_gauges(2) 2] by simp
qed simp

lemma traces_updateActive [simp, intro]: "traces gauge s (updateActiveTransactionsCounter s)"
  by (simp add: updateActiveTransactionsCounter_def traces_observeCounts)

lemmas updateActive_simps [simp] = traces_simps [OF traces_updateActive]
lemmas ObservePowerRate_simps [simp] = traces_simps [OF traces_gauges(6)]

lemma trigger_simps [simp]:
  "chargePoints (triggerRegister k i c s) = chargePoints s" "lastMeter (triggerRegister k i c s) = lastMeter s"
  "billing (triggerRegister k i c s) = billing s" "db (triggerRegister k i c s) = db s"
  "newTransactionId (triggerRegister k i c s) = newTransactionId s"
  "spawned (triggerRegister k i c s) = spawned s" "out (triggerRegister k i c s) = out s"
  "trigger (triggerRegister k i c s) = mput (c_CurrentTransactionId c) (k, i) (trigger s)"
  "chargePoints (triggerUnregister t s) = chargePoints s" "lastMeter (triggerUnregister t s) = lastMeter s"
  "billing (triggerUnregister t s) = billing s" "db (triggerUnregister t s) = db s"
  "newTransactionId (triggerUnregister t s) = newTransactionId s"
  "spawned (triggerUnregister t s) = spawned s" "out (triggerUnregister t s) = out s"
  "map_of (trigger (triggerUnregister t s)) = (map_of (trigger s))(t := None)"
  by (auto simp: triggerRegister_def triggerUnregister_def fun_eq_iff split: option.split)

lemma mdel_absent: "map_of m k = None \<Longrightarrow> mdel k m = m"
  by (induction m) (auto split: if_splits)

lemma trigger_triggerUnregister [simp]: "trigger (triggerUnregister t s) = mdel t (trigger s)"
  by (simp add: triggerUnregister_def mdel_absent split: option.split)

lemma cps_field_simps [simp]:
  "cps_connectors (putConn i c st) = mput i c (cps_connectors st)"
  "cps_transactions (putConn i c st) = cps_transactions st" "cps_model (putConn i c st) = cps_model st"
  "cps_triggerMessage (putConn i c st) = cps_triggerMessage st"
  "cps_connectors (registerTransaction t st) = cps_connectors st"
  "cps_transactions (registerTransaction t st) = mput t t (cps_transactions st)"
  "cps_model (registerTransaction t st) = cps_model st"
  "cps_triggerMessage (registerTransaction t st) = cps_triggerMessage st"
  "cps_connectors (unregisterTransaction t st) = cps_connectors st"
  "cps_transactions (unregisterTransaction t st) = mdel t (cps_transactions st)"
  "cps_model (unregisterTransaction t st) = cps_model st"
  "cps_triggerMessage (unregisterTransaction t st) = cps_triggerMessage st"
  by (simp_all add: putConn_def registerTransaction_def unregisterTransaction_def)

section \<open>Loading\<close>

text \<open>A charge point that is in memory is returned as it is, and nothing happens.\<close>

lemma getChargePoint_known [simp]:
  "map_of (chargePoints s) i = Some st \<Longrightarrow> getChargePoint env i s = (Some (i, st), s)"
  by (simp add: getChargePoint_def)

lemma getConnector_known [simp]:
  "map_of (cps_connectors st) i = Some c \<Longrightarrow> getConnector env k st i s = (c, st, s)"
  by (simp add: getConnector_def)

lemma initializeChargePointState_stored:
  "initializeChargePointState env cp s = (st, s') \<Longrightarrow> map_of (chargePoints s') (cp_Id cp) = Some st"
  by (auto simp: initializeChargePointState_def Let_def split: prod.splits)

lemma getChargePoint_stored:
  "getChargePoint env i s = (Some (k, st), s') \<Longrightarrow> map_of (chargePoints s') k = Some st"
  by (auto simp: getChargePoint_def addChargePoint_def Let_def initializeChargePointState_stored
      split: option.splits if_splits prod.splits)

lemma getChargePoint_unknown:
  "getChargePoint env i s = (None, s') \<longleftrightarrow>
   s' = s \<and> map_of (chargePoints s) i = None
   \<and> (case database env of None \<Rightarrow> True | Some D \<Rightarrow> fst (GetChargePoint D i (db s)) = None)
   \<and> (acceptPoints env \<longrightarrow> i = [])"
  by (auto simp: getChargePoint_def addChargePoint_def Let_def split: option.splits prod.splits)

lemma getConnector_stored:
  assumes "getConnector env k st i s = (c, st', s')"
  shows "map_of (cps_connectors st') i = Some c"
    and "map_of (chargePoints s) k = Some st \<Longrightarrow> map_of (chargePoints s') k = Some st'"
    and "cps_model st' = cps_model st" "cps_transactions st' = cps_transactions st"
    and "\<And>j. j \<noteq> i \<Longrightarrow> map_of (cps_connectors st') j = map_of (cps_connectors st) j"
  using assms by (auto simp: getConnector_def Let_def split: option.splits)

lemma getConnector_rest:
  assumes "getConnector env k st i s = (c, st', s')"
  shows "newTransactionId s' = newTransactionId s" "trigger s' = trigger s" "lastMeter s' = lastMeter s"
    and "billing s' = billing s" "spawned s' = spawned s"
    and "\<And>j. j \<noteq> k \<Longrightarrow> map_of (chargePoints s') j = map_of (chargePoints s) j"
  using assms by (auto simp: getConnector_def Let_def split: option.splits)

section \<open>Well-formed states and quiet operations\<close>

definition cps_ok :: "ChargePointState \<Rightarrow> bool" where
  "cps_ok st \<longleftrightarrow> gomap_ok (cps_connectors st) \<and> gomap_ok (cps_transactions st)
     \<and> (\<forall>(t, v) \<in> set (cps_transactions st). v = t)"

definition sys_ok :: "'db sys \<Rightarrow> bool" where
  "sys_ok s \<longleftrightarrow> gomap_ok (chargePoints s) \<and> gomap_ok (lastMeter s) \<and> gomap_ok (trigger s)
     \<and> (\<forall>(k, st) \<in> set (chargePoints s). cps_ok st)"

lemma cps_ok_intros [simp, intro]:
  "cps_ok (newChargePointState cp)"
  "cps_ok st \<Longrightarrow> cps_ok (putConn i c st)"
  "cps_ok st \<Longrightarrow> cps_ok (registerTransaction t st)"
  "cps_ok st \<Longrightarrow> cps_ok (unregisterTransaction t st)"
  by (auto simp: cps_ok_def newChargePointState_def dest!: set_mput set_mdel)

lemma cps_ok_fields [simp]:
  "cps_ok (st\<lparr>cps_status := x1\<rparr>) = cps_ok st" "cps_ok (st\<lparr>cps_errorCode := x2\<rparr>) = cps_ok st"
  "cps_ok (st\<lparr>cps_model := x3\<rparr>) = cps_ok st" "cps_ok (st\<lparr>cps_diagnosticsStatus := x4\<rparr>) = cps_ok st"
  "cps_ok (st\<lparr>cps_firmwareStatus := x5\<rparr>) = cps_ok st"
  by (simp_all add: cps_ok_def)

lemma sys_ok_lookup: "sys_ok s \<Longrightarrow> map_of (chargePoints s) k = Some st \<Longrightarrow> cps_ok st"
  by (auto simp: sys_ok_def dest!: map_of_SomeD)

lemma sys_ok_putCP [simp, intro]: "sys_ok s \<Longrightarrow> cps_ok st \<Longrightarrow> sys_ok (putCP k st s)"
  by (auto simp: sys_ok_def dest!: set_mput)

text \<open>
  An effect is calm when it neither adds a transaction nor decrements the energy counter, which the
  metrics library answers with a panic. A quiet step keeps the id counter and well-formedness and
  leaves calm effects only.
\<close>

fun calm :: "Effect \<Rightarrow> bool" where
  "calm (Wrote (AddTransaction _) _) = False"
| "calm (ConsumedPowerCounter _ _ x) = (0 \<le> x)"
| "calm _ = True"

definition quiet :: "'db sys \<Rightarrow> 'db sys \<Rightarrow> bool" where
  "quiet s s' \<longleftrightarrow> newTransactionId s' = newTransactionId s
     \<and> (\<exists>es. out s' = out s @ es \<and> (\<forall>e \<in> set es. calm e)) \<and> (sys_ok s \<longrightarrow> sys_ok s')"

lemma gauge_calm: "gauge e \<Longrightarrow> calm e"
  by (cases e) auto

lemma quiet_refl [simp, intro]: "quiet s s"
  by (auto simp: quiet_def)

lemma quiet_trans [trans]: "quiet s t \<Longrightarrow> quiet t u \<Longrightarrow> quiet s u"
  unfolding quiet_def by (elim conjE exE, intro conjI, simp, rule exI, intro conjI, simp) auto

lemma sys_ok_traces: "traces P s s' \<Longrightarrow> sys_ok s' = sys_ok s"
  by (auto simp: traces_def sys_ok_def)

lemma traces_quiet: "traces gauge s s' \<Longrightarrow> quiet s s'"
  using traces_outD [of gauge s s'] gauge_calm
  by (auto simp: quiet_def sys_ok_traces traces_simps)

lemma sys_ok_dbDo [simp]: "sys_ok (dbDo D w s) = sys_ok s"
  by (simp add: sys_ok_def)

lemma quiet_dbDo: "(\<And>t. w \<noteq> AddTransaction t) \<Longrightarrow> quiet s (dbDo D w s)"
  by (cases w) (auto simp: quiet_def)

lemma quiet_dbTry: "(\<And>t. w \<noteq> AddTransaction t) \<Longrightarrow> quiet s (dbTry env w s)"
  by (auto simp: dbTry_def quiet_dbDo split: option.split)

lemma quiet_putCP: "(sys_ok s \<Longrightarrow> cps_ok st) \<Longrightarrow> quiet s (putCP k st s)"
  by (auto simp: quiet_def)

lemma quiet_spawn [simp, intro]: "quiet s (spawn g s)"
  by (auto simp: quiet_def sys_ok_def)

lemma quiet_emit: "calm e \<Longrightarrow> quiet s (emit e s)"
  by (auto simp: quiet_def sys_ok_def)

lemma quiet_trigger [simp, intro]:
  "quiet s (triggerRegister k i c s)" "quiet s (triggerUnregister t s)"
  by (auto simp: quiet_def sys_ok_def)

lemma quiet_unregisterIds: "quiet s (unregisterIds is s)"
  by (induction "is" s rule: unregisterIds.induct) (auto intro: quiet_trans quiet_trigger)

lemma quiet_UnregisterConnector [simp, intro]: "quiet s (UnregisterConnector k i s)"
  by (simp add: UnregisterConnector_def quiet_unregisterIds)

lemma quiet_releaseFinished:
  "releaseFinishedTransaction env c s = (b, c', s') \<Longrightarrow> quiet s s'"
  by (auto simp: releaseFinishedTransaction_def Let_def quiet_dbDo split: option.splits prod.splits if_splits)

lemma quiet_initConnectors:
  "initConnectors env cs st s = (st', s') \<Longrightarrow> quiet s s' \<and> (cps_ok st \<longrightarrow> cps_ok st')"
proof (induction env cs st s arbitrary: st' s' rule: initConnectors.induct)
  case (2 env c cs st s)
  then show ?case
    by (auto split: if_splits prod.splits bool.splits dest: quiet_releaseFinished intro: quiet_trans)
qed auto

lemma quiet_initialize:
  assumes "initializeChargePointState env cp s = (st, s')"
  shows "quiet s s'" "cps_ok st"
proof -
  let ?st0 = "(newChargePointState cp)
       \<lparr>cps_status := (if \<not> cp_IsEnabled cp then ChargePointStatusUnavailable else GetStatus (cp_Status cp)),
        cps_errorCode := GetErrorCode (cp_ErrorCode cp)\<rparr>"
  obtain st1 s1 where init: "initConnectors env (cp_Connectors cp) ?st0 s = (st1, s1)"
    by (cases "initConnectors env (cp_Connectors cp) ?st0 s")
  have "cps_ok ?st0" by simp
  with quiet_initConnectors [OF init] have q: "quiet s s1" and ok: "cps_ok st1" by auto
  from assms init have "st = st1" "s' = putCP (cp_Id cp) st1 s1"
    by (auto simp: initializeChargePointState_def Let_def)
  with q ok show "quiet s s'" "cps_ok st" by (auto intro: quiet_trans quiet_putCP)
qed

lemma quiet_getChargePoint: "getChargePoint env i s = (r, s') \<Longrightarrow> quiet s s'"
  by (auto simp: getChargePoint_def addChargePoint_def Let_def
      split: option.splits if_splits prod.splits
      dest!: quiet_initialize(1) intro: quiet_trans quiet_dbTry)

lemma quiet_getConnector:
  "getConnector env k st i s = (c, st', s') \<Longrightarrow> cps_ok st \<Longrightarrow> quiet s s' \<and> cps_ok st'"
  by (auto simp: getConnector_def Let_def split: option.splits
      intro!: quiet_putCP quiet_trans [OF _ quiet_dbTry])

lemma quiet_checkListen [simp, intro]: "quiet s (checkListenTransaction env k i c online s)"
proof -
  obtain r s1 where g: "getChargePoint env (c_ChargePointId c) s = (r, s1)"
    by (cases "getChargePoint env (c_ChargePointId c) s")
  have "quiet s1 (checkListenTransaction env k i c online s)"
    by (auto simp: checkListenTransaction_def g split: option.split)
  with quiet_getChargePoint [OF g] show ?thesis by (rule quiet_trans)
qed

end
