(* ===== verification/Transactions.thy ===== *)
theory Transactions
  imports SystemState
begin

text \<open>
  The life of a charging transaction in \<^verbatim>\<open>src/server/system_handler.go\<close>: \<^verbatim>\<open>OnStartTransaction\<close>,
  \<^verbatim>\<open>OnStopTransaction\<close>, the sweep that closes transactions a charge point never stopped, the
  reconciliation after a reboot, and the gauge of the energy consumed today. The response of a
  handler is returned beside the new state; \<open>None\<close> is a panic.
\<close>

section \<open>User tags\<close>

definition sourceOCPI :: string where "sourceOCPI = ''OCPI''"

definition getUserTag :: "'db env \<Rightarrow> time \<Rightarrow> string \<Rightarrow> 'db sys \<Rightarrow> UserTag \<times> 'db sys" where
  "getUserTag env now idTag s =
     (let userTag = NewUserTag idTag
      in case database env of
           None \<Rightarrow> (userTag\<lparr>ut_IsEnabled := acceptTags env\<rparr>, s)
         | Some D \<Rightarrow>
            let (userTag, s) =
                  (case fst (GetUserTag D (ut_IdTag userTag) (db s)) of
                     Some savedTag \<Rightarrow> (savedTag, s)
                   | None \<Rightarrow>
                      let userTag = userTag\<lparr>ut_IsEnabled := acceptTags env, ut_DateRegistered := now\<rparr>
                      in (userTag, dbDo D (AddUserTag userTag) s))
            in (userTag, dbDo D (UpdateTagLastSeen userTag) s))"

section \<open>Starting a transaction\<close>

text \<open>
  The examination of the transaction the connector already holds. \<open>StartRefused\<close>: the database
  cannot say what became of it. \<open>StartRepeated\<close>: it is open on this connector. \<open>StartBusy\<close>: it is
  open elsewhere. \<open>StartRelease\<close>: it is finished, the pointer is stale. \<open>StartFree\<close>: nothing is
  held, or the document does not exist.
\<close>

datatype StartCheck = StartRefused | StartRepeated | StartBusy | StartRelease | StartFree

definition startCheck :: "'db env \<Rightarrow> Connector \<Rightarrow> 'db sys \<Rightarrow> StartCheck" where
  "startCheck env connector s =
     (case database env of None \<Rightarrow> StartFree
      | Some D \<Rightarrow>
         if \<not> c_CurrentTransactionId connector \<ge> 0 then StartFree
         else let (transaction, err) = GetTransaction D (c_CurrentTransactionId connector) (db s)
              in if err \<noteq> None \<and> \<not> IsNotFound err then StartRefused
                 else case transaction of None \<Rightarrow> StartFree
                      | Some tr \<Rightarrow>
                         if \<not> t_IsFinished tr \<and> t_ConnectorId tr = c_Id connector then StartRepeated
                         else if t_IsFinished tr then StartRelease else StartBusy)"

text \<open>The creation of the transaction, from \<^verbatim>\<open>getUserTag\<close> to the response.\<close>

definition newTransaction ::
    "time \<Rightarrow> string \<Rightarrow> StartTransactionRequest \<Rightarrow> UserTag \<Rightarrow> int \<Rightarrow> Transaction" where
  "newTransaction now chargePointId request userTag i =
     zeroTransaction
       \<lparr>t_IdTag := ut_IdTag userTag, t_IdTagNote := ut_Note userTag, t_Username := ut_Username userTag,
        t_IsFinished := False, t_ConnectorId := sr_ConnectorId request, t_ChargePointId := chargePointId,
        t_MeterStart := sr_MeterStart request, t_TimeStart := sr_GetTimestamp now request,
        t_ReservationId := sr_ReservationId request, t_Id := i, t_UserTag := Some userTag,
        t_SessionId := (if ut_Source userTag = sourceOCPI then ut_IdTag userTag else [])\<rparr>"

text \<open>The part made only with a database: last seen, payment plan, transaction, connector.\<close>

definition startStore ::
    "'db env \<Rightarrow> time \<Rightarrow> string \<Rightarrow> UserTag \<Rightarrow> Connector \<Rightarrow> Transaction \<Rightarrow> 'db sys \<Rightarrow> Transaction \<times> 'db sys" where
  "startStore env now chargePointId userTag connector tr s =
     (case database env of None \<Rightarrow> (tr, s)
      | Some D \<Rightarrow>
         let s = dbDo D (UpdateTagLastSeen userTag) s;
             (err, tr, a) = OnTransactionStart D (minuteOfDay env now) (db s) (billing s) tr;
             s = s\<lparr>billing := a\<rparr>;
             s = (case err of None \<Rightarrow> s
                  | Some e \<Rightarrow>
                     notifyEventListeners Alert
                       (zeroEvent\<lparr>ev_ChargePointId := chargePointId, ev_ConnectorId := t_ConnectorId tr,
                          ev_Username := t_Username tr, ev_IdTag := t_IdTag tr,
                          ev_Info := ''billing: '' @ e\<rparr>) s);
             s = dbDo D (AddTransaction tr) s;
             s = dbDo D (UpdateConnector connector) s
         in (tr, s))"

definition startCreate ::
    "'db env \<Rightarrow> time \<Rightarrow> string \<Rightarrow> string \<Rightarrow> ChargePointState \<Rightarrow> Connector \<Rightarrow> StartTransactionRequest
     \<Rightarrow> 'db sys \<Rightarrow> int \<times> Connector \<times> ChargePointState \<times> 'db sys" where
  "startCreate env now chargePointId k state connector request s =
     (let (userTag, s) = getUserTag env now (sr_IdTag request) s;
          tr = newTransaction now chargePointId request userTag (newTransactionId s);
          s = s\<lparr>newTransactionId := newTransactionId s + 1\<rparr>;
          connector = connector\<lparr>c_CurrentTransactionId := t_Id tr, c_CurrentPowerLimit := 0\<rparr>;
          state = registerTransaction (t_Id tr) (putConn (sr_ConnectorId request) connector state);
          s = updateActiveTransactionsCounter (putCP k state s);
          (tr, s) = startStore env now chargePointId userTag connector tr s;
          s = notifyEventListeners TransactionStart
                (zeroEvent\<lparr>ev_ChargePointId := chargePointId, ev_ConnectorId := t_ConnectorId tr,
                   ev_LocationId := cp_LocationId (cps_model state),
                   ev_Evse := cps_EvseId state (t_ConnectorId tr), ev_Time := t_TimeStart tr,
                   ev_Username := t_Username tr, ev_IdTag := t_IdTag tr,
                   ev_Status := c_Status connector, ev_TransactionId := t_Id tr,
                   ev_Info := t_IdTagNote tr\<rparr>) s
      in (t_Id tr, connector, state, s))"

text \<open>
  The body between \<^verbatim>\<open>getConnector\<close> and the deferred call. Answers the status, the transaction id
  and the connector.
\<close>

definition startBody ::
    "'db env \<Rightarrow> time \<Rightarrow> string \<Rightarrow> string \<Rightarrow> ChargePointState \<Rightarrow> Connector \<Rightarrow> StartTransactionRequest
     \<Rightarrow> 'db sys \<Rightarrow> AuthorizationStatus \<times> int \<times> Connector \<times> ChargePointState \<times> 'db sys" where
  "startBody env now chargePointId k state connector request s =
     (case startCheck env connector s of
        StartRefused \<Rightarrow> (AuthorizationStatusBlocked, 0, connector, state, s)
      | StartRepeated \<Rightarrow>
          (AuthorizationStatusAccepted, c_CurrentTransactionId connector, connector, state, s)
      | StartBusy \<Rightarrow>
          (AuthorizationStatusConcurrentTx, c_CurrentTransactionId connector, connector, state,
           notifyEventListeners Alert
             (zeroEvent\<lparr>ev_ChargePointId := chargePointId, ev_ConnectorId := c_Id connector,
                ev_Time := now, ev_IdTag := sr_IdTag request, ev_Status := c_Status connector,
                ev_TransactionId := c_CurrentTransactionId connector,
                ev_Info := ''New transaction was requested, but connector is busy with another transaction.''\<rparr>) s)
      | StartRelease \<Rightarrow>
          let state = unregisterTransaction (c_CurrentTransactionId connector) state;
              connector = connector\<lparr>c_CurrentTransactionId := -1, c_CurrentPowerLimit := 0\<rparr>;
              state = putConn (sr_ConnectorId request) connector state;
              s = dbTry env (UpdateConnector connector) (putCP k state s);
              (i, connector, state, s) = startCreate env now chargePointId k state connector request s
          in (AuthorizationStatusAccepted, i, connector, state, s)
      | StartFree \<Rightarrow>
          let (i, connector, state, s) = startCreate env now chargePointId k state connector request s
          in (AuthorizationStatusAccepted, i, connector, state, s))"

definition OnStartTransaction ::
    "'db env \<Rightarrow> time \<Rightarrow> string \<Rightarrow> StartTransactionRequest \<Rightarrow> 'db sys
     \<Rightarrow> (AuthorizationStatus \<times> int) \<times> 'db sys" where
  "OnStartTransaction env now chargePointId request s =
     (case getChargePoint env chargePointId s of
        (None, s) \<Rightarrow> ((AuthorizationStatusBlocked, 0), s)
      | (Some (k, state), s) \<Rightarrow>
          let (connector, state, s) = getConnector env k state (sr_ConnectorId request) s;
              (status, i, connector, state, s) =
                startBody env now chargePointId k state connector request s
          in ((status, i),
              checkListenTransaction env k (sr_ConnectorId request) connector
                (cp_IsOnline (cps_model state)) s))"

section \<open>Stopping a transaction\<close>

definition reasonStoppedBySystem :: string where "reasonStoppedBySystem = ''stopped by system''"
definition reasonAbortedBySystem :: string where "reasonAbortedBySystem = ''aborted by system''"

definition isSystemClosedReason :: "string \<Rightarrow> bool" where
  "isSystemClosedReason reason \<longleftrightarrow> reason = reasonStoppedBySystem \<or> reason = reasonAbortedBySystem"

definition isActiveChargingStatus :: "string \<Rightarrow> bool" where
  "isActiveChargingStatus status \<longleftrightarrow>
     status = ChargePointStatusCharging \<or> status = ChargePointStatusSuspendedEV
     \<or> status = ChargePointStatusSuspendedEVSE"

text \<open>The readings of the begin and the end of the transaction that the request may carry.\<close>

fun applySamples :: "time \<Rightarrow> MeterValue \<Rightarrow> SampledValue list \<Rightarrow> Transaction \<Rightarrow> Transaction" where
  "applySamples now data [] tr = tr"
| "applySamples now data (v # vs) tr =
     (let tr = (if sv_Context v = ''Transaction.Begin''
                then tr\<lparr>t_MeterStart := ToInt (sv_Value v), t_TimeStart := mv_GetTimestamp now data\<rparr>
                else tr);
          tr = (if sv_Context v = ''Transaction.End''
                then tr\<lparr>t_MeterStop := ToInt (sv_Value v), t_TimeStop := mv_GetTimestamp now data\<rparr>
                else tr)
      in applySamples now data vs tr)"

fun applyTransactionData :: "time \<Rightarrow> MeterValue list \<Rightarrow> Transaction \<Rightarrow> Transaction" where
  "applyTransactionData now [] tr = tr"
| "applyTransactionData now (d # ds) tr =
     applyTransactionData now ds (applySamples now d (mv_SampledValue d) tr)"

text \<open>The closure \<^verbatim>\<open>releaseConnector\<close> of \<^verbatim>\<open>OnStopTransaction\<close>.\<close>

definition stopRelease ::
    "'db Database \<Rightarrow> string \<Rightarrow> ChargePointState \<Rightarrow> int \<Rightarrow> Connector \<Rightarrow> 'db sys \<Rightarrow> 'db sys" where
  "stopRelease D k state i connector s =
     (let connector = connector\<lparr>c_CurrentTransactionId := -1, c_CurrentPowerLimit := 0\<rparr>
      in dbDo D (UpdateConnector connector) (putCP k (putConn i connector state) s))"

text \<open>An event about the stopped transaction: the fields the three events of the handler share.\<close>

definition stopEvent :: "string \<Rightarrow> ChargePointState \<Rightarrow> Transaction \<Rightarrow> string \<Rightarrow> EventMessage" where
  "stopEvent chargePointId state tr info =
     zeroEvent\<lparr>ev_ChargePointId := chargePointId, ev_ConnectorId := t_ConnectorId tr,
       ev_LocationId := cp_LocationId (cps_model state),
       ev_Evse := cps_EvseId state (t_ConnectorId tr), ev_Username := t_Username tr,
       ev_IdTag := t_IdTag tr, ev_Info := info\<rparr>"

text \<open>The figures of the request written into the transaction, and the bill.\<close>

definition stopFigures :: "time \<Rightarrow> StopTransactionRequest \<Rightarrow> Transaction \<Rightarrow> Transaction" where
  "stopFigures now request tr =
     applyTransactionData now (st_TransactionData request)
       (tr\<lparr>t_IsFinished := True, t_TimeStop := st_GetTimestamp now request,
          t_MeterStop := st_MeterStop request, t_Reason := st_Reason request\<rparr>)"

definition stopStore :: "'db Database \<Rightarrow> Transaction \<Rightarrow> 'db sys \<Rightarrow> 'db sys" where
  "stopStore D tr s =
     (let (err, s) = dbExec D (UpdateTransaction tr) s
      in case err of Some _ \<Rightarrow> s | None \<Rightarrow> dbDo D (DeleteTransactionMeterValues (t_Id tr)) s)"

text \<open>The part after the connector is known: already finished, or finish, bill, store, release.\<close>

definition stopFinish ::
    "'db Database \<Rightarrow> time \<Rightarrow> string \<Rightarrow> string \<Rightarrow> ChargePointState \<Rightarrow> Connector \<Rightarrow> Transaction
     \<Rightarrow> StopTransactionRequest \<Rightarrow> 'db sys \<Rightarrow> 'db sys" where
  "stopFinish D now chargePointId k state connector tr request s =
     (if t_IsFinished tr \<and> t_MeterStop tr \<ge> st_MeterStop request then
        notifyEventListeners Alert
          ((stopEvent chargePointId state tr ''Transaction is already finished'')
             \<lparr>ev_TransactionId := st_TransactionId request\<rparr>)
          (stopRelease D k state (t_ConnectorId tr) connector s)
      else
        let (err, tr) = OnTransactionFinished (stopFigures now request tr);
            s = (case err of None \<Rightarrow> s
                 | Some e \<Rightarrow> notifyEventListeners Alert
                              (stopEvent chargePointId state tr (''billing failed '' @ e)) s);
            s = stopStore D tr s;
            s = stopRelease D k state (t_ConnectorId tr) connector s
        in spawn (GoReportStop chargePointId (cp_LocationId (cps_model state))
                    (cps_EvseId state (t_ConnectorId tr)) tr (c_Status connector)) s)"

definition stopLate :: "string \<Rightarrow> ChargePointState \<Rightarrow> Transaction \<Rightarrow> StopTransactionRequest \<Rightarrow> 'db sys \<Rightarrow> 'db sys" where
  "stopLate chargePointId state tr request s =
     (if t_IsFinished tr \<and> isSystemClosedReason (t_Reason tr)
      then notifyEventListeners Alert
             ((stopEvent chargePointId state tr
                 (''late stop after the system closed the transaction as '' @ [CHR 34]
                  @ t_Reason tr @ [CHR 34]))
                \<lparr>ev_TransactionId := st_TransactionId request\<rparr>) s
      else s)"

text \<open>The first part: the raw request is saved, and listeners and observers are removed.\<close>

definition stopPrepare :: "'db Database \<Rightarrow> StopTransactionRequest \<Rightarrow> 'db sys \<Rightarrow> 'db sys" where
  "stopPrepare D request s =
     (let s = (if length (st_TransactionData request) > 0
               then dbDo D (SaveStopTransactionRequest request) s else s);
          s = triggerUnregister (st_TransactionId request) s
      in s\<lparr>lastMeter := mdel (st_TransactionId request) (lastMeter s)\<rparr>)"

text \<open>The part for a known charge point; \<open>meterValues\<close> were read at the very beginning.\<close>

definition stopFound ::
    "'db env \<Rightarrow> 'db Database \<Rightarrow> time \<Rightarrow> string \<Rightarrow> StopTransactionRequest \<Rightarrow> TransactionMeter list
     \<Rightarrow> string \<Rightarrow> ChargePointState \<Rightarrow> 'db sys \<Rightarrow> 'db sys go" where
  "stopFound env D now chargePointId request meterValues k state s =
     (let state = unregisterTransaction (st_TransactionId request) state;
          s = updateActiveTransactionsCounter (putCP k state s);
          (transaction, err) = GetTransaction D (st_TransactionId request) (db s)
      in if err \<noteq> None then Some s
         else do {
           tr \<leftarrow> transaction;
           let s = stopLate chargePointId state tr request s;
           let tr = (if meterValues \<noteq> [] then tr\<lparr>t_MeterValues := meterValues\<rparr> else tr);
           let (connector, state, s) = getConnector env k state (t_ConnectorId tr) s;
           let s = ObservePowerRate (cp_LocationId (cps_model state)) chargePointId
                     (Itoa (t_ConnectorId tr)) 0 s;
           Some (stopFinish D now chargePointId k state connector tr request s)
         })"

definition OnStopTransaction ::
    "'db env \<Rightarrow> time \<Rightarrow> string \<Rightarrow> StopTransactionRequest \<Rightarrow> 'db sys \<Rightarrow> 'db sys go" where
  "OnStopTransaction env now chargePointId request s =
     do {
       D \<leftarrow> database env;
       let meterValues = fst (ReadAllTransactionMeterValues D (st_TransactionId request) (db s));
       let s = stopPrepare D request s;
       case getChargePoint env chargePointId s of
         (None, s) \<Rightarrow> Some s
       | (Some (k, state), s) \<Rightarrow> stopFound env D now chargePointId request meterValues k state s
     }"

section \<open>The gauge of today's energy\<close>

fun observeGroups :: "ConsumedEnergy list \<Rightarrow> 'db sys \<Rightarrow> 'db sys" where
  "observeGroups [] s = s"
| "observeGroups (c # cs) s =
     observeGroups cs
       (ObserveTransactionCount (ce_Location c) (ce_ChargePointID c) (ce_Count c)
          (ObserveConsumedPower (ce_Location c) (ce_ChargePointID c) (of_int (ce_Consumed c)) s))"

fun zeroSeries :: "(string \<times> string) list \<Rightarrow> (string \<times> string) list \<Rightarrow> 'db sys \<Rightarrow> 'db sys" where
  "zeroSeries current [] s = s"
| "zeroSeries current (key # keys) s =
     zeroSeries current keys
       (if key \<notin> set current
        then ObserveTransactionCount (fst key) (snd key) 0
               (ObserveConsumedPower (fst key) (snd key) 0 s)
        else s)"

text \<open>The keys of the map \<^verbatim>\<open>current\<close>: each group once.\<close>

definition seriesOf :: "ConsumedEnergy list \<Rightarrow> (string \<times> string) list" where
  "seriesOf cs = remdups (map (\<lambda>c. (ce_Location c, ce_ChargePointID c)) cs)"

definition observeConsumedPower :: "'db env \<Rightarrow> 'db sys \<Rightarrow> 'db sys" where
  "observeConsumedPower env s =
     (case database env of None \<Rightarrow> s
      | Some D \<Rightarrow>
         (case GetTodayConsumedEnergy D (db s) of
            (_, Some _) \<Rightarrow> s
          | (consumed, None) \<Rightarrow>
              let current = seriesOf consumed;
                  s = observeGroups consumed s;
                  s = zeroSeries current (consumedSeries s) s
              in s\<lparr>consumedSeries := current\<rparr>))"

text \<open>The goroutine \<^verbatim>\<open>OnStopTransaction\<close> starts at its end.\<close>

definition reportStop ::
    "'db env \<Rightarrow> string \<Rightarrow> string \<Rightarrow> string \<Rightarrow> Transaction \<Rightarrow> string \<Rightarrow> 'db sys \<Rightarrow> 'db sys" where
  "reportStop env chargePointId location evse tr status s =
     (let consumedPower = wrap64 (t_MeterStop tr - t_MeterStart tr);
          consumedPower = (if consumedPower < 0 then 0 else consumedPower);
          s = CountConsumedPower location chargePointId (of_int consumedPower) s;
          s = observeConsumedPower env s
      in notifyEventListeners TransactionStop
           (zeroEvent\<lparr>ev_ChargePointId := chargePointId, ev_ConnectorId := t_ConnectorId tr,
              ev_LocationId := location, ev_Evse := evse, ev_Time := t_TimeStart tr,
              ev_Username := t_Username tr, ev_IdTag := t_IdTag tr, ev_Status := status,
              ev_TransactionId := t_Id tr, ev_Consumed := consumedPower,
              ev_Info := ''consumed '' @ IntToString consumedPower @ '' kW; ''
                         @ IntAsPrice (t_PaymentAmount tr) @ [CHR '' '', CHR 226, CHR 130, CHR 172]\<rparr>) s)"

section \<open>Abandoned transactions\<close>

text \<open>Durations in nanoseconds: twenty minutes and two minutes.\<close>

definition transactionStaleAfter :: int where "transactionStaleAfter = 20 * nanos_per_minute"
definition transactionReleaseGrace :: int where "transactionReleaseGrace = 2 * nanos_per_minute"

definition releaseConnector ::
    "'db env \<Rightarrow> 'db Database \<Rightarrow> string \<Rightarrow> ChargePointState \<Rightarrow> Transaction \<Rightarrow> 'db sys \<Rightarrow> 'db sys" where
  "releaseConnector env D k state tr s =
     (let (connector, state, s) = getConnector env k state (t_ConnectorId tr) s
      in if c_CurrentTransactionId connector \<noteq> t_Id tr then s
         else let connector = connector\<lparr>c_CurrentTransactionId := -1, c_CurrentPowerLimit := 0\<rparr>
              in dbDo D (UpdateConnector connector)
                   (putCP k (putConn (t_ConnectorId tr) connector state) s))"

text \<open>
  \<^verbatim>\<open>finishAbandonedTransaction\<close> in its three phases: the close of the document before the lock is
  taken, the release of the connector under the lock, and the cleanup after it.
\<close>

definition abandonedFigures :: "'db Database \<Rightarrow> Transaction \<Rightarrow> 'db \<Rightarrow> string option \<times> Transaction" where
  "abandonedFigures D tr d =
     (let tr = tr\<lparr>t_IsFinished := True\<rparr>
      in case fst (ReadTransactionMeterValue D (t_Id tr) d) of
           Some mv \<Rightarrow>
             let tr = tr\<lparr>t_MeterStop := m_Value mv, t_TimeStop := m_Time mv,
                         t_Reason := reasonStoppedBySystem\<rparr>;
                 mvs = fst (ReadAllTransactionMeterValues D (t_Id tr) d);
                 tr = (if mvs \<noteq> [] then tr\<lparr>t_MeterValues := mvs\<rparr> else tr)
             in OnTransactionFinished tr
         | None \<Rightarrow> (None, tr\<lparr>t_TimeStop := t_TimeStart tr, t_Reason := reasonAbortedBySystem\<rparr>))"

definition abandonedClose :: "'db Database \<Rightarrow> Transaction \<Rightarrow> 'db sys \<Rightarrow> Transaction \<times> bool \<times> 'db sys" where
  "abandonedClose D tr s =
     (let s = triggerUnregister (t_Id tr) s;
          metered = (fst (ReadTransactionMeterValue D (t_Id tr) (db s)) \<noteq> None);
          (err, tr) = abandonedFigures D tr (db s);
          s = (case err of None \<Rightarrow> s
               | Some e \<Rightarrow>
                  notifyEventListeners Alert
                    (zeroEvent\<lparr>ev_ChargePointId := t_ChargePointId tr, ev_ConnectorId := t_ConnectorId tr,
                       ev_TransactionId := t_Id tr, ev_Username := t_Username tr,
                       ev_IdTag := t_IdTag tr, ev_Info := ''billing failed '' @ e\<rparr>) s)
      in (tr, metered, dbDo D (UpdateTransaction tr) s))"

definition abandonedRelease ::
    "'db env \<Rightarrow> 'db Database \<Rightarrow> Transaction \<Rightarrow> bool \<Rightarrow> 'db sys \<Rightarrow> string \<times> 'db sys" where
  "abandonedRelease env D tr metered s =
     (case getChargePoint env (t_ChargePointId tr) s of
        (None, s) \<Rightarrow> ([], s)
      | (Some (k, state), s) \<Rightarrow>
          let state = unregisterTransaction (t_Id tr) state;
              s = putCP k state s;
              (connector, state, s) = getConnector env k state (t_ConnectorId tr) s;
              s = releaseConnector env D k state tr s;
              s = ObservePowerRate (cp_LocationId (cps_model state)) (t_ChargePointId tr)
                    (Itoa (t_ConnectorId tr)) 0 s;
              s = (if metered
                   then let consumed = wrap64 (t_MeterStop tr - t_MeterStart tr)
                        in CountConsumedPower (cp_LocationId (cps_model state)) (t_ChargePointId tr)
                             (of_int (if consumed < 0 then 0 else consumed)) s
                   else s)
          in (c_Status connector, s))"

definition abandonedCleanup :: "'db Database \<Rightarrow> time \<Rightarrow> Transaction \<Rightarrow> string \<Rightarrow> 'db sys \<Rightarrow> 'db sys" where
  "abandonedCleanup D now tr status s =
     (let s = dbDo D (DeleteTransactionMeterValues (t_Id tr)) s;
          info = ''transaction was '' @ t_Reason tr;
          info = (if isActiveChargingStatus status
                  then info @ '' while connector still reports '' @ status else info)
      in notifyEventListeners Alert
           (zeroEvent\<lparr>ev_ChargePointId := t_ChargePointId tr, ev_ConnectorId := t_ConnectorId tr,
              ev_TransactionId := t_Id tr, ev_Username := t_Username tr, ev_Status := status,
              ev_Time := getTime now, ev_Info := info\<rparr>) s)"

definition finishAbandonedTransaction ::
    "'db env \<Rightarrow> 'db Database \<Rightarrow> time \<Rightarrow> Transaction \<Rightarrow> 'db sys \<Rightarrow> 'db sys" where
  "finishAbandonedTransaction env D now tr s =
     (let (tr, metered, s) = abandonedClose D tr s;
          (status, s) = abandonedRelease env D tr metered s
      in abandonedCleanup D now tr status s)"

fun finishAll :: "'db env \<Rightarrow> 'db Database \<Rightarrow> time \<Rightarrow> SweptTransaction list \<Rightarrow> 'db sys \<Rightarrow> 'db sys" where
  "finishAll env D now [] s = s"
| "finishAll env D now (sw # sws) s =
     finishAll env D now sws (finishAbandonedTransaction env D now (sw_Transaction sw) s)"

definition checkAndFinishTransactions :: "'db env \<Rightarrow> time \<Rightarrow> 'db sys \<Rightarrow> 'db sys" where
  "checkAndFinishTransactions env now s =
     (case database env of None \<Rightarrow> s
      | Some D \<Rightarrow>
         let t = getTime now
         in (case GetUnfinishedTransactions D (t - transactionStaleAfter) (t - transactionReleaseGrace) (db s) of
               (_, Some _) \<Rightarrow> s
             | (transactions, None) \<Rightarrow>
                 observeConsumedPower env
                   (updateActiveTransactionsCounter (finishAll env D now transactions s))))"

text \<open>The loop of \<^verbatim>\<open>reconcileChargePointTransactions\<close>: a transaction still reporting is left open.\<close>

fun reconcileLoop :: "'db env \<Rightarrow> 'db Database \<Rightarrow> time \<Rightarrow> Transaction list \<Rightarrow> 'db sys \<Rightarrow> 'db sys" where
  "reconcileLoop env D now [] s = s"
| "reconcileLoop env D now (tr # trs) s =
     reconcileLoop env D now trs
       (if (case fst (ReadTransactionMeterValue D (t_Id tr) (db s)) of None \<Rightarrow> False
            | Some mv \<Rightarrow> m_Time mv > getTime now - transactionReleaseGrace)
        then s else finishAbandonedTransaction env D now tr s)"

definition reconcileChargePointTransactions :: "'db env \<Rightarrow> time \<Rightarrow> string \<Rightarrow> 'db sys \<Rightarrow> 'db sys" where
  "reconcileChargePointTransactions env now chargePointId s =
     (case database env of None \<Rightarrow> s
      | Some D \<Rightarrow>
         (case GetUnfinishedTransactionsForChargePoint D chargePointId (db s) of
            (_, Some _) \<Rightarrow> s
          | (transactions, None) \<Rightarrow>
              let s = reconcileLoop env D now transactions s
              in if length transactions > 0
                 then observeConsumedPower env (updateActiveTransactionsCounter s) else s))"

section \<open>Trace invariants of the operations\<close>

text \<open>The ids of the transactions added by a trace, in order.\<close>

fun addedIds :: "Effect list \<Rightarrow> int list" where
  "addedIds [] = []"
| "addedIds (Wrote (AddTransaction t) _ # es) = t_Id t # addedIds es"
| "addedIds (_ # es) = addedIds es"

fun countsUp :: "Effect \<Rightarrow> bool" where
  "countsUp (ConsumedPowerCounter _ _ x) = (0 \<le> x)"
| "countsUp _ = True"

text \<open>
  What every operation of the handler guarantees: the ids it gives to added transactions start at
  the counter, increase, and stay below the new counter; the energy counter only grows; the maps stay
  well-formed.
\<close>

definition advances :: "'db sys \<Rightarrow> 'db sys \<Rightarrow> bool" where
  "advances s s' \<longleftrightarrow> newTransactionId s \<le> newTransactionId s'
     \<and> (\<exists>es. out s' = out s @ es \<and> (\<forall>e \<in> set es. countsUp e) \<and> sorted_wrt (<) (addedIds es)
          \<and> (\<forall>i \<in> set (addedIds es). newTransactionId s \<le> i \<and> i < newTransactionId s'))
     \<and> (sys_ok s \<longrightarrow> sys_ok s')"

lemma addedIds_append [simp]: "addedIds (xs @ ys) = addedIds xs @ addedIds ys"
  by (induction xs rule: addedIds.induct) auto

lemma addedIds_calm: "\<forall>e \<in> set es. calm e \<Longrightarrow> addedIds es = []"
  by (induction es rule: addedIds.induct) auto

lemma calm_countsUp: "calm e \<Longrightarrow> countsUp e"
  by (cases e) auto

lemma quiet_advances: "quiet s s' \<Longrightarrow> advances s s'"
  unfolding quiet_def advances_def using addedIds_calm calm_countsUp by fastforce

lemma advances_refl [simp, intro]: "advances s s"
  by (simp add: quiet_advances)

lemma advances_trans [trans]:
  assumes "advances s t" "advances t u"
  shows "advances s u"
proof -
  obtain es fs where es: "out t = out s @ es" "\<forall>e \<in> set es. countsUp e" "sorted_wrt (<) (addedIds es)"
      "\<forall>i \<in> set (addedIds es). newTransactionId s \<le> i \<and> i < newTransactionId t"
    and fs: "out u = out t @ fs" "\<forall>e \<in> set fs. countsUp e" "sorted_wrt (<) (addedIds fs)"
      "\<forall>i \<in> set (addedIds fs). newTransactionId t \<le> i \<and> i < newTransactionId u"
    using assms unfolding advances_def by blast
  have le: "newTransactionId s \<le> newTransactionId t" "newTransactionId t \<le> newTransactionId u"
    using assms by (auto simp: advances_def)
  have "sorted_wrt (<) (addedIds (es @ fs))"
    using es(3,4) fs(3,4) by (force simp: sorted_wrt_append)
  moreover have "\<forall>i \<in> set (addedIds (es @ fs)). newTransactionId s \<le> i \<and> i < newTransactionId u"
    using es(4) fs(4) le by force
  ultimately show ?thesis
    unfolding advances_def using assms es fs le
    by (intro conjI exI [of _ "es @ fs"]) (auto simp: advances_def)
qed

lemma quiet_getUserTag: "getUserTag env now tag s = (u, s') \<Longrightarrow> quiet s s'"
  by (auto simp: getUserTag_def Let_def split: option.splits prod.splits
      intro: quiet_dbDo quiet_trans)

text \<open>The id a creation allocates, and the only transaction it adds.\<close>

lemma OnTransactionStart_id: "OnTransactionStart D c d a tr = (e, tr', a') \<Longrightarrow> t_Id tr' = t_Id tr"
  by (drule aff.start_keeps) simp

lemma startStore_trace:
  assumes "startStore env now cp u c tr s = (tr', s')"
  shows "t_Id tr' = t_Id tr" "newTransactionId s' = newTransactionId s"
    "chargePoints s' = chargePoints s" "trigger s' = trigger s" "lastMeter s' = lastMeter s"
    "spawned s' = spawned s"
    "\<exists>es. out s' = out s @ es \<and> (\<forall>e \<in> set es. countsUp e)
        \<and> addedIds es = (if database env = None then [] else [t_Id tr])"
  using assms
  by (auto simp: startStore_def Let_def dest!: OnTransactionStart_id
      split: option.splits prod.splits)

lemma newTransaction_id [simp]: "t_Id (newTransaction now cp r u i) = i"
  by (simp add: newTransaction_def)

lemma startCreate_trace:
  assumes "startCreate env now cp k st c r s = (i, c', st', s')" "cps_ok st"
  shows "i = newTransactionId s" "newTransactionId s' = newTransactionId s + 1" "advances s s'"
    "cps_ok st'"
proof -
  obtain u s1 where u: "getUserTag env now (sr_IdTag r) s = (u, s1)"
    by (cases "getUserTag env now (sr_IdTag r) s")
  have q: "quiet s s1" by (rule quiet_getUserTag [OF u])
  then have n: "newTransactionId s1 = newTransactionId s" by (simp add: quiet_def)
  let ?tr = "newTransaction now cp r u (newTransactionId s)"
  let ?c = "c\<lparr>c_CurrentTransactionId := newTransactionId s, c_CurrentPowerLimit := 0\<rparr>"
  let ?st = "registerTransaction (newTransactionId s) (putConn (sr_ConnectorId r) ?c st)"
  let ?s2 = "putCP k ?st (s1\<lparr>newTransactionId := newTransactionId s + 1\<rparr>)"
  let ?s3 = "updateActiveTransactionsCounter ?s2"
  obtain tr s4 where st: "startStore env now cp u ?c ?tr ?s3 = (tr, s4)"
    by (cases "startStore env now cp u ?c ?tr ?s3")
  note S = startStore_trace [OF st]
  have res: "i = t_Id tr" "st' = ?st" "newTransactionId s' = newTransactionId s4"
      "\<exists>es. out s' = out s4 @ es \<and> (\<forall>e \<in> set es. countsUp e) \<and> addedIds es = []"
      "sys_ok s' = sys_ok s4"
    using assms(1) by (auto simp: startCreate_def Let_def u n st sys_ok_def)
  show "i = newTransactionId s" using res S by simp
  show n': "newTransactionId s' = newTransactionId s + 1" using res S by simp
  show "cps_ok st'" using res assms(2) by auto
  obtain es1 where es1: "out s1 = out s @ es1" "\<forall>e \<in> set es1. countsUp e" "addedIds es1 = []"
    using q unfolding quiet_def using addedIds_calm calm_countsUp by blast
  obtain es2 where es2: "out ?s3 = out ?s2 @ es2" "\<forall>e \<in> set es2. countsUp e" "addedIds es2 = []"
    using traces_outD [OF traces_updateActive [of ?s2]] addedIds_calm calm_countsUp gauge_calm by meson
  obtain es3 where es3: "out s4 = out ?s3 @ es3" "\<forall>e \<in> set es3. countsUp e"
      "addedIds es3 = (if database env = None then [] else [newTransactionId s])"
    using S(7) by auto
  obtain es4 where es4: "out s' = out s4 @ es4" "\<forall>e \<in> set es4. countsUp e" "addedIds es4 = []"
    using res(4) by blast
  have "out s' = out s @ (es1 @ es2 @ es3 @ es4)" using es1 es2 es3 es4 by simp
  moreover have "addedIds (es1 @ es2 @ es3 @ es4) = (if database env = None then [] else [newTransactionId s])"
    using es1 es2 es3 es4 by simp
  moreover have "sys_ok s \<longrightarrow> sys_ok s'"
  proof
    assume "sys_ok s"
    with q have "sys_ok s1" by (simp add: quiet_def)
    then have "sys_ok ?s2" using assms(2) by (intro sys_ok_putCP) (auto simp: sys_ok_def)
    then have "sys_ok ?s3" using sys_ok_traces [OF traces_updateActive] by blast
    with S have "sys_ok s4" by (simp add: sys_ok_def)
    with res show "sys_ok s'" by simp
  qed
  ultimately show "advances s s'"
    unfolding advances_def using n' es1 es2 es3 es4
    by (intro conjI exI [of _ "es1 @ es2 @ es3 @ es4"]) (auto split: if_splits)
qed

lemma startBody_trace:
  assumes "startBody env now cp k st c r s = (a, i, c', st', s')" "cps_ok st"
  shows "advances s s'"
  using assms(1)
proof (cases "startCheck env c s")
  case StartRelease
  let ?c = "c\<lparr>c_CurrentTransactionId := -1, c_CurrentPowerLimit := 0\<rparr>"
  let ?st = "putConn (sr_ConnectorId r) ?c (unregisterTransaction (c_CurrentTransactionId c) st)"
  let ?s = "dbTry env (UpdateConnector ?c) (putCP k ?st s)"
  have "quiet s ?s"
    using assms(2) by (intro quiet_trans [OF quiet_putCP quiet_dbTry]) auto
  moreover obtain j c1 st1 s1 where cr: "startCreate env now cp k ?st ?c r ?s = (j, c1, st1, s1)"
    by (cases "startCreate env now cp k ?st ?c r ?s") auto
  moreover have "advances ?s s1" using startCreate_trace(3) [OF cr] assms(2) by simp
  ultimately show ?thesis
    using assms(1) StartRelease by (auto simp: startBody_def Let_def intro: advances_trans quiet_advances)
next
  case StartFree
  then show ?thesis
    using assms by (auto simp: startBody_def Let_def split: prod.splits dest: startCreate_trace)
qed (auto simp: startBody_def intro: quiet_advances traces_quiet)

lemma OnStartTransaction_advances:
  assumes "sys_ok s"
  shows "advances s (snd (OnStartTransaction env now cp r s))"
proof (cases "getChargePoint env cp s")
  case (Pair res s1)
  have q: "quiet s s1" by (rule quiet_getChargePoint [OF Pair])
  show ?thesis
  proof (cases res)
    case None
    then show ?thesis using q by (simp add: OnStartTransaction_def Pair quiet_advances)
  next
    case (Some kst)
    obtain k st where kst: "kst = (k, st)" by (cases kst)
    obtain c st2 s2 where g: "getConnector env k st (sr_ConnectorId r) s1 = (c, st2, s2)"
      by (cases "getConnector env k st (sr_ConnectorId r) s1") auto
    obtain a i c3 st3 s3 where b: "startBody env now cp k st2 c r s2 = (a, i, c3, st3, s3)"
      by (cases "startBody env now cp k st2 c r s2") auto
    have "sys_ok s1" using q assms by (simp add: quiet_def)
    then have "cps_ok st" using getChargePoint_stored Pair Some kst sys_ok_lookup by blast
    with quiet_getConnector [OF g] have "quiet s1 s2" "cps_ok st2" by auto
    with q startBody_trace [OF b] have "advances s s3"
      by (blast intro: quiet_advances advances_trans)
    then show ?thesis
      by (auto simp: OnStartTransaction_def Pair Some kst g b
          intro: advances_trans quiet_advances quiet_checkListen)
  qed
qed

text \<open>Stopping and sweeping add no transaction.\<close>

lemma quiet_stopStore: "quiet s (stopStore D tr s)"
proof -
  have "quiet s (snd (dbExec D (UpdateTransaction tr) s))"
    using quiet_dbDo [of "UpdateTransaction tr" s D] by (simp add: dbDo_def)
  then show ?thesis
    by (auto simp: stopStore_def Let_def split: prod.splits option.splits intro: quiet_trans quiet_dbDo)
qed

lemma quiet_stopRelease: "cps_ok st \<Longrightarrow> quiet s (stopRelease D k st i c s)"
  by (auto simp: stopRelease_def Let_def intro!: quiet_trans [OF quiet_putCP quiet_dbDo])

lemma quiet_notify [simp, intro]: "quiet s (notifyEventListeners ev m s)"
  by (rule traces_quiet) simp

lemma quiet_ObservePowerRate [simp, intro]: "quiet s (ObservePowerRate l cp c x s)"
  by (rule traces_quiet) simp

lemma quiet_updateActive [simp, intro]: "quiet s (updateActiveTransactionsCounter s)"
  by (rule traces_quiet) simp

lemma quiet_notifyErr [simp, intro]:
  "quiet s (case err of None \<Rightarrow> s | Some e \<Rightarrow> notifyEventListeners ev (m e) s)"
  by (cases err) auto

lemma quiet_stopFinish: "cps_ok st \<Longrightarrow> quiet s (stopFinish D now cp k st c tr r s)"
proof -
  assume ok: "cps_ok st"
  obtain err tr' where f: "OnTransactionFinished (stopFigures now r tr) = (err, tr')"
    by (cases "OnTransactionFinished (stopFigures now r tr)")
  let ?s1 = "case err of None \<Rightarrow> s | Some e \<Rightarrow> notifyEventListeners Alert
               (stopEvent cp st tr' (''billing failed '' @ e)) s"
  have "quiet s ?s1" by (rule quiet_notifyErr)
  also have "quiet ?s1 (stopStore D tr' ?s1)" by (rule quiet_stopStore)
  also have "quiet \<dots> (stopRelease D k st (t_ConnectorId tr') c (stopStore D tr' ?s1))"
    by (rule quiet_stopRelease [OF ok])
  finally show ?thesis
    using ok by (auto simp: stopFinish_def f intro: quiet_trans quiet_stopRelease)
qed

lemma quiet_stopLate [simp, intro]: "quiet s (stopLate cp st tr r s)"
  by (simp add: stopLate_def)

lemma quiet_lastMeter: "(sys_ok s \<Longrightarrow> gomap_ok m) \<Longrightarrow> quiet s (s\<lparr>lastMeter := m\<rparr>)"
  by (auto simp: quiet_def sys_ok_def)

lemma quiet_stopPrepare: "quiet s (stopPrepare D r s)"
proof -
  let ?s1 = "if length (st_TransactionData r) > 0 then dbDo D (SaveStopTransactionRequest r) s else s"
  have "quiet s ?s1" by (auto intro: quiet_dbDo)
  also have "quiet ?s1 (triggerUnregister (st_TransactionId r) ?s1)" by simp
  also have "quiet \<dots> (stopPrepare D r s)"
    unfolding stopPrepare_def Let_def by (rule quiet_lastMeter) (auto simp: sys_ok_def)
  finally show ?thesis .
qed

lemma quiet_stopFound:
  assumes st: "cps_ok st" and run: "stopFound env D now cp r mvs k st s = Some s'"
  shows "quiet s s'"
proof -
  let ?st = "unregisterTransaction (st_TransactionId r) st"
  let ?s1 = "updateActiveTransactionsCounter (putCP k ?st s)"
  obtain trn err where t: "GetTransaction D (st_TransactionId r) (db ?s1) = (trn, err)"
    by (cases "GetTransaction D (st_TransactionId r) (db ?s1)")
  have "quiet s (putCP k ?st s)" using st by (intro quiet_putCP) simp
  then have q1: "quiet s ?s1" by (blast intro: quiet_trans)
  show ?thesis
  proof (cases "err = None \<and> trn \<noteq> None")
    case False
    with run q1 t show ?thesis by (auto simp: stopFound_def Let_def split: if_splits)
  next
    case True
    then obtain tr where tr: "trn = Some tr" and e: "err = None" by auto
    let ?tr = "if mvs \<noteq> [] then tr\<lparr>t_MeterValues := mvs\<rparr> else tr"
    let ?s2 = "stopLate cp ?st tr r ?s1"
    obtain c st3 s3 where c: "getConnector env k ?st (t_ConnectorId ?tr) ?s2 = (c, st3, s3)"
      by (cases "getConnector env k ?st (t_ConnectorId ?tr) ?s2") auto
    have q3: "quiet ?s2 s3" "cps_ok st3" using quiet_getConnector [OF c] st by auto
    have "s' = stopFinish D now cp k st3 c ?tr r
               (ObservePowerRate (cp_LocationId (cps_model st3)) cp (Itoa (t_ConnectorId ?tr)) 0 s3)"
      using run t tr e c by (simp add: stopFound_def Let_def split: if_splits)
    then have "quiet s3 s'" using q3(2) quiet_stopFinish quiet_trans quiet_ObservePowerRate by blast
    with q1 q3(1) show ?thesis by (blast intro: quiet_trans)
  qed
qed

lemma OnStopTransaction_quiet:
  assumes "sys_ok s" "OnStopTransaction env now cp r s = Some s'"
  shows "quiet s s'"
proof -
  obtain D where D: "database env = Some D"
    using assms(2) by (cases "database env") (auto simp: OnStopTransaction_def)
  obtain res s1 where g: "getChargePoint env cp (stopPrepare D r s) = (res, s1)"
    by (cases "getChargePoint env cp (stopPrepare D r s)")
  have q: "quiet s s1" using quiet_getChargePoint [OF g] quiet_stopPrepare quiet_trans by blast
  have "quiet s1 s'"
  proof (cases res)
    case None
    with assms(2) show ?thesis by (simp add: OnStopTransaction_def D Let_def g)
  next
    case (Some kst)
    obtain k st where kst: "kst = (k, st)" by (cases kst)
    have "sys_ok s1" using q assms(1) by (simp add: quiet_def)
    then have "cps_ok st" using getChargePoint_stored g Some kst sys_ok_lookup by blast
    with assms(2) show ?thesis
      by (auto simp: OnStopTransaction_def D Let_def g Some kst intro: quiet_stopFound)
  qed
  with q show ?thesis by (rule quiet_trans)
qed

lemma traces_group:
  "traces gauge s (ObserveTransactionCount l cp n (ObserveConsumedPower l cp x s))"
  by (rule traces_trans [OF traces_gauges(5) traces_gauges(4)])

lemma traces_observeGroups: "traces gauge s (observeGroups cs s)"
  by (induction cs s rule: observeGroups.induct) (auto intro: traces_trans [OF traces_group])

lemma traces_zeroSeries: "traces gauge s (zeroSeries current ks s)"
  by (induction current ks s rule: zeroSeries.induct) (auto intro: traces_trans [OF traces_group])

lemma quiet_consumedSeries: "quiet s (s\<lparr>consumedSeries := x\<rparr>)"
  by (auto simp: quiet_def sys_ok_def)

lemma quiet_observeConsumedPower [simp, intro]: "quiet s (observeConsumedPower env s)"
  by (auto simp: observeConsumedPower_def Let_def split: option.split prod.split
      intro: quiet_trans [OF traces_quiet [OF traces_trans [OF traces_observeGroups traces_zeroSeries]]
               quiet_consumedSeries])

lemma quiet_CountConsumedPower: "0 \<le> x \<Longrightarrow> quiet s (CountConsumedPower l cp x s)"
  by (rule traces_quiet) simp

lemma quiet_reportStop [simp, intro]: "quiet s (reportStop env cp l e tr st s)"
  unfolding reportStop_def Let_def
  by (rule quiet_trans [OF quiet_trans [OF quiet_CountConsumedPower quiet_observeConsumedPower] quiet_notify])
    simp

lemma quiet_releaseConnector:
  assumes "cps_ok st"
  shows "quiet s (releaseConnector env D k st tr s)"
proof -
  obtain c st1 s1 where g: "getConnector env k st (t_ConnectorId tr) s = (c, st1, s1)"
    by (cases "getConnector env k st (t_ConnectorId tr) s") auto
  from quiet_getConnector [OF g assms] have "quiet s s1" "cps_ok st1" by auto
  then show ?thesis
    by (auto simp: releaseConnector_def g Let_def
        intro!: quiet_trans [OF _ quiet_trans [OF quiet_putCP quiet_dbDo]])
qed

lemma quiet_abandonedClose:
  assumes "abandonedClose D tr s = (tr', m, s')"
  shows "quiet s s'"
proof -
  let ?s1 = "triggerUnregister (t_Id tr) s"
  obtain err tr1 where f: "abandonedFigures D tr (db ?s1) = (err, tr1)"
    by (cases "abandonedFigures D tr (db ?s1)")
  have "quiet s ?s1" by simp
  also have "quiet ?s1 s'"
    using assms f unfolding abandonedClose_def Let_def
    by (auto intro!: quiet_trans [OF quiet_notifyErr quiet_dbDo])
  finally show ?thesis .
qed

lemma quiet_abandonedRelease:
  assumes "sys_ok s" "abandonedRelease env D tr m s = (status, s')"
  shows "quiet s s'"
proof (cases "getChargePoint env (t_ChargePointId tr) s")
  case (Pair res s1)
  have q1: "quiet s s1" by (rule quiet_getChargePoint [OF Pair])
  show ?thesis
  proof (cases res)
    case None
    with assms q1 show ?thesis by (simp add: abandonedRelease_def Pair)
  next
    case (Some kst)
    obtain k st where kst: "kst = (k, st)" by (cases kst)
    let ?st = "unregisterTransaction (t_Id tr) st"
    have "sys_ok s1" using q1 assms(1) by (simp add: quiet_def)
    then have st: "cps_ok ?st" using getChargePoint_stored Pair Some kst sys_ok_lookup by blast
    obtain c st2 s2 where g: "getConnector env k ?st (t_ConnectorId tr) (putCP k ?st s1) = (c, st2, s2)"
      by (cases "getConnector env k ?st (t_ConnectorId tr) (putCP k ?st s1)") auto
    have "quiet s1 (putCP k ?st s1)" by (rule quiet_putCP) (rule st)
    with q1 quiet_getConnector [OF g st] have q2: "quiet s s2" "cps_ok st2" by (auto intro: quiet_trans)
    let ?s3 = "ObservePowerRate (cp_LocationId (cps_model st2)) (t_ChargePointId tr)
                 (Itoa (t_ConnectorId tr)) 0 (releaseConnector env D k st2 tr s2)"
    have q3: "quiet s ?s3"
      by (rule quiet_trans [OF quiet_trans [OF q2(1) quiet_releaseConnector [OF q2(2)]]
            quiet_ObservePowerRate])
    have "quiet ?s3 s'"
      using assms(2)
      by (auto simp: abandonedRelease_def Pair Some kst g Let_def intro!: quiet_CountConsumedPower)
    with q3 show ?thesis by (rule quiet_trans)
  qed
qed

lemma quiet_finishAbandoned: "sys_ok s \<Longrightarrow> quiet s (finishAbandonedTransaction env D now tr s)"
proof -
  assume ok: "sys_ok s"
  obtain tr1 m s1 where c: "abandonedClose D tr s = (tr1, m, s1)" by (cases "abandonedClose D tr s") auto
  obtain status s2 where r: "abandonedRelease env D tr1 m s1 = (status, s2)"
    by (cases "abandonedRelease env D tr1 m s1")
  have q1: "quiet s s1" by (rule quiet_abandonedClose [OF c])
  with ok have "sys_ok s1" by (simp add: quiet_def)
  then have q2: "quiet s1 s2" using quiet_abandonedRelease r by blast
  have "quiet s2 (abandonedCleanup D now tr1 status s2)"
    unfolding abandonedCleanup_def Let_def by (rule quiet_trans [OF quiet_dbDo quiet_notify]) simp
  with q1 q2 show ?thesis
    by (auto simp: finishAbandonedTransaction_def c r intro: quiet_trans)
qed

lemma quiet_ok: "quiet s s' \<Longrightarrow> sys_ok s \<Longrightarrow> sys_ok s'"
  by (simp add: quiet_def)

lemma quiet_finishAll: "sys_ok s \<Longrightarrow> quiet s (finishAll env D now sws s)"
proof (induction env D now sws s rule: finishAll.induct)
  case (2 env D now sw sws s)
  have "quiet s (finishAbandonedTransaction env D now (sw_Transaction sw) s)"
    by (rule quiet_finishAbandoned [OF 2(2)])
  with 2 show ?case by (auto intro: quiet_trans quiet_ok)
qed simp

lemma quiet_checkAndFinish: "sys_ok s \<Longrightarrow> quiet s (checkAndFinishTransactions env now s)"
  by (auto simp: checkAndFinishTransactions_def Let_def split: option.split prod.split
      intro!: quiet_trans [OF _ quiet_observeConsumedPower] quiet_trans [OF _ quiet_updateActive]
        quiet_finishAll)

lemma quiet_reconcileLoop: "sys_ok s \<Longrightarrow> quiet s (reconcileLoop env D now trs s)"
proof (induction env D now trs s rule: reconcileLoop.induct)
  case (2 env D now tr trs s)
  let ?s = "if (case fst (ReadTransactionMeterValue D (t_Id tr) (db s)) of None \<Rightarrow> False
            | Some mv \<Rightarrow> m_Time mv > getTime now - transactionReleaseGrace)
        then s else finishAbandonedTransaction env D now tr s"
  have "quiet s ?s" using quiet_finishAbandoned [OF 2(2)] by auto
  moreover from this have "quiet ?s (reconcileLoop env D now trs ?s)"
    using 2 quiet_ok by blast
  ultimately show ?case unfolding reconcileLoop.simps by (rule quiet_trans)
qed simp

lemma quiet_reconcile: "sys_ok s \<Longrightarrow> quiet s (reconcileChargePointTransactions env now cp s)"
  by (auto simp: reconcileChargePointTransactions_def Let_def split: option.split prod.split
      intro: quiet_reconcileLoop
      intro!: quiet_trans [OF quiet_trans [OF _ quiet_updateActive] quiet_observeConsumedPower])

section \<open>What a start does\<close>

definition connectorAt :: "'db sys \<Rightarrow> string \<Rightarrow> int \<Rightarrow> Connector option" where
  "connectorAt s k i = (case map_of (chargePoints s) k of None \<Rightarrow> None
     | Some st \<Rightarrow> map_of (cps_connectors st) i)"

definition registered :: "'db sys \<Rightarrow> string \<Rightarrow> int \<Rightarrow> bool" where
  "registered s k t \<longleftrightarrow> (case map_of (chargePoints s) k of None \<Rightarrow> False
     | Some st \<Rightarrow> map_of (cps_transactions st) t \<noteq> None)"

lemma connectorAt_cong: "chargePoints s' = chargePoints s \<Longrightarrow> connectorAt s' = connectorAt s"
  by (simp add: connectorAt_def fun_eq_iff)

lemma registered_cong: "chargePoints s' = chargePoints s \<Longrightarrow> registered s' = registered s"
  by (simp add: registered_def fun_eq_iff)

lemma connectorAt_Some:
  "connectorAt s k i = Some c \<longleftrightarrow> (\<exists>st. map_of (chargePoints s) k = Some st \<and> map_of (cps_connectors st) i = Some c)"
  by (auto simp: connectorAt_def split: option.splits)

lemma getUserTag_rest:
  assumes "getUserTag env now tag s = (u, s')"
  shows "chargePoints s' = chargePoints s" "newTransactionId s' = newTransactionId s"
    "trigger s' = trigger s" "lastMeter s' = lastMeter s"
  using assms by (auto simp: getUserTag_def Let_def split: option.splits prod.splits)

lemma startCreate_result:
  assumes "startCreate env now cp k st c r s = (i, c', st', s')"
  shows "c' = c\<lparr>c_CurrentTransactionId := newTransactionId s, c_CurrentPowerLimit := 0\<rparr>"
    "st' = registerTransaction (newTransactionId s) (putConn (sr_ConnectorId r) c' st)"
    "chargePoints s' = mput k st' (chargePoints s)" "trigger s' = trigger s" "i = newTransactionId s"
    "newTransactionId s' = newTransactionId s + 1"
  using assms
  by (auto simp: startCreate_def Let_def startStore_trace getUserTag_rest split: prod.splits)

lemma startCreate_facts:
  assumes "startCreate env now cp k st c r s = (i, c', st', s')"
  shows "c' = c\<lparr>c_CurrentTransactionId := newTransactionId s, c_CurrentPowerLimit := 0\<rparr>
    \<and> i = newTransactionId s \<and> newTransactionId s' = newTransactionId s + 1
    \<and> map_of (cps_connectors st') (sr_ConnectorId r) = Some c'
    \<and> map_of (cps_transactions st') (newTransactionId s) = Some (newTransactionId s)
    \<and> map_of (chargePoints s') k = Some st'"
  using startCreate_result [OF assms] by simp

text \<open>With a charge point in memory, the deferred call only touches the trigger.\<close>

lemma checkListen_known:
  assumes "map_of (chargePoints s) (c_ChargePointId c) = Some st"
  shows "chargePoints (checkListenTransaction env k i c on s) = chargePoints s"
    "newTransactionId (checkListenTransaction env k i c on s) = newTransactionId s"
    "out (checkListenTransaction env k i c on s) = out s"
    "db (checkListenTransaction env k i c on s) = db s"
  using assms by (simp_all add: checkListenTransaction_def)

definition connector_known :: "'db sys \<Rightarrow> string \<Rightarrow> int \<Rightarrow> Connector \<Rightarrow> bool" where
  "connector_known s cp i c \<longleftrightarrow> connectorAt s cp i = Some c \<and> c_ChargePointId c = cp"

lemma startBody_create:
  assumes "startBody env now cp k st c r s = (a, i, c', st', s')"
    and "startCheck env c s = StartFree \<or> startCheck env c s = StartRelease"
  shows "a = AuthorizationStatusAccepted" "i = newTransactionId s"
    "c' = c\<lparr>c_CurrentTransactionId := newTransactionId s, c_CurrentPowerLimit := 0\<rparr>"
    "map_of (cps_connectors st') (sr_ConnectorId r) = Some c'"
    "map_of (cps_transactions st') (newTransactionId s) \<noteq> None"
    "map_of (chargePoints s') k = Some st'" "newTransactionId s' = newTransactionId s + 1"
  using assms
  by (auto simp: startBody_def Let_def split: prod.splits dest!: startCreate_facts)

text \<open>
  When the held transaction is open, here or elsewhere, or cannot be read, a start changes neither the
  charge points nor the id counter.
\<close>

lemma startBody_refuse:
  assumes "startBody env now cp k st c r s = (a, i, c', st', s')"
    and "startCheck env c s \<noteq> StartFree" "startCheck env c s \<noteq> StartRelease"
  shows "c' = c" "st' = st" "chargePoints s' = chargePoints s" "newTransactionId s' = newTransactionId s"
    "db s' = db s" "i = (if startCheck env c s = StartRefused then 0 else c_CurrentTransactionId c)"
    "a = (if startCheck env c s = StartRefused then AuthorizationStatusBlocked
          else if startCheck env c s = StartRepeated then AuthorizationStatusAccepted
          else AuthorizationStatusConcurrentTx)"
  using assms by (auto simp: startBody_def split: StartCheck.splits)

text \<open>The handler on a connector in memory is its body and the deferred call.\<close>

lemma OnStartTransaction_known:
  assumes "connector_known s cp (sr_ConnectorId r) c"
  obtains st a i c' st' s' where "map_of (chargePoints s) cp = Some st"
    "map_of (cps_connectors st) (sr_ConnectorId r) = Some c"
    "startBody env now cp cp st c r s = (a, i, c', st', s')"
    "OnStartTransaction env now cp r s = ((a, i),
       checkListenTransaction env cp (sr_ConnectorId r) c' (cp_IsOnline (cps_model st')) s')"
proof -
  obtain st where st: "map_of (chargePoints s) cp = Some st"
      "map_of (cps_connectors st) (sr_ConnectorId r) = Some c"
    using assms by (auto simp: connector_known_def connectorAt_Some)
  obtain a i c' st' s' where b: "startBody env now cp cp st c r s = (a, i, c', st', s')"
    by (cases "startBody env now cp cp st c r s") auto
  show thesis
    by (rule that [OF st b]) (simp add: OnStartTransaction_def st b)
qed

lemma start_creates:
  assumes k: "connector_known s cp (sr_ConnectorId r) c"
    and f: "startCheck env c s = StartFree \<or> startCheck env c s = StartRelease"
    and run: "OnStartTransaction env now cp r s = (resp, s')"
  shows "resp = (AuthorizationStatusAccepted, newTransactionId s)"
    "newTransactionId s' = newTransactionId s + 1"
    "connectorAt s' cp (sr_ConnectorId r)
       = Some (c\<lparr>c_CurrentTransactionId := newTransactionId s, c_CurrentPowerLimit := 0\<rparr>)"
    "registered s' cp (newTransactionId s)"
proof -
  obtain st a i c' st' s1 where b: "startBody env now cp cp st c r s = (a, i, c', st', s1)"
    and h: "OnStartTransaction env now cp r s = ((a, i),
       checkListenTransaction env cp (sr_ConnectorId r) c' (cp_IsOnline (cps_model st')) s1)"
    by (rule OnStartTransaction_known [OF k])
  note B = startBody_create [OF b f]
  have "map_of (chargePoints s1) (c_ChargePointId c') = Some st'"
    using B k by (simp add: connector_known_def)
  note L = checkListen_known [OF this]
  show "resp = (AuthorizationStatusAccepted, newTransactionId s)"
    "newTransactionId s' = newTransactionId s + 1"
    using run h B L by auto
  show "connectorAt s' cp (sr_ConnectorId r)
       = Some (c\<lparr>c_CurrentTransactionId := newTransactionId s, c_CurrentPowerLimit := 0\<rparr>)"
    "registered s' cp (newTransactionId s)"
    using run h B L by (auto simp: connectorAt_def registered_def)
qed

lemma start_refuses:
  assumes k: "connector_known s cp (sr_ConnectorId r) c"
    and f: "startCheck env c s \<noteq> StartFree" "startCheck env c s \<noteq> StartRelease"
    and run: "OnStartTransaction env now cp r s = (resp, s')"
  shows "chargePoints s' = chargePoints s" "newTransactionId s' = newTransactionId s" "db s' = db s"
    "resp = (case startCheck env c s of StartRefused \<Rightarrow> (AuthorizationStatusBlocked, 0)
       | StartRepeated \<Rightarrow> (AuthorizationStatusAccepted, c_CurrentTransactionId c)
       | _ \<Rightarrow> (AuthorizationStatusConcurrentTx, c_CurrentTransactionId c))"
proof -
  obtain st a i c' st' s1 where st: "map_of (chargePoints s) cp = Some st"
    and b: "startBody env now cp cp st c r s = (a, i, c', st', s1)"
    and h: "OnStartTransaction env now cp r s = ((a, i),
       checkListenTransaction env cp (sr_ConnectorId r) c' (cp_IsOnline (cps_model st')) s1)"
    by (rule OnStartTransaction_known [OF k])
  note B = startBody_refuse [OF b f]
  have "map_of (chargePoints s1) (c_ChargePointId c') = Some st"
    using B k st by (simp add: connector_known_def)
  note L = checkListen_known [OF this]
  show "chargePoints s' = chargePoints s" "newTransactionId s' = newTransactionId s" "db s' = db s"
    using run h B L by auto
  show "resp = (case startCheck env c s of StartRefused \<Rightarrow> (AuthorizationStatusBlocked, 0)
       | StartRepeated \<Rightarrow> (AuthorizationStatusAccepted, c_CurrentTransactionId c)
       | _ \<Rightarrow> (AuthorizationStatusConcurrentTx, c_CurrentTransactionId c))"
    using run h B(6,7) f by (auto split: StartCheck.splits)
qed

section \<open>What a stop does\<close>

text \<open>Reading the begin and the end of the transaction from the request keeps its identity.\<close>

lemma applySamples_keeps:
  "t_Id (applySamples now d vs tr) = t_Id tr" "t_IsFinished (applySamples now d vs tr) = t_IsFinished tr"
  "t_ConnectorId (applySamples now d vs tr) = t_ConnectorId tr" "t_Plan (applySamples now d vs tr) = t_Plan tr"
  "t_Reason (applySamples now d vs tr) = t_Reason tr"
  by (induction now d vs tr rule: applySamples.induct) (simp_all add: Let_def)

lemma applyTransactionData_keeps:
  "t_Id (applyTransactionData now ds tr) = t_Id tr"
  "t_IsFinished (applyTransactionData now ds tr) = t_IsFinished tr"
  "t_ConnectorId (applyTransactionData now ds tr) = t_ConnectorId tr"
  "t_Plan (applyTransactionData now ds tr) = t_Plan tr"
  "t_Reason (applyTransactionData now ds tr) = t_Reason tr"
  by (induction now ds tr rule: applyTransactionData.induct) (simp_all add: applySamples_keeps)

lemma stopFigures_keeps [simp]:
  "t_Id (stopFigures now r tr) = t_Id tr" "t_IsFinished (stopFigures now r tr)"
  "t_ConnectorId (stopFigures now r tr) = t_ConnectorId tr" "t_Plan (stopFigures now r tr) = t_Plan tr"
  "t_Reason (stopFigures now r tr) = st_Reason r"
  by (simp_all add: stopFigures_def applyTransactionData_keeps)

text \<open>The transaction as the stop stores it.\<close>

definition stoppedTransaction :: "time \<Rightarrow> StopTransactionRequest \<Rightarrow> Transaction \<Rightarrow> Transaction" where
  "stoppedTransaction now r tr = snd (OnTransactionFinished (stopFigures now r tr))"

lemma stoppedTransaction_keeps [simp]:
  "t_Id (stoppedTransaction now r tr) = t_Id tr" "t_IsFinished (stoppedTransaction now r tr)"
  "t_ConnectorId (stoppedTransaction now r tr) = t_ConnectorId tr"
  "t_Reason (stoppedTransaction now r tr) = st_Reason r"
  using aff.finish_keeps [OF prod.collapse [symmetric], of "stopFigures now r tr"]
  by (simp_all add: stoppedTransaction_def)

definition released :: "Connector \<Rightarrow> Connector" where
  "released c = c\<lparr>c_CurrentTransactionId := -1, c_CurrentPowerLimit := 0\<rparr>"

lemma released_simps [simp]: "c_CurrentTransactionId (released c) = -1" "c_CurrentPowerLimit (released c) = 0"
  "c_Id (released c) = c_Id c" "c_ChargePointId (released c) = c_ChargePointId c"
  by (simp_all add: released_def)

text \<open>
  The writes of the normal branch: the finished transaction, then the deletion of the samples if that
  write succeeded, then the connector.
\<close>

lemma stopFinish_writes:
  assumes "\<not> (t_IsFinished tr \<and> t_MeterStop tr \<ge> st_MeterStop r)"
  shows "\<exists>e1 e2 e3. out (stopFinish D now cp k st c tr r s) = out s
     @ [Wrote (UpdateTransaction (stoppedTransaction now r tr)) e1]
     @ (if e1 = None then [Wrote (DeleteTransactionMeterValues (t_Id tr)) e2] else [])
     @ [Wrote (UpdateConnector (released c)) e3]"
    and "chargePoints (stopFinish D now cp k st c tr r s)
      = mput k (putConn (t_ConnectorId tr) (released c) st) (chargePoints s)"
proof -
  obtain err tr' where f: "OnTransactionFinished (stopFigures now r tr) = (err, tr')"
    by (cases "OnTransactionFinished (stopFigures now r tr)")
  have err: "err = None" using OnTransactionFinished_no_error [of "stopFigures now r tr"] f by simp
  have tr': "tr' = stoppedTransaction now r tr" by (simp add: stoppedTransaction_def f)
  have keep: "t_Id tr' = t_Id tr" "t_ConnectorId tr' = t_ConnectorId tr" by (simp_all add: tr')
  note defs = stopFinish_def f stopStore_def stopRelease_def dbExec_def released_def Let_def
  show "\<exists>e1 e2 e3. out (stopFinish D now cp k st c tr r s) = out s
     @ [Wrote (UpdateTransaction (stoppedTransaction now r tr)) e1]
     @ (if e1 = None then [Wrote (DeleteTransactionMeterValues (t_Id tr)) e2] else [])
     @ [Wrote (UpdateConnector (released c)) e3]"
    using assms by (auto simp: defs err keep tr' [symmetric] split: prod.split option.split)
  show "chargePoints (stopFinish D now cp k st c tr r s)
      = mput k (putConn (t_ConnectorId tr) (released c) st) (chargePoints s)"
    using assms by (auto simp: defs err keep split: prod.split option.split)
qed

lemma stopFinish_repeated:
  assumes "t_IsFinished tr" "t_MeterStop tr \<ge> st_MeterStop r"
  shows "chargePoints (stopFinish D now cp k st c tr r s)
      = mput k (putConn (t_ConnectorId tr) (released c) st) (chargePoints s)"
    and "\<exists>e m. out (stopFinish D now cp k st c tr r s) = out s @ [Wrote (UpdateConnector (released c)) e, Notified Alert m]"
  using assms by (auto simp: stopFinish_def stopRelease_def released_def Let_def)

lemma stopFinish_chargePoints:
  "chargePoints (stopFinish D now cp k st c tr r s)
   = mput k (putConn (t_ConnectorId tr) (released c) st) (chargePoints s)"
  by (cases "t_IsFinished tr \<and> t_MeterStop tr \<ge> st_MeterStop r")
    (simp_all add: stopFinish_repeated(1) stopFinish_writes(2))

lemma stopFinish_trigger: "trigger (stopFinish D now cp k st c tr r s) = trigger s"
  by (auto simp: stopFinish_def stopRelease_def stopStore_def dbExec_def Let_def split: prod.split option.split)

lemma stopPrepare_simps [simp]:
  "chargePoints (stopPrepare D r s) = chargePoints s"
  "trigger (stopPrepare D r s) = mdel (st_TransactionId r) (trigger s)"
  "lastMeter (stopPrepare D r s) = mdel (st_TransactionId r) (lastMeter s)"
  by (simp_all add: stopPrepare_def Let_def)

lemma stopPrepare_out:
  "\<exists>es. out (stopPrepare D r s) = out s @ es \<and> (\<forall>e \<in> set es. \<exists>x. e = Wrote (SaveStopTransactionRequest r) x)"
  by (auto simp: stopPrepare_def Let_def)

lemma traces_stopLate [simp, intro]: "traces gauge s (stopLate cp st tr r s)"
  by (simp add: stopLate_def)

text \<open>An effect before the decisive writes of a stop: the saved request, gauges and alerts.\<close>

definition preliminary :: "StopTransactionRequest \<Rightarrow> Effect \<Rightarrow> bool" where
  "preliminary r e \<longleftrightarrow> gauge e \<or> (\<exists>x. e = Wrote (SaveStopTransactionRequest r) x)"

text \<open>The handler on a connector in memory and a transaction in the database.\<close>

lemma OnStopTransaction_known:
  assumes D: "database env = Some D"
    and mem: "connectorAt s cp (t_ConnectorId tr) = Some c"
    and get: "GetTransaction D (st_TransactionId r) (db (stopPrepare D r s)) = (Some tr, None)"
  obtains st tr1 s1 where "OnStopTransaction env now cp r s = Some (stopFinish D now cp cp st c tr1 r s1)"
    "\<exists>mvs. tr1 = tr\<lparr>t_MeterValues := mvs\<rparr>"
    "map_of (cps_transactions st) (st_TransactionId r) = None"
    "map_of (cps_connectors st) (t_ConnectorId tr) = Some c"
    "chargePoints s1 = mput cp st (chargePoints s)" "trigger s1 = mdel (st_TransactionId r) (trigger s)"
    "\<exists>es. out s1 = out s @ es \<and> (\<forall>e \<in> set es. preliminary r e)"
    "db s1 = db (stopPrepare D r s)"
proof -
  obtain st0 where st0: "map_of (chargePoints s) cp = Some st0"
      "map_of (cps_connectors st0) (t_ConnectorId tr) = Some c"
    using mem by (auto simp: connectorAt_Some)
  let ?mv = "fst (ReadAllTransactionMeterValues D (st_TransactionId r) (db s))"
  let ?tr = "if ?mv \<noteq> [] then tr\<lparr>t_MeterValues := ?mv\<rparr> else tr"
  let ?st = "unregisterTransaction (st_TransactionId r) st0"
  let ?s1 = "updateActiveTransactionsCounter (putCP cp ?st (stopPrepare D r s))"
  let ?s2 = "stopLate cp ?st tr r ?s1"
  let ?s3 = "ObservePowerRate (cp_LocationId (cps_model ?st)) cp (Itoa (t_ConnectorId tr)) 0 ?s2"
  have "traces gauge (putCP cp ?st (stopPrepare D r s)) ?s3"
    by (meson traces_trans traces_updateActive traces_stopLate traces_gauges(6))
  note T = traces_simps [OF this] traces_outD [OF this]
  have run: "OnStopTransaction env now cp r s = Some (stopFinish D now cp cp ?st c ?tr r ?s3)"
    using st0 get by (simp add: OnStopTransaction_def D stopFound_def Let_def)
  obtain es where "out (stopPrepare D r s) = out s @ es" "\<forall>e \<in> set es. preliminary r e"
    using stopPrepare_out [of D r s] by (auto simp: preliminary_def)
  with T(9) have "\<exists>es. out ?s3 = out s @ es \<and> (\<forall>e \<in> set es. preliminary r e)"
    by (auto simp: preliminary_def)
  with run T(1,4,8) st0 show thesis
    by (intro that [of ?st ?tr ?s3]) (auto intro: exI [of _ "t_MeterValues tr"])
qed

lemma stop_open:
  assumes D: "database env = Some D"
    and mem: "connectorAt s cp (t_ConnectorId tr) = Some c"
    and get: "GetTransaction D (st_TransactionId r) (db (stopPrepare D r s)) = (Some tr, None)"
    and opn: "\<not> (t_IsFinished tr \<and> t_MeterStop tr \<ge> st_MeterStop r)"
  shows "\<exists>s' tr' pre e1 mid e3. OnStopTransaction env now cp r s = Some s'
     \<and> out s' = out s @ pre @ Wrote (UpdateTransaction tr') e1 # mid @ [Wrote (UpdateConnector (released c)) e3]
     \<and> (\<forall>e \<in> set pre. preliminary r e)
     \<and> (\<forall>e \<in> set mid. e1 = None \<and> (\<exists>x. e = Wrote (DeleteTransactionMeterValues (t_Id tr)) x))
     \<and> t_Id tr' = t_Id tr \<and> t_IsFinished tr'
     \<and> connectorAt s' cp (t_ConnectorId tr) = Some (released c)
     \<and> \<not> registered s' cp (st_TransactionId r) \<and> map_of (trigger s') (st_TransactionId r) = None"
proof -
  obtain st tr1 s1 where run: "OnStopTransaction env now cp r s = Some (stopFinish D now cp cp st c tr1 r s1)"
    and mvs: "\<exists>mvs. tr1 = tr\<lparr>t_MeterValues := mvs\<rparr>"
    and st: "map_of (cps_transactions st) (st_TransactionId r) = None"
      "map_of (cps_connectors st) (t_ConnectorId tr) = Some c"
    and s1: "chargePoints s1 = mput cp st (chargePoints s)"
      "trigger s1 = mdel (st_TransactionId r) (trigger s)"
      "\<exists>es. out s1 = out s @ es \<and> (\<forall>e \<in> set es. preliminary r e)"
    by (rule OnStopTransaction_known [OF D mem get])
  have tr1: "t_Id tr1 = t_Id tr" "t_ConnectorId tr1 = t_ConnectorId tr" "t_IsFinished tr1 = t_IsFinished tr"
      "t_MeterStop tr1 = t_MeterStop tr"
    using mvs by auto
  let ?s' = "stopFinish D now cp cp st c tr1 r s1"
  obtain pre where pre: "out s1 = out s @ pre" "\<forall>e \<in> set pre. preliminary r e" using s1(3) by blast
  obtain e1 e2 e3 where w: "out ?s' = out s1
     @ [Wrote (UpdateTransaction (stoppedTransaction now r tr1)) e1]
     @ (if e1 = None then [Wrote (DeleteTransactionMeterValues (t_Id tr1)) e2] else [])
     @ [Wrote (UpdateConnector (released c)) e3]"
    using stopFinish_writes(1) [of tr1 r D now cp cp st c s1] opn tr1 by auto
  let ?mid = "if e1 = None then [Wrote (DeleteTransactionMeterValues (t_Id tr1)) e2] else []"
  have "out ?s' = out s @ pre @ Wrote (UpdateTransaction (stoppedTransaction now r tr1)) e1 # ?mid
      @ [Wrote (UpdateConnector (released c)) e3]"
    using w pre(1) by simp
  moreover have "connectorAt ?s' cp (t_ConnectorId tr) = Some (released c)"
    "\<not> registered ?s' cp (st_TransactionId r)"
    using st s1 tr1 by (simp_all add: connectorAt_def registered_def stopFinish_chargePoints)
  moreover have "map_of (trigger ?s') (st_TransactionId r) = None"
    using s1 by (simp add: stopFinish_trigger)
  moreover have "\<forall>e \<in> set ?mid. e1 = None \<and> (\<exists>x. e = Wrote (DeleteTransactionMeterValues (t_Id tr)) x)"
    using tr1 by auto
  moreover have "t_Id (stoppedTransaction now r tr1) = t_Id tr" "t_IsFinished (stoppedTransaction now r tr1)"
    using tr1 by simp_all
  ultimately show ?thesis using run pre(2) by blast
qed

section \<open>What the sweep does\<close>

lemma abandonedFigures_facts:
  assumes "abandonedFigures D tr d = (err, tr')"
  shows "err = None" "t_Id tr' = t_Id tr" "t_IsFinished tr'" "t_ConnectorId tr' = t_ConnectorId tr"
    "t_ChargePointId tr' = t_ChargePointId tr" "isSystemClosedReason (t_Reason tr')"
proof -
  let ?m = "fst (ReadTransactionMeterValue D (t_Id tr) d)"
  have "err = None \<and> t_Id tr' = t_Id tr \<and> t_IsFinished tr' \<and> t_ConnectorId tr' = t_ConnectorId tr
    \<and> t_ChargePointId tr' = t_ChargePointId tr \<and> isSystemClosedReason (t_Reason tr')"
  proof (cases ?m)
    case None
    with assms show ?thesis by (auto simp: abandonedFigures_def isSystemClosedReason_def)
  next
    case (Some mv)
    then obtain tr1 where f: "OnTransactionFinished tr1 = (err, tr')"
      and k: "t_Id tr1 = t_Id tr" "t_IsFinished tr1" "t_ConnectorId tr1 = t_ConnectorId tr"
        "t_ChargePointId tr1 = t_ChargePointId tr" "t_Reason tr1 = reasonStoppedBySystem"
      using assms by (auto simp: abandonedFigures_def Let_def split: if_splits)
    from f have "err = None" using OnTransactionFinished_no_error [of tr1] by simp
    with aff.finish_keeps [OF f] k show ?thesis by (simp add: isSystemClosedReason_def)
  qed
  then show "err = None" "t_Id tr' = t_Id tr" "t_IsFinished tr'" "t_ConnectorId tr' = t_ConnectorId tr"
    "t_ChargePointId tr' = t_ChargePointId tr" "isSystemClosedReason (t_Reason tr')" by auto
qed

definition releasedIf :: "int \<Rightarrow> Connector \<Rightarrow> Connector" where
  "releasedIf t c = (if c_CurrentTransactionId c = t then released c else c)"

lemma releaseConnector_known:
  assumes "map_of (cps_connectors st) (t_ConnectorId tr) = Some c"
  shows "chargePoints (releaseConnector env D k st tr s)
      = (if c_CurrentTransactionId c = t_Id tr
         then mput k (putConn (t_ConnectorId tr) (released c) st) (chargePoints s) else chargePoints s)"
    "trigger (releaseConnector env D k st tr s) = trigger s"
    "\<exists>es. out (releaseConnector env D k st tr s) = out s @ es
       \<and> (\<forall>e \<in> set es. \<exists>x. e = Wrote (UpdateConnector (released c)) x)"
  using assms by (simp_all add: releaseConnector_def released_def Let_def)

lemma abandonedRelease_known:
  assumes mem: "connectorAt s (t_ChargePointId tr) (t_ConnectorId tr) = Some c"
    and run: "abandonedRelease env D tr m s = (status, s')"
  shows "connectorAt s' (t_ChargePointId tr) (t_ConnectorId tr) = Some (releasedIf (t_Id tr) c)"
    "\<And>j. j \<noteq> t_ConnectorId tr \<Longrightarrow> connectorAt s' (t_ChargePointId tr) j = connectorAt s (t_ChargePointId tr) j"
    "\<And>k. k \<noteq> t_ChargePointId tr \<Longrightarrow> map_of (chargePoints s') k = map_of (chargePoints s) k"
    "\<not> registered s' (t_ChargePointId tr) (t_Id tr)" "trigger s' = trigger s" "status = c_Status c"
    "\<exists>es. out s' = out s @ es \<and> (\<forall>e \<in> set es. gauge e \<or> (\<exists>x. e = Wrote (UpdateConnector (released c)) x))"
proof -
  let ?k = "t_ChargePointId tr"
  obtain st0 where st0: "map_of (chargePoints s) ?k = Some st0"
      "map_of (cps_connectors st0) (t_ConnectorId tr) = Some c"
    using mem by (auto simp: connectorAt_Some)
  let ?st = "unregisterTransaction (t_Id tr) st0"
  let ?s1 = "releaseConnector env D ?k ?st tr (putCP ?k ?st s)"
  have "traces gauge ?s1 s'" and stat: "status = c_Status c"
    using run st0 by (auto simp: abandonedRelease_def Let_def
        intro!: traces_trans [OF traces_gauges(6) traces_gauges(7)])
  note T = traces_simps [OF this(1)] traces_outD [OF this(1)]
  have R: "chargePoints ?s1 = (if c_CurrentTransactionId c = t_Id tr
         then mput ?k (putConn (t_ConnectorId tr) (released c) ?st) (mput ?k ?st (chargePoints s))
         else mput ?k ?st (chargePoints s))"
    "trigger ?s1 = trigger s"
    "\<exists>es. out ?s1 = out s @ es \<and> (\<forall>e \<in> set es. \<exists>x. e = Wrote (UpdateConnector (released c)) x)"
    using releaseConnector_known [of ?st tr c env D ?k "putCP ?k ?st s"] st0 by auto
  show "connectorAt s' ?k (t_ConnectorId tr) = Some (releasedIf (t_Id tr) c)"
    "\<And>j. j \<noteq> t_ConnectorId tr \<Longrightarrow> connectorAt s' ?k j = connectorAt s ?k j"
    "\<And>k. k \<noteq> ?k \<Longrightarrow> map_of (chargePoints s') k = map_of (chargePoints s) k"
    "\<not> registered s' ?k (t_Id tr)" "trigger s' = trigger s"
    using T R st0 by (auto simp: connectorAt_def registered_def releasedIf_def)
  show "status = c_Status c" by (fact stat)
  show "\<exists>es. out s' = out s @ es \<and> (\<forall>e \<in> set es. gauge e \<or> (\<exists>x. e = Wrote (UpdateConnector (released c)) x))"
    using T(9) R(3) by fastforce
qed

lemma finishAbandoned_known:
  assumes mem: "connectorAt s (t_ChargePointId tr) (t_ConnectorId tr) = Some c"
    and run: "s' = finishAbandonedTransaction env D now tr s"
  shows "connectorAt s' (t_ChargePointId tr) (t_ConnectorId tr) = Some (releasedIf (t_Id tr) c)"
    "\<And>j. j \<noteq> t_ConnectorId tr \<Longrightarrow> connectorAt s' (t_ChargePointId tr) j = connectorAt s (t_ChargePointId tr) j"
    "\<And>k. k \<noteq> t_ChargePointId tr \<Longrightarrow> map_of (chargePoints s') k = map_of (chargePoints s) k"
    "\<not> registered s' (t_ChargePointId tr) (t_Id tr)" "map_of (trigger s') (t_Id tr) = None"
    "\<exists>tr' e1 mid e2 m. out s' = out s @ Wrote (UpdateTransaction tr') e1 # mid
        @ [Wrote (DeleteTransactionMeterValues (t_Id tr)) e2, Notified Alert m]
      \<and> tr' = snd (abandonedFigures D tr (db s))
      \<and> (\<forall>e \<in> set mid. gauge e \<or> (\<exists>x. e = Wrote (UpdateConnector (released c)) x))"
proof -
  obtain tr1 m s1 where c: "abandonedClose D tr s = (tr1, m, s1)" by (cases "abandonedClose D tr s") auto
  obtain err tr2 where f: "abandonedFigures D tr (db s) = (err, tr2)" by (cases "abandonedFigures D tr (db s)")
  note F = abandonedFigures_facts [OF f]
  have s1: "tr1 = tr2" "chargePoints s1 = chargePoints s" "trigger s1 = mdel (t_Id tr) (trigger s)"
      "\<exists>e. out s1 = out s @ [Wrote (UpdateTransaction tr2) e]"
    using c f F by (auto simp: abandonedClose_def Let_def)
  obtain status s2 where r: "abandonedRelease env D tr1 m s1 = (status, s2)"
    by (cases "abandonedRelease env D tr1 m s1")
  have mem1: "connectorAt s1 (t_ChargePointId tr1) (t_ConnectorId tr1) = Some c"
    using mem F s1 by (simp add: connectorAt_def)
  note R = abandonedRelease_known [OF mem1 r]
  have s': "chargePoints s' = chargePoints s2" "trigger s' = trigger s2"
      "\<exists>e n. out s' = out s2 @ [Wrote (DeleteTransactionMeterValues (t_Id tr1)) e, Notified Alert n]"
    using run c r by (auto simp: finishAbandonedTransaction_def abandonedCleanup_def Let_def)
  show "connectorAt s' (t_ChargePointId tr) (t_ConnectorId tr) = Some (releasedIf (t_Id tr) c)"
    "\<And>j. j \<noteq> t_ConnectorId tr \<Longrightarrow> connectorAt s' (t_ChargePointId tr) j = connectorAt s (t_ChargePointId tr) j"
    "\<And>k. k \<noteq> t_ChargePointId tr \<Longrightarrow> map_of (chargePoints s') k = map_of (chargePoints s) k"
    "\<not> registered s' (t_ChargePointId tr) (t_Id tr)" "map_of (trigger s') (t_Id tr) = None"
    using R s' s1 F connectorAt_cong [OF s'(1)] connectorAt_cong [OF s1(2)] registered_cong [OF s'(1)]
    by auto
  show "\<exists>tr' e1 mid e2 m. out s' = out s @ Wrote (UpdateTransaction tr') e1 # mid
        @ [Wrote (DeleteTransactionMeterValues (t_Id tr)) e2, Notified Alert m]
      \<and> tr' = snd (abandonedFigures D tr (db s))
      \<and> (\<forall>e \<in> set mid. gauge e \<or> (\<exists>x. e = Wrote (UpdateConnector (released c)) x))"
    using R(7) s'(3) s1 F by (auto simp: f)
qed

end
