(* ===== verification/Handlers.thy ===== *)
theory Handlers
  imports Transactions
begin

text \<open>
  The other handlers of \<^verbatim>\<open>src/server/system_handler.go\<close>: start-up, boot and heartbeat,
  authorization, meter values, status and firmware notifications, the commands of the operator API and
  the change of the online status. A command returns the request to send or an error. Where a
  command carries a JSON payload, the decoded payload is the argument, \<open>None\<close> when decoding fails.
\<close>

section \<open>Start-up\<close>

fun initAll :: "'db env \<Rightarrow> ChargePoint list \<Rightarrow> 'db sys \<Rightarrow> 'db sys" where
  "initAll env [] s = s"
| "initAll env (cp # cps) s = initAll env cps (snd (initializeChargePointState env cp s))"

fun checkListenConnectors :: "'db env \<Rightarrow> string \<Rightarrow> bool \<Rightarrow> (int \<times> Connector) list \<Rightarrow> 'db sys \<Rightarrow> 'db sys" where
  "checkListenConnectors env k online [] s = s"
| "checkListenConnectors env k online ((i, c) # cs) s =
     checkListenConnectors env k online cs (checkListenTransaction env k i c online s)"

fun checkListenAll :: "'db env \<Rightarrow> (string \<times> ChargePointState) list \<Rightarrow> 'db sys \<Rightarrow> 'db sys" where
  "checkListenAll env [] s = s"
| "checkListenAll env ((k, cp) # cps) s =
     checkListenAll env cps
       (checkListenConnectors env k (cp_IsOnline (cps_model cp)) (cps_connectors cp) s)"

text \<open>The state as the database describes it; \<open>Inl\<close> is the failed load of the charge points.\<close>

definition loadState :: "'db env \<Rightarrow> 'db Database \<Rightarrow> 'db sys \<Rightarrow> (string \<times> 'db sys) + (nat \<times> nat \<times> 'db sys)" where
  "loadState env D s =
     (let s = dbDo D ResetOnlineStatus s
      in case GetChargePoints D (db s) of
           (_, Some err) \<Rightarrow>
             Inl (''failed to load charge points from database: '' @ errText err,
                  notifyEventListeners Information
                    (zeroEvent\<lparr>ev_Info := ''Start failed; load charge points from database: '' @ errText err\<rparr>) s)
         | (cps, None) \<Rightarrow>
             let s = initAll env cps s;
                 s = (case fst (GetLastTransaction D (db s)) of None \<Rightarrow> s
                      | Some tr \<Rightarrow> s\<lparr>newTransactionId := t_Id tr + 1\<rparr>);
                 s = s\<lparr>lastMeter := fold (\<lambda>mv. mput (m_Id mv) mv)
                         (fst (ReadLastMeterValues D (db s))) (lastMeter s)\<rparr>
             in Inr (length cps, sum_list (map (length \<circ> cp_Connectors) cps), s))"

definition startListening :: "'db env \<Rightarrow> nat \<Rightarrow> nat \<Rightarrow> 'db sys \<Rightarrow> string option \<times> 'db sys" where
  "startListening env totalPoints totalConnectors s =
     (let s = updateActiveTransactionsCounter s
      in if \<not> triggerSet env then (Some ''trigger is not set'', s)
         else let s = checkListenAll env (chargePoints s) s;
                  s = spawn GoSweepTransactions s
              in (None, notifyEventListeners Information
                    (zeroEvent\<lparr>ev_Info := ''Started with '' @ showNat totalPoints @ '' charge points, ''
                                 @ showNat totalConnectors @ '' connectors''\<rparr>) s))"

definition OnStart :: "'db env \<Rightarrow> 'db sys \<Rightarrow> string option \<times> 'db sys" where
  "OnStart env s =
     (case database env of
        None \<Rightarrow> startListening env 0 0 s
      | Some D \<Rightarrow>
         (case loadState env D s of
            Inl (err, s) \<Rightarrow> (Some err, s)
          | Inr (points, conns, s) \<Rightarrow> startListening env points conns s))"

section \<open>Boot, heartbeat and configuration\<close>

definition defaultHeartbeatInterval :: int where "defaultHeartbeatInterval = 600"

text \<open>The response is whether the charge point is accepted; time and interval are constant.\<close>

definition OnBootNotification ::
    "'db env \<Rightarrow> string \<Rightarrow> BootNotificationRequest \<Rightarrow> 'db sys \<Rightarrow> bool \<times> 'db sys" where
  "OnBootNotification env chargePointId request s =
     (case getChargePoint env chargePointId s of
        (None, s) \<Rightarrow> (False, s)
      | (Some (k, state), s) \<Rightarrow>
          let model = cps_model state;
              s = (case database env of None \<Rightarrow> s
                   | Some D \<Rightarrow>
                      if cp_SerialNumber model \<noteq> bn_ChargePointSerialNumber request
                         \<or> cp_FirmwareVersion model \<noteq> bn_FirmwareVersion request
                      then let model = model\<lparr>cp_SerialNumber := bn_ChargePointSerialNumber request,
                                       cp_FirmwareVersion := bn_FirmwareVersion request,
                                       cp_Model := bn_ChargePointModel request,
                                       cp_Vendor := bn_ChargePointVendor request\<rparr>
                           in dbDo D (UpdateChargePoint model)
                                (putCP k (state\<lparr>cps_model := model\<rparr>) s)
                      else s);
              s = spawn (GoReconcileChargePointTransactions chargePointId) s;
              s = spawn (GoEnforceMeterValueInterval chargePointId (cps_triggerMessage state)) s;
              s = spawn (GoEnforceMeterMeasurands chargePointId) s
          in (True, s))"

definition enforceMeterValueInterval :: "'db env \<Rightarrow> string \<Rightarrow> bool \<Rightarrow> 'db sys \<Rightarrow> 'db sys" where
  "enforceMeterValueInterval env chargePointId triggerMessage s =
     (if triggerMessage \<or> meterSampleInterval env \<le> 0 \<or> \<not> serverSet env then s
      else if sendOk env chargePointId
      then emit (Sent chargePointId
             (ChangeConfigurationRequest ''MeterValueSampleInterval'' (Itoa (meterSampleInterval env)))) s
      else s)"

definition meterMeasurandsKey :: string where "meterMeasurandsKey = ''MeterValuesSampledData''"

text \<open>The two loops of \<^verbatim>\<open>mergeMeasurands\<close>; \<open>seen\<close> is the key set of the map.\<close>

fun collectMeasurands :: "string list \<Rightarrow> string list \<Rightarrow> string list \<Rightarrow> string list \<times> string list" where
  "collectMeasurands [] existing seen = (existing, seen)"
| "collectMeasurands (item # items) existing seen =
     (let item = TrimSpace item
      in if item \<noteq> [] then collectMeasurands items (existing @ [item]) (ToLower item # seen)
         else collectMeasurands items existing seen)"

fun addMeasurands ::
    "string list \<Rightarrow> string list \<Rightarrow> string list \<Rightarrow> bool \<Rightarrow> string list \<times> bool" where
  "addMeasurands [] existing seen changed = (existing, changed)"
| "addMeasurands (m # ms) existing seen changed =
     (let m = TrimSpace m
      in if m \<noteq> [] \<and> ToLower m \<notin> set seen
         then addMeasurands ms (existing @ [m]) (ToLower m # seen) True
         else addMeasurands ms existing seen changed)"

definition mergeMeasurands :: "string \<Rightarrow> string list \<Rightarrow> string \<times> bool" where
  "mergeMeasurands current required =
     (let (existing, seen) = collectMeasurands (Split (CHR '','') current) [] [];
          (existing, changed) = addMeasurands required existing seen False
      in (Join (CHR '','') existing, changed))"

text \<open>The value of the key in the answer, the last one when it occurs more than once.\<close>

fun findConfigValue :: "string \<Rightarrow> (string \<times> string option) list \<Rightarrow> string \<Rightarrow> string" where
  "findConfigValue key [] current = current"
| "findConfigValue key ((k, v) # kvs) current =
     findConfigValue key kvs
       (if k = key then (case v of None \<Rightarrow> current | Some x \<Rightarrow> x) else current)"

definition enforceMeterMeasurands :: "'db env \<Rightarrow> string \<Rightarrow> 'db sys \<Rightarrow> 'db sys" where
  "enforceMeterMeasurands env chargePointId s =
     (if length (meterMeasurands env) = 0 \<or> \<not> serverSet env then s
      else let s = (if sendOk env chargePointId
                     then emit (Sent chargePointId (GetConfigurationRequest [meterMeasurandsKey])) s else s)
           in (case readConfiguration env chargePointId of None \<Rightarrow> s
               | Some response \<Rightarrow>
                  let current = findConfigValue meterMeasurandsKey response [];
                      (merged, changed) = mergeMeasurands current (meterMeasurands env)
                  in if \<not> changed then s
                     else if sendOk env chargePointId
                     then emit (Sent chargePointId
                            (ChangeConfigurationRequest meterMeasurandsKey merged)) s
                     else s))"

definition OnHeartbeat :: "'db env \<Rightarrow> time \<Rightarrow> string \<Rightarrow> 'db sys \<Rightarrow> time \<times> 'db sys" where
  "OnHeartbeat env now chargePointId s = (getTime now, snd (getChargePoint env chargePointId s))"

section \<open>Authorization\<close>

definition authorize :: "'db env \<Rightarrow> string \<Rightarrow> string \<Rightarrow> string \<Rightarrow> authResult option" where
  "authorize env locationId evseId idTag =
     (case auth env of None \<Rightarrow> None | Some f \<Rightarrow> Some (f locationId evseId idTag))"

fun authStatusText :: "AuthorizationStatus \<Rightarrow> string" where
  "authStatusText AuthorizationStatusAccepted = ''Accepted''"
| "authStatusText AuthorizationStatusBlocked = ''Blocked''"
| "authStatusText AuthorizationStatusExpired = ''Expired''"
| "authStatusText AuthorizationStatusInvalid = ''Invalid''"
| "authStatusText AuthorizationStatusConcurrentTx = ''ConcurrentTx''"

definition authResultStatus :: "authResult \<Rightarrow> AuthorizationStatus" where
  "authResultStatus r =
     (if ar_allowed r then AuthorizationStatusAccepted
      else if ar_expired r then AuthorizationStatusExpired
      else if ar_blocked r then AuthorizationStatusBlocked
      else AuthorizationStatusInvalid)"

definition authorizeIdTag ::
    "'db env \<Rightarrow> time \<Rightarrow> string \<Rightarrow> string \<Rightarrow> 'db sys \<Rightarrow> (AuthorizationStatus \<times> 'db sys) go" where
  "authorizeIdTag env now chargePointId idTag s =
     (case getChargePoint env chargePointId s of
        (None, s) \<Rightarrow> Some (AuthorizationStatusBlocked, s)
      | (Some (k, state), s) \<Rightarrow>
          if \<not> cp_IsEnabled (cps_model state) then Some (AuthorizationStatusBlocked, s)
          else do {
            let (userTag, s) = getUserTag env now idTag s;
            (authStatus, userTag, s) \<leftarrow>
              (if ut_IsEnabled userTag then Some (AuthorizationStatusAccepted, userTag, s)
               else case authorize env (cp_LocationId (cps_model state))
                           (cp_EvseId (cps_model state) 1) (ut_IdTag userTag) of
                      None \<Rightarrow> Some (AuthorizationStatusInvalid, userTag, s)
                    | Some result \<Rightarrow>
                        let status = authResultStatus result
                        in if status = AuthorizationStatusInvalid then Some (status, userTag, s)
                           else do {
                             let userTag = userTag\<lparr>ut_Source := sourceOCPI, ut_Note := ar_info result\<rparr>;
                             D \<leftarrow> database env;
                             Some (status, userTag, dbDo D (UpdateTag userTag) s)
                           });
            Some (authStatus, notifyEventListeners Authorize
              (zeroEvent\<lparr>ev_ChargePointId := chargePointId, ev_Time := getTime now,
                 ev_Username := ut_Username userTag,
                 ev_IdTag := ut_Source userTag @ '' '' @ ut_IdTag userTag,
                 ev_Status := authStatusText authStatus, ev_Info := ut_Note userTag\<rparr>) s)
          })"

definition OnAuthorize ::
    "'db env \<Rightarrow> time \<Rightarrow> string \<Rightarrow> string \<Rightarrow> 'db sys \<Rightarrow> (AuthorizationStatus \<times> 'db sys) go" where
  "OnAuthorize env now chargePointId idTag s = authorizeIdTag env now chargePointId idTag s"

section \<open>Meter values\<close>

definition isVehicleSideReading :: "SampledValue \<Rightarrow> bool" where
  "isVehicleSideReading v \<longleftrightarrow>
     sv_Location v = [] \<or> sv_Location v = ''Outlet'' \<or> sv_Location v = ''Cable'' \<or> sv_Location v = ''EV''"

definition keepHigher :: "float64 \<Rightarrow> string \<Rightarrow> float64" where
  "keepHigher current sampled =
     (case ParseFloat sampled of None \<Rightarrow> current
      | Some value \<Rightarrow> if value < current then current else value)"

text \<open>
  The energy register: value, consumption since the start, and the power since the last reading. The
  constant \<^verbatim>\<open>3600 / 1000\<close> of the source is an integer division, 3.
\<close>

definition energyReading ::
    "Transaction \<Rightarrow> TransactionMeter option \<Rightarrow> SampledValue \<Rightarrow> TransactionMeter \<Rightarrow> TransactionMeter" where
  "energyReading tr prev v meter =
     (let meter = meter\<lparr>m_Value := ToInt (sv_Value v), m_Unit := sv_Unit v, m_Measurand := sv_Measurand v\<rparr>;
          consumedTotal = wrap64 (m_Value meter - t_MeterStart tr);
          meter = (if consumedTotal > 0 then meter\<lparr>m_ConsumedEnergy := consumedTotal\<rparr> else meter)
      in case prev of None \<Rightarrow> meter
         | Some l \<Rightarrow>
            let consumed = wrap64 (m_Value meter - m_Value l);
                seconds = Seconds (timeSub (m_Time meter) (m_Time l))
            in if consumed > 0 \<and> seconds > 0
               then let rate = of_int consumed * of_int (3600 div 1000) / seconds
                    in meter\<lparr>m_PowerRateWh := rate, m_PowerRate := int_of_float (rate * 1000)\<rparr>
               else meter)"

definition electricalReading :: "SampledValue \<Rightarrow> TransactionMeter \<Rightarrow> TransactionMeter" where
  "electricalReading v meter =
     (if \<not> isVehicleSideReading v then meter
      else if sv_Measurand v = ''Voltage''
      then meter\<lparr>m_Voltage := keepHigher (m_Voltage meter) (sv_Value v)\<rparr>
      else if sv_Measurand v = ''Current.Import''
      then meter\<lparr>m_CurrentImport := keepHigher (m_CurrentImport meter) (sv_Value v)\<rparr>
      else if sv_Measurand v = ''Current.Offered''
      then meter\<lparr>m_CurrentOffered := keepHigher (m_CurrentOffered meter) (sv_Value v)\<rparr>
      else meter)"

definition readSample ::
    "Transaction \<Rightarrow> TransactionMeter option \<Rightarrow> SampledValue \<Rightarrow> TransactionMeter \<Rightarrow> TransactionMeter" where
  "readSample tr prev v meter =
     (let meter = (if sv_Measurand v = ''Energy.Active.Import.Register''
                   then energyReading tr prev v meter else meter);
          meter = (if sv_Measurand v = ''SoC'' then meter\<lparr>m_BatteryLevel := ToInt (sv_Value v)\<rparr> else meter);
          meter = (if sv_Measurand v = ''Power.Active.Import''
                   then meter\<lparr>m_PowerActive := ToInt (sv_Value v)\<rparr> else meter)
      in electricalReading v meter)"

text \<open>
  One meter value of the request: fold its samples, and record the reading when the register is
  positive. The source stores the pointer in \<^verbatim>\<open>lastMeter\<close> before it fills in power and price; the
  stored reading is the finished one.
\<close>

definition recordMeterValue ::
    "'db Database \<Rightarrow> time \<Rightarrow> string \<Rightarrow> ChargePointState \<Rightarrow> Connector \<Rightarrow> Transaction \<Rightarrow> int \<Rightarrow> MeterValue
     \<Rightarrow> 'db sys \<Rightarrow> 'db sys" where
  "recordMeterValue D now chargePointId chp connector tr transactionId mv s =
     (let meter = NewMeter transactionId (c_Id connector) (c_Status connector) (mv_GetTimestamp now mv);
          meter = fold (readSample tr (map_of (lastMeter s) (t_Id tr))) (mv_SampledValue mv) meter
      in if m_Value meter > 0 then
           let meter = (if m_PowerActive meter > 0
                        then meter\<lparr>m_PowerRate := m_PowerActive meter,
                                   m_PowerRateWh := of_int (m_PowerActive meter) / 1000\<rparr> else meter);
               s = ObservePowerRate (cp_LocationId (cps_model chp)) chargePointId
                     (Itoa (c_Id connector)) (m_PowerRateWh meter) s;
               meter = snd (OnMeterValue tr meter);
               s = s\<lparr>lastMeter := mput (t_Id tr) meter (lastMeter s)\<rparr>
           in dbDo D (AddTransactionMeterValue meter) s
         else s)"

fun recordMeterValues ::
    "'db Database \<Rightarrow> time \<Rightarrow> string \<Rightarrow> ChargePointState \<Rightarrow> Connector \<Rightarrow> Transaction \<Rightarrow> int \<Rightarrow> MeterValue list
     \<Rightarrow> 'db sys \<Rightarrow> 'db sys" where
  "recordMeterValues D now chargePointId chp connector tr transactionId [] s = s"
| "recordMeterValues D now chargePointId chp connector tr transactionId (mv # mvs) s =
     recordMeterValues D now chargePointId chp connector tr transactionId mvs
       (recordMeterValue D now chargePointId chp connector tr transactionId mv s)"

text \<open>A triggered reading without a transaction ends the watch: one call per such sample.\<close>

fun unregisterTriggered :: "string \<Rightarrow> int \<Rightarrow> SampledValue list \<Rightarrow> 'db sys \<Rightarrow> 'db sys" where
  "unregisterTriggered k i [] s = s"
| "unregisterTriggered k i (v # vs) s =
     unregisterTriggered k i vs (if sv_Context v = ''Trigger'' then UnregisterConnector k i s else s)"

definition OnMeterValues :: "'db env \<Rightarrow> time \<Rightarrow> string \<Rightarrow> MeterValuesRequest \<Rightarrow> 'db sys \<Rightarrow> 'db sys" where
  "OnMeterValues env now chargePointId request s =
     (case getChargePoint env chargePointId s of
        (None, s) \<Rightarrow> s
      | (Some (k, chp), s) \<Rightarrow>
          let (connector, chp, s) = getConnector env k chp (mr_ConnectorId request) s;
              transactionId =
                (case mr_TransactionId request of Some t \<Rightarrow> Some t
                 | None \<Rightarrow> if mr_ConnectorId request > 0 \<and> c_CurrentTransactionId connector \<ge> 0
                           then Some (c_CurrentTransactionId connector) else None)
          in (case transactionId of
                None \<Rightarrow> unregisterTriggered k (mr_ConnectorId request)
                          (concat (map mv_SampledValue (mr_MeterValue request))) s
              | Some t \<Rightarrow>
                 (case database env of None \<Rightarrow> s
                  | Some D \<Rightarrow>
                     (case fst (GetTransaction D t (db s)) of None \<Rightarrow> s
                      | Some tr \<Rightarrow>
                          recordMeterValues D now chargePointId chp connector tr t
                            (mr_MeterValue request) s))))"

section \<open>Status notifications\<close>

definition stateFromStatus :: "string \<Rightarrow> string" where
  "stateFromStatus status =
     (if status = ChargePointStatusAvailable then ''available''
      else if status \<in> {ChargePointStatusPreparing, ChargePointStatusCharging,
                        ChargePointStatusSuspendedEV, ChargePointStatusSuspendedEVSE,
                        ChargePointStatusFinishing} then ''occupied''
      else if status \<in> {ChargePointStatusUnavailable, ChargePointStatusFaulted} then ''unavailable''
      else status)"

text \<open>The branch for a connector: the notification is written into it.\<close>

definition statusConnector ::
    "'db env \<Rightarrow> time \<Rightarrow> string \<Rightarrow> string \<Rightarrow> StatusNotificationRequest \<Rightarrow> ChargePointState \<Rightarrow> 'db sys
     \<Rightarrow> Connector \<times> ChargePointState \<times> 'db sys" where
  "statusConnector env now chargePointId k request state s =
     (let (connector, state, s) = getConnector env k state (sn_ConnectorId request) s;
          connector = connector\<lparr>c_Status := sn_Status request, c_StatusTime := sn_GetTimestamp now request,
                        c_State := stateFromStatus (sn_Status request), c_Info := sn_Info request,
                        c_VendorId := sn_VendorId request, c_ErrorCode := sn_ErrorCode request\<rparr>;
          state = putConn (sn_ConnectorId request) connector state;
          s = dbTry env (UpdateConnector connector) (putCP k state s);
          s = (if sn_Status request \<noteq> ChargePointStatusCharging
               then ObservePowerRate (cp_LocationId (cps_model state)) chargePointId
                      (Itoa (c_Id connector)) 0 s else s)
      in (connector, state, s))"

definition statusMain ::
    "'db env \<Rightarrow> time \<Rightarrow> string \<Rightarrow> StatusNotificationRequest \<Rightarrow> ChargePointState \<Rightarrow> 'db sys
     \<Rightarrow> ChargePointState \<times> 'db sys" where
  "statusMain env now k request state s =
     (let model = (cps_model state)\<lparr>cp_Status := sn_Status request,
                     cp_StatusTime := sn_GetTimestamp now request, cp_Info := sn_Info request\<rparr>;
          state = state\<lparr>cps_status := sn_Status request, cps_model := model\<rparr>
      in (state, dbTry env (UpdateChargePointStatus model) (putCP k state s)))"

definition statusErrorText :: "StatusNotificationRequest \<Rightarrow> string" where
  "statusErrorText request =
     (if sn_ErrorCode request \<noteq> NoError
      then '' ('' @ sn_ErrorCode request @ ''; '' @ sn_VendorErrorCode request @ '')'' else [])"

definition statusError ::
    "'db env \<Rightarrow> time \<Rightarrow> string \<Rightarrow> StatusNotificationRequest \<Rightarrow> ChargePointState \<Rightarrow> 'db sys \<Rightarrow> 'db sys" where
  "statusError env now chargePointId request state s =
     (if sn_ErrorCode request \<noteq> NoError then
        let s = ObserveError (cp_LocationId (cps_model state)) chargePointId (sn_VendorErrorCode request) s
        in if errorListener env
           then emit (ErrorReported
                  \<lparr>ed_Location = cp_LocationId (cps_model state), ed_ChargePointID = chargePointId,
                   ed_ConnectorID = sn_ConnectorId request, ed_ErrorCode = sn_ErrorCode request,
                   ed_Info = sn_Info request, ed_Status = sn_Status request,
                   ed_Timestamp = sn_GetTimestamp now request, ed_VendorId = sn_VendorId request,
                   ed_VendorErrorCode = sn_VendorErrorCode request\<rparr>) s
           else s
      else s)"

definition OnStatusNotification ::
    "'db env \<Rightarrow> time \<Rightarrow> string \<Rightarrow> StatusNotificationRequest \<Rightarrow> 'db sys \<Rightarrow> 'db sys" where
  "OnStatusNotification env now chargePointId request s =
     (case getChargePoint env chargePointId s of
        (None, s) \<Rightarrow> s
      | (Some (k, state), s) \<Rightarrow>
          let state = state\<lparr>cps_errorCode := sn_ErrorCode request\<rparr>;
              s = putCP k state s;
              (connector, state, s) =
                (if sn_ConnectorId request > 0
                 then let (c, state, s) = statusConnector env now chargePointId k request state s
                      in (Some c, state, s)
                 else let (state, s) = statusMain env now k request state s in (None, state, s));
              s = statusError env now chargePointId request state s;
              s = notifyEventListeners StatusNotification
                    (zeroEvent\<lparr>ev_ChargePointId := chargePointId, ev_ConnectorId := sn_ConnectorId request,
                       ev_LocationId := cp_LocationId (cps_model state),
                       ev_Evse := cps_EvseId state (sn_ConnectorId request), ev_Time := getTime now,
                       ev_Status := sn_Status request,
                       ev_TransactionId := (case connector of None \<Rightarrow> -1
                                            | Some c \<Rightarrow> c_CurrentTransactionId c),
                       ev_Info := sn_Info request @ statusErrorText request\<rparr>) s;
              s = (if sn_ConnectorId request > 0 \<and> sn_Status request = ChargePointStatusAvailable
                   then spawn GoCheckAndFinishTransactions s else s)
          in (case connector of None \<Rightarrow> s
              | Some c \<Rightarrow> checkListenTransaction env k (sn_ConnectorId request) c
                            (cp_IsOnline (cps_model state)) s))"

definition OnDataTransfer :: "'db env \<Rightarrow> string \<Rightarrow> 'db sys \<Rightarrow> string \<times> 'db sys" where
  "OnDataTransfer env chargePointId s =
     (case getChargePoint env chargePointId s of
        (None, s) \<Rightarrow> (''Rejected'', s) | (Some _, s) \<Rightarrow> (''Accepted'', s))"

definition OnDiagnosticsStatusNotification :: "'db env \<Rightarrow> string \<Rightarrow> string \<Rightarrow> 'db sys \<Rightarrow> 'db sys" where
  "OnDiagnosticsStatusNotification env chargePointId status s =
     (case getChargePoint env chargePointId s of
        (None, s) \<Rightarrow> s
      | (Some (k, state), s) \<Rightarrow> putCP k (state\<lparr>cps_diagnosticsStatus := status\<rparr>) s)"

definition OnFirmwareStatusNotification :: "'db env \<Rightarrow> string \<Rightarrow> string \<Rightarrow> 'db sys \<Rightarrow> 'db sys" where
  "OnFirmwareStatusNotification env chargePointId status s =
     (case getChargePoint env chargePointId s of
        (None, s) \<Rightarrow> s
      | (Some (k, state), s) \<Rightarrow> putCP k (state\<lparr>cps_firmwareStatus := status\<rparr>) s)"

section \<open>Operator commands\<close>

text \<open>Every command first asks for the charge point, which may load or create it.\<close>

definition withChargePoint ::
    "'db env \<Rightarrow> string \<Rightarrow> (ChargePointState \<Rightarrow> string + Request) \<Rightarrow> 'db sys \<Rightarrow> (string + Request) \<times> 'db sys" where
  "withChargePoint env chargePointId f s =
     (case getChargePoint env chargePointId s of
        (None, s) \<Rightarrow> (Inl ''charge point not found'', s)
      | (Some (k, state), s) \<Rightarrow> (f state, s))"

definition OnTriggerMessage ::
    "'db env \<Rightarrow> string \<Rightarrow> int \<Rightarrow> string \<Rightarrow> 'db sys \<Rightarrow> (string + Request) \<times> 'db sys" where
  "OnTriggerMessage env chargePointId connectorId message s =
     withChargePoint env chargePointId (\<lambda>_. Inr (NewTriggerMessageRequest message connectorId)) s"

definition OnSendLocalList :: "'db env \<Rightarrow> string \<Rightarrow> 'db sys \<Rightarrow> (string + Request) \<times> 'db sys" where
  "OnSendLocalList env chargePointId s =
     (case getChargePoint env chargePointId s of
        (None, s) \<Rightarrow> (Inl (''charge point '' @ chargePointId @ '' not found''), s)
      | (Some (k, state), s) \<Rightarrow>
          let version = cp_LocalAuthVersion (cps_model state) + 1;
              authList =
                (case database env of None \<Rightarrow> []
                 | Some D \<Rightarrow>
                    (case GetActiveUserTags D chargePointId version (db s) of
                       (_, Some _) \<Rightarrow> []
                     | (ids, None) \<Rightarrow> map (\<lambda>tag. (ut_IdTag tag, AuthorizationStatusAccepted)) ids))
          in (Inr (SendLocalListRequest version authList ''Full''), s))"

definition OnRemoteStartTransaction ::
    "'db env \<Rightarrow> string \<Rightarrow> int \<Rightarrow> string \<Rightarrow> 'db sys \<Rightarrow> (string + Request) \<times> 'db sys" where
  "OnRemoteStartTransaction env chargePointId connectorId idTag s =
     withChargePoint env chargePointId
       (\<lambda>_. Inr (RemoteStartTransactionRequest (if connectorId > 0 then Some connectorId else None) idTag)) s"

definition OnRemoteStopTransaction ::
    "'db env \<Rightarrow> string \<Rightarrow> string \<Rightarrow> 'db sys \<Rightarrow> (string + Request) \<times> 'db sys" where
  "OnRemoteStopTransaction env chargePointId tid s =
     withChargePoint env chargePointId
       (\<lambda>_. case Atoi tid of None \<Rightarrow> Inl ''invalid transaction id''
            | Some t \<Rightarrow> Inr (RemoteStopTransactionRequest t)) s"

definition configurationKeys :: "string \<Rightarrow> string list" where
  "configurationKeys key = filter (\<lambda>name. name \<noteq> []) (map TrimSpace (Split (CHR '','') key))"

definition OnGetConfiguration :: "'db env \<Rightarrow> string \<Rightarrow> string \<Rightarrow> 'db sys \<Rightarrow> (string + Request) \<times> 'db sys" where
  "OnGetConfiguration env chargePointId key s =
     withChargePoint env chargePointId (\<lambda>_. Inr (GetConfigurationRequest (configurationKeys key))) s"

definition OnChangeConfiguration ::
    "'db env \<Rightarrow> string \<Rightarrow> (string \<times> string) option \<Rightarrow> 'db sys \<Rightarrow> (string + Request) \<times> 'db sys" where
  "OnChangeConfiguration env chargePointId payload s =
     withChargePoint env chargePointId
       (\<lambda>_. case payload of None \<Rightarrow> Inl ''invalid payload''
            | Some (k, v) \<Rightarrow> Inr (ChangeConfigurationRequest k v)) s"

definition OnSetChargingProfile ::
    "'db env \<Rightarrow> string \<Rightarrow> int \<Rightarrow> ChargingProfile option \<Rightarrow> 'db sys \<Rightarrow> (string + Request) \<times> 'db sys" where
  "OnSetChargingProfile env chargePointId connectorId payload s =
     withChargePoint env chargePointId
       (\<lambda>_. case payload of None \<Rightarrow> Inl ''invalid payload''
            | Some profile \<Rightarrow> Inr (SetChargingProfileRequest connectorId profile)) s"

text \<open>
  \<^verbatim>\<open>parseCompositeScheduleQuery\<close>: the payload is a bare number, or an object whose decoded duration
  and unit are the second argument.
\<close>

definition parseCompositeScheduleQuery ::
    "string \<Rightarrow> (int \<times> string) option \<Rightarrow> string + (int \<times> string)" where
  "parseCompositeScheduleQuery payload decoded =
     (case Atoi (TrimSpace payload) of
        Some duration \<Rightarrow> Inr (duration, [])
      | None \<Rightarrow>
         (case decoded of None \<Rightarrow> Inl ''invalid payload''
          | Some (duration, unit) \<Rightarrow>
             if duration \<le> 0 then Inl ''duration must be positive''
             else if unit = [] \<or> unit = ''A'' \<or> unit = ''W'' then Inr (duration, unit)
             else Inl (''unsupported charging rate unit '' @ [CHR 34] @ unit @ [CHR 34])))"

definition OnGetCompositeSchedule ::
    "'db env \<Rightarrow> string \<Rightarrow> int \<Rightarrow> string \<Rightarrow> (int \<times> string) option \<Rightarrow> 'db sys
     \<Rightarrow> (string + Request) \<times> 'db sys" where
  "OnGetCompositeSchedule env chargePointId connectorId payload decoded s =
     withChargePoint env chargePointId
       (\<lambda>_. case parseCompositeScheduleQuery payload decoded of Inl e \<Rightarrow> Inl e
            | Inr (duration, unit) \<Rightarrow> Inr (GetCompositeScheduleRequest connectorId duration unit)) s"

definition OnClearChargingProfile ::
    "'db env \<Rightarrow> string \<Rightarrow> Request option \<Rightarrow> 'db sys \<Rightarrow> (string + Request) \<times> 'db sys" where
  "OnClearChargingProfile env chargePointId payload s =
     withChargePoint env chargePointId
       (\<lambda>_. case payload of None \<Rightarrow> Inl ''invalid payload'' | Some request \<Rightarrow> Inr request) s"

definition OnGetDiagnostics :: "'db env \<Rightarrow> string \<Rightarrow> string \<Rightarrow> 'db sys \<Rightarrow> (string + Request) \<times> 'db sys" where
  "OnGetDiagnostics env chargePointId payload s =
     withChargePoint env chargePointId
       (\<lambda>_. if payload = [] then Inl ''empty location'' else Inr (GetDiagnosticsRequest payload)) s"

definition locationPrefix :: "string \<Rightarrow> string" where
  "locationPrefix location = (if length location \<le> 10 then location else take 10 location)"

definition OnReset :: "'db env \<Rightarrow> string \<Rightarrow> string \<Rightarrow> 'db sys \<Rightarrow> (string + Request) \<times> 'db sys" where
  "OnReset env chargePointId payload s =
     withChargePoint env chargePointId (\<lambda>_. Inr (ResetRequest payload)) s"

section \<open>Online status\<close>

fun onlineConnectors ::
    "'db env \<Rightarrow> string \<Rightarrow> ChargePointState \<Rightarrow> bool \<Rightarrow> string \<Rightarrow> (int \<times> Connector) list \<Rightarrow> 'db sys \<Rightarrow> 'db sys" where
  "onlineConnectors env k state isOnline status [] s = s"
| "onlineConnectors env k state isOnline status ((i, c) # cs) s =
     onlineConnectors env k state isOnline status cs
       (notifyEventListeners StatusNotification
          (zeroEvent\<lparr>ev_LocationId := cp_LocationId (cps_model state),
             ev_Evse := cps_EvseId state (c_Id c), ev_Status := status\<rparr>)
          (checkListenTransaction env k i c isOnline s))"

fun observeConnections :: "(string \<times> int) list \<Rightarrow> 'db sys \<Rightarrow> 'db sys" where
  "observeConnections [] s = s"
| "observeConnections ((l, n) # rest) s = observeConnections rest (ObserveConnections l n s)"

definition onlineChanged ::
    "'db env \<Rightarrow> time \<Rightarrow> string \<Rightarrow> string \<Rightarrow> ChargePointState \<Rightarrow> bool \<Rightarrow> 'db sys \<Rightarrow> 'db sys" where
  "onlineChanged env now cpid k state isOnline s =
     (let info = (if \<not> isOnline then ''goes OFFLINE''
                  else ''comes online; was offline ''
                       @ TimeAgo (timeSub now (cp_EventTime (cps_model state))));
          s = notifyEventListeners Alert
                (zeroEvent\<lparr>ev_ChargePointId := cpid, ev_Time := getTime now, ev_Info := info\<rparr>) s;
          status = (if \<not> isOnline then ''Offline'' else cp_Status (cps_model state))
      in onlineConnectors env k state isOnline status (cps_connectors state) s)"

definition OnOnlineStatusChanged :: "'db env \<Rightarrow> time \<Rightarrow> string \<Rightarrow> bool \<Rightarrow> 'db sys \<Rightarrow> 'db sys go" where
  "OnOnlineStatusChanged env now cpid isOnline s =
     (case getChargePoint env cpid s of
        (None, s) \<Rightarrow> Some s
      | (Some (k, state), s) \<Rightarrow>
          if \<not> isOnline \<and> \<not> cp_IsOnline (cps_model state) then Some s
          else do {
            let s = (if cp_IsOnline (cps_model state) \<noteq> isOnline
                     then onlineChanged env now cpid k state isOnline s else s);
            let model = (cps_model state)\<lparr>cp_IsOnline := isOnline, cp_EventTime := getTime now\<rparr>;
            let s = putCP k (state\<lparr>cps_model := model\<rparr>) s;
            D \<leftarrow> database env;
            let s = dbDo D (UpdateOnlineStatus cpid isOnline) s;
            case OnlineCounter D (db s) of
              (_, Some _) \<Rightarrow> Some s
            | (onlineCounter, None) \<Rightarrow> Some (observeConnections onlineCounter s)
          })"

section \<open>Goroutines\<close>

text \<open>
  A spawned goroutine as one step. \<^verbatim>\<open>sweepTransactions\<close> sweeps, and its ticker makes it due again.
\<close>

fun runGoroutine :: "'db env \<Rightarrow> time \<Rightarrow> Goroutine \<Rightarrow> 'db sys \<Rightarrow> 'db sys" where
  "runGoroutine env now GoSweepTransactions s =
     spawn GoSweepTransactions (checkAndFinishTransactions env now s)"
| "runGoroutine env now GoCheckAndFinishTransactions s = checkAndFinishTransactions env now s"
| "runGoroutine env now (GoReconcileChargePointTransactions cp) s =
     reconcileChargePointTransactions env now cp s"
| "runGoroutine env now (GoEnforceMeterValueInterval cp tm) s = enforceMeterValueInterval env cp tm s"
| "runGoroutine env now (GoEnforceMeterMeasurands cp) s = enforceMeterMeasurands env cp s"
| "runGoroutine env now (GoReportStop cp loc evse tr status) s = reportStop env cp loc evse tr status s"

section \<open>Trace invariants of the handlers\<close>

lemma quiet_initAll: "quiet s (initAll env cps s)"
proof (induction env cps s rule: initAll.induct)
  case (2 env cp cps s)
  obtain st s1 where i: "initializeChargePointState env cp s = (st, s1)"
    by (cases "initializeChargePointState env cp s")
  then show ?case using 2 quiet_initialize(1) [OF i] by (auto intro: quiet_trans)
qed simp

lemma quiet_checkListenConnectors: "quiet s (checkListenConnectors env k on cs s)"
  by (induction env k on cs s rule: checkListenConnectors.induct) (auto intro: quiet_trans)

lemma quiet_checkListenAll: "quiet s (checkListenAll env cps s)"
  by (induction env cps s rule: checkListenAll.induct) (auto intro: quiet_trans quiet_checkListenConnectors)

text \<open>Every handler that starts by asking for the charge point has this shape.\<close>

lemma quiet_withState:
  assumes "sys_ok s" "getChargePoint env i s = (r, s1)"
    and "\<And>k st. r = Some (k, st) \<Longrightarrow> cps_ok st \<Longrightarrow> sys_ok s1 \<Longrightarrow> quiet s1 s'"
    and "r = None \<Longrightarrow> s' = s1"
  shows "quiet s s'"
proof (cases r)
  case None
  with assms quiet_getChargePoint show ?thesis by blast
next
  case (Some kst)
  obtain k st where kst: "kst = (k, st)" by (cases kst)
  have q: "quiet s s1" by (rule quiet_getChargePoint [OF assms(2)])
  then have ok: "sys_ok s1" using assms(1) quiet_ok by blast
  then have "cps_ok st" using getChargePoint_stored assms(2) Some kst sys_ok_lookup by blast
  then show ?thesis using assms(3) Some kst ok q quiet_trans by blast
qed

lemma quiet_bootWrite:
  assumes "cps_ok st"
  shows "quiet s (dbDo D (UpdateChargePoint m) (putCP k (st\<lparr>cps_model := m'\<rparr>) s))"
  by (rule quiet_trans [OF quiet_putCP quiet_dbDo]) (use assms in simp_all)

lemma quiet_spawn3: "quiet s t \<Longrightarrow> quiet s (spawn c (spawn b (spawn a t)))"
  by (rule quiet_trans [OF _ quiet_trans [OF quiet_spawn quiet_trans [OF quiet_spawn quiet_spawn]]])

lemma OnBootNotification_quiet: "sys_ok s \<Longrightarrow> quiet s (snd (OnBootNotification env cp r s))"
proof (cases "getChargePoint env cp s")
  case (Pair res s1)
  assume "sys_ok s"
  then show ?thesis
    by (rule quiet_withState [OF _ Pair])
      (auto simp: OnBootNotification_def Pair Let_def quiet_bootWrite
        split: option.split intro!: quiet_spawn3)
qed

lemma quiet_enforceInterval: "quiet s (enforceMeterValueInterval env cp tm s)"
  by (simp add: enforceMeterValueInterval_def quiet_emit)

lemma quiet_enforceMeasurands: "quiet s (enforceMeterMeasurands env cp s)"
proof -
  have e: "quiet t (emit (Sent a b) t)" for t :: "'a sys" and a b by (simp add: quiet_emit)
  show ?thesis
    by (auto simp: enforceMeterMeasurands_def Let_def e split: option.split prod.split
        intro: quiet_trans [OF e e])
qed

lemma OnAuthorize_quiet:
  assumes "sys_ok s" "OnAuthorize env now cp tag s = Some (a, s')"
  shows "quiet s s'"
proof (cases "getChargePoint env cp s")
  case (Pair res s1)
  show ?thesis
  proof (rule quiet_withState [OF assms(1) Pair])
    show "res = None \<Longrightarrow> s' = s1" using assms(2) by (simp add: OnAuthorize_def authorizeIdTag_def Pair)
  next
    fix k st assume res: "res = Some (k, st)"
    obtain u s2 where u: "getUserTag env now tag s1 = (u, s2)" by (cases "getUserTag env now tag s1")
    have q: "quiet s1 s2" by (rule quiet_getUserTag [OF u])
    have d: "quiet s2 (dbDo D (UpdateTag x) s2)" for D x by (simp add: quiet_dbDo)
    show "quiet s1 s'"
      using assms(2) q
      by (auto simp: OnAuthorize_def authorizeIdTag_def Pair res u Let_def bind_eq_Some_conv
          split: if_splits option.splits intro: quiet_trans [OF q quiet_trans [OF d quiet_notify]]
          quiet_trans [OF q quiet_notify])
  qed
qed

lemma quiet_recordMeterValue: "quiet s (recordMeterValue D now cp st c tr t mv s)"
  unfolding recordMeterValue_def Let_def
  by (auto intro!: quiet_trans [OF quiet_ObservePowerRate quiet_trans [OF quiet_lastMeter quiet_dbDo]]
      simp: sys_ok_def)

lemma quiet_recordMeterValues: "quiet s (recordMeterValues D now cp st c tr t mvs s)"
  by (induction D now cp st c tr t mvs s rule: recordMeterValues.induct)
    (auto intro: quiet_trans quiet_recordMeterValue)

lemma quiet_unregisterTriggered: "quiet s (unregisterTriggered k i vs s)"
  by (induction k i vs s rule: unregisterTriggered.induct) (auto intro: quiet_trans)

lemma OnMeterValues_quiet: "sys_ok s \<Longrightarrow> quiet s (OnMeterValues env now cp r s)"
proof (cases "getChargePoint env cp s")
  case (Pair res s1)
  assume "sys_ok s"
  then show ?thesis
  proof (rule quiet_withState [OF _ Pair])
    show "res = None \<Longrightarrow> OnMeterValues env now cp r s = s1" by (simp add: OnMeterValues_def Pair)
  next
    fix k st assume res: "res = Some (k, st)" and st: "cps_ok st"
    obtain c st2 s2 where g: "getConnector env k st (mr_ConnectorId r) s1 = (c, st2, s2)"
      by (cases "getConnector env k st (mr_ConnectorId r) s1") auto
    have "quiet s2 (OnMeterValues env now cp r s)"
      by (auto simp: OnMeterValues_def Pair res g Let_def quiet_recordMeterValues
          quiet_unregisterTriggered split: option.split)
    with quiet_getConnector [OF g st] show "quiet s1 (OnMeterValues env now cp r s)"
      by (auto intro: quiet_trans)
  qed
qed

lemma quiet_statusError: "quiet s (statusError env now cp r st s)"
proof -
  have o: "quiet s (ObserveError l cp c s)" for l c by (rule traces_quiet) simp
  have e: "quiet t (emit (ErrorReported d) t)" for t :: "'a sys" and d by (simp add: quiet_emit)
  show ?thesis by (simp add: statusError_def Let_def o quiet_trans [OF o e])
qed

lemma quiet_statusConnector:
  assumes "statusConnector env now cp k r st s = (c, st', s')" "cps_ok st"
  shows "quiet s s' \<and> cps_ok st'"
proof -
  obtain c0 st0 s0 where g: "getConnector env k st (sn_ConnectorId r) s = (c0, st0, s0)"
    by (cases "getConnector env k st (sn_ConnectorId r) s") auto
  from quiet_getConnector [OF g assms(2)] have q: "quiet s s0" "cps_ok st0" by auto
  have st': "cps_ok st'" using assms(1) q(2) by (auto simp: statusConnector_def g Let_def)
  obtain t where t: "t = dbTry env (UpdateConnector c) (putCP k st' s0)" by blast
  have "quiet s0 (putCP k st' s0)" using st' by (intro quiet_putCP)
  also have "quiet (putCP k st' s0) t" unfolding t by (rule quiet_dbTry) simp
  finally have "quiet s0 t" .
  moreover have "quiet t s'" using assms(1) by (auto simp: statusConnector_def g Let_def t)
  ultimately show ?thesis using q st' quiet_trans by blast
qed

lemma quiet_statusMain:
  assumes "statusMain env now k r st s = (st', s')" "cps_ok st"
  shows "quiet s s' \<and> cps_ok st'"
  using assms by (auto simp: statusMain_def Let_def intro!: quiet_trans [OF quiet_putCP quiet_dbTry])

lemma quiet_spawnIf: "quiet s (if b then spawn g s else s)"
  by simp

lemma OnStatusNotification_quiet: "sys_ok s \<Longrightarrow> quiet s (OnStatusNotification env now cp r s)"
proof (cases "getChargePoint env cp s")
  case (Pair res s1)
  assume "sys_ok s"
  then show ?thesis
  proof (rule quiet_withState [OF _ Pair])
    show "res = None \<Longrightarrow> OnStatusNotification env now cp r s = s1" by (simp add: OnStatusNotification_def Pair)
  next
    fix k st assume res: "res = Some (k, st)" and st: "cps_ok st"
    let ?st = "st\<lparr>cps_errorCode := sn_ErrorCode r\<rparr>"
    let ?s2 = "putCP k ?st s1"
    have q2: "quiet s1 ?s2" using st by (intro quiet_putCP) simp
    obtain c st3 s3 where b: "(if sn_ConnectorId r > 0
                 then let (c, state, s) = statusConnector env now cp k r ?st ?s2 in (Some c, state, s)
                 else let (state, s) = statusMain env now k r ?st ?s2 in (None, state, s)) = (c, st3, s3)"
      by (cases "if sn_ConnectorId r > 0
                 then let (c, state, s) = statusConnector env now cp k r ?st ?s2 in (Some c, state, s)
                 else let (state, s) = statusMain env now k r ?st ?s2 in (None, state, s)") auto
    have q3: "quiet ?s2 s3"
      using b st quiet_statusConnector [of env now cp k r ?st ?s2] quiet_statusMain [of env now k r ?st ?s2]
      by (auto split: if_splits prod.splits)
    obtain m where m: "OnStatusNotification env now cp r s =
        (let s = notifyEventListeners StatusNotification m (statusError env now cp r st3 s3);
             s = (if sn_ConnectorId r > 0 \<and> sn_Status r = ChargePointStatusAvailable
                  then spawn GoCheckAndFinishTransactions s else s)
         in (case c of None \<Rightarrow> s
              | Some c \<Rightarrow> checkListenTransaction env k (sn_ConnectorId r) c (cp_IsOnline (cps_model st3)) s))"
      using b by (simp add: OnStatusNotification_def Pair res Let_def split: prod.splits)
    let ?s4 = "notifyEventListeners StatusNotification m (statusError env now cp r st3 s3)"
    have "quiet s3 ?s4" by (rule quiet_trans [OF quiet_statusError quiet_notify])
    also have "quiet ?s4 (if sn_ConnectorId r > 0 \<and> sn_Status r = ChargePointStatusAvailable
                  then spawn GoCheckAndFinishTransactions ?s4 else ?s4)" by (rule quiet_spawnIf)
    also have "quiet \<dots> (OnStatusNotification env now cp r s)"
      by (simp add: m Let_def split: option.split)
    finally show "quiet s1 (OnStatusNotification env now cp r s)"
      using q2 q3 quiet_trans by blast
  qed
qed

lemma OnDiagnosticsStatusNotification_quiet:
  "sys_ok s \<Longrightarrow> quiet s (OnDiagnosticsStatusNotification env cp x s)"
  by (cases "getChargePoint env cp s", erule quiet_withState, assumption)
    (auto simp: OnDiagnosticsStatusNotification_def intro!: quiet_putCP)

lemma OnFirmwareStatusNotification_quiet:
  "sys_ok s \<Longrightarrow> quiet s (OnFirmwareStatusNotification env cp x s)"
  by (cases "getChargePoint env cp s", erule quiet_withState, assumption)
    (auto simp: OnFirmwareStatusNotification_def intro!: quiet_putCP)

lemma OnHeartbeat_quiet: "quiet s (snd (OnHeartbeat env now cp s))"
  using quiet_getChargePoint [OF prod.collapse [symmetric]] by (simp add: OnHeartbeat_def)

lemma OnDataTransfer_quiet: "quiet s (snd (OnDataTransfer env cp s))"
  using quiet_getChargePoint [of env cp s] by (auto simp: OnDataTransfer_def split: prod.split option.split)

text \<open>A command changes the state only by loading the charge point.\<close>

lemma withChargePoint_state: "snd (withChargePoint env cp f s) = snd (getChargePoint env cp s)"
  by (auto simp: withChargePoint_def split: prod.split option.split)

lemmas command_defs = OnTriggerMessage_def OnRemoteStartTransaction_def OnRemoteStopTransaction_def
  OnGetConfiguration_def OnChangeConfiguration_def OnSetChargingProfile_def OnGetCompositeSchedule_def
  OnClearChargingProfile_def OnGetDiagnostics_def OnReset_def

lemma OnSendLocalList_state: "snd (OnSendLocalList env cp s) = snd (getChargePoint env cp s)"
  by (auto simp: OnSendLocalList_def Let_def split: prod.split option.split)

lemma quiet_onlineConnectors: "quiet s (onlineConnectors env k st on x cs s)"
  by (induction env k st on x cs s rule: onlineConnectors.induct)
    (auto intro: quiet_trans [OF quiet_trans [OF quiet_checkListen quiet_notify]])

lemma quiet_observeConnections: "quiet s (observeConnections ls s)"
  by (induction ls s rule: observeConnections.induct)
    (auto intro: quiet_trans [OF traces_quiet [OF traces_gauges(1)]])

lemma quiet_onlineChanged: "quiet s (onlineChanged env now i k st on s)"
  unfolding onlineChanged_def Let_def by (rule quiet_trans [OF quiet_notify quiet_onlineConnectors])

lemma OnOnlineStatusChanged_quiet:
  assumes "sys_ok s" "OnOnlineStatusChanged env now i on s = Some s'"
  shows "quiet s s'"
proof (cases "getChargePoint env i s")
  case (Pair res s1)
  show ?thesis
  proof (rule quiet_withState [OF assms(1) Pair])
    show "res = None \<Longrightarrow> s' = s1" using assms(2) by (simp add: OnOnlineStatusChanged_def Pair)
  next
    fix k st assume res: "res = Some (k, st)" and st: "cps_ok st"
    let ?s2 = "if cp_IsOnline (cps_model st) \<noteq> on then onlineChanged env now i k st on s1 else s1"
    let ?st = "st\<lparr>cps_model := (cps_model st)\<lparr>cp_IsOnline := on, cp_EventTime := getTime now\<rparr>\<rparr>"
    have "quiet s1 ?s2" by (simp add: quiet_onlineChanged)
    also have "quiet ?s2 (putCP k ?st ?s2)" using st by (intro quiet_putCP) simp
    finally have q: "quiet s1 (putCP k ?st ?s2)" .
    show "quiet s1 s'"
    proof (cases "\<not> on \<and> \<not> cp_IsOnline (cps_model st)")
      case True
      with assms(2) show ?thesis by (simp add: OnOnlineStatusChanged_def Pair res)
    next
      case False
      then obtain D where D: "database env = Some D"
        using assms(2) by (cases "database env") (auto simp: OnOnlineStatusChanged_def Pair res split: if_splits)
      let ?s3 = "dbDo D (UpdateOnlineStatus i on) (putCP k ?st ?s2)"
      have q3: "quiet (putCP k ?st ?s2) ?s3" by (rule quiet_dbDo) simp
      have "(case OnlineCounter D (db ?s3) of (_, Some _) \<Rightarrow> Some ?s3
            | (onlineCounter, None) \<Rightarrow> Some (observeConnections onlineCounter ?s3)) = Some s'"
        using assms(2) False unfolding OnOnlineStatusChanged_def Pair res Let_def D
        by (simp only: prod.case option.case if_False bind.bind_lunit)
      then have "quiet ?s3 s'"
        by (auto split: prod.splits option.splits intro: quiet_observeConnections)
      with q q3 show ?thesis using quiet_trans by blast
    qed
  qed
qed

lemma runGoroutine_quiet: "sys_ok s \<Longrightarrow> quiet s (runGoroutine env now g s)"
  by (cases g) (auto simp: quiet_checkAndFinish quiet_reconcile quiet_enforceInterval quiet_enforceMeasurands
      intro: quiet_trans [OF quiet_checkAndFinish quiet_spawn])

end
