(* ===== verification/Mongo.thy ===== *)
theory Mongo
  imports Database
begin

text \<open>
  The storage of \<^verbatim>\<open>src/internal/mongo.go\<close>. The MongoDB driver and server are not part of the
  repository: a collection is a record of the operations the driver offers (\<open>coll\<close>), a parameter of the
  model, and what the code relies on is the predicate \<open>coll_ok\<close>, the documented behaviour of those
  operations while the server is reachable (\<open>up\<close>): a query selects the matching documents in
  insertion order or sorted by a key, an insert appends, an update changes the first match, and a write
  to one collection leaves the others alone. A filter is a predicate on documents, a \<^verbatim>\<open>$set\<close> a
  function on them; a \<^verbatim>\<open>$lookup\<close> is a query on the other collection. Connecting and
  disconnecting are part of each operation's success or failure.
\<close>

section \<open>Collections\<close>

record ('db, 'doc) coll =
  findOne :: "('doc \<Rightarrow> bool) \<Rightarrow> 'db \<Rightarrow> DbErr + 'doc"
  findOneDesc :: "('doc \<Rightarrow> int) \<Rightarrow> ('doc \<Rightarrow> bool) \<Rightarrow> 'db \<Rightarrow> DbErr + 'doc"
  findMany :: "('doc \<Rightarrow> bool) \<Rightarrow> 'db \<Rightarrow> DbErr + 'doc list"
  findManyAsc :: "('doc \<Rightarrow> int) \<Rightarrow> ('doc \<Rightarrow> bool) \<Rightarrow> 'db \<Rightarrow> DbErr + 'doc list"
  insertOne :: "'doc \<Rightarrow> 'db \<Rightarrow> DbErr option \<times> 'db"
  updateOne :: "('doc \<Rightarrow> bool) \<Rightarrow> ('doc \<Rightarrow> 'doc) \<Rightarrow> 'db \<Rightarrow> DbErr option \<times> 'db"
  upsertOne :: "('doc \<Rightarrow> bool) \<Rightarrow> ('doc \<Rightarrow> 'doc) \<Rightarrow> 'doc \<Rightarrow> 'db \<Rightarrow> DbErr option \<times> 'db"
  updateMany :: "('doc \<Rightarrow> bool) \<Rightarrow> ('doc \<Rightarrow> 'doc) \<Rightarrow> 'db \<Rightarrow> DbErr option \<times> 'db"
  deleteMany :: "('doc \<Rightarrow> bool) \<Rightarrow> 'db \<Rightarrow> DbErr option \<times> 'db"

fun updateFirst :: "('a \<Rightarrow> bool) \<Rightarrow> ('a \<Rightarrow> 'a) \<Rightarrow> 'a list \<Rightarrow> 'a list" where
  "updateFirst P f [] = []"
| "updateFirst P f (x # xs) = (if P x then f x # xs else x # updateFirst P f xs)"

definition upsertFirst :: "('a \<Rightarrow> bool) \<Rightarrow> ('a \<Rightarrow> 'a) \<Rightarrow> 'a \<Rightarrow> 'a list \<Rightarrow> 'a list" where
  "upsertFirst P f new xs = (if find P xs = None then xs @ [new] else updateFirst P f xs)"

text \<open>A document with the greatest key, the first of them.\<close>

fun greatest :: "('a \<Rightarrow> int) \<Rightarrow> 'a list \<Rightarrow> 'a option" where
  "greatest key [] = None"
| "greatest key (x # xs) =
     (case greatest key xs of None \<Rightarrow> Some x | Some y \<Rightarrow> if key y \<le> key x then Some x else Some y)"

definition foundOne :: "'doc option \<Rightarrow> DbErr + 'doc" where
  "foundOne r = (case r of None \<Rightarrow> Inl NotFound | Some x \<Rightarrow> Inr x)"

text \<open>The driver's behaviour on a reachable server, with \<open>get\<close> the content of the collection.\<close>

definition coll_reads :: "('db \<Rightarrow> bool) \<Rightarrow> ('db, 'doc) coll \<Rightarrow> ('db \<Rightarrow> 'doc list) \<Rightarrow> bool" where
  "coll_reads up C get \<longleftrightarrow> (\<forall>d. up d \<longrightarrow>
     (\<forall>P. findOne C P d = foundOne (find P (get d)))
     \<and> (\<forall>key P. findOneDesc C key P d = foundOne (greatest key (filter P (get d))))
     \<and> (\<forall>P. findMany C P d = Inr (filter P (get d)))
     \<and> (\<forall>key P. findManyAsc C key P d = Inr (sort_key key (filter P (get d)))))"

definition coll_writes :: "('db \<Rightarrow> bool) \<Rightarrow> ('db, 'doc) coll \<Rightarrow> ('db \<Rightarrow> 'doc list) \<Rightarrow> bool" where
  "coll_writes up C get \<longleftrightarrow> (\<forall>d. up d \<longrightarrow>
     (\<forall>x. \<exists>d'. insertOne C x d = (None, d') \<and> up d' \<and> get d' = get d @ [x])
     \<and> (\<forall>P f. \<exists>d'. updateOne C P f d = (None, d') \<and> up d' \<and> get d' = updateFirst P f (get d))
     \<and> (\<forall>P f x. \<exists>d'. upsertOne C P f x d = (None, d') \<and> up d' \<and> get d' = upsertFirst P f x (get d))
     \<and> (\<forall>P f. \<exists>d'. updateMany C P f d = (None, d') \<and> up d'
           \<and> get d' = map (\<lambda>x. if P x then f x else x) (get d))
     \<and> (\<forall>P. \<exists>d'. deleteMany C P d = (None, d') \<and> up d' \<and> get d' = filter (\<lambda>x. \<not> P x) (get d)))"

definition coll_keeps :: "('db, 'doc) coll \<Rightarrow> ('db \<Rightarrow> 'x) \<Rightarrow> bool" where
  "coll_keeps C view \<longleftrightarrow> (\<forall>d.
     (\<forall>x. view (snd (insertOne C x d)) = view d)
     \<and> (\<forall>P f. view (snd (updateOne C P f d)) = view d)
     \<and> (\<forall>P f x. view (snd (upsertOne C P f x d)) = view d)
     \<and> (\<forall>P f. view (snd (updateMany C P f d)) = view d)
     \<and> (\<forall>P. view (snd (deleteMany C P d)) = view d))"

section \<open>The database\<close>

record User =
  u_Username :: string
  u_PaymentPlan :: string

record 'db Mongo =
  chargePointsC :: "('db, ChargePoint) coll"
  connectorsC :: "('db, Connector) coll"
  locationsC :: "('db, Location) coll"
  userTagsC :: "('db, UserTag) coll"
  usersC :: "('db, User) coll"
  paymentPlansC :: "('db, PaymentPlan) coll"
  transactionsC :: "('db, Transaction) coll"
  meterValuesC :: "('db, TransactionMeter) coll"
  stopTransactionC :: "('db, StopTransactionRequest) coll"

text \<open>\<^verbatim>\<open>Decode\<close> gives the document or the error.\<close>

definition decoded :: "DbErr + 'a \<Rightarrow> 'a ptr_err" where
  "decoded r = (case r of Inl e \<Rightarrow> (None, Some e) | Inr x \<Rightarrow> (Some x, None))"

definition decodedAll :: "DbErr + 'a list \<Rightarrow> 'a slice_err" where
  "decodedAll r = (case r of Inl e \<Rightarrow> ([], Some e) | Inr xs \<Rightarrow> (xs, None))"

subsection \<open>Charge points and connectors\<close>

text \<open>The \<^verbatim>\<open>$lookup\<close> of the connectors of each charge point.\<close>

definition withConnectors :: "Connector list \<Rightarrow> ChargePoint \<Rightarrow> ChargePoint" where
  "withConnectors cs cp = cp\<lparr>cp_Connectors := filter (\<lambda>c. c_ChargePointId c = cp_Id cp) cs\<rparr>"

definition joinConnectors ::
    "'db Mongo \<Rightarrow> (ChargePoint \<Rightarrow> bool) \<Rightarrow> 'db \<Rightarrow> DbErr + ChargePoint list" where
  "joinConnectors M P d =
     (case findMany (chargePointsC M) P d of Inl e \<Rightarrow> Inl e
      | Inr cps \<Rightarrow> (case findMany (connectorsC M) (\<lambda>_. True) d of Inl e \<Rightarrow> Inl e
                   | Inr cs \<Rightarrow> Inr (map (withConnectors cs) cps)))"

definition mongo_GetChargePoints :: "'db Mongo \<Rightarrow> 'db \<Rightarrow> ChargePoint slice_err" where
  "mongo_GetChargePoints M d = decodedAll (joinConnectors M (\<lambda>_. True) d)"

definition mongo_GetChargePoint :: "'db Mongo \<Rightarrow> string \<Rightarrow> 'db \<Rightarrow> ChargePoint ptr_err" where
  "mongo_GetChargePoint M i d =
     (case joinConnectors M (\<lambda>cp. cp_Id cp = i) d of
        Inl e \<Rightarrow> (None, Some e)
      | Inr [] \<Rightarrow> (None, Some (Failed ''not found''))
      | Inr (cp # _) \<Rightarrow> (Some cp, None))"

text \<open>
  The location pipeline: the charge points of the location (a location without any is dropped by the
  unwinding), each with its connectors, grouped back into the location.
\<close>

definition withEvses :: "ChargePoint list \<Rightarrow> Location list \<Rightarrow> Location list" where
  "withEvses cps ls =
     filter (\<lambda>l. loc_Evses l \<noteq> [])
       (map (\<lambda>l. l\<lparr>loc_Evses := filter (\<lambda>cp. cp_LocationId cp = loc_Id l) cps\<rparr>) ls)"

definition joinLocations :: "'db Mongo \<Rightarrow> (Location \<Rightarrow> bool) \<Rightarrow> 'db \<Rightarrow> DbErr + Location list" where
  "joinLocations M P d =
     (case findMany (locationsC M) P d of Inl e \<Rightarrow> Inl e
      | Inr ls \<Rightarrow> (case joinConnectors M (\<lambda>_. True) d of Inl e \<Rightarrow> Inl e
                  | Inr cps \<Rightarrow> Inr (withEvses cps ls)))"

definition mongo_GetLocation :: "'db Mongo \<Rightarrow> string \<Rightarrow> 'db \<Rightarrow> Location ptr_err" where
  "mongo_GetLocation M locationId d =
     (case joinLocations M (\<lambda>l. loc_Id l = locationId) d of
        Inl e \<Rightarrow> (None, Some e)
      | Inr [] \<Rightarrow> (None, Some (Failed ''not found''))
      | Inr (l # _) \<Rightarrow> (Some l, None))"

definition mongo_GetLocations :: "'db Mongo \<Rightarrow> 'db \<Rightarrow> Location slice_err" where
  "mongo_GetLocations M d = decodedAll (joinLocations M (\<lambda>_. True) d)"

definition mongo_UpdateChargePoint :: "'db Mongo \<Rightarrow> ChargePoint \<Rightarrow> 'db \<Rightarrow> DbErr option \<times> 'db" where
  "mongo_UpdateChargePoint M cp d =
     updateOne (chargePointsC M) (\<lambda>x. cp_Id x = cp_Id cp)
       (\<lambda>x. x\<lparr>cp_SerialNumber := cp_SerialNumber cp, cp_FirmwareVersion := cp_FirmwareVersion cp,
             cp_Model := cp_Model cp, cp_Vendor := cp_Vendor cp\<rparr>) d"

definition mongo_UpdateChargePointStatus :: "'db Mongo \<Rightarrow> ChargePoint \<Rightarrow> 'db \<Rightarrow> DbErr option \<times> 'db" where
  "mongo_UpdateChargePointStatus M cp d =
     updateOne (chargePointsC M) (\<lambda>x. cp_Id x = cp_Id cp)
       (\<lambda>x. x\<lparr>cp_Status := cp_Status cp, cp_StatusTime := cp_StatusTime cp, cp_Info := cp_Info cp\<rparr>) d"

definition mongo_UpdateOnlineStatus :: "'db Mongo \<Rightarrow> time \<Rightarrow> string \<Rightarrow> bool \<Rightarrow> 'db \<Rightarrow> DbErr option \<times> 'db" where
  "mongo_UpdateOnlineStatus M now chargePointId isOnline d =
     updateOne (chargePointsC M) (\<lambda>x. cp_Id x = chargePointId)
       (\<lambda>x. x\<lparr>cp_IsOnline := isOnline, cp_EventTime := now\<rparr>) d"

definition mongo_ResetOnlineStatus :: "'db Mongo \<Rightarrow> time \<Rightarrow> 'db \<Rightarrow> DbErr option \<times> 'db" where
  "mongo_ResetOnlineStatus M now d =
     updateMany (chargePointsC M) (\<lambda>_. True) (\<lambda>x. x\<lparr>cp_IsOnline := False, cp_EventTime := now\<rparr>) d"

definition mongo_AddChargePoint :: "'db Mongo \<Rightarrow> ChargePoint \<Rightarrow> 'db \<Rightarrow> DbErr option \<times> 'db" where
  "mongo_AddChargePoint M cp d =
     (case fst (mongo_GetChargePoint M (cp_Id cp) d) of
        Some _ \<Rightarrow> (Some (Failed (''charge point with id '' @ cp_Id cp @ '' already exists'')), d)
      | None \<Rightarrow> insertOne (chargePointsC M) cp d)"

definition isConnector :: "int \<Rightarrow> string \<Rightarrow> Connector \<Rightarrow> bool" where
  "isConnector i cp c \<longleftrightarrow> c_Id c = i \<and> c_ChargePointId c = cp"

definition setConnector :: "Connector \<Rightarrow> Connector \<Rightarrow> Connector" where
  "setConnector c x = x\<lparr>c_Status := c_Status c, c_StatusTime := c_StatusTime c, c_State := c_State c,
     c_Info := c_Info c, c_ErrorCode := c_ErrorCode c, c_VendorId := c_VendorId c,
     c_CurrentTransactionId := c_CurrentTransactionId c, c_CurrentPowerLimit := c_CurrentPowerLimit c\<rparr>"

definition mongo_UpdateConnector :: "'db Mongo \<Rightarrow> Connector \<Rightarrow> 'db \<Rightarrow> DbErr option \<times> 'db" where
  "mongo_UpdateConnector M c d =
     updateOne (connectorsC M) (isConnector (c_Id c) (c_ChargePointId c)) (setConnector c) d"

definition mongo_UpdateConnectorCurrentPower :: "'db Mongo \<Rightarrow> Connector \<Rightarrow> 'db \<Rightarrow> DbErr option \<times> 'db" where
  "mongo_UpdateConnectorCurrentPower M c d =
     updateOne (connectorsC M) (isConnector (c_Id c) (c_ChargePointId c))
       (\<lambda>x. x\<lparr>c_CurrentPowerLimit := c_CurrentPowerLimit c\<rparr>) d"

definition mongo_UpdateConnectorProfileVerdict ::
    "'db Mongo \<Rightarrow> string \<Rightarrow> int \<Rightarrow> ProfileVerdict \<Rightarrow> 'db \<Rightarrow> DbErr option \<times> 'db" where
  "mongo_UpdateConnectorProfileVerdict M cp i v d =
     updateOne (connectorsC M) (isConnector i cp) (\<lambda>x. x\<lparr>c_LastProfile := Some v\<rparr>) d"

definition mongo_GetConnector :: "'db Mongo \<Rightarrow> int \<Rightarrow> string \<Rightarrow> 'db \<Rightarrow> Connector ptr_err" where
  "mongo_GetConnector M i cp d = decoded (findOne (connectorsC M) (isConnector i cp) d)"

definition mongo_AddConnector :: "'db Mongo \<Rightarrow> Connector \<Rightarrow> 'db \<Rightarrow> DbErr option \<times> 'db" where
  "mongo_AddConnector M c d =
     (case fst (mongo_GetConnector M (c_Id c) (c_ChargePointId c) d) of
        Some old \<Rightarrow> (Some (Failed (''connector with id '' @ Itoa (c_Id old) @ ''@''
                              @ c_ChargePointId old @ '' already exists'')), d)
      | None \<Rightarrow> insertOne (connectorsC M) c d)"

text \<open>Online charge points per location; a location with none is absent from the result.\<close>

definition countOnline :: "ChargePoint list \<Rightarrow> (string \<times> int) list" where
  "countOnline cps =
     map (\<lambda>l. (l, int (length (filter (\<lambda>cp. cp_LocationId cp = l) cps))))
       (remdups (map cp_LocationId cps))"

definition mongo_OnlineCounter :: "'db Mongo \<Rightarrow> 'db \<Rightarrow> (string \<times> int) slice_err" where
  "mongo_OnlineCounter M d =
     (case findMany (chargePointsC M) cp_IsOnline d of Inl e \<Rightarrow> ([], Some e)
      | Inr cps \<Rightarrow> (countOnline cps, None))"

subsection \<open>Users, tags and plans\<close>

definition mongo_GetUserTag :: "'db Mongo \<Rightarrow> string \<Rightarrow> 'db \<Rightarrow> UserTag ptr_err" where
  "mongo_GetUserTag M i d = decoded (findOne (userTagsC M) (\<lambda>t. ut_IdTag t = i) d)"

definition mongo_AddUserTag :: "'db Mongo \<Rightarrow> UserTag \<Rightarrow> 'db \<Rightarrow> DbErr option \<times> 'db" where
  "mongo_AddUserTag M tag d =
     (case fst (mongo_GetUserTag M (ut_IdTag tag) d) of
        Some old \<Rightarrow> (Some (Failed (''ID tag '' @ ut_IdTag old @ '' is already registered'')), d)
      | None \<Rightarrow> insertOne (userTagsC M) tag d)"

definition mongo_UpdateTagLastSeen :: "'db Mongo \<Rightarrow> time \<Rightarrow> UserTag \<Rightarrow> 'db \<Rightarrow> DbErr option \<times> 'db" where
  "mongo_UpdateTagLastSeen M now tag d =
     updateOne (userTagsC M) (\<lambda>t. ut_IdTag t = ut_IdTag tag) (\<lambda>t. t\<lparr>ut_LastSeen := now\<rparr>) d"

definition mongo_UpdateTag :: "'db Mongo \<Rightarrow> UserTag \<Rightarrow> 'db \<Rightarrow> DbErr option \<times> 'db" where
  "mongo_UpdateTag M tag d =
     updateOne (userTagsC M) (\<lambda>t. ut_IdTag t = ut_IdTag tag)
       (\<lambda>t. t\<lparr>ut_Note := ut_Note tag, ut_Source := ut_Source tag, ut_Username := ut_Username tag,
             ut_UserId := ut_UserId tag, ut_IsEnabled := ut_IsEnabled tag, ut_Local := ut_Local tag\<rparr>) d"

text \<open>
  \<^verbatim>\<open>GetActiveUserTags\<close> filters on a field \<^verbatim>\<open>is_active\<close> that a stored tag does not have, so no document
  matches. The update of the charge point it ends with writes back the four fields just read.
\<close>

definition mongo_GetActiveUserTags :: "'db Mongo \<Rightarrow> string \<Rightarrow> int \<Rightarrow> 'db \<Rightarrow> UserTag slice_err" where
  "mongo_GetActiveUserTags M chargePointId listVersion d =
     (case mongo_GetChargePoint M chargePointId d of
        (_, Some e) \<Rightarrow>
          ([], Some (Failed (''charge point with id '' @ chargePointId @ '' not found: '' @ errText e)))
      | (_, None) \<Rightarrow> decodedAll (findMany (userTagsC M) (\<lambda>t. False \<and> ut_Local t) d))"

definition mongo_GetDefaultPaymentPlan :: "'db Mongo \<Rightarrow> 'db \<Rightarrow> PaymentPlan ptr_err" where
  "mongo_GetDefaultPaymentPlan M d =
     decoded (findOne (paymentPlansC M) (\<lambda>p. pl_IsDefault p \<and> pl_IsActive p) d)"

definition mongo_GetUserPaymentPlan :: "'db Mongo \<Rightarrow> string \<Rightarrow> 'db \<Rightarrow> PaymentPlan ptr_err" where
  "mongo_GetUserPaymentPlan M username d =
     (case findOne (usersC M) (\<lambda>u. u_Username u = username) d of
        Inl e \<Rightarrow> (None, Some e)
      | Inr user \<Rightarrow>
         if u_PaymentPlan user = [] then mongo_GetDefaultPaymentPlan M d
         else case findOne (paymentPlansC M) (\<lambda>p. pl_PlanId p = u_PaymentPlan user \<and> pl_IsActive p) d of
                Inl _ \<Rightarrow> mongo_GetDefaultPaymentPlan M d
              | Inr plan \<Rightarrow> (Some plan, None))"

subsection \<open>Transactions and meter values\<close>

definition mongo_GetLastTransaction :: "'db Mongo \<Rightarrow> 'db \<Rightarrow> Transaction ptr_err" where
  "mongo_GetLastTransaction M d = decoded (findOneDesc (transactionsC M) t_Id (\<lambda>_. True) d)"

definition mongo_GetTransaction :: "'db Mongo \<Rightarrow> int \<Rightarrow> 'db \<Rightarrow> Transaction ptr_err" where
  "mongo_GetTransaction M i d = decoded (findOne (transactionsC M) (\<lambda>t. t_Id t = i) d)"

definition mongo_GetUnfinishedTransactionsForChargePoint ::
    "'db Mongo \<Rightarrow> string \<Rightarrow> 'db \<Rightarrow> Transaction slice_err" where
  "mongo_GetUnfinishedTransactionsForChargePoint M cp d =
     decodedAll (findMany (transactionsC M) (\<lambda>t. t_ChargePointId t = cp \<and> \<not> t_IsFinished t) d)"

text \<open>
  The sweep's pipeline: \<open>heldBy\<close> is \<^verbatim>\<open>$ifNull\<close> of the joined connector's pointer, one row per
  connector of that id (or one with no connector), \<open>lastActivity\<close> the later of the start and the
  newest reading, \<open>swept\<close> the selection and \<open>sweepCause\<close> the classification.
\<close>

definition heldBy :: "Connector list \<Rightarrow> Transaction \<Rightarrow> int list" where
  "heldBy cs t =
     (case filter (isConnector (t_ConnectorId t) (t_ChargePointId t)) cs of
        [] \<Rightarrow> [t_Id t] | hs \<Rightarrow> map c_CurrentTransactionId hs)"

definition lastActivity :: "TransactionMeter list \<Rightarrow> Transaction \<Rightarrow> time" where
  "lastActivity ms t = fold max (map m_Time (filter (\<lambda>m. m_Id m = t_Id t) ms)) (t_TimeStart t)"

definition swept :: "time \<Rightarrow> time \<Rightarrow> TransactionMeter list \<Rightarrow> Transaction \<Rightarrow> int \<Rightarrow> bool" where
  "swept staleBefore releasedBefore ms t held \<longleftrightarrow>
     (t_Id t \<noteq> held \<and> lastActivity ms t \<le> releasedBefore) \<or> lastActivity ms t \<le> staleBefore"

definition sweepCause :: "Transaction \<Rightarrow> int \<Rightarrow> string" where
  "sweepCause t held =
     (if t_Id t \<noteq> held then ''connector released without a stop''
      else ''no activity from the charge point'')"

definition sweepRows ::
    "time \<Rightarrow> time \<Rightarrow> Connector list \<Rightarrow> TransactionMeter list \<Rightarrow> Transaction list \<Rightarrow> SweptTransaction list" where
  "sweepRows staleBefore releasedBefore cs ms ts =
     concat (map (\<lambda>t. map (\<lambda>held. \<lparr>sw_Transaction = t, sw_Cause = sweepCause t held,
                                  sw_LastActivity = lastActivity ms t\<rparr>)
                       (filter (swept staleBefore releasedBefore ms t) (heldBy cs t))) ts)"

definition mongo_GetUnfinishedTransactions ::
    "'db Mongo \<Rightarrow> time \<Rightarrow> time \<Rightarrow> 'db \<Rightarrow> SweptTransaction slice_err" where
  "mongo_GetUnfinishedTransactions M staleBefore releasedBefore d =
     (case (findMany (transactionsC M) (\<lambda>t. \<not> t_IsFinished t) d, findMany (connectorsC M) (\<lambda>_. True) d,
            findMany (meterValuesC M) (\<lambda>_. True) d) of
        (Inr ts, Inr cs, Inr ms) \<Rightarrow> (sweepRows staleBefore releasedBefore cs ms ts, None)
      | (Inl e, _, _) \<Rightarrow> ([], Some e)
      | (_, Inl e, _) \<Rightarrow> ([], Some e)
      | (_, _, Inl e) \<Rightarrow> ([], Some e))"

definition mongo_AddTransaction :: "'db Mongo \<Rightarrow> Transaction \<Rightarrow> 'db \<Rightarrow> DbErr option \<times> 'db" where
  "mongo_AddTransaction M tr d = insertOne (transactionsC M) tr d"

text \<open>A \<^verbatim>\<open>$set\<close> of the whole struct; fields tagged \<^verbatim>\<open>omitempty\<close> keep the stored value when empty.\<close>

definition setTransaction :: "Transaction \<Rightarrow> Transaction \<Rightarrow> Transaction" where
  "setTransaction tr old =
     tr\<lparr>t_Plan := (if t_Plan tr = None then t_Plan old else t_Plan tr),
        t_ProtocolVersion := (if t_ProtocolVersion tr = [] then t_ProtocolVersion old else t_ProtocolVersion tr),
        t_EvseId := (if t_EvseId tr = None then t_EvseId old else t_EvseId tr),
        t_Metadata := (if t_Metadata tr = [] then t_Metadata old else t_Metadata tr)\<rparr>"

definition mongo_UpdateTransaction :: "'db Mongo \<Rightarrow> Transaction \<Rightarrow> 'db \<Rightarrow> DbErr option \<times> 'db" where
  "mongo_UpdateTransaction M tr d =
     updateOne (transactionsC M) (\<lambda>t. t_Id t = t_Id tr) (setTransaction tr) d"

definition mongo_UpdateTransactionPowerLimit :: "'db Mongo \<Rightarrow> int \<Rightarrow> int \<Rightarrow> 'db \<Rightarrow> DbErr option \<times> 'db" where
  "mongo_UpdateTransactionPowerLimit M i limit d =
     updateOne (transactionsC M) (\<lambda>t. t_Id t = i) (\<lambda>t. t\<lparr>t_PowerLimit := limit\<rparr>) d"

definition sameSample :: "TransactionMeter \<Rightarrow> TransactionMeter \<Rightarrow> bool" where
  "sameSample mv m \<longleftrightarrow> m_Id m = m_Id mv \<and> m_Measurand m = m_Measurand mv \<and> m_Minute m = m_Minute mv"

definition mongo_AddTransactionMeterValue :: "'db Mongo \<Rightarrow> TransactionMeter \<Rightarrow> 'db \<Rightarrow> DbErr option \<times> 'db" where
  "mongo_AddTransactionMeterValue M mv d =
     upsertOne (meterValuesC M) (sameSample mv) (\<lambda>_. mv) mv d"

definition mongo_ReadTransactionMeterValue :: "'db Mongo \<Rightarrow> int \<Rightarrow> 'db \<Rightarrow> TransactionMeter ptr_err" where
  "mongo_ReadTransactionMeterValue M i d = decoded (findOneDesc (meterValuesC M) m_Time (\<lambda>m. m_Id m = i) d)"

definition mongo_ReadAllTransactionMeterValues :: "'db Mongo \<Rightarrow> int \<Rightarrow> 'db \<Rightarrow> TransactionMeter slice_err" where
  "mongo_ReadAllTransactionMeterValues M i d =
     decodedAll (findManyAsc (meterValuesC M) m_Time (\<lambda>m. m_Id m = i) d)"

text \<open>The pipeline sorts by time, newest first, and keeps the first reading of each transaction.\<close>

definition latestMeters :: "TransactionMeter list \<Rightarrow> TransactionMeter list" where
  "latestMeters ms =
     (let sorted = rev (sort_key m_Time ms)
      in map (\<lambda>i. hd (filter (\<lambda>m. m_Id m = i) sorted)) (remdups (map m_Id ms)))"

definition mongo_ReadLastMeterValues :: "'db Mongo \<Rightarrow> 'db \<Rightarrow> TransactionMeter slice_err" where
  "mongo_ReadLastMeterValues M d =
     (case findMany (meterValuesC M) (\<lambda>_. True) d of Inl e \<Rightarrow> ([], Some e)
      | Inr ms \<Rightarrow> (latestMeters ms, None))"

definition mongo_DeleteTransactionMeterValues :: "'db Mongo \<Rightarrow> int \<Rightarrow> 'db \<Rightarrow> DbErr option \<times> 'db" where
  "mongo_DeleteTransactionMeterValues M i d = deleteMany (meterValuesC M) (\<lambda>m. m_Id m = i) d"

definition mongo_SaveStopTransactionRequest ::
    "'db Mongo \<Rightarrow> StopTransactionRequest \<Rightarrow> 'db \<Rightarrow> DbErr option \<times> 'db" where
  "mongo_SaveStopTransactionRequest M r d = insertOne (stopTransactionC M) r d"

text \<open>
  Today's energy: the transactions stopped in the UTC day, grouped by location and charge point, a
  negative difference counted as zero.
\<close>

definition startOfDay :: "time \<Rightarrow> time" where
  "startOfDay now = now - now mod (86400 * nanos_per_second)"

definition locationOf :: "ChargePoint list \<Rightarrow> string \<Rightarrow> string" where
  "locationOf cps i = (case find (\<lambda>cp. cp_Id cp = i) cps of None \<Rightarrow> [] | Some cp \<Rightarrow> cp_LocationId cp)"

definition consumedGroups :: "ChargePoint list \<Rightarrow> Transaction list \<Rightarrow> ConsumedEnergy list" where
  "consumedGroups cps ts =
     map (\<lambda>i. let g = filter (\<lambda>t. t_ChargePointId t = i) ts
              in \<lparr>ce_Location = locationOf cps i, ce_ChargePointID = i,
                  ce_Consumed = sum_list (map (\<lambda>t. max 0 (t_MeterStop t - t_MeterStart t)) g),
                  ce_Count = int (length g)\<rparr>)
       (remdups (map t_ChargePointId ts))"

definition mongo_GetTodayConsumedEnergy :: "'db Mongo \<Rightarrow> time \<Rightarrow> 'db \<Rightarrow> ConsumedEnergy slice_err" where
  "mongo_GetTodayConsumedEnergy M now d =
     (case (findMany (transactionsC M)
              (\<lambda>t. t_IsFinished t \<and> startOfDay now \<le> t_TimeStop t
                    \<and> t_TimeStop t < startOfDay now + 86400 * nanos_per_second) d,
            findMany (chargePointsC M) (\<lambda>_. True) d) of
        (Inr ts, Inr cps) \<Rightarrow> (consumedGroups cps ts, None)
      | (Inl e, _) \<Rightarrow> ([], Some e)
      | (_, Inl e) \<Rightarrow> ([], Some e))"

subsection \<open>The interface\<close>

fun mongo_exec :: "'db Mongo \<Rightarrow> time \<Rightarrow> DbWrite \<Rightarrow> 'db \<Rightarrow> DbErr option \<times> 'db" where
  "mongo_exec M now ResetOnlineStatus d = mongo_ResetOnlineStatus M now d"
| "mongo_exec M now (AddChargePoint cp) d = mongo_AddChargePoint M cp d"
| "mongo_exec M now (UpdateChargePoint cp) d = mongo_UpdateChargePoint M cp d"
| "mongo_exec M now (UpdateChargePointStatus cp) d = mongo_UpdateChargePointStatus M cp d"
| "mongo_exec M now (UpdateOnlineStatus i b) d = mongo_UpdateOnlineStatus M now i b d"
| "mongo_exec M now (AddConnector c) d = mongo_AddConnector M c d"
| "mongo_exec M now (UpdateConnector c) d = mongo_UpdateConnector M c d"
| "mongo_exec M now (UpdateConnectorCurrentPower c) d = mongo_UpdateConnectorCurrentPower M c d"
| "mongo_exec M now (UpdateConnectorProfileVerdict cp i v) d = mongo_UpdateConnectorProfileVerdict M cp i v d"
| "mongo_exec M now (AddUserTag t) d = mongo_AddUserTag M t d"
| "mongo_exec M now (UpdateTag t) d = mongo_UpdateTag M t d"
| "mongo_exec M now (UpdateTagLastSeen t) d = mongo_UpdateTagLastSeen M now t d"
| "mongo_exec M now (AddTransaction tr) d = mongo_AddTransaction M tr d"
| "mongo_exec M now (UpdateTransaction tr) d = mongo_UpdateTransaction M tr d"
| "mongo_exec M now (UpdateTransactionPowerLimit i l) d = mongo_UpdateTransactionPowerLimit M i l d"
| "mongo_exec M now (SaveStopTransactionRequest r) d = mongo_SaveStopTransactionRequest M r d"
| "mongo_exec M now (AddTransactionMeterValue mv) d = mongo_AddTransactionMeterValue M mv d"
| "mongo_exec M now (DeleteTransactionMeterValues i) d = mongo_DeleteTransactionMeterValues M i d"

text \<open>\<open>now\<close> is the clock the storage layer reads for its own time stamps.\<close>

definition mongo_Database :: "'db Mongo \<Rightarrow> time \<Rightarrow> 'db Database" where
  "mongo_Database M now =
     \<lparr>exec = mongo_exec M now, OnlineCounter = mongo_OnlineCounter M,
      GetChargePoints = mongo_GetChargePoints M, GetChargePoint = mongo_GetChargePoint M,
      GetConnector = mongo_GetConnector M, GetLocation = mongo_GetLocation M,
      GetLocations = mongo_GetLocations M, GetUserTag = mongo_GetUserTag M,
      GetActiveUserTags = mongo_GetActiveUserTags M, GetUserPaymentPlan = mongo_GetUserPaymentPlan M,
      GetDefaultPaymentPlan = mongo_GetDefaultPaymentPlan M, GetLastTransaction = mongo_GetLastTransaction M,
      GetTransaction = mongo_GetTransaction M,
      GetUnfinishedTransactions = mongo_GetUnfinishedTransactions M,
      GetUnfinishedTransactionsForChargePoint = mongo_GetUnfinishedTransactionsForChargePoint M,
      GetTodayConsumedEnergy = mongo_GetTodayConsumedEnergy M now,
      ReadTransactionMeterValue = mongo_ReadTransactionMeterValue M,
      ReadAllTransactionMeterValues = mongo_ReadAllTransactionMeterValues M,
      ReadLastMeterValues = mongo_ReadLastMeterValues M\<rparr>"

section \<open>The storage keeps the contract\<close>

lemma find_updateFirst:
  "(\<And>x. P x \<Longrightarrow> P (f x)) \<Longrightarrow> find P (updateFirst P f xs) = map_option f (find P xs)"
  by (induction xs) auto

lemma find_updateFirst_other:
  "(\<And>x. Q x \<Longrightarrow> \<not> P x \<and> \<not> P (f x)) \<Longrightarrow> find P (updateFirst Q f xs) = find P xs"
  by (induction xs) auto

lemma coll_writesD:
  assumes "coll_writes up C get" "up d"
  shows "up (snd (insertOne C x d))" "up (snd (updateOne C P f d))" "up (snd (upsertOne C P f x d))"
    "up (snd (updateMany C P f d))" "up (snd (deleteMany C P d))"
    "get (snd (insertOne C x d)) = get d @ [x]" "get (snd (updateOne C P f d)) = updateFirst P f (get d)"
    "fst (insertOne C x d) = None" "fst (updateOne C P f d) = None"
  using assms unfolding coll_writes_def by (metis fst_conv snd_conv)+

lemma coll_readsD:
  assumes "coll_reads up C get" "up d"
  shows "findOne C P d = foundOne (find P (get d))" "findMany C P d = Inr (filter P (get d))"
    "findOneDesc C key P d = foundOne (greatest key (filter P (get d)))"
    "findManyAsc C key P d = Inr (sort_key key (filter P (get d)))"
  using assms unfolding coll_reads_def by auto

lemma coll_keepsD:
  assumes "coll_keeps C view"
  shows "view (snd (insertOne C x d)) = view d" "view (snd (updateOne C P f d)) = view d"
    "view (snd (upsertOne C P f x d)) = view d" "view (snd (updateMany C P f d)) = view d"
    "view (snd (deleteMany C P d)) = view d"
  using assms unfolding coll_keeps_def by auto

text \<open>The driver as the storage layer relies on it: every collection, and their independence.\<close>

locale mongo_driver =
  fixes M :: "'db Mongo" and up :: "'db \<Rightarrow> bool"
    and cps :: "'db \<Rightarrow> ChargePoint list" and conns :: "'db \<Rightarrow> Connector list"
    and tags :: "'db \<Rightarrow> UserTag list" and trs :: "'db \<Rightarrow> Transaction list"
    and meters :: "'db \<Rightarrow> TransactionMeter list" and stops :: "'db \<Rightarrow> StopTransactionRequest list"
  assumes writes: "coll_writes up (chargePointsC M) cps" "coll_writes up (connectorsC M) conns"
      "coll_writes up (userTagsC M) tags" "coll_writes up (transactionsC M) trs"
      "coll_writes up (meterValuesC M) meters" "coll_writes up (stopTransactionC M) stops"
    and reads: "coll_reads up (transactionsC M) trs" "coll_reads up (connectorsC M) conns"
      "coll_reads up (meterValuesC M) meters" "coll_reads up (chargePointsC M) cps"
    and keeps: "coll_keeps (chargePointsC M) trs" "coll_keeps (connectorsC M) trs"
      "coll_keeps (userTagsC M) trs" "coll_keeps (meterValuesC M) trs" "coll_keeps (stopTransactionC M) trs"
begin

lemma GetTransaction_mongo:
  "up d \<Longrightarrow> mongo_GetTransaction M t d = decoded (foundOne (find (\<lambda>x. t_Id x = t) (trs d)))"
  by (simp add: mongo_GetTransaction_def coll_readsD [OF reads(1)])

lemma exec_up_mongo: "up d \<Longrightarrow> up (snd (mongo_exec M now w d))"
  by (cases w) (auto simp: mongo_ResetOnlineStatus_def mongo_AddChargePoint_def mongo_UpdateChargePoint_def
      mongo_UpdateChargePointStatus_def mongo_UpdateOnlineStatus_def mongo_AddConnector_def
      mongo_UpdateConnector_def mongo_UpdateConnectorCurrentPower_def
      mongo_UpdateConnectorProfileVerdict_def mongo_AddUserTag_def mongo_UpdateTag_def
      mongo_UpdateTagLastSeen_def mongo_AddTransaction_def mongo_UpdateTransaction_def
      mongo_UpdateTransactionPowerLimit_def mongo_SaveStopTransactionRequest_def
      mongo_AddTransactionMeterValue_def mongo_DeleteTransactionMeterValues_def
      coll_writesD [OF writes(1)] coll_writesD [OF writes(2)] coll_writesD [OF writes(3)]
      coll_writesD [OF writes(4)] coll_writesD [OF writes(5)] coll_writesD [OF writes(6)]
      split: option.split)

lemma exec_trs_mongo:
  assumes "up d" "\<not> writesTransaction t w"
  shows "find (\<lambda>x. t_Id x = t) (trs (snd (mongo_exec M now w d))) = find (\<lambda>x. t_Id x = t) (trs d)"
  using assms
  by (cases w) (auto simp: mongo_ResetOnlineStatus_def mongo_AddChargePoint_def mongo_UpdateChargePoint_def
      mongo_UpdateChargePointStatus_def mongo_UpdateOnlineStatus_def mongo_AddConnector_def
      mongo_UpdateConnector_def mongo_UpdateConnectorCurrentPower_def
      mongo_UpdateConnectorProfileVerdict_def mongo_AddUserTag_def mongo_UpdateTag_def
      mongo_UpdateTagLastSeen_def mongo_AddTransaction_def mongo_UpdateTransaction_def
      mongo_UpdateTransactionPowerLimit_def mongo_SaveStopTransactionRequest_def
      mongo_AddTransactionMeterValue_def mongo_DeleteTransactionMeterValues_def
      coll_keepsD [OF keeps(1)] coll_keepsD [OF keeps(2)] coll_keepsD [OF keeps(3)]
      coll_keepsD [OF keeps(4)] coll_keepsD [OF keeps(5)] coll_writesD [OF writes(4)]
      find_append setTransaction_def intro!: find_updateFirst_other split: option.split)

end

sublocale mongo_driver \<subseteq> md: database "mongo_Database M now" up for now
proof
  fix d w
  assume up: "up d"
  show "up (snd (exec (mongo_Database M now) w d))"
    using exec_up_mongo [OF up] by (simp add: mongo_Database_def)
next
  fix d t
  assume up: "up d"
  show "GetTransaction (mongo_Database M now) t d = (None, Some NotFound)
      \<or> (\<exists>tr. GetTransaction (mongo_Database M now) t d = (Some tr, None) \<and> t_Id tr = t)"
    by (auto simp: mongo_Database_def GetTransaction_mongo [OF up] decoded_def foundOne_def find_Some_iff
        split: option.split)
next
  fix d and tr :: Transaction
  assume up: "up d" and new: "fst (GetTransaction (mongo_Database M now) (t_Id tr) d) = None"
  have "find (\<lambda>x. t_Id x = t_Id tr) (trs d) = None"
    using new by (auto simp: mongo_Database_def GetTransaction_mongo [OF up] decoded_def foundOne_def
        split: option.splits)
  then show "fst (exec (mongo_Database M now) (AddTransaction tr) d) = None
        \<and> GetTransaction (mongo_Database M now) (t_Id tr)
             (snd (exec (mongo_Database M now) (AddTransaction tr) d)) = (Some tr, None)"
    by (simp add: mongo_Database_def GetTransaction_mongo mongo_AddTransaction_def find_append
        coll_writesD [OF writes(4) up] decoded_def foundOne_def)
next
  fix d and tr :: Transaction
  assume up: "up d" and old: "fst (GetTransaction (mongo_Database M now) (t_Id tr) d) \<noteq> None"
  then obtain o1 where o1: "find (\<lambda>x. t_Id x = t_Id tr) (trs d) = Some o1"
    by (auto simp: mongo_Database_def GetTransaction_mongo [OF up] decoded_def foundOne_def
        split: option.splits)
  have "find (\<lambda>x. t_Id x = t_Id tr) (updateFirst (\<lambda>x. t_Id x = t_Id tr) (setTransaction tr) (trs d))
      = Some (setTransaction tr o1)"
    by (subst find_updateFirst) (simp_all add: o1 setTransaction_def)
  then show "fst (exec (mongo_Database M now) (UpdateTransaction tr) d) = None
        \<and> (\<exists>tr'. GetTransaction (mongo_Database M now) (t_Id tr)
               (snd (exec (mongo_Database M now) (UpdateTransaction tr) d)) = (Some tr', None)
             \<and> sameOutcome tr' tr)"
    by (simp add: mongo_Database_def GetTransaction_mongo mongo_UpdateTransaction_def
        coll_writesD [OF writes(4) up] decoded_def foundOne_def sameOutcome_def setTransaction_def)
next
  fix d t w
  assume up: "up d" and w: "\<not> writesTransaction t w"
  show "GetTransaction (mongo_Database M now) t (snd (exec (mongo_Database M now) w d))
      = GetTransaction (mongo_Database M now) t d"
    using exec_trs_mongo [OF up w] exec_up_mongo [OF up]
    by (simp add: mongo_Database_def GetTransaction_mongo up)
qed

context mongo_driver
begin

lemma database_mongo: "Database.database (mongo_Database M now) up"
  by (rule md.database_axioms)

end

section \<open>A driver over lists\<close>

text \<open>
  The documented behaviour is satisfiable: collections as lists, with a flag for the reachability of
  the server. It is the driver with which concrete runs are evaluated.
\<close>

record Store =
  sto_chargePoints :: "ChargePoint list"
  sto_connectors :: "Connector list"
  sto_locations :: "Location list"
  sto_userTags :: "UserTag list"
  sto_users :: "User list"
  sto_plans :: "PaymentPlan list"
  sto_transactions :: "Transaction list"
  sto_meters :: "TransactionMeter list"
  sto_stops :: "StopTransactionRequest list"
  sto_up :: bool

definition emptyStore :: Store where
  "emptyStore = \<lparr>sto_chargePoints = [], sto_connectors = [], sto_locations = [], sto_userTags = [],
     sto_users = [], sto_plans = [], sto_transactions = [], sto_meters = [], sto_stops = [], sto_up = True\<rparr>"

definition downErr :: DbErr where "downErr = Failed ''server selection error''"

definition listColl :: "('db \<Rightarrow> bool) \<Rightarrow> ('db \<Rightarrow> 'doc list) \<Rightarrow> ('doc list \<Rightarrow> 'db \<Rightarrow> 'db) \<Rightarrow> ('db, 'doc) coll" where
  "listColl up get put =
     \<lparr>findOne = (\<lambda>P d. if up d then foundOne (find P (get d)) else Inl downErr),
      findOneDesc = (\<lambda>key P d. if up d then foundOne (greatest key (filter P (get d))) else Inl downErr),
      findMany = (\<lambda>P d. if up d then Inr (filter P (get d)) else Inl downErr),
      findManyAsc = (\<lambda>key P d. if up d then Inr (sort_key key (filter P (get d))) else Inl downErr),
      insertOne = (\<lambda>x d. if up d then (None, put (get d @ [x]) d) else (Some downErr, d)),
      updateOne = (\<lambda>P f d. if up d then (None, put (updateFirst P f (get d)) d) else (Some downErr, d)),
      upsertOne = (\<lambda>P f x d. if up d then (None, put (upsertFirst P f x (get d)) d) else (Some downErr, d)),
      updateMany = (\<lambda>P f d. if up d
         then (None, put (map (\<lambda>x. if P x then f x else x) (get d)) d) else (Some downErr, d)),
      deleteMany = (\<lambda>P d. if up d then (None, put (filter (\<lambda>x. \<not> P x) (get d)) d) else (Some downErr, d))\<rparr>"

definition listMongo :: "Store Mongo" where
  "listMongo =
     \<lparr>chargePointsC = listColl sto_up sto_chargePoints (\<lambda>x d. d\<lparr>sto_chargePoints := x\<rparr>),
      connectorsC = listColl sto_up sto_connectors (\<lambda>x d. d\<lparr>sto_connectors := x\<rparr>),
      locationsC = listColl sto_up sto_locations (\<lambda>x d. d\<lparr>sto_locations := x\<rparr>),
      userTagsC = listColl sto_up sto_userTags (\<lambda>x d. d\<lparr>sto_userTags := x\<rparr>),
      usersC = listColl sto_up sto_users (\<lambda>x d. d\<lparr>sto_users := x\<rparr>),
      paymentPlansC = listColl sto_up sto_plans (\<lambda>x d. d\<lparr>sto_plans := x\<rparr>),
      transactionsC = listColl sto_up sto_transactions (\<lambda>x d. d\<lparr>sto_transactions := x\<rparr>),
      meterValuesC = listColl sto_up sto_meters (\<lambda>x d. d\<lparr>sto_meters := x\<rparr>),
      stopTransactionC = listColl sto_up sto_stops (\<lambda>x d. d\<lparr>sto_stops := x\<rparr>)\<rparr>"

lemma listColl_ok:
  assumes "\<And>x d. get (put x d) = x" "\<And>x d. up (put x d) = up d"
  shows "coll_reads up (listColl up get put) get" "coll_writes up (listColl up get put) get"
  using assms by (simp_all add: coll_reads_def coll_writes_def listColl_def)

lemma listColl_keeps: "(\<And>x d. view (put x d) = view d) \<Longrightarrow> coll_keeps (listColl up get put) view"
  by (simp add: coll_keeps_def listColl_def)

interpretation store: mongo_driver listMongo sto_up sto_chargePoints sto_connectors sto_userTags
  sto_transactions sto_meters sto_stops
  by unfold_locales (simp_all add: listMongo_def listColl_ok listColl_keeps)

text \<open>The interface over the list driver, as used by concrete runs.\<close>

definition listDatabase :: "Store Database" where
  "listDatabase = mongo_Database listMongo 0"

interpretation listdb: database listDatabase sto_up
  unfolding listDatabase_def by (rule store.md.database_axioms)

section \<open>Further facts of the storage\<close>

text \<open>The newest reading is at least as new as every reading of the transaction.\<close>

lemma greatest_None [simp]: "greatest key xs = None \<longleftrightarrow> xs = []"
  by (cases xs) (auto split: option.splits)

lemma greatest_Some:
  "greatest key xs = Some x \<Longrightarrow> x \<in> set xs \<and> (\<forall>y \<in> set xs. key y \<le> key x)"
proof (induction xs arbitrary: x)
  case (Cons a xs)
  show ?case
  proof (cases "greatest key xs")
    case None
    with Cons.prems show ?thesis by simp
  next
    case (Some b)
    with Cons show ?thesis by (auto split: if_splits)
  qed
qed simp

lemma fold_max_le: "fold max xs (a :: 'a :: linorder) \<le> b \<longleftrightarrow> a \<le> b \<and> (\<forall>x \<in> set xs. x \<le> b)"
  by (induction xs arbitrary: a) auto

lemma lastActivity_le:
  "lastActivity ms t \<le> b \<longleftrightarrow> t_TimeStart t \<le> b \<and> (\<forall>m \<in> set ms. m_Id m = t_Id t \<longrightarrow> m_Time m \<le> b)"
  by (auto simp: lastActivity_def fold_max_le)

text \<open>What the sweep selects, without the pipeline.\<close>

lemma sweepRows_iff:
  "sw \<in> set (sweepRows stale rel cs ms ts) \<longleftrightarrow>
   (\<exists>t \<in> set ts. \<exists>held \<in> set (heldBy cs t). swept stale rel ms t held
      \<and> sw = \<lparr>sw_Transaction = t, sw_Cause = sweepCause t held, sw_LastActivity = lastActivity ms t\<rparr>)"
  by (auto simp: sweepRows_def)

lemma heldBy_unique:
  "filter (isConnector (t_ConnectorId t) (t_ChargePointId t)) cs = [c] \<Longrightarrow> heldBy cs t = [c_CurrentTransactionId c]"
  by (simp add: heldBy_def)

end
