(* ===== verification/Session.thy ===== *)
theory Session
  imports Transactions Mongo
begin

text \<open>
  A charging session against a reachable database: what the handlers of \<^verbatim>\<open>Transactions\<close> leave in
  the storage. The lemmas are proved once for any database with the contract of \<open>database\<close>; the
  properties below them are about the MongoDB storage of \<^verbatim>\<open>src/internal/mongo.go\<close>.
\<close>

section \<open>Facts for any database with the contract\<close>

context database
begin

lemma dbDo_up: "up (db s) \<Longrightarrow> up (db (dbDo D w s))"
  by (simp add: exec_up)

lemma dbDo_get: "up (db s) \<Longrightarrow> \<not> writesTransaction t w \<Longrightarrow>
  GetTransaction D t (db (dbDo D w s)) = GetTransaction D t (db s)"
  by (simp add: write_get)

lemma getUserTag_up:
  assumes "database env = Some D" "up (db s)" "getUserTag env now tag s = (u, s')"
  shows "up (db s') \<and> (\<forall>t. GetTransaction D t (db s') = GetTransaction D t (db s))"
  using assms
  by (auto simp: getUserTag_def Let_def exec_up write_get split: option.splits prod.splits)

text \<open>The transaction a creation adds is found afterwards, open, on its connector.\<close>

lemma startStore_get:
  assumes "database env = Some D" "up (db s)" "fst (GetTransaction D (t_Id tr) (db s)) = None"
    and "startStore env now cp u c tr s = (tr', s')"
  shows "up (db s')" "GetTransaction D (t_Id tr) (db s') = (Some tr', None)"
    "t_IsFinished tr' = t_IsFinished tr" "t_ConnectorId tr' = t_ConnectorId tr"
proof -
  let ?s1 = "dbDo D (UpdateTagLastSeen u) s"
  obtain err tr1 a where b: "OnTransactionStart D (minuteOfDay env now) (db ?s1) (billing ?s1) tr = (err, tr1, a)"
    by (cases "OnTransactionStart D (minuteOfDay env now) (db ?s1) (billing ?s1) tr") auto
  note B = aff.start_keeps [OF b]
  let ?d1 = "db ?s1" and ?d2 = "snd (exec D (AddTransaction tr1) (db ?s1))"
  have up1: "up ?d1" using assms(2) by (rule dbDo_up)
  have "fst (GetTransaction D (t_Id tr1) ?d1) = None" using B assms(2,3) by (simp add: write_get)
  from add_get [OF up1 this]
  have g2: "GetTransaction D (t_Id tr) ?d2 = (Some tr1, None)" using B by simp
  have up2: "up ?d2" using up1 by (rule exec_up)
  have s': "tr' = tr1" "db s' = snd (exec D (UpdateConnector c) ?d2)"
    using assms(1,4) b by (auto simp: startStore_def Let_def split: option.splits)
  show "up (db s')" using s' up2 exec_up by simp
  show "GetTransaction D (t_Id tr) (db s') = (Some tr', None)" using s' up2 g2 by (simp add: write_get)
  show "t_IsFinished tr' = t_IsFinished tr" "t_ConnectorId tr' = t_ConnectorId tr" using B s' by auto
qed

lemma startCreate_get:
  assumes D: "database env = Some D" and up: "up (db s)"
    and new: "fst (GetTransaction D (newTransactionId s) (db s)) = None"
    and run: "startCreate env now cp k st c r s = (i, c', st', s')"
  shows "up (db s') \<and> (\<exists>tr. GetTransaction D (newTransactionId s) (db s') = (Some tr, None)
     \<and> \<not> t_IsFinished tr \<and> t_ConnectorId tr = sr_ConnectorId r)"
proof -
  obtain u s1 where u: "getUserTag env now (sr_IdTag r) s = (u, s1)"
    by (cases "getUserTag env now (sr_IdTag r) s")
  note U = getUserTag_up [OF D up u] getUserTag_rest [OF u]
  let ?tr = "newTransaction now cp r u (newTransactionId s)"
  let ?c = "c\<lparr>c_CurrentTransactionId := newTransactionId s, c_CurrentPowerLimit := 0\<rparr>"
  let ?st = "registerTransaction (newTransactionId s) (putConn (sr_ConnectorId r) ?c st)"
  let ?s2 = "updateActiveTransactionsCounter (putCP k ?st (s1\<lparr>newTransactionId := newTransactionId s + 1\<rparr>))"
  obtain tr s3 where st: "startStore env now cp u ?c ?tr ?s2 = (tr, s3)"
    by (cases "startStore env now cp u ?c ?tr ?s2")
  have "up (db ?s2)" "fst (GetTransaction D (t_Id ?tr) (db ?s2)) = None"
    using U new by (auto simp: newTransaction_def)
  note S = startStore_get [OF D this st]
  have "db s' = db s3" using run u st U by (auto simp: startCreate_def Let_def)
  with S show ?thesis by (auto simp: newTransaction_def)
qed

lemma startBody_get:
  assumes D: "database env = Some D" and up: "up (db s)"
    and new: "fst (GetTransaction D (newTransactionId s) (db s)) = None"
    and free: "startCheck env c s = StartFree \<or> startCheck env c s = StartRelease"
    and run: "startBody env now cp k st c r s = (a, i, c', st', s')"
  shows "up (db s') \<and> (\<exists>tr. GetTransaction D (newTransactionId s) (db s') = (Some tr, None)
     \<and> \<not> t_IsFinished tr \<and> t_ConnectorId tr = sr_ConnectorId r)"
  using free
proof
  assume "startCheck env c s = StartFree"
  with run show ?thesis
    by (auto simp: startBody_def Let_def split: prod.splits dest!: startCreate_get [OF D up new])
next
  assume rel: "startCheck env c s = StartRelease"
  let ?c = "c\<lparr>c_CurrentTransactionId := -1, c_CurrentPowerLimit := 0\<rparr>"
  let ?st = "putConn (sr_ConnectorId r) ?c (unregisterTransaction (c_CurrentTransactionId c) st)"
  let ?s = "dbTry env (UpdateConnector ?c) (putCP k ?st s)"
  have s: "up (db ?s)" "fst (GetTransaction D (newTransactionId ?s) (db ?s)) = None"
    using up new by (simp_all add: dbTry_def D exec_up write_get)
  show ?thesis
    using run rel
    by (auto simp: startBody_def Let_def split: prod.splits dest!: startCreate_get [OF D s])
qed

text \<open>A start that was accepted can be repeated: the same transaction is answered and nothing changes.\<close>

lemma start_repeatable:
  assumes D: "database env = Some D" and up: "up (db s)"
    and new: "fst (GetTransaction D (newTransactionId s) (db s)) = None"
    and k: "connector_known s cp (sr_ConnectorId r) c" and cid: "c_Id c = sr_ConnectorId r"
    and n: "0 \<le> newTransactionId s"
    and free: "startCheck env c s = StartFree \<or> startCheck env c s = StartRelease"
    and run: "OnStartTransaction env now cp r s = (resp, s')"
    and again: "OnStartTransaction env now' cp r' s' = (resp', s'')" "sr_ConnectorId r' = sr_ConnectorId r"
  shows "resp' = resp" "chargePoints s'' = chargePoints s'" "db s'' = db s'"
    "newTransactionId s'' = newTransactionId s'"
proof -
  let ?c = "c\<lparr>c_CurrentTransactionId := newTransactionId s, c_CurrentPowerLimit := 0\<rparr>"
  obtain st a i c' st' s1 where st: "map_of (chargePoints s) cp = Some st"
    and b: "startBody env now cp cp st c r s = (a, i, c', st', s1)"
    and h: "OnStartTransaction env now cp r s = ((a, i),
       checkListenTransaction env cp (sr_ConnectorId r) c' (cp_IsOnline (cps_model st')) s1)"
    by (rule OnStartTransaction_known [OF k])
  note B = startBody_create [OF b free]
  have "map_of (chargePoints s1) (c_ChargePointId c') = Some st'"
    using B k by (simp add: connector_known_def)
  note L = checkListen_known [OF this]
  have db': "db s' = db s1" using run h L by auto
  obtain tr where tr: "GetTransaction D (newTransactionId s) (db s') = (Some tr, None)"
      "\<not> t_IsFinished tr" "t_ConnectorId tr = sr_ConnectorId r"
    using startBody_get [OF D up new free b] db' by auto
  note S = start_creates [OF k free run]
  have k': "connector_known s' cp (sr_ConnectorId r') ?c"
    using S(3) k again(2) by (simp add: connector_known_def)
  have chk: "startCheck env ?c s' = StartRepeated"
    using D n tr cid by (simp add: startCheck_def)
  have "startCheck env ?c s' \<noteq> StartFree" "startCheck env ?c s' \<noteq> StartRelease" using chk by simp_all
  note R = start_refuses [OF k' this again(1)]
  show "resp' = resp" "chargePoints s'' = chargePoints s'" "db s'' = db s'"
    "newTransactionId s'' = newTransactionId s'"
    using R S(1) chk by simp_all
qed

text \<open>A stop stores the finished transaction with the figures of the request and the bill.\<close>

lemma stopStore_get:
  assumes "up (db s)" "fst (GetTransaction D (t_Id tr) (db s)) \<noteq> None"
  shows "up (db (stopStore D tr s)) \<and> (\<exists>tr'. GetTransaction D (t_Id tr) (db (stopStore D tr s)) = (Some tr', None)
     \<and> sameOutcome tr' tr)"
proof -
  obtain e d where x: "exec D (UpdateTransaction tr) (db s) = (e, d)"
    by (cases "exec D (UpdateTransaction tr) (db s)")
  have "e = None" "\<exists>tr'. GetTransaction D (t_Id tr) d = (Some tr', None) \<and> sameOutcome tr' tr" "up d"
    using update_get [OF assms] exec_up [OF assms(1), of "UpdateTransaction tr"] x by auto
  then show ?thesis by (auto simp: stopStore_def dbExec_def x Let_def exec_up write_get)
qed

lemma stopFinish_get:
  assumes "up (db s)" "fst (GetTransaction D (t_Id tr) (db s)) \<noteq> None"
    and "\<not> (t_IsFinished tr \<and> t_MeterStop tr \<ge> st_MeterStop r)"
  shows "\<exists>tr'. GetTransaction D (t_Id tr) (db (stopFinish D now cp k st c tr r s)) = (Some tr', None)
     \<and> sameOutcome tr' (stoppedTransaction now r tr)"
proof -
  let ?tr = "stoppedTransaction now r tr"
  have f: "OnTransactionFinished (stopFigures now r tr) = (None, ?tr)"
    using OnTransactionFinished_no_error [of "stopFigures now r tr"]
    by (simp add: stoppedTransaction_def prod_eq_iff)
  have "fst (GetTransaction D (t_Id ?tr) (db s)) \<noteq> None" using assms(2) by simp
  from stopStore_get [OF assms(1) this] show ?thesis
    using assms(3) by (auto simp: stopFinish_def f stopRelease_def Let_def write_get)
qed

lemma stopPrepare_get:
  "up (db s) \<Longrightarrow> up (db (stopPrepare D r s))
     \<and> GetTransaction D t (db (stopPrepare D r s)) = GetTransaction D t (db s)"
  by (simp add: stopPrepare_def Let_def exec_up write_get)

lemma stop_stores:
  assumes D: "database env = Some D" and up: "up (db s)"
    and mem: "connectorAt s cp (t_ConnectorId tr) = Some c"
    and get: "GetTransaction D (st_TransactionId r) (db s) = (Some tr, None)"
    and opn: "\<not> (t_IsFinished tr \<and> t_MeterStop tr \<ge> st_MeterStop r)"
  shows "\<exists>s' tr' mvs. OnStopTransaction env now cp r s = Some s'
     \<and> GetTransaction D (st_TransactionId r) (db s') = (Some tr', None)
     \<and> sameOutcome tr' (stoppedTransaction now r (tr\<lparr>t_MeterValues := mvs\<rparr>))"
proof -
  have get': "GetTransaction D (st_TransactionId r) (db (stopPrepare D r s)) = (Some tr, None)"
    and up': "up (db (stopPrepare D r s))"
    using get stopPrepare_get [OF up] by auto
  have tid: "t_Id tr = st_TransactionId r" using get_cases [OF up, of "st_TransactionId r"] get by auto
  obtain st tr1 s1 where run: "OnStopTransaction env now cp r s = Some (stopFinish D now cp cp st c tr1 r s1)"
    and tr1: "\<exists>mvs. tr1 = tr\<lparr>t_MeterValues := mvs\<rparr>"
    and s1: "db s1 = db (stopPrepare D r s)"
    using OnStopTransaction_known [OF D mem get'] by metis
  then obtain mvs where tr1: "tr1 = tr\<lparr>t_MeterValues := mvs\<rparr>" by blast
  have "up (db s1)" "fst (GetTransaction D (t_Id tr1) (db s1)) \<noteq> None"
    "\<not> (t_IsFinished tr1 \<and> t_MeterStop tr1 \<ge> st_MeterStop r)"
    using s1 up' get' tid opn tr1 by simp_all
  from stopFinish_get [OF this, of now cp cp st c] run tr1 tid show ?thesis by auto
qed

end

section \<open>A concrete installation\<close>

text \<open>One charge point with one connector, a default plan, and the list driver.\<close>

definition demoEnv :: "Store env" where
  "demoEnv =
     \<lparr>database = Some listDatabase, auth = None, errorListener = True, acceptTags = True,
      acceptPoints = True, meterSampleInterval = 60, meterMeasurands = [''Voltage''], triggerSet = True,
      serverSet = True, sendOk = (\<lambda>_. True), readConfiguration = (\<lambda>_. None), minuteOfDay = (\<lambda>_. 600)\<rparr>"

definition demoState :: ChargePointState where
  "demoState = (newChargePointState (unknownChargePoint ''CP1''))
     \<lparr>cps_connectors := [(1, NewConnector 1 ''CP1'')]\<rparr>"

definition demoSys :: "Store sys" where
  "demoSys = (NewSystemHandler (SetDatabase NewAffleck)
       (emptyStore\<lparr>sto_plans := [demoPlan], sto_connectors := [NewConnector 1 ''CP1''],
          sto_userTags := [(NewUserTag ''TAG1'')\<lparr>ut_Username := ''ann''\<rparr>]\<rparr>))
     \<lparr>chargePoints := [(''CP1'', demoState)]\<rparr>"

definition demoStart :: StartTransactionRequest where
  "demoStart = \<lparr>sr_ConnectorId = 1, sr_IdTag = ''TAG1'', sr_MeterStart = 1000, sr_ReservationId = None,
     sr_Timestamp = Some 0\<rparr>"

definition demoStop :: StopTransactionRequest where
  "demoStop = \<lparr>st_IdTag = ''TAG1'', st_MeterStop = 13500, st_Timestamp = Some (180 * nanos_per_minute),
     st_TransactionId = 1, st_Reason = ''Local'', st_TransactionData = []\<rparr>"

definition demoRunning :: "Store sys" where
  "demoRunning = snd (OnStartTransaction demoEnv 0 ''CP1'' demoStart demoSys)"

lemma demo_known: "connector_known demoSys ''CP1'' (sr_ConnectorId demoStart) (NewConnector 1 ''CP1'')"
  by code_simp

lemma demo_free: "startCheck demoEnv (NewConnector 1 ''CP1'') demoSys = StartFree"
  by code_simp

lemma demo_running:
  "connectorAt demoRunning ''CP1'' 1 = Some ((NewConnector 1 ''CP1'')\<lparr>c_CurrentTransactionId := 1\<rparr>)"
  by code_simp

definition demoTransaction :: Transaction where
  "demoTransaction = zeroTransaction\<lparr>t_Id := 1, t_ConnectorId := 1, t_ChargePointId := ''CP1'',
     t_IdTag := ''TAG1'', t_MeterStart := 1000, t_TimeStart := 0, t_Username := ''ann'',
     t_Plan := Some demoPlan, t_UserTag := Some ((NewUserTag ''TAG1'')\<lparr>ut_Username := ''ann''\<rparr>)\<rparr>"

lemma demo_transaction: "GetTransaction listDatabase 1 (db demoRunning) = (Some demoTransaction, None)"
  by code_simp

lemma demoTransaction_simps [simp]:
  "t_Id demoTransaction = 1" "t_ConnectorId demoTransaction = 1" "\<not> t_IsFinished demoTransaction"
  "t_MeterStart demoTransaction = 1000" "t_TimeStart demoTransaction = 0" "t_Plan demoTransaction = Some demoPlan"
  by (simp_all add: demoTransaction_def zeroTransaction_def)

lemma demo_running_up: "sto_up (db demoRunning)"
  by code_simp

lemma demo_start_response: "fst (OnStartTransaction demoEnv 0 ''CP1'' demoStart demoSys) = (AuthorizationStatusAccepted, 1)"
  by code_simp

lemma demo_up: "sto_up (db demoSys)"
  by code_simp

lemma demo_new: "fst (mongo_GetTransaction listMongo (newTransactionId demoSys) (db demoSys)) = None"
  by code_simp

lemma demo_nonneg: "0 \<le> newTransactionId demoSys"
  by code_simp

text \<open>A driver with the documented behaviour makes the storage keep the contract.\<close>

lemma mongo_contract:
  "mongo_driver M up cps conns tags trs meters stops \<Longrightarrow> Database.database (mongo_Database M clock) up"
proof -
  assume "mongo_driver M up cps conns tags trs meters stops"
  then show ?thesis by (rule mongo_driver.database_mongo)
qed

section \<open>Properties\<close>

text \<open>
  A start on a connector that holds no open transaction is accepted with the next transaction id: the
  id counter advances by one, the connector points at the new transaction without a power limit, and
  the transaction is counted as active on the charge point.
\<close>

theorem start_allocates_next_id:
  assumes "connector_known s cp (sr_ConnectorId r) c"
    and "startCheck env c s = StartFree \<or> startCheck env c s = StartRelease"
    and "OnStartTransaction env now cp r s = (resp, s')"
  shows "resp = (AuthorizationStatusAccepted, newTransactionId s)
    \<and> newTransactionId s' = newTransactionId s + 1
    \<and> connectorAt s' cp (sr_ConnectorId r)
       = Some (c\<lparr>c_CurrentTransactionId := newTransactionId s, c_CurrentPowerLimit := 0\<rparr>)
    \<and> registered s' cp (newTransactionId s)"
  using start_creates [OF assms] by blast

theorem start_allocates_next_id_witness:
  "fst (OnStartTransaction demoEnv 0 ''CP1'' demoStart demoSys) = (AuthorizationStatusAccepted, 1)"
proof -
  obtain resp s' where r: "OnStartTransaction demoEnv 0 ''CP1'' demoStart demoSys = (resp, s')"
    by (cases "OnStartTransaction demoEnv 0 ''CP1'' demoStart demoSys")
  have "newTransactionId demoSys = 1" by code_simp
  then show ?thesis
    using start_allocates_next_id [OF demo_known disjI1 [OF demo_free] r] r by simp
qed

text \<open>
  C10. A session that may still be running is never lost: when the transaction a connector holds is open, on
  this connector or another, or when the database cannot tell, a start neither takes the connector nor
  creates a transaction; it answers with the held transaction, or refuses.
\<close>

theorem start_keeps_open_session:
  assumes "connector_known s cp (sr_ConnectorId r) c" "database env = Some D"
    and "0 \<le> c_CurrentTransactionId c"
    and "GetTransaction D (c_CurrentTransactionId c) (db s) = (found, err)"
    and "(err \<noteq> None \<and> \<not> IsNotFound err) \<or> (\<exists>tr. found = Some tr \<and> \<not> t_IsFinished tr)"
    and "OnStartTransaction env now cp r s = (resp, s')"
  shows "connectorAt s' cp (sr_ConnectorId r) = Some c \<and> newTransactionId s' = newTransactionId s
    \<and> db s' = db s
    \<and> (resp = (AuthorizationStatusBlocked, 0)
       \<or> resp = (AuthorizationStatusAccepted, c_CurrentTransactionId c)
       \<or> resp = (AuthorizationStatusConcurrentTx, c_CurrentTransactionId c))"
proof -
  have chk: "startCheck env c s \<noteq> StartFree" "startCheck env c s \<noteq> StartRelease"
    using assms(2-5) by (auto simp: startCheck_def split: option.splits)
  note R = start_refuses [OF assms(1) chk assms(6)]
  show ?thesis
    using R assms(1) connectorAt_cong [OF R(1)] chk
    by (auto simp: connector_known_def split: StartCheck.splits)
qed

theorem start_keeps_open_session_witness:
  "fst (OnStartTransaction demoEnv 5 ''CP1'' demoStart demoRunning) \<noteq> (AuthorizationStatusAccepted, 2)"
proof -
  let ?c = "(NewConnector 1 ''CP1'')\<lparr>c_CurrentTransactionId := 1\<rparr>"
  obtain resp s' where r: "OnStartTransaction demoEnv 5 ''CP1'' demoStart demoRunning = (resp, s')"
    by (cases "OnStartTransaction demoEnv 5 ''CP1'' demoStart demoRunning")
  have k: "connector_known demoRunning ''CP1'' (sr_ConnectorId demoStart) ?c"
    using demo_running by (simp add: connector_known_def demoStart_def)
  have D: "database demoEnv = Some listDatabase" by (simp add: demoEnv_def)
  show ?thesis
    using start_keeps_open_session [OF k D _ _ _ r, of "Some demoTransaction" None] r demo_transaction by auto
qed

text \<open>
  C1. A stop of an open transaction first stores it as finished, deletes its meter samples only after that
  write succeeded, and releases the connector last; before these writes there are only the saved
  request, gauges and alerts. Afterwards the connector is free, the transaction is not counted as active
  and the trigger no longer watches it.
\<close>

theorem stop_finishes_before_release:
  assumes "database env = Some D" "connectorAt s cp (t_ConnectorId tr) = Some c"
    and "GetTransaction D (st_TransactionId r) (db (stopPrepare D r s)) = (Some tr, None)"
    and "\<not> (t_IsFinished tr \<and> t_MeterStop tr \<ge> st_MeterStop r)"
  shows "\<exists>s' tr' pre e1 mid e3. OnStopTransaction env now cp r s = Some s'
     \<and> out s' = out s @ pre @ Wrote (UpdateTransaction tr') e1 # mid @ [Wrote (UpdateConnector (released c)) e3]
     \<and> (\<forall>e \<in> set pre. preliminary r e)
     \<and> (\<forall>e \<in> set mid. e1 = None \<and> (\<exists>x. e = Wrote (DeleteTransactionMeterValues (t_Id tr)) x))
     \<and> t_Id tr' = t_Id tr \<and> t_IsFinished tr'
     \<and> connectorAt s' cp (t_ConnectorId tr) = Some (released c)
     \<and> \<not> registered s' cp (st_TransactionId r) \<and> map_of (trigger s') (st_TransactionId r) = None"
  by (rule stop_open [OF assms])

lemma demo_stop_get:
  "GetTransaction listDatabase (st_TransactionId demoStop) (db (stopPrepare listDatabase demoStop demoRunning))
     = (Some demoTransaction, None)"
  by code_simp

theorem stop_finishes_before_release_witness:
  "\<exists>s'. OnStopTransaction demoEnv 0 ''CP1'' demoStop demoRunning = Some s' \<and> \<not> registered s' ''CP1'' 1"
proof -
  have D: "database demoEnv = Some listDatabase" by (simp add: demoEnv_def)
  have c: "connectorAt demoRunning ''CP1'' (t_ConnectorId demoTransaction)
      = Some ((NewConnector 1 ''CP1'')\<lparr>c_CurrentTransactionId := 1\<rparr>)"
    using demo_running by simp
  show ?thesis
    using stop_finishes_before_release [OF D c demo_stop_get, of 0] by (auto simp: demoStop_def)
qed

text \<open>
  C16. The sweep of an abandoned transaction closes the document first, with a reason that marks it as
  closed by the system, and then releases its connector only if the connector still points at it: a
  connector that has moved on, and every other connector and charge point, is left alone.
\<close>

theorem sweep_releases_only_its_connector:
  assumes "connectorAt s (t_ChargePointId tr) (t_ConnectorId tr) = Some c"
    and "s' = finishAbandonedTransaction env D now tr s"
  shows "connectorAt s' (t_ChargePointId tr) (t_ConnectorId tr)
      = Some (if c_CurrentTransactionId c = t_Id tr
              then c\<lparr>c_CurrentTransactionId := -1, c_CurrentPowerLimit := 0\<rparr> else c)
    \<and> (\<forall>j. j \<noteq> t_ConnectorId tr \<longrightarrow> connectorAt s' (t_ChargePointId tr) j = connectorAt s (t_ChargePointId tr) j)
    \<and> (\<forall>k. k \<noteq> t_ChargePointId tr \<longrightarrow> map_of (chargePoints s') k = map_of (chargePoints s) k)
    \<and> \<not> registered s' (t_ChargePointId tr) (t_Id tr)
    \<and> (\<exists>tr' e rest. out s' = out s @ Wrote (UpdateTransaction tr') e # rest
         \<and> t_Id tr' = t_Id tr \<and> t_IsFinished tr' \<and> isSystemClosedReason (t_Reason tr'))"
proof -
  obtain err tr1 where f: "abandonedFigures D tr (db s) = (err, tr1)" by (cases "abandonedFigures D tr (db s)")
  note F = abandonedFigures_facts [OF f] and K = finishAbandoned_known [OF assms]
  have "\<exists>tr' e rest. out s' = out s @ Wrote (UpdateTransaction tr') e # rest
         \<and> t_Id tr' = t_Id tr \<and> t_IsFinished tr' \<and> isSystemClosedReason (t_Reason tr')"
    using K(6) F f by auto
  with K(1-4) show ?thesis by (auto simp: releasedIf_def released_def)
qed

theorem sweep_releases_only_its_connector_witness:
  "connectorAt (finishAbandonedTransaction demoEnv listDatabase 0
      (zeroTransaction\<lparr>t_Id := 7, t_ConnectorId := 1, t_ChargePointId := ''CP1''\<rparr>) demoRunning) ''CP1'' 1
   = Some ((NewConnector 1 ''CP1'')\<lparr>c_CurrentTransactionId := 1\<rparr>)"
  using sweep_releases_only_its_connector [of demoRunning
      "zeroTransaction\<lparr>t_Id := 7, t_ConnectorId := 1, t_ChargePointId := ''CP1''\<rparr>"
      "(NewConnector 1 ''CP1'')\<lparr>c_CurrentTransactionId := 1\<rparr>"
      "finishAbandonedTransaction demoEnv listDatabase 0
         (zeroTransaction\<lparr>t_Id := 7, t_ConnectorId := 1, t_ChargePointId := ''CP1''\<rparr>) demoRunning"
      demoEnv listDatabase 0] demo_running
  by simp

text \<open>
  C12. With the MongoDB storage reachable, an accepted start can be repeated by the charge point: the second
  request is answered with the same status and transaction id, and neither the charge points, the
  stored documents nor the id counter change.
\<close>

theorem start_is_idempotent:
  assumes "mongo_driver M up cps conns tags trs meters stops"
    and "database env = Some (mongo_Database M clock)" "up (db s)"
    and "fst (mongo_GetTransaction M (newTransactionId s) (db s)) = None" "0 \<le> newTransactionId s"
    and "connector_known s cp (sr_ConnectorId r) c" "c_Id c = sr_ConnectorId r"
    and "startCheck env c s = StartFree \<or> startCheck env c s = StartRelease"
    and "OnStartTransaction env now cp r s = (resp, s')"
    and "OnStartTransaction env later cp r s' = (resp', s'')"
  shows "resp' = resp \<and> chargePoints s'' = chargePoints s' \<and> db s'' = db s'
    \<and> newTransactionId s'' = newTransactionId s'"
proof -
  have I: "Database.database (mongo_Database M clock) up" by (rule mongo_contract [OF assms(1)])
  have new: "fst (GetTransaction (mongo_Database M clock) (newTransactionId s) (db s)) = None"
    using assms(4) by (simp add: mongo_Database_def)
  show ?thesis
    using database.start_repeatable [OF I assms(2,3) new assms(6,7,5,8,9,10) refl] by simp
qed

theorem start_is_idempotent_witness:
  "fst (OnStartTransaction demoEnv 5 ''CP1'' demoStart demoRunning) = (AuthorizationStatusAccepted, 1)"
proof -
  obtain s' where r: "OnStartTransaction demoEnv 0 ''CP1'' demoStart demoSys
      = ((AuthorizationStatusAccepted, 1), s')" and s': "s' = demoRunning"
    using demo_start_response by (cases "OnStartTransaction demoEnv 0 ''CP1'' demoStart demoSys")
      (auto simp: demoRunning_def)
  obtain resp s'' where r2: "OnStartTransaction demoEnv 5 ''CP1'' demoStart s' = (resp, s'')"
    by (cases "OnStartTransaction demoEnv 5 ''CP1'' demoStart s'")
  have D: "database demoEnv = Some (mongo_Database listMongo 0)" by (simp add: demoEnv_def listDatabase_def)
  have c: "c_Id (NewConnector 1 ''CP1'') = sr_ConnectorId demoStart" by (simp add: demoStart_def)
  show ?thesis
    using start_is_idempotent [OF store.mongo_driver_axioms D demo_up demo_new demo_nonneg demo_known c
        disjI1 [OF demo_free] r r2] r2 s' by simp
qed



text \<open>
  C20. A stop releases the connector of its transaction without looking at what the connector holds now: a
  late stop of an earlier transaction takes the pointer away from the session that is running on it.
\<close>

theorem late_stop_releases_running_session:
  assumes "database env = Some D" "connectorAt s cp (t_ConnectorId tr) = Some c"
    and "GetTransaction D (st_TransactionId r) (db (stopPrepare D r s)) = (Some tr, None)"
    and "c_CurrentTransactionId c = running" "running \<noteq> st_TransactionId r" "0 \<le> running"
  shows "\<exists>s'. OnStopTransaction env now cp r s = Some s'
    \<and> connectorAt s' cp (t_ConnectorId tr) = Some (c\<lparr>c_CurrentTransactionId := -1, c_CurrentPowerLimit := 0\<rparr>)"
proof -
  obtain st tr1 s1 where run: "OnStopTransaction env now cp r s = Some (stopFinish D now cp cp st c tr1 r s1)"
    and tr1: "\<exists>mvs. tr1 = tr\<lparr>t_MeterValues := mvs\<rparr>" and s1: "chargePoints s1 = mput cp st (chargePoints s)"
    by (rule OnStopTransaction_known [OF assms(1-3)])
  have "connectorAt (stopFinish D now cp cp st c tr1 r s1) cp (t_ConnectorId tr) = Some (released c)"
    using tr1 s1 by (auto simp: connectorAt_def stopFinish_chargePoints)
  with run show ?thesis by (auto simp: released_def)
qed

text \<open>Connector 1 runs transaction 1; a stop of the finished transaction 0 arrives.\<close>

definition demoOldTransaction :: Transaction where
  "demoOldTransaction = zeroTransaction\<lparr>t_Id := 0, t_ConnectorId := 1, t_ChargePointId := ''CP1'',
     t_IsFinished := True, t_MeterStop := 900\<rparr>"

definition demoLate :: "Store sys" where
  "demoLate = demoRunning\<lparr>db := (db demoRunning)\<lparr>sto_transactions := [demoOldTransaction]\<rparr>\<rparr>"

lemma demo_late_get:
  "GetTransaction listDatabase 0 (db (stopPrepare listDatabase (demoStop\<lparr>st_TransactionId := 0\<rparr>) demoLate))
     = (Some demoOldTransaction, None)"
  by code_simp

theorem late_stop_releases_running_session_witness:
  "\<exists>s'. OnStopTransaction demoEnv 0 ''CP1'' (demoStop\<lparr>st_TransactionId := 0\<rparr>) demoLate = Some s'
    \<and> connectorAt s' ''CP1'' 1 = Some (NewConnector 1 ''CP1'')"
proof -
  have D: "database demoEnv = Some listDatabase" by (simp add: demoEnv_def)
  have c: "connectorAt demoLate ''CP1'' (t_ConnectorId demoOldTransaction)
      = Some ((NewConnector 1 ''CP1'')\<lparr>c_CurrentTransactionId := 1\<rparr>)"
    using demo_running by (simp add: demoLate_def demoOldTransaction_def connectorAt_def)
  have g: "GetTransaction listDatabase (st_TransactionId (demoStop\<lparr>st_TransactionId := 0\<rparr>))
      (db (stopPrepare listDatabase (demoStop\<lparr>st_TransactionId := 0\<rparr>) demoLate)) = (Some demoOldTransaction, None)"
    using demo_late_get by simp
  show ?thesis
    using late_stop_releases_running_session [OF D c g, of 1 0]
    by (simp add: demoOldTransaction_def NewConnector_def)
qed

text \<open>
  Without a database a stop panics on its first statement, although the handler tests for the missing
  database further down.
\<close>

theorem stop_panics_without_database:
  "database env = None \<Longrightarrow> OnStopTransaction env now cp r s = None"
  by (simp add: OnStopTransaction_def)

theorem stop_panics_without_database_witness:
  "OnStopTransaction (demoEnv\<lparr>database := None\<rparr>) 0 ''CP1'' demoStop demoRunning = None"
  using stop_panics_without_database [of "demoEnv\<lparr>database := None\<rparr>"] by simp

end
