(* ===== verification/HandlerProps.thy ===== *)
theory HandlerProps
  imports Handlers Session "HOL-Library.Sublist"
begin

text \<open>
  Properties of the single handlers: the merge of the sampled measurands, the decision of an
  authorization, the reading of meter values, status notifications, and the start of the system.
\<close>

section \<open>Merging measurands\<close>

text \<open>The items of a comma separated list as the charge point means them.\<close>

definition items :: "string list \<Rightarrow> string list" where
  "items ws = filter (\<lambda>w. w \<noteq> []) (map TrimSpace ws)"

definition sampleList :: "string \<Rightarrow> string list" where
  "sampleList current = items (Split (CHR '','') current)"

lemma collectMeasurands_items:
  "collectMeasurands ws existing seen
     = (existing @ items ws, rev (map ToLower (items ws)) @ seen)"
  by (induction ws existing seen rule: collectMeasurands.induct) (auto simp: items_def Let_def)

lemma addMeasurands_spec:
  assumes "addMeasurands ms existing seen changed = (r, ch)"
  shows "\<exists>added. r = existing @ added \<and> (ch \<longleftrightarrow> changed \<or> added \<noteq> [])
    \<and> distinct (map ToLower added) \<and> set (map ToLower added) \<inter> set seen = {}
    \<and> set added \<subseteq> set (items ms)
    \<and> set (map ToLower (items ms)) \<subseteq> set seen \<union> set (map ToLower added)"
  using assms
proof (induction ms existing seen changed arbitrary: r ch rule: addMeasurands.induct)
  case (1 existing seen changed)
  then show ?case by (auto simp: items_def)
next
  case (2 m ms existing seen changed)
  let ?m = "TrimSpace m"
  show ?case
  proof (cases "?m \<noteq> [] \<and> ToLower ?m \<notin> set seen")
    case True
    with 2(1) [OF refl True, of r ch] 2(3) obtain added where a: "r = (existing @ [?m]) @ added" "ch"
        "distinct (map ToLower added)" "set (map ToLower added) \<inter> set (ToLower ?m # seen) = {}"
        "set added \<subseteq> set (items ms)"
        "set (map ToLower (items ms)) \<subseteq> set (ToLower ?m # seen) \<union> set (map ToLower added)"
      by (auto simp: Let_def)
    then show ?thesis
      using True by (intro exI [of _ "?m # added"]) (auto simp: items_def)
  next
    case False
    with 2(2) [OF refl False, of r ch] 2(3) obtain added where a: "r = existing @ added"
        "ch \<longleftrightarrow> changed \<or> added \<noteq> []" "distinct (map ToLower added)"
        "set (map ToLower added) \<inter> set seen = {}" "set added \<subseteq> set (items ms)"
        "set (map ToLower (items ms)) \<subseteq> set seen \<union> set (map ToLower added)"
      by (auto simp: Let_def)
    then show ?thesis
      using False by (intro exI [of _ added]) (auto simp: items_def)
  qed
qed

lemma mergeMeasurands_spec:
  assumes "mergeMeasurands current required = (merged, changed)"
  obtains added where "merged = Join (CHR '','') (sampleList current @ added)" "changed \<longleftrightarrow> added \<noteq> []"
    "distinct (map ToLower added)" "set (map ToLower added) \<inter> set (map ToLower (sampleList current)) = {}"
    "set added \<subseteq> set (items required)"
    "set (map ToLower (items required)) \<subseteq> set (map ToLower (sampleList current @ added))"
proof -
  let ?e = "sampleList current"
  obtain r ch where a: "addMeasurands required ?e (rev (map ToLower ?e)) False = (r, ch)"
    by (cases "addMeasurands required ?e (rev (map ToLower ?e)) False")
  have m: "merged = Join (CHR '','') r" "changed = ch"
    using assms a by (auto simp: mergeMeasurands_def collectMeasurands_items sampleList_def)
  obtain added where "r = ?e @ added" "ch \<longleftrightarrow> False \<or> added \<noteq> []" "distinct (map ToLower added)"
      "set (map ToLower added) \<inter> set (rev (map ToLower ?e)) = {}" "set added \<subseteq> set (items required)"
      "set (map ToLower (items required)) \<subseteq> set (rev (map ToLower ?e)) \<union> set (map ToLower added)"
    using addMeasurands_spec [OF a] by blast
  then show thesis using m by (intro that [of added]) auto
qed

text \<open>
  The merged sample list keeps every entry of the charge point in its order, adds exactly the
  required measurands that were missing up to letter case, each once, and reports a change exactly when it
  added something.
\<close>

theorem measurands_merged:
  assumes "mergeMeasurands current required = (merged, changed)"
  shows "\<exists>added. merged = Join (CHR '','') (sampleList current @ added) \<and> (changed \<longleftrightarrow> added \<noteq> [])
    \<and> distinct (map ToLower added) \<and> set added \<subseteq> set (items required)
    \<and> set (map ToLower added) = set (map ToLower (items required)) - set (map ToLower (sampleList current))"
proof -
  obtain added where a: "merged = Join (CHR '','') (sampleList current @ added)" "changed \<longleftrightarrow> added \<noteq> []"
    "distinct (map ToLower added)" "set (map ToLower added) \<inter> set (map ToLower (sampleList current)) = {}"
    "set added \<subseteq> set (items required)"
    "set (map ToLower (items required)) \<subseteq> set (map ToLower (sampleList current @ added))"
    by (rule mergeMeasurands_spec [OF assms])
  from a(4-6) have "set (map ToLower added) = set (map ToLower (items required)) - set (map ToLower (sampleList current))"
    by auto
  with a show ?thesis by blast
qed

theorem measurands_merged_witness:
  "mergeMeasurands ''Energy.Active.Import.Register, voltage'' [''Voltage'', ''Current.Offered'']
     = (''Energy.Active.Import.Register,voltage,Current.Offered'', True)
   \<and> (\<exists>added. ''Energy.Active.Import.Register,voltage,Current.Offered''
        = Join (CHR '','') (sampleList ''Energy.Active.Import.Register, voltage'' @ added))"
proof
  show r: "mergeMeasurands ''Energy.Active.Import.Register, voltage'' [''Voltage'', ''Current.Offered'']
     = (''Energy.Active.Import.Register,voltage,Current.Offered'', True)"
    by code_simp
  show "\<exists>added. ''Energy.Active.Import.Register,voltage,Current.Offered''
        = Join (CHR '','') (sampleList ''Energy.Active.Import.Register, voltage'' @ added)"
    using measurands_merged [OF r] by blast
qed

text \<open>Reading a merged list back gives its items, when none of them contains the separator.\<close>

lemma prefix_hd: "prefix xs ys \<Longrightarrow> xs \<noteq> [] \<Longrightarrow> hd xs = hd ys"
  by (auto simp: prefix_def)

lemma TrimSpace_idem [simp]: "TrimSpace (TrimSpace s) = TrimSpace s"
proof -
  have d: "dropWhile isSpace xs = xs" if "xs = [] \<or> \<not> isSpace (hd xs)" for xs
    using that by (cases xs) auto
  have e: "dropWhile isSpace xs = [] \<or> \<not> isSpace (hd (dropWhile isSpace xs))" for xs
    using hd_dropWhile [of isSpace xs] by auto
  let ?u = "dropWhile isSpace s"
  let ?v = "dropWhile isSpace (rev ?u)"
  have "rev ?v = [] \<or> \<not> isSpace (hd (rev ?v))"
  proof (cases "?v = []")
    case False
    have "suffix ?v (rev ?u)" by (simp add: suffix_dropWhile)
    then have "prefix (rev ?v) ?u" by (simp add: suffix_to_prefix)
    then have "hd (rev ?v) = hd ?u" using False by (intro prefix_hd) simp_all
    moreover have "?u \<noteq> []" using False by (metis dropWhile.simps(1) rev.simps(1))
    ultimately show ?thesis using e [of s] by metis
  qed simp
  then have "dropWhile isSpace (rev ?v) = rev ?v" by (rule d)
  moreover have "dropWhile isSpace ?v = ?v" using e [of "rev ?u"] by (intro d)
  ultimately show ?thesis by (simp add: TrimSpace_def)
qed

lemma items_clean: "w \<in> set (items ws) \<Longrightarrow> w \<noteq> [] \<and> TrimSpace w = w"
  by (auto simp: items_def)

lemma items_id: "(\<And>w. w \<in> set ws \<Longrightarrow> w \<noteq> [] \<and> TrimSpace w = w) \<Longrightarrow> items ws = ws"
  by (induction ws) (auto simp: items_def)

lemma sampleList_no_comma: "w \<in> set (sampleList current) \<Longrightarrow> CHR '','' \<notin> set w"
  using set_TrimSpace Split_no_sep by (fastforce simp: sampleList_def items_def)

lemma sampleList_Join:
  assumes "\<And>w. w \<in> set ws \<Longrightarrow> w \<noteq> [] \<and> TrimSpace w = w \<and> CHR '','' \<notin> set w"
  shows "sampleList (Join (CHR '','') ws) = ws"
proof (cases "ws = []")
  case True
  then show ?thesis by (simp add: sampleList_def items_def TrimSpace_def)
next
  case False
  then have "Split (CHR '','') (Join (CHR '','') ws) = ws" using assms by (intro Split_Join) auto
  then show ?thesis using assms by (simp add: sampleList_def items_id)
qed

text \<open>
  Enforcing the measurands converges: merging the list that was written once more changes nothing, so
  a charge point that took the new value is not written to at its next boot.
\<close>

theorem measurands_merge_stable:
  assumes "mergeMeasurands current required = (merged, changed)"
    and "\<forall>w \<in> set required. CHR '','' \<notin> set w"
  shows "mergeMeasurands merged required = (merged, False)"
proof -
  obtain added where a: "merged = Join (CHR '','') (sampleList current @ added)"
    "set added \<subseteq> set (items required)"
    "set (map ToLower (items required)) \<subseteq> set (map ToLower (sampleList current @ added))"
    by (rule mergeMeasurands_spec [OF assms(1)])
  let ?l = "sampleList current @ added"
  have "CHR '','' \<notin> set w" if "w \<in> set added" for w
    using that a(2) assms(2) set_TrimSpace by (fastforce simp: items_def)
  then have l: "sampleList merged = ?l"
    unfolding a(1) using a(2) items_clean sampleList_no_comma
    by (intro sampleList_Join) (auto simp: sampleList_def)
  obtain merged' ch where m: "mergeMeasurands merged required = (merged', ch)"
    by (cases "mergeMeasurands merged required")
  obtain more where b: "merged' = Join (CHR '','') (?l @ more)" "ch \<longleftrightarrow> more \<noteq> []"
    "set (map ToLower more) \<inter> set (map ToLower ?l) = {}" "set more \<subseteq> set (items required)"
    by (rule mergeMeasurands_spec [OF m, unfolded l])
  have "set (map ToLower more) \<subseteq> set (map ToLower ?l)" using b(4) a(3) by auto
  with b(3) have "set (map ToLower more) = {}" by (simp only: Int_absorb2)
  then have "more = []" by simp
  with b m a(1) show ?thesis by simp
qed

theorem measurands_merge_stable_witness:
  "mergeMeasurands ''Energy.Active.Import.Register,voltage,Current.Offered'' [''Voltage'', ''Current.Offered'']
     = (''Energy.Active.Import.Register,voltage,Current.Offered'', False)"
proof -
  have r: "mergeMeasurands ''Energy.Active.Import.Register, voltage'' [''Voltage'', ''Current.Offered'']
     = (''Energy.Active.Import.Register,voltage,Current.Offered'', True)"
    by code_simp
  show ?thesis by (rule measurands_merge_stable [OF r]) simp
qed

section \<open>Authorization\<close>

text \<open>The decision without the effects: the local tag first, then the roaming service.\<close>

definition decision :: "'db env \<Rightarrow> ChargePoint \<Rightarrow> UserTag \<Rightarrow> AuthorizationStatus" where
  "decision env cp tag =
     (if \<not> cp_IsEnabled cp then AuthorizationStatusBlocked
      else if ut_IsEnabled tag then AuthorizationStatusAccepted
      else case auth env of None \<Rightarrow> AuthorizationStatusInvalid
           | Some f \<Rightarrow> authResultStatus (f (cp_LocationId cp) (cp_EvseId cp 1) (ut_IdTag tag)))"

text \<open>
  An authorization on a known charge point with a database always answers, and by the decision above: a
  disabled charge point blocks, an enabled local tag is accepted without asking, and otherwise the
  roaming service decides; without one the tag is invalid. The charge points are not changed, and a
  decision of the service is the last thing written to the tag, with the service as its source.
\<close>

theorem authorize_decides:
  assumes "map_of (chargePoints s) cp = Some st" "database env = Some D"
    and "getUserTag env now idTag s = (tag, s1)"
  shows "\<exists>s'. OnAuthorize env now cp idTag s = Some (decision env (cps_model st) tag, s')
    \<and> chargePoints s' = chargePoints s
    \<and> (cp_IsEnabled (cps_model st) \<and> \<not> ut_IsEnabled tag
         \<and> decision env (cps_model st) tag \<noteq> AuthorizationStatusInvalid
       \<longrightarrow> (\<exists>tag' err m. out s' = out s1 @ [Wrote (UpdateTag tag') err, Notified Authorize m]
            \<and> ut_IdTag tag' = ut_IdTag tag \<and> ut_Source tag' = sourceOCPI))"
proof (cases "cp_IsEnabled (cps_model st)")
  case False
  then show ?thesis
    using assms by (simp add: OnAuthorize_def authorizeIdTag_def decision_def)
next
  case True
  show ?thesis
    using assms True getUserTag_rest [OF assms(3)]
    by (auto simp: OnAuthorize_def authorizeIdTag_def decision_def authorize_def Let_def split: option.split)
qed

theorem authorize_decides_witness:
  "\<exists>s'. OnAuthorize demoEnv 0 ''CP1'' ''TAG2'' demoSys = Some (AuthorizationStatusAccepted, s')"
proof -
  obtain tag s1 where t: "getUserTag demoEnv 0 ''TAG2'' demoSys = (tag, s1)"
    by (cases "getUserTag demoEnv 0 ''TAG2'' demoSys")
  have st: "map_of (chargePoints demoSys) ''CP1'' = Some demoState" by (simp add: demoSys_def)
  have D: "database demoEnv = Some listDatabase" by (simp add: demoEnv_def)
  have "decision demoEnv (cps_model demoState) (fst (getUserTag demoEnv 0 ''TAG2'' demoSys))
      = AuthorizationStatusAccepted"
    by code_simp
  then show ?thesis using authorize_decides [OF st D t] t by auto
qed

text \<open>
  Without a database an authorization that the roaming service recognises panics: the tag is written
  back without the test for a missing database that every other write has.
\<close>

theorem authorize_panics_without_database:
  assumes "map_of (chargePoints s) cp = Some st" "database env = None"
    and "cp_IsEnabled (cps_model st)" "\<not> acceptTags env"
    and "decision env (cps_model st) (fst (getUserTag env now idTag s)) \<noteq> AuthorizationStatusInvalid"
  shows "OnAuthorize env now cp idTag s = None"
  using assms
  by (auto simp: OnAuthorize_def authorizeIdTag_def decision_def authorize_def getUserTag_def Let_def
      split: option.splits)

theorem authorize_panics_without_database_witness:
  "OnAuthorize (demoEnv\<lparr>database := None, acceptTags := False,
      auth := Some (\<lambda>_ _ _. \<lparr>ar_allowed = True, ar_expired = False, ar_blocked = False, ar_info = []\<rparr>)\<rparr>)
     0 ''CP1'' ''TAG2'' demoSys = None"
  by (rule authorize_panics_without_database [of _ _ demoState])
    (simp_all add: demoSys_def demoEnv_def demoState_def newChargePointState_def unknownChargePoint_def
      decision_def getUserTag_def authResultStatus_def)

section \<open>Meter values\<close>

lemma keepHigher_max:
  "keepHigher current v = (case ParseFloat v of None \<Rightarrow> current | Some x \<Rightarrow> max current x)"
  by (auto simp: keepHigher_def max_def split: option.split)

text \<open>The readable samples of a measurand on the vehicle's side.\<close>

definition vehicleSamples :: "string \<Rightarrow> SampledValue list \<Rightarrow> float64 list" where
  "vehicleSamples measurand vs =
     map (\<lambda>v. the (ParseFloat (sv_Value v)))
       (filter (\<lambda>v. isVehicleSideReading v \<and> sv_Measurand v = measurand \<and> ParseFloat (sv_Value v) \<noteq> None) vs)"

lemma electricalReading_fields [simp]:
  "m_Voltage (electricalReading v m)
    = (if isVehicleSideReading v \<and> sv_Measurand v = ''Voltage'' then keepHigher (m_Voltage m) (sv_Value v)
       else m_Voltage m)"
  "m_CurrentImport (electricalReading v m)
    = (if isVehicleSideReading v \<and> sv_Measurand v = ''Current.Import''
       then keepHigher (m_CurrentImport m) (sv_Value v) else m_CurrentImport m)"
  "m_CurrentOffered (electricalReading v m)
    = (if isVehicleSideReading v \<and> sv_Measurand v = ''Current.Offered''
       then keepHigher (m_CurrentOffered m) (sv_Value v) else m_CurrentOffered m)"
  by (auto simp: electricalReading_def)

lemma energyReading_fields [simp]:
  "m_Voltage (energyReading tr p v m) = m_Voltage m"
  "m_CurrentImport (energyReading tr p v m) = m_CurrentImport m"
  "m_CurrentOffered (energyReading tr p v m) = m_CurrentOffered m"
  "m_Time (energyReading tr p v m) = m_Time m" "m_Id (energyReading tr p v m) = m_Id m"
  "m_Value (energyReading tr p v m) = ToInt (sv_Value v)"
  by (auto simp: energyReading_def Let_def split: option.split)

lemma readSample_fields:
  "m_Voltage (readSample tr p v m) = m_Voltage (electricalReading v m)"
  "m_CurrentImport (readSample tr p v m) = m_CurrentImport (electricalReading v m)"
  "m_CurrentOffered (readSample tr p v m) = m_CurrentOffered (electricalReading v m)"
  by (auto simp: readSample_def Let_def)

text \<open>
  A reading keeps the highest sample of voltage, current and offered current: of the samples reported
  on the vehicle's side that are numbers, one per phase, the recorded value is the maximum, and samples of
  the grid side or that cannot be read do not count.
\<close>

theorem reading_keeps_highest_phase:
  "m_Voltage (fold (readSample tr prev) vs m) = fold max (vehicleSamples ''Voltage'' vs) (m_Voltage m)
   \<and> m_CurrentImport (fold (readSample tr prev) vs m)
       = fold max (vehicleSamples ''Current.Import'' vs) (m_CurrentImport m)
   \<and> m_CurrentOffered (fold (readSample tr prev) vs m)
       = fold max (vehicleSamples ''Current.Offered'' vs) (m_CurrentOffered m)"
  by (induction vs arbitrary: m)
    (auto simp: vehicleSamples_def readSample_fields keepHigher_max max.commute split: option.split)

text \<open>
  The power rate of a reading is three times the consumed Wh per second, because the factor
  \<^verbatim>\<open>3600 / 1000\<close> is an integer division; the kW figure is 3.6 times that quotient.
\<close>

theorem power_rate_uses_integer_factor:
  assumes "int64 (ToInt (sv_Value v) - m_Value p)" "ToInt (sv_Value v) > m_Value p"
    and "int64 (m_Time m - m_Time p)" "m_Time m > m_Time p"
  shows "m_PowerRateWh (energyReading tr (Some p) v m)
    = 3 * of_int (ToInt (sv_Value v) - m_Value p) * 1000000000 / of_int (m_Time m - m_Time p)"
  using assms by (simp add: energyReading_def Let_def Seconds_def)

theorem power_rate_uses_integer_factor_witness:
  "m_PowerRateWh (energyReading zeroTransaction (Some (zeroMeter\<lparr>m_Time := 0\<rparr>))
      \<lparr>sv_Value = ''100'', sv_Context = [], sv_Format = [], sv_Measurand = [], sv_Phase = [],
       sv_Location = [], sv_Unit = ''Wh''\<rparr> (zeroMeter\<lparr>m_Time := 60000000000\<rparr>)) = 5"
proof -
  have n: "ToInt ''100'' = 100" by code_simp
  show ?thesis
    using power_rate_uses_integer_factor [of "\<lparr>sv_Value = ''100'', sv_Context = [], sv_Format = [],
        sv_Measurand = [], sv_Phase = [], sv_Location = [], sv_Unit = ''Wh''\<rparr>" "zeroMeter\<lparr>m_Time := 0\<rparr>"
        "zeroMeter\<lparr>m_Time := 60000000000\<rparr>" zeroTransaction]
    by (simp add: n zeroMeter_def int64_def)
qed

end
