(* ===== verification/Startup.thy ===== *)
theory Startup
  imports Handlers Session
begin

text \<open>
  What the system knows after a restart, and what the sweep and the notifications do with it: the id
  counter against the stored transactions, the selection of abandoned transactions, status
  notifications during a session, and the gauge of online charge points.
\<close>

section \<open>Loading writes no transactions\<close>

text \<open>The writes made while charge points and connectors are loaded.\<close>

fun isLoad :: "DbWrite \<Rightarrow> bool" where
  "isLoad (AddChargePoint _) = True"
| "isLoad (AddConnector _) = True"
| "isLoad (UpdateConnector _) = True"
| "isLoad ResetOnlineStatus = True"
| "isLoad _ = False"

text \<open>A property of the database that every loading write keeps.\<close>

definition keptByLoad :: "'db env \<Rightarrow> ('db \<Rightarrow> bool) \<Rightarrow> bool" where
  "keptByLoad env P \<longleftrightarrow>
     (\<forall>D w d. database env = Some D \<and> isLoad w \<and> P d \<longrightarrow> P (snd (exec D w d)))"

lemma kept_dbTry: "keptByLoad env P \<Longrightarrow> isLoad w \<Longrightarrow> P (db s) \<Longrightarrow> P (db (dbTry env w s))"
  by (simp add: dbTry_def keptByLoad_def split: option.split)

lemma kept_releaseFinished:
  "keptByLoad env P \<Longrightarrow> releaseFinishedTransaction env c s = (b, c', s') \<Longrightarrow> P (db s) \<Longrightarrow> P (db s')"
  by (auto simp: releaseFinishedTransaction_def Let_def keptByLoad_def split: option.splits prod.splits if_splits)

lemma kept_initConnectors:
  "keptByLoad env P \<Longrightarrow> initConnectors env cs st s = (st', s') \<Longrightarrow> P (db s) \<Longrightarrow> P (db s')"
proof (induction env cs st s arbitrary: st' s' rule: initConnectors.induct)
  case (2 env c cs st s)
  then show ?case
    by (auto split: if_splits prod.splits bool.splits dest!: kept_releaseFinished [of env P])
qed simp

lemma kept_initialize:
  "keptByLoad env P \<Longrightarrow> P (db s) \<Longrightarrow> P (db (snd (initializeChargePointState env cp s)))"
  by (auto simp: initializeChargePointState_def Let_def split: prod.split dest: kept_initConnectors)

lemma kept_getChargePoint:
  assumes "keptByLoad env P" "P (db s)"
  shows "P (db (snd (getChargePoint env i s)))"
proof -
  have *: "P (db s2)" if "initializeChargePointState env cp s1 = (x, s2)" "P (db s1)" for cp s1 x s2
    using kept_initialize [OF assms(1) that(2), of cp] that(1) by simp
  show ?thesis
    using assms
    by (auto simp: getChargePoint_def addChargePoint_def Let_def kept_dbTry split: option.split prod.split
        intro: * kept_dbTry)
qed

lemma kept_initAll: "keptByLoad env P \<Longrightarrow> P (db s) \<Longrightarrow> P (db (initAll env cps s))"
  by (induction env cps s rule: initAll.induct) (simp_all add: kept_initialize)

lemma kept_checkListen:
  "keptByLoad env P \<Longrightarrow> P (db s) \<Longrightarrow> P (db (checkListenTransaction env k i c on s))"
  using kept_getChargePoint [of env P s "c_ChargePointId c"]
  by (auto simp: checkListenTransaction_def split: prod.split option.split)

lemma kept_checkListenConnectors:
  "keptByLoad env P \<Longrightarrow> P (db s) \<Longrightarrow> P (db (checkListenConnectors env k on cs s))"
  by (induction env k on cs s rule: checkListenConnectors.induct) (simp_all add: kept_checkListen)

lemma kept_checkListenAll: "keptByLoad env P \<Longrightarrow> P (db s) \<Longrightarrow> P (db (checkListenAll env cps s))"
  by (induction env cps s rule: checkListenAll.induct) (simp_all add: kept_checkListenConnectors)

lemma newId_initAll: "newTransactionId (initAll env cps s) = newTransactionId s"
  using quiet_initAll [of s env cps] by (simp add: quiet_def)

lemma newId_checkListenAll: "newTransactionId (checkListenAll env cps s) = newTransactionId s"
  using quiet_checkListenAll [of s env cps] by (simp add: quiet_def)

context mongo_driver
begin

lemma load_keeps_trs: "isLoad w \<Longrightarrow> trs (snd (mongo_exec M now w d)) = trs d"
  by (cases w) (auto simp: mongo_ResetOnlineStatus_def mongo_AddChargePoint_def mongo_AddConnector_def
      mongo_UpdateConnector_def coll_keepsD [OF keeps(1)] coll_keepsD [OF keeps(2)] split: option.split)

lemma kept_trs:
  "database env = Some (mongo_Database M now) \<Longrightarrow> keptByLoad env (\<lambda>d. up d \<and> trs d = ts)"
  by (auto simp: keptByLoad_def mongo_Database_def load_keeps_trs exec_up_mongo)

lemma GetLastTransaction_mongo:
  "up d \<Longrightarrow> fst (mongo_GetLastTransaction M d) = greatest t_Id (trs d)"
  by (simp add: mongo_GetLastTransaction_def coll_readsD [OF reads(1)] decoded_def foundOne_def
      split: option.split sum.split)

lemma GetChargePoints_mongo: "up d \<Longrightarrow> snd (mongo_GetChargePoints M d) = None"
  by (simp add: mongo_GetChargePoints_def joinConnectors_def decodedAll_def coll_readsD [OF reads(4)]
      coll_readsD [OF reads(2)])

lemma loadState_mongo:
  assumes D: "database env = Some (mongo_Database M now)" and up: "up (db s)"
  obtains p c s1 where "loadState env (mongo_Database M now) s = Inr (p, c, s1)"
    "up (db s1)" "trs (db s1) = trs (db s)" "\<forall>t \<in> set (trs (db s)). t_Id t < newTransactionId s1"
proof -
  let ?D = "mongo_Database M now"
  let ?s0 = "dbDo ?D ResetOnlineStatus s"
  let ?P = "\<lambda>d. up d \<and> trs d = trs (db s)"
  note K = kept_trs [OF D, of "trs (db s)"]
  have s0: "?P (db ?s0)" using K D up by (simp add: keptByLoad_def)
  obtain cps where cps: "GetChargePoints ?D (db ?s0) = (cps, None)"
    using GetChargePoints_mongo [OF conjunct1 [OF s0]]
    by (cases "GetChargePoints ?D (db ?s0)") (auto simp: mongo_Database_def)
  let ?s1 = "initAll env cps ?s0"
  have s1: "?P (db ?s1)" by (rule kept_initAll [OF K s0])
  then have last: "fst (GetLastTransaction ?D (db ?s1)) = greatest t_Id (trs (db s))"
    using GetLastTransaction_mongo [of "db ?s1"] by (simp add: mongo_Database_def)
  have le: "t_Id t < t_Id tr + 1" if "greatest t_Id (trs (db s)) = Some tr" "t \<in> set (trs (db s))" for t tr
    using greatest_Some [OF that(1)] that(2) by fastforce
  let ?s2 = "case greatest t_Id (trs (db s)) of None \<Rightarrow> ?s1 | Some tr \<Rightarrow> ?s1\<lparr>newTransactionId := t_Id tr + 1\<rparr>"
  obtain p c f where l: "loadState env ?D s = Inr (p, c, ?s2\<lparr>lastMeter := f\<rparr>)"
    using cps last by (simp add: loadState_def Let_def)
  show thesis
  proof (rule that [OF l])
    show "up (db (?s2\<lparr>lastMeter := f\<rparr>))" "trs (db (?s2\<lparr>lastMeter := f\<rparr>)) = trs (db s)"
      using s1 by (simp_all split: option.split)
    show "\<forall>t \<in> set (trs (db s)). t_Id t < newTransactionId (?s2\<lparr>lastMeter := f\<rparr>)"
      using le by (auto split: option.split)
  qed
qed

lemma OnStart_mongo:
  assumes D: "database env = Some (mongo_Database M now)" and up: "up (db s)" and trig: "triggerSet env"
    and run: "OnStart env s = (err, s')"
  shows "err = None \<and> up (db s') \<and> trs (db s') = trs (db s)
    \<and> (\<forall>t \<in> set (trs (db s)). t_Id t < newTransactionId s')"
proof -
  obtain p c s1 where l: "loadState env (mongo_Database M now) s = Inr (p, c, s1)"
    "up (db s1)" "trs (db s1) = trs (db s)" "\<forall>t \<in> set (trs (db s)). t_Id t < newTransactionId s1"
    by (rule loadState_mongo [OF D up])
  let ?s2 = "updateActiveTransactionsCounter s1"
  let ?s3 = "checkListenAll env (chargePoints ?s2) ?s2"
  note K = kept_trs [OF D, of "trs (db s)"]
  have "up (db ?s3) \<and> trs (db ?s3) = trs (db s)"
    by (rule kept_checkListenAll [OF K]) (use l in simp)
  then show ?thesis
    using run D l trig newId_checkListenAll [of env "chargePoints ?s2" ?s2]
    by (auto simp: OnStart_def startListening_def Let_def)
qed

text \<open>The sweep's selection in terms of the collections.\<close>

lemma sweep_mongo:
  assumes "up d"
  shows "mongo_GetUnfinishedTransactions M stale rel d =
    (sweepRows stale rel (conns d) (meters d) (filter (\<lambda>t. \<not> t_IsFinished t) (trs d)), None)"
  by (simp add: mongo_GetUnfinishedTransactions_def coll_readsD [OF reads(1) assms]
      coll_readsD [OF reads(2) assms] coll_readsD [OF reads(3) assms])

lemma OnlineCounter_mongo:
  "up d \<Longrightarrow> mongo_OnlineCounter M d = (countOnline (filter cp_IsOnline (cps d)), None)"
  by (simp add: mongo_OnlineCounter_def coll_readsD [OF reads(4)])

end

section \<open>Restart\<close>

text \<open>
  After a start against a reachable MongoDB the stored transactions are the ones from before, and
  the id counter is above the id of every one of them, so that the next session gets an id no stored
  transaction has.
\<close>

theorem restart_continues_ids:
  assumes "mongo_driver M up cps conns tags trs meters stops"
    and "database env = Some (mongo_Database M clock)" "up (db s)" "triggerSet env"
    and "OnStart env s = (err, s')"
  shows "err = None \<and> trs (db s') = trs (db s) \<and> (\<forall>t \<in> set (trs (db s')). t_Id t < newTransactionId s')"
  using mongo_driver.OnStart_mongo [OF assms] by simp

text \<open>A store with three transactions out of order, one of them open and idle for an hour.\<close>

definition oldStore :: Store where
  "oldStore = emptyStore\<lparr>sto_transactions := [zeroTransaction\<lparr>t_Id := 4, t_IsFinished := True\<rparr>,
     demoTransaction\<lparr>t_Id := 9\<rparr>, zeroTransaction\<lparr>t_Id := 7, t_IsFinished := True\<rparr>],
     sto_connectors := [(NewConnector 1 ''CP1'')\<lparr>c_CurrentTransactionId := 9\<rparr>],
     sto_chargePoints := [(unknownChargePoint ''CP1'')\<lparr>cp_IsOnline := True, cp_LocationId := ''L1''\<rparr>]\<rparr>"

theorem restart_continues_ids_witness:
  "9 < newTransactionId (snd (OnStart demoEnv (NewSystemHandler (SetDatabase NewAffleck) oldStore)))"
proof -
  let ?s = "NewSystemHandler (SetDatabase NewAffleck) oldStore"
  have D: "database demoEnv = Some (mongo_Database listMongo 0)" by (simp add: demoEnv_def listDatabase_def)
  have up: "sto_up (db ?s)" by code_simp
  have tr: "triggerSet demoEnv" by (simp add: demoEnv_def)
  have db: "db ?s = oldStore" by (simp add: NewSystemHandler_def)
  have t9: "demoTransaction\<lparr>t_Id := 9\<rparr> \<in> set (sto_transactions oldStore)"
    by (simp add: oldStore_def emptyStore_def)
  obtain err s' where r: "OnStart demoEnv ?s = (err, s')" by (cases "OnStart demoEnv ?s")
  show ?thesis
    using restart_continues_ids [OF store.mongo_driver_axioms D up tr r] r t9
    by (auto simp: db dest: bspec [where x = "demoTransaction\<lparr>t_Id := 9\<rparr>"])
qed

section \<open>The selection of abandoned transactions\<close>

lemma heldBy_other:
  "(\<exists>held \<in> set (heldBy cs t). t_Id t \<noteq> held \<and> P)
     \<longleftrightarrow> P \<and> (\<exists>c \<in> set cs. isConnector (t_ConnectorId t) (t_ChargePointId t) c \<and> c_CurrentTransactionId c \<noteq> t_Id t)"
proof (cases "filter (isConnector (t_ConnectorId t) (t_ChargePointId t)) cs")
  case Nil
  then show ?thesis by (auto simp: heldBy_def filter_empty_conv)
next
  case (Cons c hs)
  then have "set (heldBy cs t) = c_CurrentTransactionId ` {c \<in> set cs. isConnector (t_ConnectorId t) (t_ChargePointId t) c}"
    by (auto simp: heldBy_def simp flip: set_filter)
  then show ?thesis by auto
qed

lemma heldBy_nonempty: "heldBy cs t \<noteq> []"
  by (simp add: heldBy_def split: list.split)

text \<open>
  C23. The sweep closes exactly the abandoned transactions: a stored transaction is selected if and only if
  it is unfinished and nothing was heard of it, neither its start nor a reading, since the stale limit, or since the
  release limit when the connector it ran on no longer points to it.
\<close>

theorem sweep_selection:
  assumes "mongo_driver M up cps conns tags trs meters stops" "up d"
    and "mongo_GetUnfinishedTransactions M staleBefore releasedBefore d = (rows, err)"
  shows "err = None \<and> ((\<exists>sw \<in> set rows. sw_Transaction sw = t) \<longleftrightarrow>
     t \<in> set (trs d) \<and> \<not> t_IsFinished t
     \<and> (\<exists>b. t_TimeStart t \<le> b \<and> (\<forall>m \<in> set (meters d). m_Id m = t_Id t \<longrightarrow> m_Time m \<le> b)
           \<and> (b = staleBefore
              \<or> b = releasedBefore \<and> (\<exists>c \<in> set (conns d). isConnector (t_ConnectorId t) (t_ChargePointId t) c
                    \<and> c_CurrentTransactionId c \<noteq> t_Id t))))"
proof -
  have rows: "rows = sweepRows staleBefore releasedBefore (conns d) (meters d) (filter (\<lambda>t. \<not> t_IsFinished t) (trs d))"
    and err: "err = None"
    using mongo_driver.sweep_mongo [OF assms(1,2)] assms(3) by simp_all
  have "(\<exists>sw \<in> set rows. sw_Transaction sw = t) \<longleftrightarrow> t \<in> set (trs d) \<and> \<not> t_IsFinished t
     \<and> (\<exists>held \<in> set (heldBy (conns d) t). swept staleBefore releasedBefore (meters d) t held)"
    by (auto simp: rows sweepRows_def)
  also have "(\<exists>held \<in> set (heldBy (conns d) t). swept staleBefore releasedBefore (meters d) t held)
     \<longleftrightarrow> lastActivity (meters d) t \<le> staleBefore
        \<or> (\<exists>held \<in> set (heldBy (conns d) t). t_Id t \<noteq> held \<and> lastActivity (meters d) t \<le> releasedBefore)"
    using heldBy_nonempty [of "conns d" t] by (auto simp: swept_def neq_Nil_conv)
  also have "\<dots> \<longleftrightarrow> (\<exists>b. lastActivity (meters d) t \<le> b \<and> (b = staleBefore \<or> b = releasedBefore
        \<and> (\<exists>c \<in> set (conns d). isConnector (t_ConnectorId t) (t_ChargePointId t) c
              \<and> c_CurrentTransactionId c \<noteq> t_Id t)))"
    unfolding heldBy_other by blast
  finally show ?thesis using err by (simp add: lastActivity_le conj_assoc)
qed

theorem sweep_selection_witness:
  "\<exists>sw \<in> set (fst (mongo_GetUnfinishedTransactions listMongo 5 5 oldStore)).
     sw_Transaction sw = demoTransaction\<lparr>t_Id := 9\<rparr>"
proof -
  let ?t = "demoTransaction\<lparr>t_Id := 9\<rparr>"
  obtain rows err where r: "mongo_GetUnfinishedTransactions listMongo 5 5 oldStore = (rows, err)"
    by (cases "mongo_GetUnfinishedTransactions listMongo 5 5 oldStore")
  have up: "sto_up oldStore" by code_simp
  have t: "?t \<in> set (sto_transactions oldStore)" "\<not> t_IsFinished ?t" "t_TimeStart ?t \<le> 5" "sto_meters oldStore = []"
    by (simp_all add: oldStore_def demoTransaction_def zeroTransaction_def emptyStore_def)
  show ?thesis
    using sweep_selection [OF store.mongo_driver_axioms up r, of ?t] t r
    by (auto intro!: exI [of _ 5])
qed

section \<open>Status notifications\<close>

lemma statusError_trace: "traces gauge s (statusError env now cp r st s)"
proof -
  have e: "traces gauge t (emit (ErrorReported d) t)" for t :: "'a sys" and d by (simp add: traces_emit)
  show ?thesis by (simp add: statusError_def Let_def traces_trans [OF traces_gauges(3) e])
qed

definition statusUpdate :: "time \<Rightarrow> StatusNotificationRequest \<Rightarrow> Connector \<Rightarrow> Connector" where
  "statusUpdate now r c = c\<lparr>c_Status := sn_Status r, c_StatusTime := sn_GetTimestamp now r,
              c_State := stateFromStatus (sn_Status r), c_Info := sn_Info r,
              c_VendorId := sn_VendorId r, c_ErrorCode := sn_ErrorCode r\<rparr>"

lemma statusConnector_known:
  assumes "statusConnector env now cp k r st s = (c', st', s')"
    and "map_of (cps_connectors st) (sn_ConnectorId r) = Some c"
  shows "c' = statusUpdate now r c" "st' = putConn (sn_ConnectorId r) c' st"
    "chargePoints s' = mput k st' (chargePoints s)" "newTransactionId s' = newTransactionId s"
  using assms
  by (auto simp: statusConnector_def getConnector_def statusUpdate_def Let_def
      traces_simps [OF traces_gauges(6)] split: if_splits)

lemma checkListen_spawned:
  "map_of (chargePoints s) (c_ChargePointId c) = Some st \<Longrightarrow>
     spawned (checkListenTransaction env k i c on s) = spawned s"
  by (simp add: checkListenTransaction_def)

lemma OnStatusNotification_known:
  assumes k: "map_of (chargePoints s) cp = Some st" "map_of (cps_connectors st) (sn_ConnectorId r) = Some c"
    and cid: "c_ChargePointId c = cp" "0 < sn_ConnectorId r"
  shows "chargePoints (OnStatusNotification env now cp r s) =
      mput cp (putConn (sn_ConnectorId r) (statusUpdate now r c) (st\<lparr>cps_errorCode := sn_ErrorCode r\<rparr>))
        (mput cp (st\<lparr>cps_errorCode := sn_ErrorCode r\<rparr>) (chargePoints s))"
    "newTransactionId (OnStatusNotification env now cp r s) = newTransactionId s"
    "sn_Status r = ChargePointStatusAvailable \<longrightarrow>
       GoCheckAndFinishTransactions \<in> set (spawned (OnStatusNotification env now cp r s))"
proof -
  let ?st = "st\<lparr>cps_errorCode := sn_ErrorCode r\<rparr>"
  obtain c' st' s1 where b: "statusConnector env now cp cp r ?st (putCP cp ?st s) = (c', st', s1)"
    by (cases "statusConnector env now cp cp r ?st (putCP cp ?st s)") auto
  note B = statusConnector_known [OF b, of c]
  have g: "getChargePoint env cp s = (Some (cp, st), s)" using k by (simp add: getChargePoint_def)
  obtain m where m: "OnStatusNotification env now cp r s =
      (let s = notifyEventListeners StatusNotification m (statusError env now cp r st' s1);
           s = (if sn_Status r = ChargePointStatusAvailable then spawn GoCheckAndFinishTransactions s else s)
       in checkListenTransaction env cp (sn_ConnectorId r) c' (cp_IsOnline (cps_model st')) s)"
    using b cid by (simp add: OnStatusNotification_def g Let_def)
  let ?s2 = "notifyEventListeners StatusNotification m (statusError env now cp r st' s1)"
  let ?s3 = "if sn_Status r = ChargePointStatusAvailable then spawn GoCheckAndFinishTransactions ?s2 else ?s2"
  have cp2: "chargePoints ?s2 = chargePoints s1" "newTransactionId ?s2 = newTransactionId s1"
    by (simp_all add: traces_simps [OF statusError_trace] traces_simps [OF traces_gauges(8)])
  have cp3: "chargePoints ?s3 = chargePoints s1" "newTransactionId ?s3 = newTransactionId s1"
    using cp2 by (simp_all add: spawn_def)
  have "map_of (chargePoints ?s3) (c_ChargePointId c') = Some st'"
    unfolding cp3 using B k cid by (simp add: statusUpdate_def)
  note L = checkListen_known [OF this] checkListen_spawned [OF this]
  have r: "OnStatusNotification env now cp r s =
      checkListenTransaction env cp (sn_ConnectorId r) c' (cp_IsOnline (cps_model st')) ?s3"
    by (simp add: m Let_def)
  show "chargePoints (OnStatusNotification env now cp r s) =
      mput cp (putConn (sn_ConnectorId r) (statusUpdate now r c) ?st) (mput cp ?st (chargePoints s))"
    "newTransactionId (OnStatusNotification env now cp r s) = newTransactionId s"
    unfolding r L cp3 using B k by simp_all
  show "sn_Status r = ChargePointStatusAvailable \<longrightarrow>
       GoCheckAndFinishTransactions \<in> set (spawned (OnStatusNotification env now cp r s))"
    unfolding r L by (simp add: spawn_def)
qed

text \<open>
  A status notification for a connector records the reported status, error and derived state in memory and
  never detaches a running session: the transaction pointer and the power limit of that connector stay, the
  other connectors are untouched, no id is consumed, and a connector reported available makes the sweep run.
\<close>

theorem status_keeps_session:
  assumes "connector_known s cp (sn_ConnectorId r) c" "0 < sn_ConnectorId r"
    and "OnStatusNotification env now cp r s = s'"
  shows "connectorAt s' cp (sn_ConnectorId r) =
      Some (c\<lparr>c_Status := sn_Status r, c_StatusTime := sn_GetTimestamp now r,
              c_State := stateFromStatus (sn_Status r), c_Info := sn_Info r,
              c_VendorId := sn_VendorId r, c_ErrorCode := sn_ErrorCode r\<rparr>)
    \<and> (\<forall>k i. (k, i) \<noteq> (cp, sn_ConnectorId r) \<longrightarrow> connectorAt s' k i = connectorAt s k i)
    \<and> newTransactionId s' = newTransactionId s
    \<and> (sn_Status r = ChargePointStatusAvailable \<longrightarrow> GoCheckAndFinishTransactions \<in> set (spawned s'))"
proof -
  obtain st where st: "map_of (chargePoints s) cp = Some st" "map_of (cps_connectors st) (sn_ConnectorId r) = Some c"
    "c_ChargePointId c = cp"
    using assms(1) by (auto simp: connector_known_def connectorAt_def split: option.splits)
  show ?thesis
    using OnStatusNotification_known [OF st assms(2), of env now] assms(3) st
    by (auto simp: connectorAt_def statusUpdate_def)
qed

definition demoStatus :: StatusNotificationRequest where
  "demoStatus = \<lparr>sn_ConnectorId = 1, sn_ErrorCode = NoError, sn_Info = [],
     sn_Status = ChargePointStatusAvailable, sn_Timestamp = Some 3, sn_VendorId = [], sn_VendorErrorCode = []\<rparr>"

theorem status_keeps_session_witness:
  "map_option c_CurrentTransactionId (connectorAt (OnStatusNotification demoEnv 3 ''CP1'' demoStatus demoRunning) ''CP1'' 1)
     = Some 1"
proof -
  have "connector_known demoRunning ''CP1'' (sn_ConnectorId demoStatus) ((NewConnector 1 ''CP1'')\<lparr>c_CurrentTransactionId := 1\<rparr>)"
    using demo_running by (simp add: connector_known_def demoStatus_def NewConnector_def)
  from status_keeps_session [OF this _ refl] show ?thesis by (simp add: demoStatus_def)
qed

text \<open>
  The connections gauge is fed with one row per location that has an online charge point, each with
  the number of its online charge points; a location whose last charge point went offline has no row, so
  its gauge keeps the last positive value.
\<close>

theorem online_counter_rows:
  assumes "mongo_driver M up cps conns tags trs meters stops" "up d"
  shows "snd (mongo_OnlineCounter M d) = None
    \<and> ((l, n) \<in> set (fst (mongo_OnlineCounter M d)) \<longleftrightarrow>
         0 < n \<and> n = int (length (filter (\<lambda>cp. cp_IsOnline cp \<and> cp_LocationId cp = l) (cps d))))"
  using mongo_driver.OnlineCounter_mongo [OF assms]
  by (auto simp: countOnline_def image_iff conj_commute filter_empty_conv)

theorem online_counter_rows_witness: "(''L1'', 1) \<in> set (fst (mongo_OnlineCounter listMongo oldStore))"
  using online_counter_rows [OF store.mongo_driver_axioms, of oldStore "''L1''" 1]
  by (simp add: oldStore_def emptyStore_def unknownChargePoint_def)

end
