(* ===== verification/Capabilities.thy ===== *)
theory Capabilities
  imports Core16
begin

text \<open>
  The cache of smart charging limits of \<^verbatim>\<open>src/power/capabilities.go\<close>: what a charge point
  reported about its charging profiles, and what its refusals taught. The store is a Go map with its own
  mutex, so every operation is one step. The JSON payload of a configuration response is given decoded, as
  the list of its keys with their optional values.
\<close>

definition keyMaxStackLevel :: string where "keyMaxStackLevel = ''ChargeProfileMaxStackLevel''"

definition keyAllowedRateUnit :: string where "keyAllowedRateUnit = ''ChargingScheduleAllowedChargingRateUnit''"

definition rateUnitCurrent :: string where "rateUnitCurrent = ''Current''"

definition discoveryRetryInterval :: int where "discoveryRetryInterval = 5 * nanos_per_minute"

record capabilities =
  ca_known :: bool
  ca_stackLevelKnown :: bool
  ca_maxStackLevel :: int
  ca_allowsCurrent :: bool
  ca_allowedUnits :: string
  ca_lastAttempt :: time

definition zeroCapabilities :: capabilities where
  "zeroCapabilities = \<lparr>ca_known = False, ca_stackLevelKnown = False, ca_maxStackLevel = 0,
     ca_allowsCurrent = False, ca_allowedUnits = [], ca_lastAttempt = zeroTime\<rparr>"

definition stackLevelFor :: "capabilities \<Rightarrow> int \<Rightarrow> int" where
  "stackLevelFor c desired =
     (if \<not> ca_stackLevelKnown c \<or> ca_maxStackLevel c \<ge> desired then desired
      else if ca_maxStackLevel c < 0 then 0
      else ca_maxStackLevel c)"

section \<open>The store\<close>

type_synonym capabilityStore = "(string, capabilities) gomap"

definition getCapabilities :: "string \<Rightarrow> capabilityStore \<Rightarrow> capabilities" where
  "getCapabilities chargePointId s =
     (case map_of s chargePointId of None \<Rightarrow> zeroCapabilities | Some c \<Rightarrow> c)"

definition recordCapabilities ::
    "string \<Rightarrow> capabilities \<Rightarrow> capabilityStore \<Rightarrow> capabilities \<times> capabilityStore" where
  "recordCapabilities chargePointId reported s =
     (let previous = getCapabilities chargePointId s;
          reported = (if ca_stackLevelKnown previous \<and> ca_maxStackLevel previous < ca_maxStackLevel reported
                      then reported\<lparr>ca_maxStackLevel := ca_maxStackLevel previous\<rparr> else reported)
      in (reported, mput chargePointId reported s))"

definition beginDiscovery :: "string \<Rightarrow> time \<Rightarrow> int \<Rightarrow> capabilityStore \<Rightarrow> bool \<times> capabilityStore" where
  "beginDiscovery chargePointId now retryInterval s =
     (let entry = getCapabilities chargePointId s
      in if ca_known entry then (False, s)
         else if ca_lastAttempt entry \<noteq> zeroTime \<and> timeSub now (ca_lastAttempt entry) < retryInterval
         then (False, s)
         else (True, mput chargePointId (entry\<lparr>ca_lastAttempt := now\<rparr>) s))"

definition lowerStackLevel :: "string \<Rightarrow> int \<Rightarrow> capabilityStore \<Rightarrow> bool \<times> capabilityStore" where
  "lowerStackLevel chargePointId level s =
     (let entry = getCapabilities chargePointId s
      in if ca_stackLevelKnown entry \<and> ca_maxStackLevel entry \<le> level then (False, s)
         else (True, mput chargePointId
                 (entry\<lparr>ca_stackLevelKnown := True, ca_maxStackLevel := level\<rparr>) s))"

section \<open>Reading a configuration\<close>

text \<open>The switch of the loop over the keys; \<open>Inl\<close> is the returned error.\<close>

definition readKey :: "string \<times> string option \<Rightarrow> capabilities \<Rightarrow> string + capabilities" where
  "readKey kv result =
     (case snd kv of None \<Rightarrow> Inr result
      | Some value \<Rightarrow>
         if fst kv = keyMaxStackLevel then
           (case Atoi (TrimSpace value) of
              None \<Rightarrow> Inl (keyMaxStackLevel @ '' is not a number: '' @ [CHR 34] @ value @ [CHR 34])
            | Some level \<Rightarrow> Inr (result\<lparr>ca_maxStackLevel := level\<rparr>))
         else if fst kv = keyAllowedRateUnit then
           Inr (result\<lparr>ca_allowedUnits := value,
                  ca_allowsCurrent := list_ex (\<lambda>unit. EqualFold (TrimSpace unit) rateUnitCurrent)
                                        (Split (CHR '','') value)\<rparr>)
         else Inr result)"

fun readKeys :: "(string \<times> string option) list \<Rightarrow> capabilities \<Rightarrow> string + capabilities" where
  "readKeys [] result = Inr result"
| "readKeys (kv # kvs) result =
     (case readKey kv result of Inl e \<Rightarrow> Inl e | Inr r \<Rightarrow> readKeys kvs r)"

definition parseCapabilities :: "(string \<times> string option) list option \<Rightarrow> string + capabilities" where
  "parseCapabilities payload =
     (case payload of None \<Rightarrow> Inl ''unreadable configuration response''
      | Some keys \<Rightarrow>
         readKeys keys (zeroCapabilities\<lparr>ca_known := True, ca_stackLevelKnown := True,
           ca_maxStackLevel := TxProfileStackLevel, ca_allowsCurrent := True,
           ca_allowedUnits := rateUnitCurrent\<rparr>))"

section \<open>A learned ceiling\<close>

text \<open>
  A store of ceilings, with the actions that change it: whatever is done, a ceiling that is known
  stays known and never rises. A run of actions then keeps the level of every profile below the first
  refused one.
\<close>

locale ceiling_store =
  fixes ceiling :: "'s \<Rightarrow> string \<Rightarrow> int option" and act :: "'op \<Rightarrow> 's \<Rightarrow> 's"
  assumes act_lowers: "ceiling s k = Some m \<Longrightarrow> \<exists>m'. ceiling (act op s) k = Some m' \<and> m' \<le> m"
begin

lemma run_lowers: "ceiling s k = Some m \<Longrightarrow> \<exists>m'. ceiling (fold act ops s) k = Some m' \<and> m' \<le> m"
proof (induction ops arbitrary: s m)
  case (Cons op ops)
  obtain m1 where m1: "ceiling (act op s) k = Some m1" "m1 \<le> m" using act_lowers [OF Cons.prems] by blast
  from Cons.IH [OF m1(1)] m1(2) show ?case by auto
qed simp

end

definition ceilingOf :: "capabilityStore \<Rightarrow> string \<Rightarrow> int option" where
  "ceilingOf s k = (let c = getCapabilities k s
                    in if ca_stackLevelKnown c then Some (ca_maxStackLevel c) else None)"

datatype StoreOp = Record string "(string \<times> string option) list option" | BeginDiscovery string time int | Lower string int

text \<open>A report that was read is recorded, an unreadable one is dropped, as \<^verbatim>\<open>discoverCapabilities\<close> does.\<close>

fun storeAct :: "StoreOp \<Rightarrow> capabilityStore \<Rightarrow> capabilityStore" where
  "storeAct (Record k payload) s =
     (case parseCapabilities payload of Inl _ \<Rightarrow> s | Inr reported \<Rightarrow> snd (recordCapabilities k reported s))"
| "storeAct (BeginDiscovery k now retry) s = snd (beginDiscovery k now retry s)"
| "storeAct (Lower k level) s = snd (lowerStackLevel k level s)"

lemma getCapabilities_mput [simp]:
  "getCapabilities k (mput k' c s) = (if k = k' then c else getCapabilities k s)"
  by (simp add: getCapabilities_def)

lemma readKey_known:
  "readKey kv r = Inr r' \<Longrightarrow> ca_known r' = ca_known r \<and> ca_stackLevelKnown r' = ca_stackLevelKnown r"
  by (auto simp: readKey_def split: option.splits if_splits)

lemma readKeys_known:
  "readKeys kvs r = Inr r' \<Longrightarrow> ca_known r' = ca_known r \<and> ca_stackLevelKnown r' = ca_stackLevelKnown r"
  by (induction kvs r rule: readKeys.induct) (auto split: sum.splits dest: readKey_known)

lemma parseCapabilities_known:
  "parseCapabilities p = Inr c \<Longrightarrow> ca_known c \<and> ca_stackLevelKnown c"
  by (auto simp: parseCapabilities_def split: option.splits dest: readKeys_known)

interpretation caps: ceiling_store ceilingOf storeAct
proof
  fix s k m op
  show "ceilingOf s k = Some m \<Longrightarrow> \<exists>m'. ceilingOf (storeAct op s) k = Some m' \<and> m' \<le> m"
    by (cases op) (auto simp: ceilingOf_def recordCapabilities_def beginDiscovery_def lowerStackLevel_def
        Let_def
        split: if_splits sum.splits dest: parseCapabilities_known)
qed

lemma lower_then_below:
  assumes "lowerStackLevel k (level - 1) s = (b, s')" "0 < level"
  shows "stackLevelFor (getCapabilities k s') desired < level"
  using assms by (auto simp: lowerStackLevel_def stackLevelFor_def Let_def split: if_splits)

lemma below_after_ceiling:
  assumes "ceilingOf s k = Some m" "0 \<le> m"
  shows "stackLevelFor (getCapabilities k s) desired \<le> m"
  using assms by (auto simp: ceilingOf_def stackLevelFor_def Let_def split: if_splits)

section \<open>Properties\<close>

text \<open>
  C28. A refusal is never forgotten: after a profile at a positive stack level is refused and the level
  is lowered, no sequence of configuration reads, discovery attempts and further refusals makes the central
  system ask that charge point for that level again, whatever level it would like and whatever the
  charge point reports.
\<close>

theorem refused_level_not_retried:
  assumes "0 < level" "snd (lowerStackLevel k (level - 1) s) = s'"
  shows "stackLevelFor (getCapabilities k (fold storeAct ops s')) desired < level"
proof -
  obtain m where m: "ceilingOf s' k = Some m" "m < level"
    using assms by (auto simp: ceilingOf_def lowerStackLevel_def Let_def split: if_splits)
  obtain m' where m': "ceilingOf (fold storeAct ops s') k = Some m'" "m' \<le> m"
    using caps.run_lowers [OF m(1)] by blast
  show ?thesis
    using m' m(2) assms(1) by (auto simp: ceilingOf_def stackLevelFor_def Let_def split: if_splits)
qed

theorem refused_level_not_retried_witness:
  "stackLevelFor (getCapabilities ''CP1'' (fold storeAct
      [Record ''CP1'' (Some [(keyMaxStackLevel, Some ''10'')]), BeginDiscovery ''CP1'' 7 1]
      (snd (lowerStackLevel ''CP1'' (10 - 1) [])))) TxProfileStackLevel < 10"
  by (rule refused_level_not_retried) simp_all

text \<open>
  Two sessions that start at once produce one configuration read: within the retry interval of a
  claimed discovery every further claim for that charge point is refused and changes nothing, and claims of
  other charge points are not affected.
\<close>

theorem one_discovery_per_interval:
  assumes "beginDiscovery k now retry s = (True, s')" "now \<noteq> zeroTime" "timeSub now' now < retry"
  shows "beginDiscovery k now' retry s' = (False, s')
    \<and> (j \<noteq> k \<longrightarrow> fst (beginDiscovery j now' retry s') = fst (beginDiscovery j now' retry s))"
  using assms by (auto simp: beginDiscovery_def Let_def split: if_splits)

theorem one_discovery_per_interval_witness:
  "fst (beginDiscovery ''CP1'' 60 discoveryRetryInterval (snd (beginDiscovery ''CP1'' 1 discoveryRetryInterval []))) = False"
proof -
  have a: "beginDiscovery ''CP1'' 1 discoveryRetryInterval [] =
      (True, snd (beginDiscovery ''CP1'' 1 discoveryRetryInterval []))" by code_simp
  have b: "(1 :: time) \<noteq> zeroTime" by code_simp
  have c: "timeSub 60 1 < discoveryRetryInterval" by code_simp
  show ?thesis using one_discovery_per_interval [OF a b c] by simp
qed

text \<open>The last rate unit entry with a value decides, and without one the start value.\<close>

lemma readKeys_units:
  assumes "readKeys kvs r = Inr r'"
  shows "ca_allowsCurrent r' = (case find (\<lambda>kv. fst kv = keyAllowedRateUnit \<and> snd kv \<noteq> None) (rev kvs) of
      None \<Rightarrow> ca_allowsCurrent r
    | Some kv \<Rightarrow> list_ex (\<lambda>unit. EqualFold (TrimSpace unit) rateUnitCurrent) (Split (CHR '','') (the (snd kv))))"
  using assms
proof (induction kvs r arbitrary: r' rule: readKeys.induct)
  case (2 kv kvs r)
  then obtain r1 where r1: "readKey kv r = Inr r1" "readKeys kvs r1 = Inr r'" by (auto split: sum.splits)
  have ne: "keyMaxStackLevel \<noteq> keyAllowedRateUnit" by code_simp
  have "ca_allowsCurrent r1 = (if fst kv = keyAllowedRateUnit \<and> snd kv \<noteq> None
      then list_ex (\<lambda>unit. EqualFold (TrimSpace unit) rateUnitCurrent) (Split (CHR '','') (the (snd kv)))
      else ca_allowsCurrent r)"
    using r1(1) ne by (auto simp: readKey_def split: option.splits if_splits)
  then show ?case
    using "2.IH" [OF r1] by (auto simp: find_append split: option.split)
qed simp

text \<open>
  What a configuration response teaches: when it can be read, both limits count as known, and
  amperes are allowed if and only if the last rate unit entry with a value lists \<^verbatim>\<open>Current\<close> in any
  spelling, or there is no such entry.
\<close>

theorem parsed_rate_unit:
  assumes "parseCapabilities (Some kvs) = Inr c"
  shows "ca_known c \<and> ca_stackLevelKnown c
    \<and> (ca_allowsCurrent c \<longleftrightarrow>
        (case find (\<lambda>kv. fst kv = keyAllowedRateUnit \<and> snd kv \<noteq> None) (rev kvs) of
           None \<Rightarrow> True
         | Some kv \<Rightarrow> (\<exists>unit \<in> set (Split (CHR '','') (the (snd kv))). EqualFold (TrimSpace unit) rateUnitCurrent)))"
  using parseCapabilities_known [OF assms] assms readKeys_units [of kvs]
  by (auto simp: parseCapabilities_def list_ex_iff split: option.splits)

theorem parsed_rate_unit_witness:
  "ca_allowsCurrent (projr (parseCapabilities (Some [(keyAllowedRateUnit, Some ''Power, current'')])))"
proof -
  let ?p = "Some [(keyAllowedRateUnit, Some ''Power, current'')]"
  have ok: "parseCapabilities ?p = Inr (projr (parseCapabilities ?p))" by code_simp
  have s: "Split (CHR '','') ''Power, current'' = [''Power'', '' current'']" by code_simp
  have e: "EqualFold (TrimSpace '' current'') rateUnitCurrent" by code_simp
  show ?thesis using parsed_rate_unit [OF ok] e by (simp add: s)
qed

end
