(* ===== verification/LoadBalancer.thy ===== *)
theory LoadBalancer
  imports Capabilities Mongo
begin

text \<open>
  The power manager of \<^verbatim>\<open>src/power/load_balancer.go\<close>: amperage limits for the sessions of a
  location. The central system's send operations are parameters (\<open>lbEnv\<close>): whether a request can be
  queued, and what a charge point answers to a configuration read (\<open>None\<close> an error or a time-out,
  \<open>Some None\<close> an unreadable payload). An accepted profile request leaves a pending entry, the
  goroutine that waits for the verdict; \<open>onVerdict\<close> is its end. The connectors are decoded afresh
  from the database in every pass, so a pending entry holds its own copy: the pass that made it changes nothing in
  it afterwards but the power limit, which the goroutine does not read. Logging is left out.
\<close>

section \<open>State\<close>

definition baseLimit :: int where "baseLimit = 85"

definition powerSlots :: "int list" where "powerSlots = [330, 195, 145, 115]"

definition stackLevelRetries :: nat where "stackLevelRetries = 1"

record PendingProfile =
  pp_connector :: Connector
  pp_powerLimit :: int
  pp_stackLevel :: int
  pp_transactionId :: int
  pp_retriesLeft :: nat

datatype LbEffect =
    LbAsked string
  | LbSent string Request
  | LbWrote DbWrite "DbErr option"

record 'db balancer =
  b_capabilities :: capabilityStore
  b_pending :: "PendingProfile list"
  b_out :: "LbEffect list"
  b_db :: 'db

record 'db lbEnv =
  lb_database :: "'db Database option"
  lb_canSend :: "string \<Rightarrow> bool"
  lb_configuration :: "string \<Rightarrow> (string \<times> string option) list option option"

definition NewLoadBalancer :: "'db \<Rightarrow> 'db balancer" where
  "NewLoadBalancer d = \<lparr>b_capabilities = [], b_pending = [], b_out = [], b_db = d\<rparr>"

definition lbDo :: "'db Database \<Rightarrow> DbWrite \<Rightarrow> 'db balancer \<Rightarrow> 'db balancer" where
  "lbDo D w b = (let (err, d) = exec D w (b_db b) in b\<lparr>b_db := d, b_out := b_out b @ [LbWrote w err]\<rparr>)"

definition lbTry :: "'db lbEnv \<Rightarrow> DbWrite \<Rightarrow> 'db balancer \<Rightarrow> 'db balancer" where
  "lbTry env w b = (case lb_database env of None \<Rightarrow> b | Some D \<Rightarrow> lbDo D w b)"

section \<open>Capabilities\<close>

definition discoverCapabilities :: "'db lbEnv \<Rightarrow> string \<Rightarrow> 'db balancer \<Rightarrow> 'db balancer" where
  "discoverCapabilities env chargePointId b =
     (let b = b\<lparr>b_out := b_out b @ [LbAsked chargePointId]\<rparr>
      in case lb_configuration env chargePointId of None \<Rightarrow> b
         | Some payload \<Rightarrow>
            (case parseCapabilities payload of Inl _ \<Rightarrow> b
             | Inr reported \<Rightarrow>
                 b\<lparr>b_capabilities := snd (recordCapabilities chargePointId reported (b_capabilities b))\<rparr>))"

definition ensureCapabilities :: "'db lbEnv \<Rightarrow> time \<Rightarrow> string \<Rightarrow> 'db balancer \<Rightarrow> 'db balancer" where
  "ensureCapabilities env now chargePointId b =
     (let (ok, s) = beginDiscovery chargePointId now discoveryRetryInterval (b_capabilities b)
      in if \<not> ok then b else discoverCapabilities env chargePointId (b\<lparr>b_capabilities := s\<rparr>))"

section \<open>Profiles\<close>

text \<open>\<^verbatim>\<open>sendProfile\<close> with a verdict callback; the flag is whether the request was queued.\<close>

definition sendProfile ::
    "'db lbEnv \<Rightarrow> string \<Rightarrow> Request \<Rightarrow> PendingProfile option \<Rightarrow> 'db balancer \<Rightarrow> bool \<times> 'db balancer" where
  "sendProfile env chargePointId request onVerdict b =
     (if \<not> lb_canSend env chargePointId then (False, b)
      else (True, b\<lparr>b_out := b_out b @ [LbSent chargePointId request],
                    b_pending := b_pending b @ (case onVerdict of None \<Rightarrow> [] | Some p \<Rightarrow> [p])\<rparr>))"

definition sendTransactionProfile ::
    "'db lbEnv \<Rightarrow> Connector \<Rightarrow> int \<Rightarrow> nat \<Rightarrow> 'db balancer \<Rightarrow> bool \<times> 'db balancer" where
  "sendTransactionProfile env connector powerLimit retriesLeft b =
     (let chargePointId = c_ChargePointId connector;
          limits = getCapabilities chargePointId (b_capabilities b)
      in if ca_known limits \<and> \<not> ca_allowsCurrent limits then (False, b)
         else let stackLevel = stackLevelFor limits TxProfileStackLevel;
                  transactionId = c_CurrentTransactionId connector;
                  request = SetChargingProfileRequest (c_Id connector)
                    (NewTransactionChargingProfile (c_Id connector) transactionId powerLimit stackLevel)
              in sendProfile env chargePointId request
                   (Some \<lparr>pp_connector = connector, pp_powerLimit = powerLimit, pp_stackLevel = stackLevel,
                          pp_transactionId = transactionId, pp_retriesLeft = retriesLeft\<rparr>) b)"

definition recordVerdict ::
    "'db lbEnv \<Rightarrow> time \<Rightarrow> Connector \<Rightarrow> string \<Rightarrow> int \<Rightarrow> int \<Rightarrow> 'db balancer \<Rightarrow> 'db balancer" where
  "recordVerdict env now connector status powerLimit stackLevel b =
     lbTry env (UpdateConnectorProfileVerdict (c_ChargePointId connector) (c_Id connector)
       \<lparr>pv_Status = status, pv_Limit = powerLimit, pv_StackLevel = stackLevel, pv_Time = now\<rparr>) b"

text \<open>The answer to a pending profile: the status of the response, no response, or an unreadable one.\<close>

datatype Answer = Answered string | Garbled | Silent

fun verdictOf :: "Answer \<Rightarrow> string" where
  "verdictOf (Answered status) = status"
| "verdictOf Garbled = ProfileStatusUnreadable"
| "verdictOf Silent = ProfileStatusNoResponse"

definition onVerdict :: "'db lbEnv \<Rightarrow> time \<Rightarrow> PendingProfile \<Rightarrow> Answer \<Rightarrow> 'db balancer \<Rightarrow> 'db balancer" where
  "onVerdict env now p answer b =
     (let connector = pp_connector p;
          status = verdictOf answer;
          b = recordVerdict env now connector status (pp_powerLimit p) (pp_stackLevel p) b
      in if status = ProfileStatusAccepted then b
         else if pp_retriesLeft p \<le> 0 \<or> pp_stackLevel p \<le> 0 then b
         else if status \<noteq> ProfileStatusRejected \<and> status \<noteq> ProfileStatusNotSupported then b
         else let (lowered, s) = lowerStackLevel (c_ChargePointId connector) (pp_stackLevel p - 1)
                                   (b_capabilities b);
                  b = b\<lparr>b_capabilities := s\<rparr>
              in if \<not> lowered then b
                 else if c_CurrentTransactionId connector \<noteq> pp_transactionId p then b
                 else snd (sendTransactionProfile env connector (pp_powerLimit p) (pp_retriesLeft p - 1) b))"

section \<open>Limits of a location\<close>

definition lbLocation :: "'db lbEnv \<Rightarrow> string \<Rightarrow> 'db \<Rightarrow> Location option" where
  "lbLocation env chargePointId d =
     (case lb_database env of None \<Rightarrow> None
      | Some D \<Rightarrow>
         (case GetChargePoint D chargePointId d of
            (_, Some _) \<Rightarrow> None
          | (None, None) \<Rightarrow> None
          | (Some chp, None) \<Rightarrow>
              if \<not> cp_SmartCharging chp \<or> cp_LocationId chp = [] then None
              else fst (GetLocation D (cp_LocationId chp) d)))"

text \<open>The connector after the update, whose in-memory limit the caller's loop goes on with.\<close>

definition updateConnectorPower ::
    "'db lbEnv \<Rightarrow> int \<Rightarrow> Connector \<Rightarrow> 'db balancer \<Rightarrow> Connector \<times> 'db balancer" where
  "updateConnectorPower env powerLimit connector b =
     (if c_CurrentTransactionId connector < 0 \<and> c_CurrentPowerLimit connector = 0 then (connector, b)
      else if c_CurrentTransactionId connector \<ge> 0 then
        let (sent, b) = sendTransactionProfile env connector powerLimit stackLevelRetries b
        in if \<not> sent then (connector, b)
           else let connector = connector\<lparr>c_CurrentPowerLimit := powerLimit\<rparr>;
                    b = lbTry env (UpdateTransactionPowerLimit (c_CurrentTransactionId connector) powerLimit) b
                in (connector, lbTry env (UpdateConnectorCurrentPower connector) b)
      else let connector = connector\<lparr>c_CurrentPowerLimit := 0\<rparr>
           in (connector, lbTry env (UpdateConnectorCurrentPower connector) b))"

text \<open>The connectors of the smart charging points of a location, in the order of the loops.\<close>

definition smartConnectors :: "Location \<Rightarrow> Connector list" where
  "smartConnectors location = concat (map cp_Connectors (filter cp_SmartCharging (loc_Evses location)))"

definition isActive :: "Connector \<Rightarrow> bool" where
  "isActive connector \<longleftrightarrow> c_CurrentTransactionId connector \<ge> 0"

text \<open>The first loop clears the limit of idle connectors.\<close>

fun clearIdle :: "'db lbEnv \<Rightarrow> Connector list \<Rightarrow> 'db balancer \<Rightarrow> Connector list \<times> 'db balancer" where
  "clearIdle env [] b = ([], b)"
| "clearIdle env (c # cs) b =
     (let (c, b) = (if \<not> isActive c \<and> c_CurrentPowerLimit c > 0 then updateConnectorPower env 0 c b else (c, b));
          (cs, b) = clearIdle env cs b
      in (c # cs, b))"

definition usedSlots :: "Connector list \<Rightarrow> int list" where
  "usedSlots cs = map c_CurrentPowerLimit (filter isActive cs)"

definition freeSlot :: "int list \<Rightarrow> int" where
  "freeSlot used = (case find (\<lambda>slot. slot \<notin> set used) powerSlots of None \<Rightarrow> baseLimit | Some slot \<Rightarrow> slot)"

text \<open>The second loop gives the limit to the sessions that have none.\<close>

fun assignLimit :: "'db lbEnv \<Rightarrow> int \<Rightarrow> Connector list \<Rightarrow> 'db balancer \<Rightarrow> Connector list \<times> 'db balancer" where
  "assignLimit env powerLimit [] b = ([], b)"
| "assignLimit env powerLimit (c # cs) b =
     (let (c, b) = (if isActive c \<and> c_CurrentPowerLimit c > 0 then (c, b)
                    else updateConnectorPower env powerLimit c b);
          (cs, b) = assignLimit env powerLimit cs b
      in (c # cs, b))"

text \<open>Both loops, with the connectors as they end up in memory.\<close>

definition balanceConnectors :: "'db lbEnv \<Rightarrow> Connector list \<Rightarrow> 'db balancer \<Rightarrow> Connector list \<times> 'db balancer" where
  "balanceConnectors env cs b =
     (let used = usedSlots cs;
          (cs, b) = clearIdle env cs b
      in if used = [] then (cs, b) else assignLimit env (freeSlot used) cs b)"

definition CheckPowerLimit :: "'db lbEnv \<Rightarrow> time \<Rightarrow> string \<Rightarrow> 'db balancer \<Rightarrow> 'db balancer" where
  "CheckPowerLimit env now chargePointId b =
     (let b = ensureCapabilities env now chargePointId b
      in case lbLocation env chargePointId (b_db b) of None \<Rightarrow> b
         | Some location \<Rightarrow>
             if loc_PowerLimit location = 0 then b
             else snd (balanceConnectors env (smartConnectors location) b))"

section \<open>Start-up and boot\<close>

definition onChargePointBoot :: "'db lbEnv \<Rightarrow> time \<Rightarrow> string \<Rightarrow> 'db balancer \<Rightarrow> 'db balancer" where
  "onChargePointBoot env now chargePointId b =
     (case lbLocation env chargePointId (b_db b) of None \<Rightarrow> b
      | Some location \<Rightarrow>
          let b = discoverCapabilities env chargePointId b;
              request = (if loc_DefaultPowerLimit location = 0 then NewClearDefaultChargingProfileRequest
                         else SetChargingProfileRequest 0
                                (NewDefaultChargingProfile now (loc_DefaultPowerLimit location)))
          in snd (sendProfile env chargePointId request None b))"

definition resetPower :: "'db Database \<Rightarrow> Connector \<Rightarrow> 'db balancer \<Rightarrow> 'db balancer" where
  "resetPower D connector b =
     (if \<not> isActive connector \<and> c_CurrentPowerLimit connector \<noteq> 0
      then lbDo D (UpdateConnectorCurrentPower (connector\<lparr>c_CurrentPowerLimit := 0\<rparr>)) b else b)"

definition OnSystemStart :: "'db lbEnv \<Rightarrow> 'db balancer \<Rightarrow> 'db balancer" where
  "OnSystemStart env b =
     (case lb_database env of None \<Rightarrow> b
      | Some D \<Rightarrow>
         (case GetLocations D (b_db b) of
            (_, Some _) \<Rightarrow> b
          | (locations, None) \<Rightarrow> fold (resetPower D) (concat (map smartConnectors locations)) b))"

end
