(* ===== verification/BalancerProps.thy ===== *)
theory BalancerProps
  imports LoadBalancer
begin

text \<open>
  Properties of the power manager: which limit every session of a location ends up with, when a slot is
  exclusive, which charge points are sent profiles, and how a refused profile is retried.
\<close>

section \<open>One pass over a location\<close>

text \<open>Whether a profile request for the connector can be queued.\<close>

definition sendable :: "'db lbEnv \<Rightarrow> capabilityStore \<Rightarrow> Connector \<Rightarrow> bool" where
  "sendable env s c \<longleftrightarrow> lb_canSend env (c_ChargePointId c)
     \<and> \<not> (ca_known (getCapabilities (c_ChargePointId c) s) \<and> \<not> ca_allowsCurrent (getCapabilities (c_ChargePointId c) s))"

lemma lbTry_simps [simp]:
  "b_capabilities (lbTry env w b) = b_capabilities b" "b_pending (lbTry env w b) = b_pending b"
  by (simp_all add: lbTry_def lbDo_def split: option.split prod.split)

lemma sendTransactionProfile_sent:
  "sendTransactionProfile env c l r b = (sent, b') \<Longrightarrow>
     sent = sendable env (b_capabilities b) c \<and> b_capabilities b' = b_capabilities b \<and> b_db b' = b_db b"
  by (auto simp: sendTransactionProfile_def sendProfile_def sendable_def Let_def split: if_splits)

lemma updateConnectorPower_result:
  assumes "updateConnectorPower env l c b = (c', b')"
  shows "c' = (if isActive c then if sendable env (b_capabilities b) c then c\<lparr>c_CurrentPowerLimit := l\<rparr> else c
               else c\<lparr>c_CurrentPowerLimit := 0\<rparr>)
    \<and> b_capabilities b' = b_capabilities b"
  using assms
  by (auto simp: updateConnectorPower_def isActive_def Let_def split: if_splits prod.splits
      dest!: sendTransactionProfile_sent)

text \<open>What the two loops make of one connector.\<close>

definition idleCleared :: "Connector \<Rightarrow> Connector" where
  "idleCleared c = (if \<not> isActive c \<and> c_CurrentPowerLimit c > 0 then c\<lparr>c_CurrentPowerLimit := 0\<rparr> else c)"

definition limited :: "'db lbEnv \<Rightarrow> capabilityStore \<Rightarrow> int \<Rightarrow> Connector \<Rightarrow> Connector" where
  "limited env s l c =
     (if \<not> isActive c then c\<lparr>c_CurrentPowerLimit := 0\<rparr>
      else if c_CurrentPowerLimit c > 0 \<or> \<not> sendable env s c then c
      else c\<lparr>c_CurrentPowerLimit := l\<rparr>)"

lemma clearIdle_result:
  "clearIdle env cs b = (cs', b') \<Longrightarrow> cs' = map idleCleared cs \<and> b_capabilities b' = b_capabilities b"
proof (induction env cs b arbitrary: cs' b' rule: clearIdle.induct)
  case (2 env c cs b)
  obtain c1 b1 where u: "updateConnectorPower env 0 c b = (c1, b1)" by (cases "updateConnectorPower env 0 c b")
  obtain c2 b2 where h: "(if \<not> isActive c \<and> c_CurrentPowerLimit c > 0 then updateConnectorPower env 0 c b else (c, b)) = (c2, b2)"
    by (cases "if \<not> isActive c \<and> c_CurrentPowerLimit c > 0 then updateConnectorPower env 0 c b else (c, b)")
  have c2: "c2 = idleCleared c" "b_capabilities b2 = b_capabilities b"
    using h u updateConnectorPower_result [OF u] by (auto simp: idleCleared_def split: if_splits)
  obtain cs3 b3 where r: "clearIdle env cs b2 = (cs3, b3)" by (cases "clearIdle env cs b2")
  show ?case using "2.IH" [OF refl h [symmetric] r] "2.prems" h r c2 by auto
qed simp

lemma assignLimit_result:
  "assignLimit env l cs b = (cs', b') \<Longrightarrow>
     cs' = map (limited env (b_capabilities b) l) cs \<and> b_capabilities b' = b_capabilities b"
proof (induction env l cs b arbitrary: cs' b' rule: assignLimit.induct)
  case (2 env l c cs b)
  obtain c1 b1 where u: "updateConnectorPower env l c b = (c1, b1)" by (cases "updateConnectorPower env l c b")
  obtain c2 b2 where h: "(if isActive c \<and> c_CurrentPowerLimit c > 0 then (c, b) else updateConnectorPower env l c b) = (c2, b2)"
    by (cases "if isActive c \<and> c_CurrentPowerLimit c > 0 then (c, b) else updateConnectorPower env l c b")
  have c2: "c2 = limited env (b_capabilities b) l c" "b_capabilities b2 = b_capabilities b"
    using h u updateConnectorPower_result [OF u] by (auto simp: limited_def split: if_splits)
  obtain cs3 b3 where r: "assignLimit env l cs b2 = (cs3, b3)" by (cases "assignLimit env l cs b2")
  show ?case using "2.IH" [OF refl h [symmetric] r] "2.prems" h r c2 by auto
qed simp

lemma limited_idleCleared [simp]: "limited env s l (idleCleared c) = limited env s l c"
  by (auto simp: limited_def idleCleared_def isActive_def sendable_def)

lemma balance_result:
  assumes "balanceConnectors env cs b = (cs', b')" "\<exists>c \<in> set cs. isActive c"
  shows "cs' = map (limited env (b_capabilities b) (freeSlot (usedSlots cs))) cs"
proof -
  obtain cs1 b1 where c: "clearIdle env cs b = (cs1, b1)" by (cases "clearIdle env cs b")
  have "usedSlots cs \<noteq> []" using assms(2) by (auto simp: usedSlots_def filter_empty_conv)
  then show ?thesis
    using assms(1) c clearIdle_result [OF c] assignLimit_result [of env _ cs1 b1 cs' b']
    by (auto simp: balanceConnectors_def comp_def)
qed

lemma usedSlots_limited:
  "usedSlots (map (limited env s l) cs) = map (c_CurrentPowerLimit \<circ> limited env s l) (filter isActive cs)"
proof -
  have "isActive (limited env s l c) = isActive c" for c by (simp add: limited_def isActive_def)
  then show ?thesis by (simp add: usedSlots_def filter_map o_def)
qed

lemma freeSlot_cases:
  "freeSlot used = baseLimit \<and> set powerSlots \<subseteq> set used
   \<or> freeSlot used \<in> set powerSlots - set used \<and> (\<forall>slot \<in> set powerSlots - set used. slot \<le> freeSlot used)"
  by (auto simp: freeSlot_def powerSlots_def)


section \<open>Properties of a pass\<close>

text \<open>
  C24. The limits after a pass over a location with a session: a session that has a limit keeps it, a session
  without one gets the highest slot no session of the location uses, or the base limit when every slot is used, if
  its charge point can be sent a profile in amperes, and keeps none otherwise; an idle connector has no limit left.
\<close>

theorem limits_after_pass:
  assumes "balanceConnectors env cs b = (cs', b')" "\<exists>c \<in> set cs. isActive c"
  shows "\<exists>l. (l = baseLimit \<and> set powerSlots \<subseteq> set (usedSlots cs)
        \<or> l \<in> set powerSlots - set (usedSlots cs) \<and> (\<forall>slot \<in> set powerSlots - set (usedSlots cs). slot \<le> l))
    \<and> cs' = map (\<lambda>c. if \<not> isActive c then c\<lparr>c_CurrentPowerLimit := 0\<rparr>
         else if c_CurrentPowerLimit c > 0 \<or> \<not> sendable env (b_capabilities b) c then c
         else c\<lparr>c_CurrentPowerLimit := l\<rparr>) cs"
  using freeSlot_cases [of "usedSlots cs"] balance_result [OF assms]
  by (intro exI [of _ "freeSlot (usedSlots cs)"] conjI) (simp_all add: limited_def)

definition demoLbEnv :: "Store lbEnv" where
  "demoLbEnv = \<lparr>lb_database = Some listDatabase, lb_canSend = (\<lambda>_. True), lb_configuration = (\<lambda>_. None)\<rparr>"

definition demoConnectors :: "Connector list" where
  "demoConnectors = [(NewConnector 1 ''CP1'')\<lparr>c_CurrentTransactionId := 5, c_CurrentPowerLimit := 330\<rparr>,
     (NewConnector 2 ''CP1'')\<lparr>c_CurrentTransactionId := 6\<rparr>, (NewConnector 1 ''CP2'')\<lparr>c_CurrentPowerLimit := 195\<rparr>]"

theorem limits_after_pass_witness:
  "map c_CurrentPowerLimit (fst (balanceConnectors demoLbEnv demoConnectors (NewLoadBalancer emptyStore))) ! 2 = 0"
proof -
  obtain cs' b' where r: "balanceConnectors demoLbEnv demoConnectors (NewLoadBalancer emptyStore) = (cs', b')"
    by (cases "balanceConnectors demoLbEnv demoConnectors (NewLoadBalancer emptyStore)")
  have "\<exists>c \<in> set demoConnectors. isActive c" by (simp add: demoConnectors_def isActive_def)
  from limits_after_pass [OF r this] r show ?thesis
    by (auto simp: demoConnectors_def isActive_def NewConnector_def)
qed

text \<open>The slots held by the sessions of a location.\<close>

definition slotsHeld :: "Connector list \<Rightarrow> int list" where
  "slotsHeld cs = filter (\<lambda>l. l \<in> set powerSlots) (usedSlots cs)"

definition newSessions :: "Connector list \<Rightarrow> Connector list" where
  "newSessions cs = filter (\<lambda>c. isActive c \<and> c_CurrentPowerLimit c \<le> 0) cs"

lemma slotsHeld_Cons:
  "slotsHeld (c # cs) = (if isActive c \<and> c_CurrentPowerLimit c \<in> set powerSlots
     then c_CurrentPowerLimit c # slotsHeld cs else slotsHeld cs)"
  by (simp add: slotsHeld_def usedSlots_def)

lemma powerSlots_pos: "l \<in> set powerSlots \<Longrightarrow> 0 < l"
  by (auto simp: powerSlots_def)

lemma limited_facts:
  "isActive (limited env s l c) = isActive c"
  "isActive c \<Longrightarrow> c_CurrentPowerLimit c > 0 \<Longrightarrow> limited env s l c = c"
  "isActive c \<Longrightarrow> c_CurrentPowerLimit (limited env s l c) = c_CurrentPowerLimit c \<or> c_CurrentPowerLimit (limited env s l c) = l"
  by (auto simp: limited_def isActive_def)

lemma no_new_sessions_held: "newSessions cs = [] \<Longrightarrow> slotsHeld (map (limited env s l) cs) = slotsHeld cs"
proof (induction cs)
  case (Cons c cs)
  then have n: "newSessions cs = []" "isActive c \<Longrightarrow> c_CurrentPowerLimit c > 0"
    by (auto simp: newSessions_def split: if_splits)
  show ?case
  proof (cases "isActive c")
    case True
    then show ?thesis using Cons.IH [OF n(1)] n(2) by (simp add: slotsHeld_Cons limited_facts)
  next
    case False
    then show ?thesis using Cons.IH [OF n(1)] by (simp add: slotsHeld_Cons limited_facts)
  qed
qed simp

lemma one_new_session_held:
  assumes "length (newSessions cs) \<le> 1" "l \<notin> set (slotsHeld cs)" "distinct (slotsHeld cs)"
  shows "distinct (slotsHeld (map (limited env s l) cs))
    \<and> set (slotsHeld (map (limited env s l) cs)) \<subseteq> insert l (set (slotsHeld cs))"
  using assms
proof (induction cs)
  case (Cons c cs)
  show ?case
  proof (cases "isActive c \<and> c_CurrentPowerLimit c \<le> 0")
    case True
    with Cons.prems(1) have n: "newSessions cs = []" by (simp add: newSessions_def)
    have "c_CurrentPowerLimit c \<notin> set powerSlots" using True powerSlots_pos by force
    then show ?thesis
      using no_new_sessions_held [OF n, of env s l] limited_facts(3) [of c env s l] True Cons.prems
      by (auto simp: slotsHeld_Cons limited_facts(1))
  next
    case False
    then have "length (newSessions cs) \<le> 1" using Cons.prems(1) by (auto simp: newSessions_def split: if_splits)
    moreover have "isActive c \<Longrightarrow> limited env s l c = c" using False by (simp add: limited_facts)
    ultimately show ?thesis
      using Cons by (auto simp: slotsHeld_Cons limited_facts split: if_splits)
  qed
qed (simp add: slotsHeld_def usedSlots_def)

text \<open>
  C25. A slot belongs to one session: if no two sessions of a location share a slot, a pass that finds at most
  one session without a limit leaves it so, whatever requests can be sent.
\<close>

theorem slots_exclusive:
  assumes "balanceConnectors env cs b = (cs', b')" "\<exists>c \<in> set cs. isActive c"
    and "distinct (slotsHeld cs)" "length (newSessions cs) \<le> 1"
  shows "distinct (slotsHeld cs')"
proof -
  have "freeSlot (usedSlots cs) \<notin> set (slotsHeld cs)"
    using freeSlot_cases [of "usedSlots cs"] by (auto simp: slotsHeld_def baseLimit_def powerSlots_def)
  from one_new_session_held [OF assms(4) this assms(3), of env "b_capabilities b"] show ?thesis
    using balance_result [OF assms(1,2)] by simp
qed

theorem slots_exclusive_witness:
  "distinct (slotsHeld (fst (balanceConnectors demoLbEnv demoConnectors (NewLoadBalancer emptyStore))))"
proof -
  obtain cs' b' where r: "balanceConnectors demoLbEnv demoConnectors (NewLoadBalancer emptyStore) = (cs', b')"
    by (cases "balanceConnectors demoLbEnv demoConnectors (NewLoadBalancer emptyStore)")
  have a: "\<exists>c \<in> set demoConnectors. isActive c" by (simp add: demoConnectors_def isActive_def)
  have d: "distinct (slotsHeld demoConnectors)" by code_simp
  have n: "length (newSessions demoConnectors) \<le> 1" by code_simp
  from slots_exclusive [OF r a d n] r show ?thesis by simp
qed

text \<open>
  Two sessions that wait for a limit in the same pass share a slot: both are given the same limit, and it is
  a slot whenever one was free, although slots are meant for one connector each.
\<close>

theorem new_sessions_share_slot:
  assumes "balanceConnectors env cs b = (cs', b')" "i < length cs" "j < length cs"
    and "cs ! i \<in> set (newSessions cs)" "cs ! j \<in> set (newSessions cs)"
    and "sendable env (b_capabilities b) (cs ! i)" "sendable env (b_capabilities b) (cs ! j)"
    and "\<not> set powerSlots \<subseteq> set (usedSlots cs)"
  shows "c_CurrentPowerLimit (cs' ! i) = c_CurrentPowerLimit (cs' ! j)
    \<and> c_CurrentPowerLimit (cs' ! i) \<in> set powerSlots"
proof -
  have "\<exists>c \<in> set cs. isActive c" using assms(4) by (auto simp: newSessions_def)
  from balance_result [OF assms(1) this] show ?thesis
    using assms(2-8) freeSlot_cases [of "usedSlots cs"] by (auto simp: limited_def newSessions_def)
qed

definition twoNewSessions :: "Connector list" where
  "twoNewSessions = [(NewConnector 1 ''CP1'')\<lparr>c_CurrentTransactionId := 5\<rparr>,
     (NewConnector 2 ''CP1'')\<lparr>c_CurrentTransactionId := 6\<rparr>]"

theorem new_sessions_share_slot_witness:
  "c_CurrentPowerLimit (fst (balanceConnectors demoLbEnv twoNewSessions (NewLoadBalancer emptyStore)) ! 0)
   = c_CurrentPowerLimit (fst (balanceConnectors demoLbEnv twoNewSessions (NewLoadBalancer emptyStore)) ! 1)"
proof -
  let ?b = "NewLoadBalancer emptyStore"
  obtain cs' b' where r: "balanceConnectors demoLbEnv twoNewSessions ?b = (cs', b')"
    by (cases "balanceConnectors demoLbEnv twoNewSessions ?b")
  have s: "sendable demoLbEnv (b_capabilities ?b) c" for c
    by (simp add: sendable_def demoLbEnv_def NewLoadBalancer_def getCapabilities_def zeroCapabilities_def)
  have n: "newSessions twoNewSessions = twoNewSessions" "usedSlots twoNewSessions = [0, 0]"
    by (simp_all add: newSessions_def usedSlots_def isActive_def NewConnector_def twoNewSessions_def)
  from new_sessions_share_slot [OF r, of 0 1] s n show ?thesis
    using r by (simp add: twoNewSessions_def powerSlots_def)
qed


section \<open>Profiles and their verdicts\<close>

text \<open>The transaction profile requests among the effects, by charge point.\<close>

fun txProfile :: "LbEffect \<Rightarrow> (string \<times> ChargingProfile) option" where
  "txProfile (LbSent cp (SetChargingProfileRequest _ p)) =
     (if pr_ChargingProfilePurpose p = ''TxProfile'' then Some (cp, p) else None)"
| "txProfile _ = None"

text \<open>What a step may add: no transaction profile for a charge point known to refuse amperes, and only stack levels within the ceiling.\<close>

definition profileOk :: "capabilityStore \<Rightarrow> LbEffect \<Rightarrow> bool" where
  "profileOk s e \<longleftrightarrow> (\<forall>cp p. txProfile e = Some (cp, p) \<longrightarrow>
      \<not> (ca_known (getCapabilities cp s) \<and> \<not> ca_allowsCurrent (getCapabilities cp s))
      \<and> 0 \<le> pr_StackLevel p \<and> pr_StackLevel p \<le> TxProfileStackLevel
      \<and> (ca_stackLevelKnown (getCapabilities cp s) \<and> 0 \<le> ca_maxStackLevel (getCapabilities cp s)
           \<longrightarrow> pr_StackLevel p \<le> ca_maxStackLevel (getCapabilities cp s)))"

definition sendsOk :: "'db balancer \<Rightarrow> 'db balancer \<Rightarrow> bool" where
  "sendsOk b b' \<longleftrightarrow> b_capabilities b' = b_capabilities b
     \<and> (\<exists>es. b_out b' = b_out b @ es \<and> (\<forall>e \<in> set es. profileOk (b_capabilities b) e))"

lemma sendsOk_refl [simp, intro]: "sendsOk b b"
  by (simp add: sendsOk_def)

lemma sendsOk_trans [trans]: "sendsOk a b \<Longrightarrow> sendsOk b c \<Longrightarrow> sendsOk a c"
  unfolding sendsOk_def by (elim conjE exE, intro conjI, simp, rule exI, intro conjI, simp) auto

lemma sendsOk_lbTry: "sendsOk b (lbTry env w b)"
  by (auto simp: sendsOk_def lbTry_def lbDo_def profileOk_def split: option.split prod.split)

lemma stackLevelFor_range:
  "0 \<le> d \<Longrightarrow> 0 \<le> stackLevelFor c d \<and> stackLevelFor c d \<le> d
     \<and> (ca_stackLevelKnown c \<and> 0 \<le> ca_maxStackLevel c \<longrightarrow> stackLevelFor c d \<le> ca_maxStackLevel c)"
  by (auto simp: stackLevelFor_def)

lemma sendsOk_transactionProfile:
  assumes "sendTransactionProfile env c l r b = (sent, b')"
  shows "sendsOk b b'"
proof -
  let ?k = "getCapabilities (c_ChargePointId c) (b_capabilities b)"
  have n: "0 \<le> TxProfileStackLevel" by (simp add: TxProfileStackLevel_def)
  show ?thesis
    using assms stackLevelFor_range [OF n, of ?k]
    by (auto simp: sendTransactionProfile_def sendProfile_def sendsOk_def profileOk_def
        NewTransactionChargingProfile_def Let_def split: if_splits)
qed

lemma sendsOk_updatePower:
  assumes "updateConnectorPower env l c b = (c', b')"
  shows "sendsOk b b'"
proof -
  obtain sent b1 where t: "sendTransactionProfile env c l stackLevelRetries b = (sent, b1)"
    by (cases "sendTransactionProfile env c l stackLevelRetries b")
  note T = sendsOk_transactionProfile [OF t]
  have w: "sendsOk b (lbTry env w2 (lbTry env w1 b1))" for w1 w2
    by (rule sendsOk_trans [OF sendsOk_trans [OF T sendsOk_lbTry] sendsOk_lbTry])
  show ?thesis
    using assms t T w sendsOk_lbTry by (auto simp: updateConnectorPower_def Let_def split: if_splits)
qed

lemma sendsOk_clearIdle: "clearIdle env cs b = (cs', b') \<Longrightarrow> sendsOk b b'"
proof (induction env cs b arbitrary: cs' b' rule: clearIdle.induct)
  case (2 env c cs b)
  obtain c2 b2 where h: "(if \<not> isActive c \<and> c_CurrentPowerLimit c > 0 then updateConnectorPower env 0 c b else (c, b)) = (c2, b2)"
    by (cases "if \<not> isActive c \<and> c_CurrentPowerLimit c > 0 then updateConnectorPower env 0 c b else (c, b)")
  obtain cs3 b3 where r: "clearIdle env cs b2 = (cs3, b3)" by (cases "clearIdle env cs b2")
  have "sendsOk b b2" using h sendsOk_updatePower [of env 0 c b] by (auto split: if_splits)
  also have "sendsOk b2 b3" by (rule "2.IH" [OF refl h [symmetric] r])
  finally show ?case using "2.prems" h r by auto
qed simp

lemma sendsOk_assignLimit: "assignLimit env l cs b = (cs', b') \<Longrightarrow> sendsOk b b'"
proof (induction env l cs b arbitrary: cs' b' rule: assignLimit.induct)
  case (2 env l c cs b)
  obtain c2 b2 where h: "(if isActive c \<and> c_CurrentPowerLimit c > 0 then (c, b) else updateConnectorPower env l c b) = (c2, b2)"
    by (cases "if isActive c \<and> c_CurrentPowerLimit c > 0 then (c, b) else updateConnectorPower env l c b")
  obtain cs3 b3 where r: "assignLimit env l cs b2 = (cs3, b3)" by (cases "assignLimit env l cs b2")
  have "sendsOk b b2" using h sendsOk_updatePower [of env l c b] by (auto split: if_splits)
  also have "sendsOk b2 b3" by (rule "2.IH" [OF refl h [symmetric] r])
  finally show ?case using "2.prems" h r by auto
qed simp

lemma sendsOk_balance:
  assumes "balanceConnectors env cs b = (cs', b')"
  shows "sendsOk b b'"
proof -
  obtain cs1 b1 where c: "clearIdle env cs b = (cs1, b1)" by (cases "clearIdle env cs b")
  show ?thesis
  proof (cases "usedSlots cs = []")
    case True
    then show ?thesis using assms c sendsOk_clearIdle [OF c] by (simp add: balanceConnectors_def)
  next
    case False
    then have "assignLimit env (freeSlot (usedSlots cs)) cs1 b1 = (cs', b')"
      using assms c by (simp add: balanceConnectors_def)
    from sendsOk_trans [OF sendsOk_clearIdle [OF c] sendsOk_assignLimit [OF this]] show ?thesis .
  qed
qed

lemma discoverCapabilities_out: "b_out (discoverCapabilities env cp b) = b_out b @ [LbAsked cp]"
  by (simp add: discoverCapabilities_def Let_def split: option.split sum.split)

lemma ensureCapabilities_out:
  "\<exists>asked. b_out (ensureCapabilities env now cp b) = b_out b @ asked \<and> (\<forall>x \<in> set asked. txProfile x = None)"
  by (cases "beginDiscovery cp now discoveryRetryInterval (b_capabilities b)")
    (simp add: ensureCapabilities_def discoverCapabilities_out)

text \<open>
  The profiles of a pass: every transaction profile sent goes to a charge point that is not known to refuse
  amperes, at a stack level between zero and the default that does not exceed the highest level the charge
  point is known to accept.
\<close>

theorem pass_sends_acceptable_profiles:
  assumes "CheckPowerLimit env now cp b = b'" "txProfile e = Some (k, p)"
    and "e \<in> set (drop (length (b_out b)) (b_out b'))"
  shows "\<not> (ca_known (getCapabilities k (b_capabilities b')) \<and> \<not> ca_allowsCurrent (getCapabilities k (b_capabilities b')))
    \<and> 0 \<le> pr_StackLevel p \<and> pr_StackLevel p \<le> TxProfileStackLevel
    \<and> (\<forall>m. ceilingOf (b_capabilities b') k = Some m \<and> 0 \<le> m \<longrightarrow> pr_StackLevel p \<le> m)"
proof -
  let ?b1 = "ensureCapabilities env now cp b"
  obtain asked where a: "b_out ?b1 = b_out b @ asked" "\<forall>x \<in> set asked. txProfile x = None"
    using ensureCapabilities_out by blast
  have "sendsOk ?b1 b'"
    using assms(1) sendsOk_balance [OF prod.collapse [symmetric]]
    by (auto simp: CheckPowerLimit_def Let_def split: option.splits if_splits)
  then obtain es where es: "b_out b' = b_out ?b1 @ es" "\<forall>x \<in> set es. profileOk (b_capabilities ?b1) x"
    and cap: "b_capabilities b' = b_capabilities ?b1"
    by (auto simp: sendsOk_def)
  have "e \<in> set es" using assms(2,3) a es(1) by auto
  then have "profileOk (b_capabilities b') e" using es(2) cap by simp
  then show ?thesis using assms(2) by (auto simp: profileOk_def ceilingOf_def Let_def split: if_splits)
qed

text \<open>A location with one charge point that has two connectors, the second with a session.\<close>

definition demoLbStore :: Store where
  "demoLbStore = emptyStore\<lparr>sto_locations := [\<lparr>loc_Id = ''L1'', loc_PowerLimit = 700, loc_DefaultPowerLimit = 60, loc_Evses = []\<rparr>],
     sto_chargePoints := [zeroChargePoint\<lparr>cp_Id := ''CP1'', cp_SmartCharging := True, cp_LocationId := ''L1''\<rparr>],
     sto_connectors := [(NewConnector 1 ''CP1'')\<lparr>c_CurrentPowerLimit := 195\<rparr>, (NewConnector 2 ''CP1'')\<lparr>c_CurrentTransactionId := 6\<rparr>]\<rparr>"

definition demoProfile :: LbEffect where
  "demoProfile = LbSent ''CP1'' (SetChargingProfileRequest 2 (NewTransactionChargingProfile 2 6 330 10))"

theorem pass_sends_acceptable_profiles_witness:
  "demoProfile \<in> set (b_out (CheckPowerLimit demoLbEnv 7 ''CP1'' (NewLoadBalancer demoLbStore)))
   \<and> pr_StackLevel (NewTransactionChargingProfile 2 6 330 10) \<le> TxProfileStackLevel"
proof -
  let ?b = "NewLoadBalancer demoLbStore"
  have e: "demoProfile \<in> set (b_out (CheckPowerLimit demoLbEnv 7 ''CP1'' ?b))" by code_simp
  have n: "length (b_out ?b) = 0" by code_simp
  have p: "txProfile demoProfile = Some (''CP1'', NewTransactionChargingProfile 2 6 330 10)" by code_simp
  from pass_sends_acceptable_profiles [OF refl p, of ?b demoLbEnv 7 "''CP1''"] e n show ?thesis by simp
qed


text \<open>The entries a verdict may leave, and the request it sends with each.\<close>

lemma onVerdict_retry:
  assumes "onVerdict env now p answer b = b'"
  obtains (none) "b_pending b' = b_pending b" "\<forall>e \<in> set (drop (length (b_out b)) (b_out b')). txProfile e = None"
  | (retry) p' where "b_pending b' = b_pending b @ [p']" "pp_retriesLeft p = Suc (pp_retriesLeft p')"
      "pp_stackLevel p' < pp_stackLevel p" "0 \<le> pp_stackLevel p'" "pp_connector p' = pp_connector p"
      "pp_powerLimit p' = pp_powerLimit p" "pp_transactionId p' = c_CurrentTransactionId (pp_connector p)"
      "verdictOf answer \<in> {ProfileStatusRejected, ProfileStatusNotSupported}"
proof -
  let ?c = "pp_connector p" and ?st = "verdictOf answer"
  let ?b1 = "recordVerdict env now ?c ?st (pp_powerLimit p) (pp_stackLevel p) b"
  have b1: "b_pending ?b1 = b_pending b" "\<exists>es. b_out ?b1 = b_out b @ es \<and> (\<forall>e \<in> set es. txProfile e = None)"
    by (auto simp: recordVerdict_def lbTry_def lbDo_def split: option.split prod.split)
  obtain lo s where l: "lowerStackLevel (c_ChargePointId ?c) (pp_stackLevel p - 1) (b_capabilities ?b1) = (lo, s)"
    by (cases "lowerStackLevel (c_ChargePointId ?c) (pp_stackLevel p - 1) (b_capabilities ?b1)")
  let ?b2 = "?b1\<lparr>b_capabilities := s\<rparr>"
  obtain sent b3 where t: "sendTransactionProfile env ?c (pp_powerLimit p) (pp_retriesLeft p - 1) ?b2 = (sent, b3)"
    by (cases "sendTransactionProfile env ?c (pp_powerLimit p) (pp_retriesLeft p - 1) ?b2")
  consider "b' = ?b1" | "b' = ?b2"
    | "b' = b3" "0 < pp_retriesLeft p" "0 < pp_stackLevel p" "?st \<in> {ProfileStatusRejected, ProfileStatusNotSupported}"
    using assms l t by (auto simp: onVerdict_def Let_def split: if_splits)
  then show thesis
  proof cases
    case 3
    have low: "stackLevelFor (getCapabilities (c_ChargePointId ?c) s) TxProfileStackLevel < pp_stackLevel p"
      by (rule lower_then_below [OF l 3(3)])
    have "0 \<le> TxProfileStackLevel" by (simp add: TxProfileStackLevel_def)
    note rng = stackLevelFor_range [OF this, of "getCapabilities (c_ChargePointId ?c) s"]
    show ?thesis
    proof (cases sent)
      case True
      then show ?thesis
        using t 3 low rng b1(1)
        by (intro retry [of "\<lparr>pp_connector = ?c, pp_powerLimit = pp_powerLimit p,
             pp_stackLevel = stackLevelFor (getCapabilities (c_ChargePointId ?c) s) TxProfileStackLevel,
             pp_transactionId = c_CurrentTransactionId ?c, pp_retriesLeft = pp_retriesLeft p - 1\<rparr>"])
          (auto simp: sendTransactionProfile_def sendProfile_def Let_def split: if_splits)
    next
      case False
      then have "b3 = ?b2" using t by (auto simp: sendTransactionProfile_def sendProfile_def Let_def split: if_splits)
      then show ?thesis using 3(1) b1 by (intro none) auto
    qed
  qed (use b1 in \<open>auto intro!: none\<close>)
qed

text \<open>
  C29. Retries end: an answer to a pending profile leads to at most one further profile, for the same
  connector and limit, only on an outright refusal, at a strictly lower stack level and with one retry less; the chain
  that starts with a limit assigned by a pass has at most two profiles.
\<close>

theorem retries_end:
  assumes "onVerdict env now p answer b = b'"
  shows "b_pending b' = b_pending b
    \<or> (\<exists>p'. b_pending b' = b_pending b @ [p'] \<and> pp_retriesLeft p = Suc (pp_retriesLeft p')
         \<and> 0 \<le> pp_stackLevel p' \<and> pp_stackLevel p' < pp_stackLevel p
         \<and> pp_connector p' = pp_connector p \<and> pp_powerLimit p' = pp_powerLimit p
         \<and> verdictOf answer \<in> {ProfileStatusRejected, ProfileStatusNotSupported})"
  using assms by (cases rule: onVerdict_retry) auto

text \<open>The entry that the pass over the example location leaves.\<close>

definition demoPending :: PendingProfile where
  "demoPending = \<lparr>pp_connector = (NewConnector 2 ''CP1'')\<lparr>c_CurrentTransactionId := 6\<rparr>, pp_powerLimit = 330,
     pp_stackLevel = 10, pp_transactionId = 6, pp_retriesLeft = 1\<rparr>"

lemma demo_pending: "b_pending (CheckPowerLimit demoLbEnv 7 ''CP1'' (NewLoadBalancer demoLbStore)) = [demoPending]"
  by code_simp

theorem retries_end_witness:
  "\<exists>p'. b_pending (onVerdict demoLbEnv 9 demoPending (Answered ''Rejected'') (NewLoadBalancer demoLbStore)) = [p']
     \<and> pp_stackLevel p' < 10 \<and> pp_retriesLeft p' = 0"
proof -
  let ?b = "NewLoadBalancer demoLbStore"
  have "length (b_pending (onVerdict demoLbEnv 9 demoPending (Answered ''Rejected'') ?b)) = 1" by code_simp
  moreover have "b_pending ?b = []" "pp_retriesLeft demoPending = 1" "pp_stackLevel demoPending = 10" by code_simp+
  ultimately show ?thesis
    using retries_end [OF refl, of demoLbEnv 9 demoPending "Answered ''Rejected''" ?b] by auto
qed

text \<open>
  A retry does not look at the session again: whatever the database says about the connector when the refusal
  arrives, the profile is sent once more for the transaction of the pass, because the connector that is compared
  is the copy the pass decoded. The guard meant to stop a retry for a finished session never fires.
\<close>

theorem retry_ignores_session_end:
  assumes "pp_transactionId p = c_CurrentTransactionId (pp_connector p)" "0 < pp_retriesLeft p" "0 < pp_stackLevel p"
    and "answer = Answered ProfileStatusRejected" "sendable env s (pp_connector p)"
    and "\<forall>m. ceilingOf s (c_ChargePointId (pp_connector p)) = Some m \<longrightarrow> pp_stackLevel p \<le> m"
  shows "\<exists>lv. LbSent (c_ChargePointId (pp_connector p)) (SetChargingProfileRequest (c_Id (pp_connector p))
      (NewTransactionChargingProfile (c_Id (pp_connector p)) (pp_transactionId p) (pp_powerLimit p) lv))
    \<in> set (b_out (onVerdict env now p answer \<lparr>b_capabilities = s, b_pending = ps, b_out = out, b_db = d\<rparr>))"
  using assms
  by (auto simp: onVerdict_def recordVerdict_def lowerStackLevel_def ceilingOf_def sendTransactionProfile_def
      sendProfile_def sendable_def ProfileStatusRejected_def ProfileStatusAccepted_def Let_def
      split: if_splits)

theorem retry_ignores_session_end_witness:
  "\<exists>lv. LbSent ''CP1'' (SetChargingProfileRequest 2 (NewTransactionChargingProfile 2 6 330 lv))
    \<in> set (b_out (onVerdict demoLbEnv 9 demoPending (Answered ProfileStatusRejected)
        \<lparr>b_capabilities = [], b_pending = [], b_out = [],
         b_db = demoLbStore\<lparr>sto_connectors := [NewConnector 2 ''CP1'']\<rparr>\<rparr>))"
  using retry_ignores_session_end [of demoPending _ demoLbEnv "[]" 9 "[]" "[]" "demoLbStore\<lparr>sto_connectors := [NewConnector 2 ''CP1'']\<rparr>"]
  by (simp add: demoPending_def sendable_def demoLbEnv_def ceilingOf_def getCapabilities_def zeroCapabilities_def
      NewConnector_def)


section \<open>Start-up\<close>

text \<open>The driver with a locations collection.\<close>

locale mongo_sites = mongo_driver +
  fixes locs :: "'a \<Rightarrow> Location list"
  assumes locs_reads: "coll_reads up (locationsC M) locs"

interpretation store_sites: mongo_sites listMongo sto_up sto_chargePoints sto_connectors sto_userTags
  sto_transactions sto_meters sto_stops sto_locations
  by unfold_locales (simp add: listMongo_def listColl_ok)

definition connectorKey :: "Connector \<Rightarrow> int \<times> string" where
  "connectorKey c = (c_Id c, c_ChargePointId c)"

definition needsReset :: "Connector \<Rightarrow> bool" where
  "needsReset c \<longleftrightarrow> \<not> isActive c \<and> c_CurrentPowerLimit c \<noteq> 0"

lemma updateFirst_map:
  "distinct (map key xs) \<Longrightarrow> (\<And>x. P x \<longleftrightarrow> key x = k) \<Longrightarrow> updateFirst P f xs = map (\<lambda>x. if P x then f x else x) xs"
proof (induction xs)
  case (Cons x xs)
  then have "key x = k \<Longrightarrow> map (\<lambda>y. if key y = k then f y else y) xs = xs"
    by (intro map_idI) (auto simp: image_iff)
  with Cons show ?case by auto
qed simp

lemma isConnector_key: "isConnector (c_Id c) (c_ChargePointId c) x \<longleftrightarrow> connectorKey x = connectorKey c"
  by (auto simp: isConnector_def connectorKey_def)

context mongo_sites
begin

lemma resetPower_conns:
  assumes "up (b_db b)" "distinct (map connectorKey (conns (b_db b)))"
  shows "up (b_db (resetPower (mongo_Database M now) c b))
    \<and> conns (b_db (resetPower (mongo_Database M now) c b)) =
        map (\<lambda>x. if needsReset c \<and> connectorKey x = connectorKey c then x\<lparr>c_CurrentPowerLimit := 0\<rparr> else x) (conns (b_db b))"
proof (cases "needsReset c")
  case True
  let ?c = "c\<lparr>c_CurrentPowerLimit := 0\<rparr>"
  let ?w = "mongo_UpdateConnectorCurrentPower M ?c (b_db b)"
  have "up (snd ?w)" "conns (snd ?w) = updateFirst (isConnector (c_Id ?c) (c_ChargePointId ?c))
      (\<lambda>x. x\<lparr>c_CurrentPowerLimit := 0\<rparr>) (conns (b_db b))"
    using coll_writesD [OF writes(2) assms(1)] by (simp_all add: mongo_UpdateConnectorCurrentPower_def)
  moreover have "b_db (resetPower (mongo_Database M now) c b) = snd ?w"
    using True by (simp add: resetPower_def needsReset_def lbDo_def mongo_Database_def split: prod.split)
  moreover have "connectorKey ?c = connectorKey c" by (simp add: connectorKey_def)
  ultimately show ?thesis
    using True updateFirst_map [OF assms(2), of "isConnector (c_Id ?c) (c_ChargePointId ?c)" "connectorKey c"]
    by (simp add: isConnector_key)
next
  case False
  then show ?thesis using assms by (auto simp: resetPower_def needsReset_def)
qed

lemma resetPower_fold:
  assumes "up (b_db b)" "distinct (map connectorKey (conns (b_db b)))"
  shows "conns (b_db (fold (resetPower (mongo_Database M now)) cs b)) =
    map (\<lambda>x. if \<exists>c \<in> set cs. needsReset c \<and> connectorKey x = connectorKey c
             then x\<lparr>c_CurrentPowerLimit := 0\<rparr> else x) (conns (b_db b))"
  using assms
proof (induction cs arbitrary: b)
  case (Cons c cs)
  let ?b = "resetPower (mongo_Database M now) c b"
  note R = resetPower_conns [OF Cons.prems, of now c]
  have key: "connectorKey (x\<lparr>c_CurrentPowerLimit := 0\<rparr>) = connectorKey x" for x :: Connector
    by (simp add: connectorKey_def)
  have "map connectorKey (conns (b_db ?b)) = map connectorKey (conns (b_db b))"
    using R key by (simp add: comp_def)
  then have d: "distinct (map connectorKey (conns (b_db ?b)))" using Cons.prems(2) by simp
  show ?case
    unfolding fold_simps Cons.IH [OF conjunct1 [OF R] d] conjunct2 [OF R] map_map
    by (intro map_cong refl) (auto simp: key)
qed simp

lemma locations_connectors:
  assumes "up d"
  obtains ls where "mongo_GetLocations M d = (ls, None)"
    "set (concat (map smartConnectors ls)) = {c \<in> set (conns d). \<exists>cp \<in> set (cps d). cp_SmartCharging cp
        \<and> cp_Id cp = c_ChargePointId c \<and> cp_LocationId cp \<in> loc_Id ` set (locs d)}"
proof -
  let ?ls = "withEvses (map (withConnectors (conns d)) (cps d)) (locs d)"
  have "mongo_GetLocations M d = (?ls, None)"
    by (simp add: mongo_GetLocations_def joinLocations_def joinConnectors_def decodedAll_def
        coll_readsD [OF locs_reads assms] coll_readsD [OF reads(2) assms] coll_readsD [OF reads(4) assms])
  moreover have "set (concat (map smartConnectors ?ls)) = {c \<in> set (conns d). \<exists>cp \<in> set (cps d). cp_SmartCharging cp
        \<and> cp_Id cp = c_ChargePointId c \<and> cp_LocationId cp \<in> loc_Id ` set (locs d)}"
    by (force simp: withEvses_def withConnectors_def smartConnectors_def filter_map comp_def filter_empty_conv)
  ultimately show thesis by (rule that)
qed

end

text \<open>
  The start of the power manager against a reachable MongoDB removes exactly the stale limits: every idle
  connector of a smart charging point that belongs to a location has no limit afterwards, and every other
  connector document is as it was.
\<close>

theorem start_clears_idle_limits:
  assumes "mongo_sites M up cps conns tags trs meters stops locs"
    and "lb_database env = Some (mongo_Database M clock)" "up (b_db b)"
    and "distinct (map connectorKey (conns (b_db b)))"
  shows "conns (b_db (OnSystemStart env b)) =
    map (\<lambda>c. if \<not> isActive c \<and> (\<exists>cp \<in> set (cps (b_db b)). cp_SmartCharging cp \<and> cp_Id cp = c_ChargePointId c
                  \<and> cp_LocationId cp \<in> loc_Id ` set (locs (b_db b)))
             then c\<lparr>c_CurrentPowerLimit := 0\<rparr> else c) (conns (b_db b))"
proof -
  obtain ls where ls: "mongo_GetLocations M (b_db b) = (ls, None)"
    "set (concat (map smartConnectors ls)) = {c \<in> set (conns (b_db b)). \<exists>cp \<in> set (cps (b_db b)). cp_SmartCharging cp
        \<and> cp_Id cp = c_ChargePointId c \<and> cp_LocationId cp \<in> loc_Id ` set (locs (b_db b))}"
    by (rule mongo_sites.locations_connectors [OF assms(1,3)])
  have run: "OnSystemStart env b = fold (resetPower (mongo_Database M clock)) (concat (map smartConnectors ls)) b"
    using ls(1) assms(2) by (simp add: OnSystemStart_def mongo_Database_def)
  have same: "connectorKey x = connectorKey c \<longleftrightarrow> x = c"
    if "x \<in> set (conns (b_db b))" "c \<in> set (conns (b_db b))" for x c
    using assms(4) that by (auto simp: distinct_map dest: inj_onD)
  have hit: "(\<exists>c \<in> set (concat (map smartConnectors ls)). needsReset c \<and> connectorKey x = connectorKey c)
      \<longleftrightarrow> needsReset x \<and> x \<in> set (concat (map smartConnectors ls))" if "x \<in> set (conns (b_db b))" for x
    unfolding ls(2) using same [OF that] by auto
  have at: "x \<in> set (concat (map smartConnectors ls)) \<longleftrightarrow> (\<exists>cp \<in> set (cps (b_db b)). cp_SmartCharging cp
      \<and> cp_Id cp = c_ChargePointId x \<and> cp_LocationId cp \<in> loc_Id ` set (locs (b_db b)))"
    if "x \<in> set (conns (b_db b))" for x
    unfolding ls(2) using that by blast
  show ?thesis
    unfolding run mongo_sites.resetPower_fold [OF assms(1,3,4), of clock "concat (map smartConnectors ls)"]
  proof (rule map_cong [OF refl])
    fix x assume x: "x \<in> set (conns (b_db b))"
    let ?at = "\<exists>cp \<in> set (cps (b_db b)). cp_SmartCharging cp
      \<and> cp_Id cp = c_ChargePointId x \<and> cp_LocationId cp \<in> loc_Id ` set (locs (b_db b))"
    have "(if needsReset x \<and> ?at then x\<lparr>c_CurrentPowerLimit := 0\<rparr> else x)
        = (if \<not> isActive x \<and> ?at then x\<lparr>c_CurrentPowerLimit := 0\<rparr> else x)"
      by (cases ?at) (simp_all add: needsReset_def)
    then show "(if \<exists>c \<in> set (concat (map smartConnectors ls)). needsReset c \<and> connectorKey x = connectorKey c
        then x\<lparr>c_CurrentPowerLimit := 0\<rparr> else x) = (if \<not> isActive x \<and> ?at then x\<lparr>c_CurrentPowerLimit := 0\<rparr> else x)"
      unfolding hit [OF x] at [OF x] .
  qed
qed

theorem start_clears_idle_limits_witness:
  "map c_CurrentPowerLimit (sto_connectors (b_db (OnSystemStart demoLbEnv (NewLoadBalancer demoLbStore)))) = [0, 0]"
proof -
  let ?b = "NewLoadBalancer demoLbStore"
  have D: "lb_database demoLbEnv = Some (mongo_Database listMongo 0)" by (simp add: demoLbEnv_def listDatabase_def)
  have up: "sto_up (b_db ?b)" by code_simp
  have k: "distinct (map connectorKey (sto_connectors (b_db ?b)))" by code_simp
  show ?thesis
    unfolding start_clears_idle_limits [OF store_sites.mongo_sites_axioms D up k]
    by (simp add: NewLoadBalancer_def demoLbStore_def emptyStore_def NewConnector_def isActive_def zeroChargePoint_def)
qed

end
