(* ===== verification/Protocol.thy ===== *)
theory Protocol
  imports Core16
begin

text \<open>
  Protocol versions and the feature registry of \<^verbatim>\<open>src/ocpp/common\<close>, and the features the OCPP 1.6
  and 2.0.1 handlers register (\<^verbatim>\<open>src/ocpp/v16/handler.go\<close>,
  \<^verbatim>\<open>src/ocpp/v201/handlers/handler.go\<close>). A version is a string, as in Go. A
  \<^verbatim>\<open>reflect.Type\<close> is the qualified name of the struct. The registry is a map of maps guarded by a
  mutex, so every operation is one step.
\<close>

section \<open>Versions\<close>

type_synonym ProtocolVersion = string

definition OCPP16 :: ProtocolVersion where "OCPP16 = ''ocpp1.6''"
definition OCPP201 :: ProtocolVersion where "OCPP201 = ''ocpp2.0.1''"
definition OCPP21 :: ProtocolVersion where "OCPP21 = ''ocpp2.1''"
definition UnknownVersion :: ProtocolVersion where "UnknownVersion = []"

definition ProtocolVersion_IsValid :: "ProtocolVersion \<Rightarrow> bool" where
  "ProtocolVersion_IsValid p \<longleftrightarrow> p = OCPP16 \<or> p = OCPP201 \<or> p = OCPP21"

definition MajorVersion :: "ProtocolVersion \<Rightarrow> string" where
  "MajorVersion p = (if p = OCPP16 then ''1'' else if p = OCPP201 \<or> p = OCPP21 then ''2'' else [])"

definition ParseProtocolVersion :: "string \<Rightarrow> ProtocolVersion" where
  "ParseProtocolVersion version =
     (if version = ''ocpp1.6'' \<or> version = ''1.6'' then OCPP16
      else if version = ''ocpp2.0.1'' \<or> version = ''2.0.1'' then OCPP201
      else if version = ''ocpp2.1'' \<or> version = ''2.1'' then OCPP21
      else UnknownVersion)"

definition SupportedVersions :: "ProtocolVersion list" where
  "SupportedVersions = [OCPP16, OCPP201, OCPP21]"

definition DefaultVersion :: ProtocolVersion where "DefaultVersion = OCPP16"

lemmas version_defs = OCPP16_def OCPP201_def OCPP21_def UnknownVersion_def

lemma versions_distinct [simp]:
  "OCPP16 \<noteq> OCPP201" "OCPP16 \<noteq> OCPP21" "OCPP201 \<noteq> OCPP21" "OCPP201 \<noteq> OCPP16" "OCPP21 \<noteq> OCPP16" "OCPP21 \<noteq> OCPP201"
  by (simp_all add: version_defs)

lemma SupportedVersions_valid: "p \<in> set SupportedVersions \<longleftrightarrow> ProtocolVersion_IsValid p"
  by (auto simp: SupportedVersions_def ProtocolVersion_IsValid_def)

lemma ParseProtocolVersion_valid:
  "ProtocolVersion_IsValid p \<Longrightarrow> ParseProtocolVersion p = p"
  by (auto simp: ProtocolVersion_IsValid_def ParseProtocolVersion_def version_defs)

lemma ParseProtocolVersion_range:
  "ParseProtocolVersion s = UnknownVersion \<or> ProtocolVersion_IsValid (ParseProtocolVersion s)"
  by (auto simp: ProtocolVersion_IsValid_def ParseProtocolVersion_def)

section \<open>The registry\<close>

type_synonym reflectType = string

record featureTypes =
  ft_requestType :: reflectType
  ft_responseType :: reflectType

type_synonym featureRegistry = "(ProtocolVersion, (string, featureTypes) gomap) gomap"

definition NewFeatureRegistry :: featureRegistry where "NewFeatureRegistry = []"

definition versionMapOf :: "ProtocolVersion \<Rightarrow> featureRegistry \<Rightarrow> (string, featureTypes) gomap" where
  "versionMapOf version r = (case map_of r version of None \<Rightarrow> [] | Some m \<Rightarrow> m)"

definition RegisterFeature :: "ProtocolVersion \<Rightarrow> string \<Rightarrow> featureTypes \<Rightarrow> featureRegistry \<Rightarrow> featureRegistry" where
  "RegisterFeature version action types r = mput version (mput action types (versionMapOf version r)) r"

datatype RegistryError = VersionNotSupported ProtocolVersion | FeatureNotSupported ProtocolVersion string

definition GetTypes :: "ProtocolVersion \<Rightarrow> string \<Rightarrow> featureRegistry \<Rightarrow> RegistryError + featureTypes" where
  "GetTypes version action r =
     (case map_of r version of
        None \<Rightarrow> Inl (VersionNotSupported version)
      | Some versionMap \<Rightarrow>
         (case map_of versionMap action of
            None \<Rightarrow> Inl (FeatureNotSupported version action)
          | Some types \<Rightarrow> Inr types))"

definition IsSupported :: "ProtocolVersion \<Rightarrow> string \<Rightarrow> featureRegistry \<Rightarrow> bool" where
  "IsSupported version action r =
     (case map_of r version of None \<Rightarrow> False | Some versionMap \<Rightarrow> map_of versionMap action \<noteq> None)"

definition GetFeatures :: "ProtocolVersion \<Rightarrow> featureRegistry \<Rightarrow> string list" where
  "GetFeatures version r = (case map_of r version of None \<Rightarrow> [] | Some versionMap \<Rightarrow> map fst versionMap)"

definition GetVersions :: "featureRegistry \<Rightarrow> ProtocolVersion list" where
  "GetVersions r = map fst r"

definition GetFeatureCount :: "ProtocolVersion \<Rightarrow> featureRegistry \<Rightarrow> nat" where
  "GetFeatureCount version r = (case map_of r version of None \<Rightarrow> 0 | Some versionMap \<Rightarrow> length versionMap)"

definition UnregisterFeature :: "ProtocolVersion \<Rightarrow> string \<Rightarrow> featureRegistry \<Rightarrow> featureRegistry" where
  "UnregisterFeature version action r =
     (case map_of r version of None \<Rightarrow> r | Some versionMap \<Rightarrow> mput version (mdel action versionMap) r)"

definition ClearRegistry :: "featureRegistry \<Rightarrow> featureRegistry" where "ClearRegistry r = []"

section \<open>The registry as a map\<close>

text \<open>
  What a client relies on: a lookup by version and action, changed by a registration at that pair only.
  Registering a list of features is then independent of their order and of what was registered for other
  versions.
\<close>

locale feature_registry =
  fixes lookup :: "'r \<Rightarrow> string \<Rightarrow> string \<Rightarrow> 't option"
    and register :: "string \<Rightarrow> string \<Rightarrow> 't \<Rightarrow> 'r \<Rightarrow> 'r" and unregister :: "string \<Rightarrow> string \<Rightarrow> 'r \<Rightarrow> 'r"
  assumes lookup_register:
      "lookup (register v a t r) v' a' = (if v' = v \<and> a' = a then Some t else lookup r v' a')"
    and lookup_unregister:
      "lookup (unregister v a r) v' a' = (if v' = v \<and> a' = a then None else lookup r v' a')"
begin

lemma lookup_registerAll:
  "distinct (map fst fs) \<Longrightarrow>
   lookup (fold (\<lambda>(a, t). register v a t) fs r) v' a' =
     (case (if v' = v then map_of fs a' else None) of None \<Rightarrow> lookup r v' a' | Some t \<Rightarrow> Some t)"
proof (induction fs arbitrary: r)
  case (Cons f fs)
  obtain a t where f: "f = (a, t)" by (cases f)
  have "map_of fs a = None" using Cons.prems by (simp add: f map_of_eq_None_iff)
  then show ?case using Cons by (auto simp: f lookup_register split: option.split)
qed simp

lemma register_unregister: "lookup r v a = None \<Longrightarrow> lookup (unregister v a (register v a t r)) = lookup r"
  by (auto simp: fun_eq_iff lookup_register lookup_unregister)

end

definition lookupFeature :: "featureRegistry \<Rightarrow> ProtocolVersion \<Rightarrow> string \<Rightarrow> featureTypes option" where
  "lookupFeature r version action = map_of (versionMapOf version r) action"

interpretation registry: feature_registry lookupFeature RegisterFeature UnregisterFeature
  by unfold_locales
    (auto simp: lookupFeature_def RegisterFeature_def UnregisterFeature_def versionMapOf_def split: option.split)

definition registry_ok :: "featureRegistry \<Rightarrow> bool" where
  "registry_ok r \<longleftrightarrow> gomap_ok r \<and> (\<forall>(v, m) \<in> set r. gomap_ok m)"

lemma registry_ok_lookup: "registry_ok r \<Longrightarrow> map_of r v = Some m \<Longrightarrow> gomap_ok m"
  by (auto simp: registry_ok_def dest!: map_of_SomeD)

lemma registry_ok_put:
  assumes "registry_ok r" "gomap_ok m"
  shows "registry_ok (mput v m r)"
  using assms by (auto simp: registry_ok_def dest!: set_mput)

lemma registry_ok_operations:
  "registry_ok NewFeatureRegistry" "registry_ok r \<Longrightarrow> registry_ok (RegisterFeature v a t r)"
  "registry_ok r \<Longrightarrow> registry_ok (UnregisterFeature v a r)" "registry_ok (ClearRegistry r)"
  by (auto simp: registry_ok_def [of "[]"] NewFeatureRegistry_def RegisterFeature_def UnregisterFeature_def
      ClearRegistry_def versionMapOf_def gomap_ok_def [of "[_]"] split: option.split
      intro!: registry_ok_put dest: registry_ok_lookup)

text \<open>The queries in terms of the lookup.\<close>

lemma IsSupported_lookup: "IsSupported v a r \<longleftrightarrow> lookupFeature r v a \<noteq> None"
  by (auto simp: IsSupported_def lookupFeature_def versionMapOf_def split: option.split)

lemma GetTypes_lookup: "GetTypes v a r = Inr t \<longleftrightarrow> lookupFeature r v a = Some t"
  by (auto simp: GetTypes_def lookupFeature_def versionMapOf_def split: option.split)

lemma GetFeatures_lookup: "a \<in> set (GetFeatures v r) \<longleftrightarrow> lookupFeature r v a \<noteq> None"
  by (auto simp: GetFeatures_def lookupFeature_def versionMapOf_def map_of_eq_None_iff split: option.split)

lemma GetFeatureCount_card: "registry_ok r \<Longrightarrow> GetFeatureCount v r = card {a. lookupFeature r v a \<noteq> None}"
proof -
  assume ok: "registry_ok r"
  have "{a. lookupFeature r v a \<noteq> None} = set (GetFeatures v r)" by (auto simp: GetFeatures_lookup)
  moreover have "distinct (GetFeatures v r)"
    using registry_ok_lookup [OF ok] by (auto simp: GetFeatures_def gomap_ok_def split: option.split)
  moreover have "GetFeatureCount v r = length (GetFeatures v r)"
    by (simp add: GetFeatureCount_def GetFeatures_def split: option.split)
  ultimately show ?thesis by (simp only: distinct_card)
qed

section \<open>The registered features\<close>

definition feature :: "string \<Rightarrow> string \<Rightarrow> string \<times> featureTypes" where
  "feature package name =
     (name, \<lparr>ft_requestType = package @ ''.'' @ name @ ''Request'', ft_responseType = package @ ''.'' @ name @ ''Response''\<rparr>)"

definition features16 :: "(string \<times> featureTypes) list" where
  "features16 =
     [feature ''core'' ''BootNotification'', feature ''core'' ''Authorize'', feature ''core'' ''Heartbeat'',
      feature ''core'' ''StartTransaction'', feature ''core'' ''StopTransaction'', feature ''core'' ''MeterValues'',
      feature ''core'' ''StatusNotification'', feature ''core'' ''DataTransfer'',
      feature ''core'' ''RemoteStartTransaction'', feature ''core'' ''RemoteStopTransaction'',
      feature ''core'' ''GetConfiguration'', feature ''core'' ''ChangeConfiguration'',
      feature ''firmware'' ''DiagnosticsStatusNotification'',
      (''FirmwareStatusNotification'', \<lparr>ft_requestType = ''firmware.StatusNotificationRequest'',
          ft_responseType = ''firmware.StatusNotificationResponse''\<rparr>),
      feature ''localauth'' ''SendLocalList'', feature ''remotetrigger'' ''TriggerMessage'']"

definition features201 :: "(string \<times> featureTypes) list" where
  "features201 =
     [feature ''provisioning'' ''BootNotification'', feature ''provisioning'' ''Heartbeat'',
      feature ''provisioning'' ''NotifyReport'', feature ''provisioning'' ''GetBaseReport'',
      feature ''provisioning'' ''GetVariables'', feature ''provisioning'' ''SetVariables'',
      feature ''provisioning'' ''Reset'', feature ''authorization'' ''Authorize'',
      feature ''authorization'' ''ClearedChargingLimit'', feature ''remotecontrol'' ''RequestStartTransaction'',
      feature ''remotecontrol'' ''RequestStopTransaction'', feature ''transactions'' ''TransactionEvent'',
      feature ''availability'' ''StatusNotification'']"

definition NewHandler16 :: "featureRegistry \<Rightarrow> featureRegistry" where
  "NewHandler16 r = fold (\<lambda>(action, types). RegisterFeature OCPP16 action types) features16 r"

definition NewHandler201 :: "featureRegistry \<Rightarrow> featureRegistry" where
  "NewHandler201 r = fold (\<lambda>(action, types). RegisterFeature OCPP201 action types) features201 r"

definition Handler16_SupportsFeature :: "string \<Rightarrow> featureRegistry \<Rightarrow> bool" where
  "Handler16_SupportsFeature action r = IsSupported OCPP16 action r"

definition Handler201_SupportsFeature :: "string \<Rightarrow> featureRegistry \<Rightarrow> bool" where
  "Handler201_SupportsFeature action r = IsSupported OCPP201 action r"

lemma distinct_features: "distinct (map fst features16)" "distinct (map fst features201)"
  by code_simp+

lemmas handler16_lookup = registry.lookup_registerAll [OF distinct_features(1), of OCPP16, folded NewHandler16_def]
lemmas handler201_lookup = registry.lookup_registerAll [OF distinct_features(2), of OCPP201, folded NewHandler201_def]

section \<open>Properties\<close>

text \<open>
  The registry refines a map from pairs of version and action to types: every query answers what the map
  says, a registration or removal changes the map at its pair only, and the features of one version never
  affect those of another.
\<close>

theorem registry_refines_map:
  assumes "registry_ok r"
  shows "registry_ok (RegisterFeature v a t r) \<and> registry_ok (UnregisterFeature v a r)
    \<and> (\<forall>v' a'. lookupFeature (RegisterFeature v a t r) v' a' = (if v' = v \<and> a' = a then Some t else lookupFeature r v' a'))
    \<and> (\<forall>v' a'. lookupFeature (UnregisterFeature v a r) v' a' = (if v' = v \<and> a' = a then None else lookupFeature r v' a'))
    \<and> (IsSupported v a r \<longleftrightarrow> lookupFeature r v a \<noteq> None) \<and> (GetTypes v a r = Inr t \<longleftrightarrow> lookupFeature r v a = Some t)
    \<and> set (GetFeatures v r) = {a. lookupFeature r v a \<noteq> None}
    \<and> GetFeatureCount v r = card {a. lookupFeature r v a \<noteq> None}"
  using assms registry_ok_operations(2,3) registry.lookup_register registry.lookup_unregister
    IsSupported_lookup GetTypes_lookup GetFeatures_lookup GetFeatureCount_card by auto

theorem registry_refines_map_witness:
  "GetFeatureCount OCPP16 (NewHandler16 []) = card {a. lookupFeature (NewHandler16 []) OCPP16 a \<noteq> None}"
proof -
  have "registry_ok (NewHandler16 [])" by code_simp
  from registry_refines_map [OF this, of OCPP16] show ?thesis by simp
qed

end
