(* ===== verification/Json.thy ===== *)
theory Json
  imports Core16 "HOL-Library.Monad_Syntax"
begin

text \<open>
  The part of Go's \<^verbatim>\<open>encoding/json\<close> that the message layer relies on. A \<open>Json\<close> value stands for the
  tree that \<^verbatim>\<open>json.Unmarshal\<close> builds in an \<^verbatim>\<open>interface{}\<close> and for the text \<^verbatim>\<open>json.Marshal\<close> prints for
  it. A number is the decimal that is printed. An object lists its members in the order in which they are
  printed; members are matched with struct fields without regard to case, and of two spellings of one name the
  last counts.

  A decoder is a function \<open>Json \<Rightarrow> 'a option\<close>, one per Go type. \<open>None\<close> is the error of
  \<^verbatim>\<open>Unmarshal\<close>; a member that is absent or \<^verbatim>\<open>null\<close> leaves the zero value. An encoder is a function
  \<open>'a \<Rightarrow> Json\<close>, and \<^verbatim>\<open>omitempty\<close> is the function \<open>omit\<close>.
\<close>

section \<open>Values\<close>

datatype Json =
    JNull | JBool bool | JNum rat | JStr string | JArr "Json list" | JObj "(string \<times> Json) list"

definition member :: "string \<Rightarrow> (string \<times> Json) list \<Rightarrow> Json" where
  "member name ms = foldl (\<lambda>found (k, v). if EqualFold k name then v else found) JNull ms"

lemma member_Nil [simp]: "member name [] = JNull"
  by (simp add: member_def)

lemma member_snoc [simp]:
  "member name (ms @ [(k, v)]) = (if EqualFold k name then v else member name ms)"
  by (simp add: member_def)

lemma member_append: "(\<And>k v. (k, v) \<in> set ns \<Longrightarrow> \<not> EqualFold k name) \<Longrightarrow> member name (ms @ ns) = member name ms"
  by (induction ns rule: rev_induct) (auto simp: member_def split: prod.splits)

section \<open>Decoders\<close>

fun decStr :: "Json \<Rightarrow> string option" where
  "decStr JNull = Some []"
| "decStr (JStr s) = Some s"
| "decStr _ = None"

fun decInt :: "Json \<Rightarrow> int option" where
  "decInt JNull = Some 0"
| "decInt (JNum r) = (if of_int \<lfloor>r\<rfloor> = r \<and> int64 \<lfloor>r\<rfloor> then Some \<lfloor>r\<rfloor> else None)"
| "decInt _ = None"

fun decFloat :: "Json \<Rightarrow> float64 option" where
  "decFloat JNull = Some 0"
| "decFloat (JNum r) = Some r"
| "decFloat _ = None"

fun decBool :: "Json \<Rightarrow> bool option" where
  "decBool JNull = Some False"
| "decBool (JBool b) = Some b"
| "decBool _ = None"

text \<open>A \<^verbatim>\<open>time.Time\<close>; \<open>parse\<close> is the RFC 3339 parser of the library.\<close>

fun decTime :: "(string \<Rightarrow> time option) \<Rightarrow> Json \<Rightarrow> time option" where
  "decTime parse JNull = Some zeroTime"
| "decTime parse (JStr s) = parse s"
| "decTime parse _ = None"

fun decPtr :: "(Json \<Rightarrow> 'a option) \<Rightarrow> Json \<Rightarrow> 'a option option" where
  "decPtr d JNull = Some None"
| "decPtr d j = map_option Some (d j)"

fun decList :: "(Json \<Rightarrow> 'a option) \<Rightarrow> Json \<Rightarrow> 'a list option" where
  "decList d JNull = Some []"
| "decList d (JArr js) = those (map d js)"
| "decList d _ = None"

fun decObj :: "((string \<times> Json) list \<Rightarrow> 'a option) \<Rightarrow> Json \<Rightarrow> 'a option" where
  "decObj f JNull = f []"
| "decObj f (JObj ms) = f ms"
| "decObj f _ = None"

section \<open>Encoders\<close>

definition encInt :: "int \<Rightarrow> Json" where "encInt i = JNum (of_int i)"

definition omit :: "bool \<Rightarrow> string \<Rightarrow> Json \<Rightarrow> (string \<times> Json) list" where
  "omit isEmpty name j = (if isEmpty then [] else [(name, j)])"

definition omitPtr :: "('a \<Rightarrow> Json) \<Rightarrow> string \<Rightarrow> 'a option \<Rightarrow> (string \<times> Json) list" where
  "omitPtr f name x = (case x of None \<Rightarrow> [] | Some v \<Rightarrow> [(name, f v)])"

lemma decInt_encInt [simp]: "int64 i \<Longrightarrow> decInt (encInt i) = Some i"
  by (simp add: encInt_def)

lemma decPtr_encInt [simp]: "int64 i \<Longrightarrow> decPtr decInt (encInt i) = Some (Some i)"
  by (simp add: encInt_def)

lemma those_map: "(\<And>x. x \<in> set xs \<Longrightarrow> f x = Some (g x)) \<Longrightarrow> those (map f xs) = Some (map g xs)"
  by (induction xs) auto

lemma decInt_range: "decInt j = Some i \<Longrightarrow> int64 i"
  by (cases j) (auto simp: int64_def split: if_splits)

end
