(* ===== verification/Types201.thy ===== *)
theory Types201
  imports Json
begin

text \<open>
  The data types of OCPP 2.0.1 in \<^verbatim>\<open>src/ocpp/v201/types.go\<close>: one record per struct with its fields in order,
  and the decoder that \<^verbatim>\<open>encoding/json\<close> derives from its tags. Enumerations are strings, as in Go: a decoded
  value may be any string. The argument \<open>parse\<close> of a decoder is the parser of RFC 3339 times.
\<close>

record AdditionalInfo =
  ai_AdditionalIdToken :: string
  ai_Type :: string

definition decAdditionalInfo :: "Json \<Rightarrow> AdditionalInfo option" where
  "decAdditionalInfo = decObj (\<lambda>ms. do {
     x0 \<leftarrow> decStr (member ''additionalIdToken'' ms);
     x1 \<leftarrow> decStr (member ''type'' ms);
     Some \<lparr>ai_AdditionalIdToken = x0, ai_Type = x1\<rparr>
   })"

record IdToken =
  it_IdToken :: string
  it_Type :: string
  it_AdditionalInfo :: "AdditionalInfo list"

definition decIdToken :: "Json \<Rightarrow> IdToken option" where
  "decIdToken = decObj (\<lambda>ms. do {
     x0 \<leftarrow> decStr (member ''idToken'' ms);
     x1 \<leftarrow> decStr (member ''type'' ms);
     x2 \<leftarrow> decList decAdditionalInfo (member ''additionalInfo'' ms);
     Some \<lparr>it_IdToken = x0, it_Type = x1, it_AdditionalInfo = x2\<rparr>
   })"

record EVSE =
  evse_Id :: int
  evse_ConnectorId :: "int option"

definition decEVSE :: "Json \<Rightarrow> EVSE option" where
  "decEVSE = decObj (\<lambda>ms. do {
     x0 \<leftarrow> decInt (member ''id'' ms);
     x1 \<leftarrow> decPtr decInt (member ''connectorId'' ms);
     Some \<lparr>evse_Id = x0, evse_ConnectorId = x1\<rparr>
   })"

record Modem =
  md_Iccid :: string
  md_Imsi :: string

definition decModem :: "Json \<Rightarrow> Modem option" where
  "decModem = decObj (\<lambda>ms. do {
     x0 \<leftarrow> decStr (member ''iccid'' ms);
     x1 \<leftarrow> decStr (member ''imsi'' ms);
     Some \<lparr>md_Iccid = x0, md_Imsi = x1\<rparr>
   })"

record ChargingStation =
  cs1_Model :: string
  cs1_VendorName :: string
  cs1_SerialNumber :: string
  cs1_FirmwareVersion :: string
  cs1_Modem :: "Modem option"

definition decChargingStation :: "Json \<Rightarrow> ChargingStation option" where
  "decChargingStation = decObj (\<lambda>ms. do {
     x0 \<leftarrow> decStr (member ''model'' ms);
     x1 \<leftarrow> decStr (member ''vendorName'' ms);
     x2 \<leftarrow> decStr (member ''serialNumber'' ms);
     x3 \<leftarrow> decStr (member ''firmwareVersion'' ms);
     x4 \<leftarrow> decPtr decModem (member ''modem'' ms);
     Some \<lparr>cs1_Model = x0, cs1_VendorName = x1, cs1_SerialNumber = x2, cs1_FirmwareVersion = x3,
       cs1_Modem = x4\<rparr>
   })"

record Transaction201 =
  ti_TransactionId :: string
  ti_ChargingState :: string
  ti_TimeSpentCharging :: "int option"
  ti_StoppedReason :: string
  ti_RemoteStartId :: "int option"

definition decTransaction201 :: "Json \<Rightarrow> Transaction201 option" where
  "decTransaction201 = decObj (\<lambda>ms. do {
     x0 \<leftarrow> decStr (member ''transactionId'' ms);
     x1 \<leftarrow> decStr (member ''chargingState'' ms);
     x2 \<leftarrow> decPtr decInt (member ''timeSpentCharging'' ms);
     x3 \<leftarrow> decStr (member ''stoppedReason'' ms);
     x4 \<leftarrow> decPtr decInt (member ''remoteStartId'' ms);
     Some \<lparr>ti_TransactionId = x0, ti_ChargingState = x1, ti_TimeSpentCharging = x2,
       ti_StoppedReason = x3, ti_RemoteStartId = x4\<rparr>
   })"

record SignedMeterValue =
  sm_SignedMeterData :: string
  sm_SigningMethod :: string
  sm_EncodingMethod :: string
  sm_PublicKey :: string

definition decSignedMeterValue :: "Json \<Rightarrow> SignedMeterValue option" where
  "decSignedMeterValue = decObj (\<lambda>ms. do {
     x0 \<leftarrow> decStr (member ''signedMeterData'' ms);
     x1 \<leftarrow> decStr (member ''signingMethod'' ms);
     x2 \<leftarrow> decStr (member ''encodingMethod'' ms);
     x3 \<leftarrow> decStr (member ''publicKey'' ms);
     Some \<lparr>sm_SignedMeterData = x0, sm_SigningMethod = x1, sm_EncodingMethod = x2,
       sm_PublicKey = x3\<rparr>
   })"

record UnitOfMeasure =
  um_Unit :: string
  um_Multiplier :: "int option"

definition decUnitOfMeasure :: "Json \<Rightarrow> UnitOfMeasure option" where
  "decUnitOfMeasure = decObj (\<lambda>ms. do {
     x0 \<leftarrow> decStr (member ''unit'' ms);
     x1 \<leftarrow> decPtr decInt (member ''multiplier'' ms);
     Some \<lparr>um_Unit = x0, um_Multiplier = x1\<rparr>
   })"

record SampledValue201 =
  s2_Value :: float64
  s2_Context :: string
  s2_Measurand :: string
  s2_Phase :: string
  s2_Location :: string
  s2_SignedMeterValue :: "SignedMeterValue option"
  s2_UnitOfMeasure :: "UnitOfMeasure option"

definition decSampledValue201 :: "Json \<Rightarrow> SampledValue201 option" where
  "decSampledValue201 = decObj (\<lambda>ms. do {
     x0 \<leftarrow> decFloat (member ''value'' ms);
     x1 \<leftarrow> decStr (member ''context'' ms);
     x2 \<leftarrow> decStr (member ''measurand'' ms);
     x3 \<leftarrow> decStr (member ''phase'' ms);
     x4 \<leftarrow> decStr (member ''location'' ms);
     x5 \<leftarrow> decPtr decSignedMeterValue (member ''signedMeterValue'' ms);
     x6 \<leftarrow> decPtr decUnitOfMeasure (member ''unitOfMeasure'' ms);
     Some \<lparr>s2_Value = x0, s2_Context = x1, s2_Measurand = x2, s2_Phase = x3, s2_Location = x4,
       s2_SignedMeterValue = x5, s2_UnitOfMeasure = x6\<rparr>
   })"

record MeterValue201 =
  m2_Timestamp :: time
  m2_SampledValue :: "SampledValue201 list"

definition decMeterValue201 :: "(string \<Rightarrow> time option) \<Rightarrow> Json \<Rightarrow> MeterValue201 option" where
  "decMeterValue201 parse = decObj (\<lambda>ms. do {
     x0 \<leftarrow> decTime parse (member ''timestamp'' ms);
     x1 \<leftarrow> decList decSampledValue201 (member ''sampledValue'' ms);
     Some \<lparr>m2_Timestamp = x0, m2_SampledValue = x1\<rparr>
   })"

record Component =
  cm_Name :: string
  cm_Instance :: string
  cm_Evse :: "EVSE option"

definition decComponent :: "Json \<Rightarrow> Component option" where
  "decComponent = decObj (\<lambda>ms. do {
     x0 \<leftarrow> decStr (member ''name'' ms);
     x1 \<leftarrow> decStr (member ''instance'' ms);
     x2 \<leftarrow> decPtr decEVSE (member ''evse'' ms);
     Some \<lparr>cm_Name = x0, cm_Instance = x1, cm_Evse = x2\<rparr>
   })"

record Variable =
  vr_Name :: string
  vr_Instance :: string

definition decVariable :: "Json \<Rightarrow> Variable option" where
  "decVariable = decObj (\<lambda>ms. do {
     x0 \<leftarrow> decStr (member ''name'' ms);
     x1 \<leftarrow> decStr (member ''instance'' ms);
     Some \<lparr>vr_Name = x0, vr_Instance = x1\<rparr>
   })"

record Cost =
  co_CostKind :: string
  co_Amount :: int
  co_AmountMultiplier :: "int option"

definition decCost :: "Json \<Rightarrow> Cost option" where
  "decCost = decObj (\<lambda>ms. do {
     x0 \<leftarrow> decStr (member ''costKind'' ms);
     x1 \<leftarrow> decInt (member ''amount'' ms);
     x2 \<leftarrow> decPtr decInt (member ''amountMultiplier'' ms);
     Some \<lparr>co_CostKind = x0, co_Amount = x1, co_AmountMultiplier = x2\<rparr>
   })"

record ConsumptionCost =
  cc_StartValue :: float64
  cc_Cost :: "Cost list"

definition decConsumptionCost :: "Json \<Rightarrow> ConsumptionCost option" where
  "decConsumptionCost = decObj (\<lambda>ms. do {
     x0 \<leftarrow> decFloat (member ''startValue'' ms);
     x1 \<leftarrow> decList decCost (member ''cost'' ms);
     Some \<lparr>cc_StartValue = x0, cc_Cost = x1\<rparr>
   })"

record RelativeTimeInterval =
  ri_Start :: int
  ri_Duration :: "int option"

definition decRelativeTimeInterval :: "Json \<Rightarrow> RelativeTimeInterval option" where
  "decRelativeTimeInterval = decObj (\<lambda>ms. do {
     x0 \<leftarrow> decInt (member ''start'' ms);
     x1 \<leftarrow> decPtr decInt (member ''duration'' ms);
     Some \<lparr>ri_Start = x0, ri_Duration = x1\<rparr>
   })"

record SalesTariffEntry =
  se_RelativeTimeInterval :: RelativeTimeInterval
  se_EPriceLevel :: "int option"
  se_ConsumptionCost :: "ConsumptionCost list"

definition decSalesTariffEntry :: "Json \<Rightarrow> SalesTariffEntry option" where
  "decSalesTariffEntry = decObj (\<lambda>ms. do {
     x0 \<leftarrow> decRelativeTimeInterval (member ''relativeTimeInterval'' ms);
     x1 \<leftarrow> decPtr decInt (member ''ePriceLevel'' ms);
     x2 \<leftarrow> decList decConsumptionCost (member ''consumptionCost'' ms);
     Some \<lparr>se_RelativeTimeInterval = x0, se_EPriceLevel = x1, se_ConsumptionCost = x2\<rparr>
   })"

record SalesTariff =
  ss_Id :: int
  ss_SalesTariffDescription :: string
  ss_NumEPriceLevels :: "int option"
  ss_SalesTariffEntry :: "SalesTariffEntry list"

definition decSalesTariff :: "Json \<Rightarrow> SalesTariff option" where
  "decSalesTariff = decObj (\<lambda>ms. do {
     x0 \<leftarrow> decInt (member ''id'' ms);
     x1 \<leftarrow> decStr (member ''salesTariffDescription'' ms);
     x2 \<leftarrow> decPtr decInt (member ''numEPriceLevels'' ms);
     x3 \<leftarrow> decList decSalesTariffEntry (member ''salesTariffEntry'' ms);
     Some \<lparr>ss_Id = x0, ss_SalesTariffDescription = x1, ss_NumEPriceLevels = x2,
       ss_SalesTariffEntry = x3\<rparr>
   })"

record ChargingSchedulePeriod201 =
  p2_StartPeriod :: int
  p2_Limit :: float64
  p2_NumberPhases :: "int option"
  p2_PhaseToUse :: "int option"

definition decChargingSchedulePeriod201 :: "Json \<Rightarrow> ChargingSchedulePeriod201 option" where
  "decChargingSchedulePeriod201 = decObj (\<lambda>ms. do {
     x0 \<leftarrow> decInt (member ''startPeriod'' ms);
     x1 \<leftarrow> decFloat (member ''limit'' ms);
     x2 \<leftarrow> decPtr decInt (member ''numberPhases'' ms);
     x3 \<leftarrow> decPtr decInt (member ''phaseToUse'' ms);
     Some \<lparr>p2_StartPeriod = x0, p2_Limit = x1, p2_NumberPhases = x2, p2_PhaseToUse = x3\<rparr>
   })"

record ChargingSchedule201 =
  c2_Id :: int
  c2_StartSchedule :: "time option"
  c2_Duration :: "int option"
  c2_ChargingRateUnit :: string
  c2_ChargingSchedulePeriod :: "ChargingSchedulePeriod201 list"
  c2_MinChargingRate :: "float64 option"
  c2_SalesTariff :: "SalesTariff option"

definition decChargingSchedule201 :: "(string \<Rightarrow> time option) \<Rightarrow> Json \<Rightarrow> ChargingSchedule201 option" where
  "decChargingSchedule201 parse = decObj (\<lambda>ms. do {
     x0 \<leftarrow> decInt (member ''id'' ms);
     x1 \<leftarrow> decPtr (decTime parse) (member ''startSchedule'' ms);
     x2 \<leftarrow> decPtr decInt (member ''duration'' ms);
     x3 \<leftarrow> decStr (member ''chargingRateUnit'' ms);
     x4 \<leftarrow> decList decChargingSchedulePeriod201 (member ''chargingSchedulePeriod'' ms);
     x5 \<leftarrow> decPtr decFloat (member ''minChargingRate'' ms);
     x6 \<leftarrow> decPtr decSalesTariff (member ''salesTariff'' ms);
     Some \<lparr>c2_Id = x0, c2_StartSchedule = x1, c2_Duration = x2, c2_ChargingRateUnit = x3,
       c2_ChargingSchedulePeriod = x4, c2_MinChargingRate = x5, c2_SalesTariff = x6\<rparr>
   })"

record ChargingProfile201 =
  q2_Id :: int
  q2_StackLevel :: int
  q2_ChargingProfilePurpose :: string
  q2_ChargingProfileKind :: string
  q2_RecurrencyKind :: string
  q2_ValidFrom :: "time option"
  q2_ValidTo :: "time option"
  q2_TransactionId :: string
  q2_ChargingSchedule :: "ChargingSchedule201 list"

definition decChargingProfile201 :: "(string \<Rightarrow> time option) \<Rightarrow> Json \<Rightarrow> ChargingProfile201 option" where
  "decChargingProfile201 parse = decObj (\<lambda>ms. do {
     x0 \<leftarrow> decInt (member ''id'' ms);
     x1 \<leftarrow> decInt (member ''stackLevel'' ms);
     x2 \<leftarrow> decStr (member ''chargingProfilePurpose'' ms);
     x3 \<leftarrow> decStr (member ''chargingProfileKind'' ms);
     x4 \<leftarrow> decStr (member ''recurrencyKind'' ms);
     x5 \<leftarrow> decPtr (decTime parse) (member ''validFrom'' ms);
     x6 \<leftarrow> decPtr (decTime parse) (member ''validTo'' ms);
     x7 \<leftarrow> decStr (member ''transactionId'' ms);
     x8 \<leftarrow> decList (decChargingSchedule201 parse) (member ''chargingSchedule'' ms);
     Some \<lparr>q2_Id = x0, q2_StackLevel = x1, q2_ChargingProfilePurpose = x2,
       q2_ChargingProfileKind = x3, q2_RecurrencyKind = x4, q2_ValidFrom = x5, q2_ValidTo = x6,
       q2_TransactionId = x7, q2_ChargingSchedule = x8\<rparr>
   })"

record OCSPRequestDataType =
  oc_HashAlgorithm :: string
  oc_IssuerNameHash :: string
  oc_IssuerKeyHash :: string
  oc_SerialNumber :: string
  oc_ResponderURL :: string

definition decOCSPRequestDataType :: "Json \<Rightarrow> OCSPRequestDataType option" where
  "decOCSPRequestDataType = decObj (\<lambda>ms. do {
     x0 \<leftarrow> decStr (member ''hashAlgorithm'' ms);
     x1 \<leftarrow> decStr (member ''issuerNameHash'' ms);
     x2 \<leftarrow> decStr (member ''issuerKeyHash'' ms);
     x3 \<leftarrow> decStr (member ''serialNumber'' ms);
     x4 \<leftarrow> decStr (member ''responderURL'' ms);
     Some \<lparr>oc_HashAlgorithm = x0, oc_IssuerNameHash = x1, oc_IssuerKeyHash = x2, oc_SerialNumber = x3,
       oc_ResponderURL = x4\<rparr>
   })"

section \<open>Validation of tokens\<close>

text \<open>The validation errors of the 2.0.1 packages: the field and the message.\<close>

type_synonym ValidationError201 = "string \<times> string"

definition ErrInvalidIdToken :: ValidationError201 where "ErrInvalidIdToken = (''idToken'', ''invalid ID token'')"
definition ErrInvalidIdTokenType :: ValidationError201 where "ErrInvalidIdTokenType = (''type'', ''invalid ID token type'')"
definition ErrTooManyAdditionalInfo :: ValidationError201 where
  "ErrTooManyAdditionalInfo = (''additionalInfo'', ''too many additional info items (max 3)'')"

definition ValidationError201_Error :: "ValidationError201 \<Rightarrow> string" where
  "ValidationError201_Error e = fst e @ '': '' @ snd e"

definition IdToken_Validate :: "IdToken \<Rightarrow> ValidationError201 option" where
  "IdToken_Validate t =
     (if it_IdToken t = [] \<or> length (it_IdToken t) > 36 then Some ErrInvalidIdToken
      else if it_Type t = [] then Some ErrInvalidIdTokenType
      else if length (it_AdditionalInfo t) > 3 then Some ErrTooManyAdditionalInfo
      else None)"

end
