(* ===== verification/Messages201.thy ===== *)
theory Messages201
  imports Types201
begin

text \<open>
  The OCPP 2.0.1 requests of \<^verbatim>\<open>src/ocpp/v201\<close>: those a charging station sends (boot, heartbeat, report,
  authorization, cleared limit, transaction event, status) and the commands of the central system, each with
  its decoder and its \<^verbatim>\<open>Validate\<close> method. \<open>None\<close> is success of a validation.
\<close>

section \<open>Requests of a charging station\<close>

record BootNotification201 =
  b2_ChargingStation :: ChargingStation
  b2_Reason :: string

definition decBootNotification201 :: "Json \<Rightarrow> BootNotification201 option" where
  "decBootNotification201 = decObj (\<lambda>ms. do {
     x0 \<leftarrow> decChargingStation (member ''chargingStation'' ms);
     x1 \<leftarrow> decStr (member ''reason'' ms);
     Some \<lparr>b2_ChargingStation = x0, b2_Reason = x1\<rparr>
   })"

record VariableAttribute =
  va_Type :: string
  va_Value :: string
  va_Mutability :: string
  va_Persistent :: "bool option"
  va_Constant :: "bool option"

definition decVariableAttribute :: "Json \<Rightarrow> VariableAttribute option" where
  "decVariableAttribute = decObj (\<lambda>ms. do {
     x0 \<leftarrow> decStr (member ''type'' ms);
     x1 \<leftarrow> decStr (member ''value'' ms);
     x2 \<leftarrow> decStr (member ''mutability'' ms);
     x3 \<leftarrow> decPtr decBool (member ''persistent'' ms);
     x4 \<leftarrow> decPtr decBool (member ''constant'' ms);
     Some \<lparr>va_Type = x0, va_Value = x1, va_Mutability = x2, va_Persistent = x3,
       va_Constant = x4\<rparr>
   })"

record VariableCharacteristics =
  vc_DataType :: string
  vc_SupportsMonitoring :: bool
  vc_Unit :: string
  vc_MinLimit :: "float64 option"
  vc_MaxLimit :: "float64 option"
  vc_ValuesList :: string

definition decVariableCharacteristics :: "Json \<Rightarrow> VariableCharacteristics option" where
  "decVariableCharacteristics = decObj (\<lambda>ms. do {
     x0 \<leftarrow> decStr (member ''dataType'' ms);
     x1 \<leftarrow> decBool (member ''supportsMonitoring'' ms);
     x2 \<leftarrow> decStr (member ''unit'' ms);
     x3 \<leftarrow> decPtr decFloat (member ''minLimit'' ms);
     x4 \<leftarrow> decPtr decFloat (member ''maxLimit'' ms);
     x5 \<leftarrow> decStr (member ''valuesList'' ms);
     Some \<lparr>vc_DataType = x0, vc_SupportsMonitoring = x1, vc_Unit = x2, vc_MinLimit = x3,
       vc_MaxLimit = x4, vc_ValuesList = x5\<rparr>
   })"

record ReportData =
  rd_Component :: Component
  rd_Variable :: Variable
  rd_VariableAttribute :: "VariableAttribute list"
  rd_VariableCharacteristics :: "VariableCharacteristics option"

definition decReportData :: "Json \<Rightarrow> ReportData option" where
  "decReportData = decObj (\<lambda>ms. do {
     x0 \<leftarrow> decComponent (member ''component'' ms);
     x1 \<leftarrow> decVariable (member ''variable'' ms);
     x2 \<leftarrow> decList decVariableAttribute (member ''variableAttribute'' ms);
     x3 \<leftarrow> decPtr decVariableCharacteristics (member ''variableCharacteristics'' ms);
     Some \<lparr>rd_Component = x0, rd_Variable = x1, rd_VariableAttribute = x2,
       rd_VariableCharacteristics = x3\<rparr>
   })"

record NotifyReport =
  nr_RequestId :: int
  nr_GeneratedAt :: time
  nr_ReportData :: "ReportData list"
  nr_SeqNo :: int
  nr_Tbc :: bool

definition decNotifyReport :: "(string \<Rightarrow> time option) \<Rightarrow> Json \<Rightarrow> NotifyReport option" where
  "decNotifyReport parse = decObj (\<lambda>ms. do {
     x0 \<leftarrow> decInt (member ''requestId'' ms);
     x1 \<leftarrow> decTime parse (member ''generatedAt'' ms);
     x2 \<leftarrow> decList decReportData (member ''reportData'' ms);
     x3 \<leftarrow> decInt (member ''seqNo'' ms);
     x4 \<leftarrow> decBool (member ''tbc'' ms);
     Some \<lparr>nr_RequestId = x0, nr_GeneratedAt = x1, nr_ReportData = x2, nr_SeqNo = x3,
       nr_Tbc = x4\<rparr>
   })"

record Authorize201 =
  a2_IdToken :: IdToken
  a2_Certificate :: string
  a2_Iso15118CertificateHashData :: "OCSPRequestDataType list"

definition decAuthorize201 :: "Json \<Rightarrow> Authorize201 option" where
  "decAuthorize201 = decObj (\<lambda>ms. do {
     x0 \<leftarrow> decIdToken (member ''idToken'' ms);
     x1 \<leftarrow> decStr (member ''certificate'' ms);
     x2 \<leftarrow> decList decOCSPRequestDataType (member ''iso15118CertificateHashData'' ms);
     Some \<lparr>a2_IdToken = x0, a2_Certificate = x1, a2_Iso15118CertificateHashData = x2\<rparr>
   })"

record ClearedChargingLimit =
  cl_ChargingLimitSource :: string
  cl_EvseId :: "int option"

definition decClearedChargingLimit :: "Json \<Rightarrow> ClearedChargingLimit option" where
  "decClearedChargingLimit = decObj (\<lambda>ms. do {
     x0 \<leftarrow> decStr (member ''chargingLimitSource'' ms);
     x1 \<leftarrow> decPtr decInt (member ''evseId'' ms);
     Some \<lparr>cl_ChargingLimitSource = x0, cl_EvseId = x1\<rparr>
   })"

record TransactionEvent201 =
  te_EventType :: string
  te_Timestamp :: time
  te_TriggerReason :: string
  te_SeqNo :: int
  te_TransactionInfo :: Transaction201
  te_Offline :: "bool option"
  te_NumberOfPhasesUsed :: "int option"
  te_CableMaxCurrent :: "float64 option"
  te_ReservationId :: "int option"
  te_IdToken :: "IdToken option"
  te_Evse :: "EVSE option"
  te_MeterValue :: "MeterValue201 list"
  te_PreconditioningStatus :: string

definition decTransactionEvent201 :: "(string \<Rightarrow> time option) \<Rightarrow> Json \<Rightarrow> TransactionEvent201 option" where
  "decTransactionEvent201 parse = decObj (\<lambda>ms. do {
     x0 \<leftarrow> decStr (member ''eventType'' ms);
     x1 \<leftarrow> decTime parse (member ''timestamp'' ms);
     x2 \<leftarrow> decStr (member ''triggerReason'' ms);
     x3 \<leftarrow> decInt (member ''seqNo'' ms);
     x4 \<leftarrow> decTransaction201 (member ''transactionInfo'' ms);
     x5 \<leftarrow> decPtr decBool (member ''offline'' ms);
     x6 \<leftarrow> decPtr decInt (member ''numberOfPhasesUsed'' ms);
     x7 \<leftarrow> decPtr decFloat (member ''cableMaxCurrent'' ms);
     x8 \<leftarrow> decPtr decInt (member ''reservationId'' ms);
     x9 \<leftarrow> decPtr decIdToken (member ''idToken'' ms);
     x10 \<leftarrow> decPtr decEVSE (member ''evse'' ms);
     x11 \<leftarrow> decList (decMeterValue201 parse) (member ''meterValue'' ms);
     x12 \<leftarrow> decStr (member ''preconditioningStatus'' ms);
     Some \<lparr>te_EventType = x0, te_Timestamp = x1, te_TriggerReason = x2, te_SeqNo = x3,
       te_TransactionInfo = x4, te_Offline = x5, te_NumberOfPhasesUsed = x6, te_CableMaxCurrent = x7,
       te_ReservationId = x8, te_IdToken = x9, te_Evse = x10, te_MeterValue = x11,
       te_PreconditioningStatus = x12\<rparr>
   })"

record StatusNotification201 =
  n2_Timestamp :: time
  n2_ConnectorStatus :: string
  n2_EvseId :: int
  n2_ConnectorId :: int

definition decStatusNotification201 :: "(string \<Rightarrow> time option) \<Rightarrow> Json \<Rightarrow> StatusNotification201 option" where
  "decStatusNotification201 parse = decObj (\<lambda>ms. do {
     x0 \<leftarrow> decTime parse (member ''timestamp'' ms);
     x1 \<leftarrow> decStr (member ''connectorStatus'' ms);
     x2 \<leftarrow> decInt (member ''evseId'' ms);
     x3 \<leftarrow> decInt (member ''connectorId'' ms);
     Some \<lparr>n2_Timestamp = x0, n2_ConnectorStatus = x1, n2_EvseId = x2, n2_ConnectorId = x3\<rparr>
   })"

section \<open>Commands\<close>

record RequestStartTransaction =
  rs_IdToken :: IdToken
  rs_RemoteStartId :: int
  rs_EvseId :: "int option"
  rs_ChargingProfile :: "ChargingProfile201 option"
  rs_GroupIdToken :: "IdToken option"

definition decRequestStartTransaction :: "(string \<Rightarrow> time option) \<Rightarrow> Json \<Rightarrow> RequestStartTransaction option" where
  "decRequestStartTransaction parse = decObj (\<lambda>ms. do {
     x0 \<leftarrow> decIdToken (member ''idToken'' ms);
     x1 \<leftarrow> decInt (member ''remoteStartId'' ms);
     x2 \<leftarrow> decPtr decInt (member ''evseId'' ms);
     x3 \<leftarrow> decPtr (decChargingProfile201 parse) (member ''chargingProfile'' ms);
     x4 \<leftarrow> decPtr decIdToken (member ''groupIdToken'' ms);
     Some \<lparr>rs_IdToken = x0, rs_RemoteStartId = x1, rs_EvseId = x2, rs_ChargingProfile = x3,
       rs_GroupIdToken = x4\<rparr>
   })"

record RequestStopTransaction =
  rt_TransactionId :: string

definition decRequestStopTransaction :: "Json \<Rightarrow> RequestStopTransaction option" where
  "decRequestStopTransaction = decObj (\<lambda>ms. do {
     x0 \<leftarrow> decStr (member ''transactionId'' ms);
     Some \<lparr>rt_TransactionId = x0\<rparr>
   })"

record GetBaseReport =
  gb_RequestId :: int
  gb_ReportBase :: string

definition decGetBaseReport :: "Json \<Rightarrow> GetBaseReport option" where
  "decGetBaseReport = decObj (\<lambda>ms. do {
     x0 \<leftarrow> decInt (member ''requestId'' ms);
     x1 \<leftarrow> decStr (member ''reportBase'' ms);
     Some \<lparr>gb_RequestId = x0, gb_ReportBase = x1\<rparr>
   })"

record GetVariableDataType =
  gv_Component :: Component
  gv_Variable :: Variable
  gv_AttributeType :: string

definition decGetVariableDataType :: "Json \<Rightarrow> GetVariableDataType option" where
  "decGetVariableDataType = decObj (\<lambda>ms. do {
     x0 \<leftarrow> decComponent (member ''component'' ms);
     x1 \<leftarrow> decVariable (member ''variable'' ms);
     x2 \<leftarrow> decStr (member ''attributeType'' ms);
     Some \<lparr>gv_Component = x0, gv_Variable = x1, gv_AttributeType = x2\<rparr>
   })"

record SetVariableDataType =
  sx_AttributeType :: string
  sx_AttributeValue :: string
  sx_Component :: Component
  sx_Variable :: Variable

definition decSetVariableDataType :: "Json \<Rightarrow> SetVariableDataType option" where
  "decSetVariableDataType = decObj (\<lambda>ms. do {
     x0 \<leftarrow> decStr (member ''attributeType'' ms);
     x1 \<leftarrow> decStr (member ''attributeValue'' ms);
     x2 \<leftarrow> decComponent (member ''component'' ms);
     x3 \<leftarrow> decVariable (member ''variable'' ms);
     Some \<lparr>sx_AttributeType = x0, sx_AttributeValue = x1, sx_Component = x2, sx_Variable = x3\<rparr>
   })"

record Reset201 =
  r2_Type :: string
  r2_EvseId :: "int option"

definition decReset201 :: "Json \<Rightarrow> Reset201 option" where
  "decReset201 = decObj (\<lambda>ms. do {
     x0 \<leftarrow> decStr (member ''type'' ms);
     x1 \<leftarrow> decPtr decInt (member ''evseId'' ms);
     Some \<lparr>r2_Type = x0, r2_EvseId = x1\<rparr>
   })"

section \<open>Validation\<close>

definition BootNotification201_Validate :: "BootNotification201 \<Rightarrow> ValidationError201 option" where
  "BootNotification201_Validate r =
     (let station = b2_ChargingStation r
      in if cs1_VendorName station = [] \<or> length (cs1_VendorName station) > 50
         then Some (''chargingStation.vendorName'', ''required, max 50 characters'')
         else if cs1_Model station = [] \<or> length (cs1_Model station) > 20
         then Some (''chargingStation.model'', ''required, max 20 characters'')
         else if b2_Reason r = [] then Some (''reason'', ''required'')
         else None)"

definition NotifyReport_Validate :: "NotifyReport \<Rightarrow> ValidationError201 option" where
  "NotifyReport_Validate r = (if nr_SeqNo r < 0 then Some (''seqNo'', ''must be >= 0'') else None)"

definition Authorize201_Validate :: "Authorize201 \<Rightarrow> ValidationError201 option" where
  "Authorize201_Validate r =
     (case IdToken_Validate (a2_IdToken r) of
        Some err \<Rightarrow> Some err
      | None \<Rightarrow>
         if length (a2_Certificate r) > 5500 then Some (''certificate'', ''max 5500 characters'')
         else if length (a2_Iso15118CertificateHashData r) > 4
         then Some (''iso15118CertificateHashData'', ''max 4 items'')
         else None)"

definition ClearedChargingLimit_Validate :: "ClearedChargingLimit \<Rightarrow> ValidationError201 option" where
  "ClearedChargingLimit_Validate r =
     (if cl_ChargingLimitSource r = [] then Some (''chargingLimitSource'', ''required'')
      else case cl_EvseId r of
             Some evseId \<Rightarrow> if evseId < 1 then Some (''evseId'', ''must be >= 1'') else None
           | None \<Rightarrow> None)"

definition TransactionEvent201_Validate :: "TransactionEvent201 \<Rightarrow> ValidationError201 option" where
  "TransactionEvent201_Validate r =
     (if te_EventType r = [] then Some (''eventType'', ''required'')
      else if te_TriggerReason r = [] then Some (''triggerReason'', ''required'')
      else if te_SeqNo r < 0 then Some (''seqNo'', ''must be >= 0'')
      else if ti_TransactionId (te_TransactionInfo r) = []
      then Some (''transactionInfo.transactionId'', ''required'')
      else case Option.bind (te_IdToken r) IdToken_Validate of
             Some err \<Rightarrow> Some (''idToken'', ValidationError201_Error err)
           | None \<Rightarrow>
              if (case te_NumberOfPhasesUsed r of None \<Rightarrow> False | Some n \<Rightarrow> n < 1 \<or> n > 3)
              then Some (''numberOfPhasesUsed'', ''must be 1, 2, or 3'')
              else if (case te_CableMaxCurrent r of None \<Rightarrow> False | Some c \<Rightarrow> c < 0)
              then Some (''cableMaxCurrent'', ''must be >= 0'')
              else None)"

definition StatusNotification201_Validate :: "StatusNotification201 \<Rightarrow> ValidationError201 option" where
  "StatusNotification201_Validate r =
     (if n2_ConnectorStatus r = [] then Some (''connectorStatus'', ''required'')
      else if n2_EvseId r < 0 then Some (''evseId'', ''must be >= 0'')
      else if n2_ConnectorId r < 0 then Some (''connectorId'', ''must be >= 0'')
      else None)"

definition RequestStartTransaction_Validate :: "RequestStartTransaction \<Rightarrow> ValidationError201 option" where
  "RequestStartTransaction_Validate r =
     (case IdToken_Validate (rs_IdToken r) of
        Some err \<Rightarrow> Some err
      | None \<Rightarrow>
         if rs_RemoteStartId r = 0 then Some (''remoteStartId'', ''required'')
         else if (case rs_EvseId r of None \<Rightarrow> False | Some evseId \<Rightarrow> evseId < 1)
         then Some (''evseId'', ''must be >= 1'')
         else case Option.bind (rs_GroupIdToken r) IdToken_Validate of
                Some err \<Rightarrow> Some (''groupIdToken'', ValidationError201_Error err)
              | None \<Rightarrow> None)"

definition RequestStopTransaction_Validate :: "RequestStopTransaction \<Rightarrow> ValidationError201 option" where
  "RequestStopTransaction_Validate r =
     (if rt_TransactionId r = [] then Some (''transactionId'', ''required'')
      else if length (rt_TransactionId r) > 36 then Some (''transactionId'', ''max 36 characters'')
      else None)"

definition GetBaseReport_Validate :: "GetBaseReport \<Rightarrow> ValidationError201 option" where
  "GetBaseReport_Validate r = (if gb_ReportBase r = [] then Some (''reportBase'', ''required'') else None)"

text \<open>
  \<^verbatim>\<open>GetVariablesRequest\<close> and \<^verbatim>\<open>SetVariablesRequest\<close> have one field, the list of entries. The error of
  the latter names the entry by the character whose code is the index (for the first 128 entries).
\<close>

definition decGetVariables :: "Json \<Rightarrow> GetVariableDataType list option" where
  "decGetVariables = decObj (\<lambda>ms. decList decGetVariableDataType (member ''getVariableData'' ms))"

definition GetVariables_Validate :: "GetVariableDataType list \<Rightarrow> ValidationError201 option" where
  "GetVariables_Validate ds =
     (if length ds = 0 then Some (''getVariableData'', ''at least one variable required'') else None)"

definition decSetVariables :: "Json \<Rightarrow> SetVariableDataType list option" where
  "decSetVariables = decObj (\<lambda>ms. decList decSetVariableDataType (member ''setVariableData'' ms))"

fun validateSetVariables :: "nat \<Rightarrow> SetVariableDataType list \<Rightarrow> ValidationError201 option" where
  "validateSetVariables i [] = None"
| "validateSetVariables i (d # ds) =
     (if sx_AttributeValue d = []
      then Some (''setVariableData['' @ [char_of i] @ ''].attributeValue'', ''required'')
      else validateSetVariables (Suc i) ds)"

definition SetVariables_Validate :: "SetVariableDataType list \<Rightarrow> ValidationError201 option" where
  "SetVariables_Validate ds =
     (if length ds = 0 then Some (''setVariableData'', ''at least one variable required'')
      else validateSetVariables 0 ds)"

definition Reset201_Validate :: "Reset201 \<Rightarrow> ValidationError201 option" where
  "Reset201_Validate r =
     (if r2_Type r = [] then Some (''type'', ''required'')
      else if (case r2_EvseId r of None \<Rightarrow> False | Some evseId \<Rightarrow> evseId < 1)
      then Some (''evseId'', ''must be >= 1'')
      else None)"

section \<open>Responses\<close>

text \<open>
  The responses of the handlers. Those to a report, a cleared limit, a transaction event and a status are
  empty objects; an authorization answers with a status and no other member.
\<close>

datatype Response201 =
    BootNotificationResponse201 time int string
  | HeartbeatResponse201 time
  | NotifyReportResponse
  | AuthorizeResponse201 string
  | ClearedChargingLimitResponse
  | TransactionEventResponse
  | StatusNotificationResponse201

fun encResponse201 :: "(time \<Rightarrow> string) \<Rightarrow> Response201 \<Rightarrow> Json" where
  "encResponse201 format (BootNotificationResponse201 t interval st) =
     JObj [(''currentTime'', JStr (format t)), (''interval'', encInt interval), (''status'', JStr st)]"
| "encResponse201 format (HeartbeatResponse201 t) = JObj [(''currentTime'', JStr (format t))]"
| "encResponse201 format (AuthorizeResponse201 st) = JObj [(''idTokenInfo'', JObj [(''status'', JStr st)])]"
| "encResponse201 format NotifyReportResponse = JObj []"
| "encResponse201 format ClearedChargingLimitResponse = JObj []"
| "encResponse201 format TransactionEventResponse = JObj []"
| "encResponse201 format StatusNotificationResponse201 = JObj []"

section \<open>Lemmas\<close>

lemma validateSetVariables_None:
  "validateSetVariables i ds = None \<longleftrightarrow> (\<forall>d \<in> set ds. sx_AttributeValue d \<noteq> [])"
  by (induction i ds rule: validateSetVariables.induct) auto

lemma TransactionEvent201_Validate_None:
  "TransactionEvent201_Validate r = None \<Longrightarrow>
   te_EventType r \<noteq> [] \<and> ti_TransactionId (te_TransactionInfo r) \<noteq> []
   \<and> (\<forall>t. te_IdToken r = Some t \<longrightarrow> it_IdToken t \<noteq> [])"
  by (auto simp: TransactionEvent201_Validate_def IdToken_Validate_def Let_def
      split: if_splits option.splits bind_splits)

end
