(* ===== verification/Adapter.thy ===== *)
theory Adapter
  imports Protocol Messages201 "HOL-Library.Signed_Division"
begin

text \<open>
  The protocol adapter of \<^verbatim>\<open>src/server/protocol_adapter.go\<close>: conversions between the OCPP 2.0.1 messages and
  the entities of the central system. A nil pointer is \<open>None\<close>. Conversions of a float to \<open>int\<close> truncate,
  and products of meter values wrap at 64 bits.
\<close>

section \<open>Authorization\<close>

definition IdTokenTypeISO14443 :: string where "IdTokenTypeISO14443 = ''ISO14443''"

definition IdToken201ToIdTag :: "IdToken option \<Rightarrow> string" where
  "IdToken201ToIdTag token = (case token of None \<Rightarrow> [] | Some t \<Rightarrow> it_IdToken t)"

definition IdTagToIdToken201 :: "string \<Rightarrow> IdToken option" where
  "IdTagToIdToken201 idTag =
     (if idTag = [] then None
      else Some \<lparr>it_IdToken = idTag, it_Type = IdTokenTypeISO14443, it_AdditionalInfo = []\<rparr>)"

definition AuthStatusToV16Status :: "string \<Rightarrow> string" where
  "AuthStatusToV16Status status =
     (if status = ''Accepted'' then ''Accepted'' else if status = ''Blocked'' then ''Blocked''
      else if status = ''Expired'' then ''Expired'' else ''Invalid'')"

definition V16StatusToAuthStatus :: "string \<Rightarrow> string" where
  "V16StatusToAuthStatus status =
     (if status = ''Accepted'' then ''Accepted'' else if status = ''Blocked'' then ''Blocked''
      else if status = ''Expired'' then ''Expired'' else ''Invalid'')"

section \<open>Transactions\<close>

definition TransactionEventStarted :: string where "TransactionEventStarted = ''Started''"
definition TransactionEventUpdated :: string where "TransactionEventUpdated = ''Updated''"
definition TransactionEventEnded :: string where "TransactionEventEnded = ''Ended''"
definition MeasurandEnergy :: string where "MeasurandEnergy = ''Energy.Active.Import.Register''"

text \<open>The register of the last meter value: its first sample of that measurand.\<close>

definition energySample :: "SampledValue201 list \<Rightarrow> int option" where
  "energySample samples =
     map_option (\<lambda>v. int_of_float (s2_Value v))
       (find (\<lambda>v. s2_Measurand v = MeasurandEnergy \<or> s2_Measurand v = []) samples)"

definition eventMetadata :: "Transaction201 \<Rightarrow> (string, MetaValue) gomap" where
  "eventMetadata info =
     (let m = mput ''ocpp201_transaction_id'' (MetaString (ti_TransactionId info)) [];
          m = (if ti_ChargingState info \<noteq> [] then mput ''charging_state'' (MetaString (ti_ChargingState info)) m else m)
      in case ti_RemoteStartId info of None \<Rightarrow> m | Some i \<Rightarrow> mput ''remote_start_id'' (MetaInt i) m)"

definition TransactionEventToEntity ::
    "string \<Rightarrow> Transaction201 \<Rightarrow> IdToken option \<Rightarrow> EVSE option \<Rightarrow> MeterValue201 list \<Rightarrow> time \<Rightarrow> string \<Rightarrow> Transaction" where
  "TransactionEventToEntity eventType info idToken evse meterValues timestamp chargePointId =
     (let tx = zeroTransaction\<lparr>t_SessionId := ti_TransactionId info, t_ChargePointId := chargePointId,
            t_ProtocolVersion := OCPP201, t_TimeStart := timestamp, t_IsFinished := False\<rparr>;
          tx = (case idToken of None \<Rightarrow> tx | Some t \<Rightarrow> tx\<lparr>t_IdTag := it_IdToken t\<rparr>);
          tx = (case evse of None \<Rightarrow> tx
                | Some e \<Rightarrow>
                   let tx = tx\<lparr>t_EvseId := Some (evse_Id e)\<rparr>
                   in case evse_ConnectorId e of None \<Rightarrow> tx | Some c \<Rightarrow> tx\<lparr>t_ConnectorId := c\<rparr>);
          tx = (if eventType = TransactionEventEnded
                then let tx = tx\<lparr>t_IsFinished := True, t_TimeStop := timestamp\<rparr>
                     in if ti_StoppedReason info \<noteq> [] then tx\<lparr>t_Reason := ti_StoppedReason info\<rparr> else tx
                else tx);
          tx = (if meterValues = [] then tx
                else case energySample (m2_SampledValue (List.last meterValues)) of
                       None \<Rightarrow> tx
                     | Some wh \<Rightarrow>
                        if eventType = TransactionEventStarted then tx\<lparr>t_MeterStart := wh\<rparr>
                        else if eventType = TransactionEventEnded then tx\<lparr>t_MeterStop := wh\<rparr>
                        else tx)
      in tx\<lparr>t_Metadata := eventMetadata info\<rparr>)"

definition EntityToTransactionInfo :: "Transaction \<Rightarrow> Transaction201" where
  "EntityToTransactionInfo tx =
     \<lparr>ti_TransactionId = t_SessionId tx,
      ti_ChargingState = (case map_of (t_Metadata tx) ''charging_state'' of Some (MetaString s) \<Rightarrow> s | _ \<Rightarrow> []),
      ti_TimeSpentCharging = None,
      ti_StoppedReason = (if t_IsFinished tx \<and> t_Reason tx \<noteq> [] then t_Reason tx else []),
      ti_RemoteStartId = (case map_of (t_Metadata tx) ''remote_start_id'' of Some (MetaInt i) \<Rightarrow> Some i | _ \<Rightarrow> None)\<rparr>"

section \<open>Meter values\<close>

definition isVehicleSideReading201 :: "SampledValue201 \<Rightarrow> bool" where
  "isVehicleSideReading201 v \<longleftrightarrow>
     s2_Location v = [] \<or> s2_Location v = ''Outlet'' \<or> s2_Location v = ''Cable'' \<or> s2_Location v = ''EV''"

definition keepMax :: "SampledValue201 \<Rightarrow> float64 \<Rightarrow> float64" where
  "keepMax v x = (if isVehicleSideReading201 v \<and> s2_Value v > x then s2_Value v else x)"

definition readSample201 :: "SampledValue201 \<Rightarrow> TransactionMeter \<Rightarrow> TransactionMeter" where
  "readSample201 v tm =
     (let measurand = (if s2_Measurand v = [] then MeasurandEnergy else s2_Measurand v)
      in if measurand = MeasurandEnergy
         then tm\<lparr>m_Value := int_of_float (s2_Value v), m_Measurand := ''Energy.Active.Import.Register'', m_Unit := ''Wh''\<rparr>
         else if measurand = ''Power.Active.Import'' then tm\<lparr>m_PowerActive := int_of_float (s2_Value v)\<rparr>
         else if measurand = ''SoC'' then tm\<lparr>m_BatteryLevel := int_of_float (s2_Value v)\<rparr>
         else if measurand = ''Voltage'' then tm\<lparr>m_Voltage := keepMax v (m_Voltage tm)\<rparr>
         else if measurand = ''Current.Import'' then tm\<lparr>m_CurrentImport := keepMax v (m_CurrentImport tm)\<rparr>
         else if measurand = ''Current.Offered'' then tm\<lparr>m_CurrentOffered := keepMax v (m_CurrentOffered tm)\<rparr>
         else tm)"

text \<open>The multiplier of a sample scales the energy value, whatever the sample measures.\<close>

definition applyMultiplier :: "int \<Rightarrow> int \<Rightarrow> int" where
  "applyMultiplier multiplier x =
     (if multiplier = - 3 then x sdiv 1000 else if multiplier = - 2 then x sdiv 100
      else if multiplier = - 1 then x sdiv 10 else if multiplier = 1 then wrap64 (x * 10)
      else if multiplier = 2 then wrap64 (x * 100) else if multiplier = 3 then wrap64 (x * 1000) else x)"

definition scaleSample :: "SampledValue201 \<Rightarrow> TransactionMeter \<Rightarrow> TransactionMeter" where
  "scaleSample v tm =
     (case s2_UnitOfMeasure v of None \<Rightarrow> tm
      | Some u \<Rightarrow>
         (case um_Multiplier u of None \<Rightarrow> tm
          | Some multiplier \<Rightarrow> tm\<lparr>m_Value := applyMultiplier multiplier (m_Value tm)\<rparr>))"

definition MeterValue201ToTransactionMeter :: "MeterValue201 \<Rightarrow> int \<Rightarrow> TransactionMeter" where
  "MeterValue201ToTransactionMeter meterValue transactionId =
     fold (\<lambda>v tm. scaleSample v (readSample201 v tm)) (m2_SampledValue meterValue)
       (zeroMeter\<lparr>m_Id := transactionId, m_Time := m2_Timestamp meterValue\<rparr>)"

definition zeroSample :: SampledValue201 where
  "zeroSample =
     \<lparr>s2_Value = 0, s2_Context = [], s2_Measurand = [], s2_Phase = [], s2_Location = [],
      s2_SignedMeterValue = None, s2_UnitOfMeasure = None\<rparr>"

definition unitOf :: "string \<Rightarrow> UnitOfMeasure option" where
  "unitOf u = Some \<lparr>um_Unit = u, um_Multiplier = None\<rparr>"

definition TransactionMeterToMeterValue201 :: "TransactionMeter \<Rightarrow> MeterValue201" where
  "TransactionMeterToMeterValue201 tm =
     \<lparr>m2_Timestamp = m_Time tm,
      m2_SampledValue =
        (if m_Value tm > 0
         then [zeroSample\<lparr>s2_Value := of_int (m_Value tm), s2_Context := ''Sample.Periodic'',
                 s2_Measurand := MeasurandEnergy, s2_UnitOfMeasure := unitOf ''Wh''\<rparr>] else [])
        @ (if m_PowerActive tm > 0
           then [zeroSample\<lparr>s2_Value := of_int (m_PowerActive tm), s2_Measurand := ''Power.Active.Import'',
                   s2_UnitOfMeasure := unitOf ''W''\<rparr>] else [])
        @ (if m_BatteryLevel tm > 0
           then [zeroSample\<lparr>s2_Value := of_int (m_BatteryLevel tm), s2_Measurand := ''SoC'',
                   s2_UnitOfMeasure := unitOf ''Percent''\<rparr>] else [])\<rparr>"

section \<open>EVSEs and versions\<close>

definition EvseToConnectorId :: "EVSE option \<Rightarrow> int" where
  "EvseToConnectorId evse =
     (case evse of None \<Rightarrow> 0
      | Some e \<Rightarrow> (case evse_ConnectorId e of Some c \<Rightarrow> c | None \<Rightarrow> evse_Id e))"

definition ConnectorIdToEvse :: "int \<Rightarrow> int option \<Rightarrow> EVSE" where
  "ConnectorIdToEvse connectorId evseId =
     \<lparr>evse_Id = (case evseId of Some e \<Rightarrow> e | None \<Rightarrow> connectorId), evse_ConnectorId = Some connectorId\<rparr>"

definition ValidateProtocolVersion :: "string \<Rightarrow> bool" where
  "ValidateProtocolVersion version \<longleftrightarrow> version = OCPP16 \<or> version = OCPP201 \<or> version = OCPP21"

definition IsOCPP201OrHigher :: "string \<Rightarrow> bool" where
  "IsOCPP201OrHigher version \<longleftrightarrow> version = OCPP201 \<or> version = OCPP21"

definition IsOCPP16 :: "string \<Rightarrow> bool" where
  "IsOCPP16 version \<longleftrightarrow> version = OCPP16 \<or> version = []"

section \<open>Round trips\<close>

lemma idTag_roundtrip: "IdToken201ToIdTag (IdTagToIdToken201 idTag) = idTag"
  by (simp add: IdToken201ToIdTag_def IdTagToIdToken201_def)

lemma status_roundtrip: "AuthStatusToV16Status (V16StatusToAuthStatus s) = AuthStatusToV16Status s"
  by (simp add: AuthStatusToV16Status_def V16StatusToAuthStatus_def)

lemma evse_roundtrip: "EvseToConnectorId (Some (ConnectorIdToEvse c e)) = c"
  by (simp add: EvseToConnectorId_def ConnectorIdToEvse_def)

text \<open>A version is served by exactly one generation of handlers, when it is valid or empty.\<close>

lemma version_generations:
  "IsOCPP16 v \<and> IsOCPP201OrHigher v \<longleftrightarrow> False"
  "ValidateProtocolVersion v \<Longrightarrow> IsOCPP16 v \<or> IsOCPP201OrHigher v"
  by (auto simp: IsOCPP16_def IsOCPP201OrHigher_def ValidateProtocolVersion_def version_defs)

lemma metadata_lookup:
  "map_of (eventMetadata info) ''charging_state'' =
     (if ti_ChargingState info = [] then None else Some (MetaString (ti_ChargingState info)))"
  "map_of (eventMetadata info) ''remote_start_id'' = map_option MetaInt (ti_RemoteStartId info)"
  by (simp_all add: eventMetadata_def Let_def split: option.split)

lemma entity_fields:
  "t_SessionId (TransactionEventToEntity ty info tok evse mvs ts cp) = ti_TransactionId info"
  "t_Metadata (TransactionEventToEntity ty info tok evse mvs ts cp) = eventMetadata info"
  "t_Id (TransactionEventToEntity ty info tok evse mvs ts cp) = 0"
  "t_IsFinished (TransactionEventToEntity ty info tok evse mvs ts cp) \<longleftrightarrow> ty = TransactionEventEnded"
  "t_Reason (TransactionEventToEntity ty info tok evse mvs ts cp) =
     (if ty = TransactionEventEnded then ti_StoppedReason info else [])"
  by (simp_all add: TransactionEventToEntity_def Let_def zeroTransaction_def split: option.split)

lemma transactionInfo_roundtrip:
  "EntityToTransactionInfo (TransactionEventToEntity TransactionEventEnded info tok evse mvs ts cp) =
   info\<lparr>ti_TimeSpentCharging := None\<rparr>"
  by (cases info)
    (simp add: EntityToTransactionInfo_def entity_fields metadata_lookup option.case_distrib split: option.split)

lemma meter_roundtrip:
  assumes "int64 (m_Value tm)" "int64 (m_PowerActive tm)" "int64 (m_BatteryLevel tm)"
    "0 \<le> m_Value tm" "0 \<le> m_PowerActive tm" "0 \<le> m_BatteryLevel tm"
  shows "let tm' = MeterValue201ToTransactionMeter (TransactionMeterToMeterValue201 tm) (m_Id tm)
    in m_Id tm' = m_Id tm \<and> m_Time tm' = m_Time tm \<and> m_Value tm' = m_Value tm
      \<and> m_PowerActive tm' = m_PowerActive tm \<and> m_BatteryLevel tm' = m_BatteryLevel tm"
  using assms
  by (auto simp: Let_def MeterValue201ToTransactionMeter_def TransactionMeterToMeterValue201_def readSample201_def
      scaleSample_def unitOf_def zeroSample_def zeroMeter_def MeasurandEnergy_def)

text \<open>
  The multiplier of a sample that is not energy scales the energy read before it: a voltage in units of ten
  volts multiplies the energy by ten.
\<close>

lemma multiplier_scales_energy:
  assumes "m_Value tm = e" "s2_Measurand v = ''Voltage''" "s2_UnitOfMeasure v = Some \<lparr>um_Unit = ''V'', um_Multiplier = Some 1\<rparr>"
  shows "m_Value (scaleSample v (readSample201 v tm)) = wrap64 (e * 10)"
  using assms by (simp add: scaleSample_def readSample201_def applyMultiplier_def MeasurandEnergy_def Let_def)

end
