(* ===== verification/Codec16.thy ===== *)
theory Codec16
  imports Handlers Protocol Json
begin

text \<open>
  The JSON form of the OCPP 1.6 messages: decoders for the requests of a charge point (the struct tags of
  \<^verbatim>\<open>src/ocpp/v16\<close> and \<^verbatim>\<open>src/types/types.go\<close>), encoders for the requests and responses the central
  system sends, and decoders for those of its requests that are registered features, which a charge point
  could send back. \<open>parse\<close> and \<open>format\<close> are the library's conversions between RFC 3339 text and time.
\<close>

section \<open>Requests of a charge point\<close>

definition decSampledValue :: "Json \<Rightarrow> SampledValue option" where
  "decSampledValue = decObj (\<lambda>ms. do {
     x0 \<leftarrow> decStr (member ''value'' ms);
     x1 \<leftarrow> decStr (member ''context'' ms);
     x2 \<leftarrow> decStr (member ''format'' ms);
     x3 \<leftarrow> decStr (member ''measurand'' ms);
     x4 \<leftarrow> decStr (member ''phase'' ms);
     x5 \<leftarrow> decStr (member ''location'' ms);
     x6 \<leftarrow> decStr (member ''unit'' ms);
     Some \<lparr>sv_Value = x0, sv_Context = x1, sv_Format = x2, sv_Measurand = x3, sv_Phase = x4,
       sv_Location = x5, sv_Unit = x6\<rparr>
   })"

definition decMeterValue :: "(string \<Rightarrow> time option) \<Rightarrow> Json \<Rightarrow> MeterValue option" where
  "decMeterValue parse = decObj (\<lambda>ms. do {
     x0 \<leftarrow> decPtr (decTime parse) (member ''timestamp'' ms);
     x1 \<leftarrow> decList decSampledValue (member ''sampledValue'' ms);
     Some \<lparr>mv_Timestamp = x0, mv_SampledValue = x1\<rparr>
   })"

definition decBootNotificationRequest :: "Json \<Rightarrow> BootNotificationRequest option" where
  "decBootNotificationRequest = decObj (\<lambda>ms. do {
     x0 \<leftarrow> decStr (member ''chargePointVendor'' ms);
     x1 \<leftarrow> decStr (member ''chargePointModel'' ms);
     x2 \<leftarrow> decStr (member ''chargePointSerialNumber'' ms);
     x3 \<leftarrow> decStr (member ''chargeBoxSerialNumber'' ms);
     x4 \<leftarrow> decStr (member ''firmwareVersion'' ms);
     x5 \<leftarrow> decStr (member ''iccid'' ms);
     x6 \<leftarrow> decStr (member ''imsi'' ms);
     x7 \<leftarrow> decStr (member ''meterType'' ms);
     x8 \<leftarrow> decStr (member ''meterSerialNumber'' ms);
     Some \<lparr>bn_ChargePointVendor = x0, bn_ChargePointModel = x1, bn_ChargePointSerialNumber = x2,
       bn_ChargeBoxSerialNumber = x3, bn_FirmwareVersion = x4, bn_Iccid = x5, bn_Imsi = x6,
       bn_MeterType = x7, bn_MeterSerialNumber = x8\<rparr>
   })"

definition decStartTransactionRequest :: "(string \<Rightarrow> time option) \<Rightarrow> Json \<Rightarrow> StartTransactionRequest option" where
  "decStartTransactionRequest parse = decObj (\<lambda>ms. do {
     x0 \<leftarrow> decInt (member ''connectorId'' ms);
     x1 \<leftarrow> decStr (member ''idTag'' ms);
     x2 \<leftarrow> decInt (member ''meterStart'' ms);
     x3 \<leftarrow> decPtr decInt (member ''reservationId'' ms);
     x4 \<leftarrow> decPtr (decTime parse) (member ''timestamp'' ms);
     Some \<lparr>sr_ConnectorId = x0, sr_IdTag = x1, sr_MeterStart = x2, sr_ReservationId = x3,
       sr_Timestamp = x4\<rparr>
   })"

definition decStopTransactionRequest :: "(string \<Rightarrow> time option) \<Rightarrow> Json \<Rightarrow> StopTransactionRequest option" where
  "decStopTransactionRequest parse = decObj (\<lambda>ms. do {
     x0 \<leftarrow> decStr (member ''idTag'' ms);
     x1 \<leftarrow> decInt (member ''meterStop'' ms);
     x2 \<leftarrow> decPtr (decTime parse) (member ''timestamp'' ms);
     x3 \<leftarrow> decInt (member ''transactionId'' ms);
     x4 \<leftarrow> decStr (member ''reason'' ms);
     x5 \<leftarrow> decList (decMeterValue parse) (member ''transactionData'' ms);
     Some \<lparr>st_IdTag = x0, st_MeterStop = x1, st_Timestamp = x2, st_TransactionId = x3, st_Reason = x4,
       st_TransactionData = x5\<rparr>
   })"

definition decMeterValuesRequest :: "(string \<Rightarrow> time option) \<Rightarrow> Json \<Rightarrow> MeterValuesRequest option" where
  "decMeterValuesRequest parse = decObj (\<lambda>ms. do {
     x0 \<leftarrow> decInt (member ''connectorId'' ms);
     x1 \<leftarrow> decPtr decInt (member ''transactionId'' ms);
     x2 \<leftarrow> decList (decMeterValue parse) (member ''meterValue'' ms);
     Some \<lparr>mr_ConnectorId = x0, mr_TransactionId = x1, mr_MeterValue = x2\<rparr>
   })"

definition decStatusNotificationRequest :: "(string \<Rightarrow> time option) \<Rightarrow> Json \<Rightarrow> StatusNotificationRequest option" where
  "decStatusNotificationRequest parse = decObj (\<lambda>ms. do {
     x0 \<leftarrow> decInt (member ''connectorId'' ms);
     x1 \<leftarrow> decStr (member ''errorCode'' ms);
     x2 \<leftarrow> decStr (member ''info'' ms);
     x3 \<leftarrow> decStr (member ''status'' ms);
     x4 \<leftarrow> decPtr (decTime parse) (member ''timestamp'' ms);
     x5 \<leftarrow> decStr (member ''vendorId'' ms);
     x6 \<leftarrow> decStr (member ''vendorErrorCode'' ms);
     Some \<lparr>sn_ConnectorId = x0, sn_ErrorCode = x1, sn_Info = x2, sn_Status = x3, sn_Timestamp = x4,
       sn_VendorId = x5, sn_VendorErrorCode = x6\<rparr>
   })"

definition decDataTransferRequest :: "Json \<Rightarrow> DataTransferRequest option" where
  "decDataTransferRequest = decObj (\<lambda>ms. do {
     x0 \<leftarrow> decStr (member ''vendorId'' ms);
     x1 \<leftarrow> decStr (member ''messageId'' ms);
     Some \<lparr>dt_VendorId = x0, dt_MessageId = x1\<rparr>
   })"


text \<open>Requests with one field, and the empty heartbeat.\<close>

definition decField :: "string \<Rightarrow> Json \<Rightarrow> string option" where
  "decField name = decObj (\<lambda>ms. decStr (member name ms))"

definition decHeartbeat :: "Json \<Rightarrow> unit option" where
  "decHeartbeat = decObj (\<lambda>ms. Some ())"

section \<open>Commands\<close>

text \<open>
  The commands that are registered features, as structs: a status of a local list entry may be any string, and
  the profile of a remote start is only checked.
\<close>

record IdTagInfo =
  ii_ExpiryDate :: "time option"
  ii_ParentIdTag :: string
  ii_Status :: string

definition decIdTagInfo :: "(string \<Rightarrow> time option) \<Rightarrow> Json \<Rightarrow> IdTagInfo option" where
  "decIdTagInfo parse = decObj (\<lambda>ms. do {
     x0 \<leftarrow> decPtr (decTime parse) (member ''expiryDate'' ms);
     x1 \<leftarrow> decStr (member ''parentIdTag'' ms);
     x2 \<leftarrow> decStr (member ''status'' ms);
     Some \<lparr>ii_ExpiryDate = x0, ii_ParentIdTag = x1, ii_Status = x2\<rparr>
   })"

record AuthorizationData =
  ad_IdTag :: string
  ad_IdTagInfo :: "IdTagInfo option"

definition decAuthorizationData :: "(string \<Rightarrow> time option) \<Rightarrow> Json \<Rightarrow> AuthorizationData option" where
  "decAuthorizationData parse = decObj (\<lambda>ms. do {
     x0 \<leftarrow> decStr (member ''idTag'' ms);
     x1 \<leftarrow> decPtr (decIdTagInfo parse) (member ''idTagInfo'' ms);
     Some \<lparr>ad_IdTag = x0, ad_IdTagInfo = x1\<rparr>
   })"

datatype Command16 =
    TriggerMessageCommand string "int option"
  | ChangeConfigurationCommand string string
  | GetConfigurationCommand "string list"
  | SendLocalListCommand int "AuthorizationData list" string
  | RemoteStartCommand "int option" string
  | RemoteStopCommand int

definition decTriggerMessage :: "Json \<Rightarrow> Command16 option" where
  "decTriggerMessage = decObj (\<lambda>ms. do {
     x0 \<leftarrow> decStr (member ''requestedMessage'' ms);
     x1 \<leftarrow> decPtr decInt (member ''connectorId'' ms);
     Some (TriggerMessageCommand x0 x1)
   })"

definition decChangeConfiguration :: "Json \<Rightarrow> Command16 option" where
  "decChangeConfiguration = decObj (\<lambda>ms. do {
     x0 \<leftarrow> decStr (member ''key'' ms);
     x1 \<leftarrow> decStr (member ''value'' ms);
     Some (ChangeConfigurationCommand x0 x1)
   })"

definition decGetConfiguration :: "Json \<Rightarrow> Command16 option" where
  "decGetConfiguration = decObj (\<lambda>ms. do {
     x0 \<leftarrow> decList decStr (member ''key'' ms);
     Some (GetConfigurationCommand x0)
   })"

definition decSendLocalList :: "(string \<Rightarrow> time option) \<Rightarrow> Json \<Rightarrow> Command16 option" where
  "decSendLocalList parse = decObj (\<lambda>ms. do {
     x0 \<leftarrow> decInt (member ''listVersion'' ms);
     x1 \<leftarrow> decList (decAuthorizationData parse) (member ''localAuthorizationList'' ms);
     x2 \<leftarrow> decStr (member ''updateType'' ms);
     Some (SendLocalListCommand x0 x1 x2)
   })"

definition checkSchedulePeriod :: "Json \<Rightarrow> unit option" where
  "checkSchedulePeriod = decObj (\<lambda>ms. do {
     decInt (member ''startPeriod'' ms);
     decFloat (member ''limit'' ms);
     decPtr decInt (member ''numberPhases'' ms);
     Some ()
   })"

definition checkSchedule :: "(string \<Rightarrow> time option) \<Rightarrow> Json \<Rightarrow> unit option" where
  "checkSchedule parse = decObj (\<lambda>ms. do {
     decPtr decInt (member ''duration'' ms);
     decPtr (decTime parse) (member ''startSchedule'' ms);
     decStr (member ''chargingRateUnit'' ms);
     decList checkSchedulePeriod (member ''chargingSchedulePeriod'' ms);
     decPtr decFloat (member ''minChargingRate'' ms);
     Some ()
   })"

definition checkProfile :: "(string \<Rightarrow> time option) \<Rightarrow> Json \<Rightarrow> unit option" where
  "checkProfile parse = decObj (\<lambda>ms. do {
     decInt (member ''chargingProfileId'' ms);
     decInt (member ''transactionId'' ms);
     decInt (member ''stackLevel'' ms);
     decStr (member ''chargingProfilePurpose'' ms);
     decStr (member ''chargingProfileKind'' ms);
     decStr (member ''recurrencyKind'' ms);
     decPtr (decTime parse) (member ''validFrom'' ms);
     decPtr (decTime parse) (member ''validTo'' ms);
     decPtr (checkSchedule parse) (member ''chargingSchedule'' ms);
     Some ()
   })"

definition decRemoteStart :: "(string \<Rightarrow> time option) \<Rightarrow> Json \<Rightarrow> Command16 option" where
  "decRemoteStart parse = decObj (\<lambda>ms. do {
     x0 \<leftarrow> decPtr decInt (member ''connectorId'' ms);
     x1 \<leftarrow> decStr (member ''idTag'' ms);
     decPtr (checkProfile parse) (member ''chargingProfile'' ms);
     Some (RemoteStartCommand x0 x1)
   })"

definition decRemoteStop :: "Json \<Rightarrow> Command16 option" where
  "decRemoteStop = decObj (\<lambda>ms. do {
     x0 \<leftarrow> decInt (member ''transactionId'' ms);
     Some (RemoteStopCommand x0)
   })"

section \<open>Encoding of the requests of the central system\<close>

definition encIdTagInfo :: "AuthorizationStatus \<Rightarrow> Json" where
  "encIdTagInfo st = JObj [(''status'', JStr (authStatusText st))]"

definition encPeriod :: "ChargingSchedulePeriod \<Rightarrow> Json" where
  "encPeriod p =
     JObj ([(''startPeriod'', encInt (csp_StartPeriod p)), (''limit'', JNum (csp_Limit p))]
       @ omitPtr encInt ''numberPhases'' (csp_NumberPhases p))"

definition encSchedule :: "(time \<Rightarrow> string) \<Rightarrow> ChargingSchedule \<Rightarrow> Json" where
  "encSchedule format c =
     JObj (omitPtr encInt ''duration'' (cs_Duration c)
       @ omitPtr (\<lambda>t. JStr (format t)) ''startSchedule'' (cs_StartSchedule c)
       @ [(''chargingRateUnit'', JStr (cs_ChargingRateUnit c)),
          (''chargingSchedulePeriod'', JArr (map encPeriod (cs_ChargingSchedulePeriod c)))])"

definition encProfile :: "(time \<Rightarrow> string) \<Rightarrow> ChargingProfile \<Rightarrow> Json" where
  "encProfile format p =
     JObj ([(''chargingProfileId'', encInt (pr_ChargingProfileId p))]
       @ omit (pr_TransactionId p = 0) ''transactionId'' (encInt (pr_TransactionId p))
       @ [(''stackLevel'', encInt (pr_StackLevel p)),
          (''chargingProfilePurpose'', JStr (pr_ChargingProfilePurpose p)),
          (''chargingProfileKind'', JStr (pr_ChargingProfileKind p))]
       @ omit (pr_RecurrencyKind p = []) ''recurrencyKind'' (JStr (pr_RecurrencyKind p))
       @ [(''chargingSchedule'', encSchedule format (pr_ChargingSchedule p))])"

fun encRequest :: "(time \<Rightarrow> string) \<Rightarrow> Request \<Rightarrow> Json" where
  "encRequest format (TriggerMessageRequest message connectorId) =
     JObj ([(''requestedMessage'', JStr message)] @ omitPtr encInt ''connectorId'' connectorId)"
| "encRequest format (ChangeConfigurationRequest k v) = JObj [(''key'', JStr k), (''value'', JStr v)]"
| "encRequest format (GetConfigurationRequest ks) = JObj (omit (ks = []) ''key'' (JArr (map JStr ks)))"
| "encRequest format (SendLocalListRequest version entries updateType) =
     JObj ([(''listVersion'', encInt version)]
       @ omit (entries = []) ''localAuthorizationList''
           (JArr (map (\<lambda>(idTag, st). JObj [(''idTag'', JStr idTag), (''idTagInfo'', encIdTagInfo st)]) entries))
       @ [(''updateType'', JStr updateType)])"
| "encRequest format (RemoteStartTransactionRequest connectorId idTag) =
     JObj (omitPtr encInt ''connectorId'' connectorId @ [(''idTag'', JStr idTag)])"
| "encRequest format (RemoteStopTransactionRequest transactionId) = JObj [(''transactionId'', encInt transactionId)]"
| "encRequest format (SetChargingProfileRequest connectorId profile) =
     JObj [(''connectorId'', encInt connectorId), (''csChargingProfiles'', encProfile format profile)]"
| "encRequest format (GetCompositeScheduleRequest connectorId duration rateUnit) =
     JObj ([(''connectorId'', encInt connectorId), (''duration'', encInt duration)]
       @ omit (rateUnit = []) ''chargingRateUnit'' (JStr rateUnit))"
| "encRequest format (ClearChargingProfileRequest profileId connectorId purpose stackLevel) =
     JObj (omitPtr encInt ''id'' profileId @ omitPtr encInt ''connectorId'' connectorId
       @ omit (purpose = []) ''chargingProfilePurpose'' (JStr purpose) @ omitPtr encInt ''stackLevel'' stackLevel)"
| "encRequest format (GetDiagnosticsRequest location) = JObj [(''location'', JStr location)]"
| "encRequest format (ResetRequest resetType) = JObj [(''type'', JStr resetType)]"

section \<open>Responses\<close>

datatype Response16 =
    BootNotificationResponse time int bool
  | AuthorizeResponse AuthorizationStatus
  | HeartbeatResponse time
  | StartTransactionResponse AuthorizationStatus int
  | StopTransactionResponse
  | MeterValuesResponse
  | StatusNotificationResponse
  | DataTransferResponse string
  | DiagnosticsStatusNotificationResponse
  | FirmwareStatusNotificationResponse

fun encResponse16 :: "(time \<Rightarrow> string) \<Rightarrow> Response16 \<Rightarrow> Json" where
  "encResponse16 format (BootNotificationResponse t interval accepted) =
     JObj [(''currentTime'', JStr (format t)), (''interval'', encInt interval),
       (''status'', JStr (if accepted then ''Accepted'' else ''Rejected''))]"
| "encResponse16 format (AuthorizeResponse st) = JObj [(''idTagInfo'', encIdTagInfo st)]"
| "encResponse16 format (HeartbeatResponse t) = JObj [(''currentTime'', JStr (format t))]"
| "encResponse16 format (StartTransactionResponse st transactionId) =
     JObj [(''idTagInfo'', encIdTagInfo st), (''transactionId'', encInt transactionId)]"
| "encResponse16 format (DataTransferResponse st) = JObj [(''status'', JStr st)]"
| "encResponse16 format StopTransactionResponse = JObj []"
| "encResponse16 format MeterValuesResponse = JObj []"
| "encResponse16 format StatusNotificationResponse = JObj []"
| "encResponse16 format DiagnosticsStatusNotificationResponse = JObj []"
| "encResponse16 format FirmwareStatusNotificationResponse = JObj []"

end
