(* ===== verification/Messages.thy ===== *)
theory Messages
  imports Codec16 Messages201
begin

text \<open>
  The message layer of \<^verbatim>\<open>src/server/message.go\<close>: the OCPP-J frames, their classification, the parsing of
  requests by the legacy switch and by the feature registry, and the frames the server sends. A payload is a
  value of the struct its action names; \<^verbatim>\<open>reflect.New\<close> of a registered type is \<open>decodePayload\<close> at the
  type's name. \<open>None\<close> of \<open>ParseRequest\<close> is the panic of a failed type assertion.
\<close>

section \<open>Payloads\<close>

datatype Payload =
    BootPayload BootNotificationRequest
  | AuthorizePayload string
  | HeartbeatPayload
  | StartPayload StartTransactionRequest
  | StopPayload StopTransactionRequest
  | MeterPayload MeterValuesRequest
  | StatusPayload StatusNotificationRequest
  | DataTransferPayload DataTransferRequest
  | DiagnosticsPayload string
  | FirmwarePayload string
  | CommandPayload Command16
  | Boot201Payload BootNotification201
  | Heartbeat201Payload
  | NotifyReportPayload NotifyReport
  | GetBaseReportPayload GetBaseReport
  | GetVariablesPayload "GetVariableDataType list"
  | SetVariablesPayload "SetVariableDataType list"
  | Reset201Payload Reset201
  | Authorize201Payload Authorize201
  | ClearedChargingLimitPayload ClearedChargingLimit
  | RequestStartPayload RequestStartTransaction
  | RequestStopPayload RequestStopTransaction
  | TransactionEventPayload TransactionEvent201
  | Status201Payload StatusNotification201

fun Command16_GetFeatureName :: "Command16 \<Rightarrow> string" where
  "Command16_GetFeatureName (TriggerMessageCommand _ _) = ''TriggerMessage''"
| "Command16_GetFeatureName (ChangeConfigurationCommand _ _) = ''ChangeConfiguration''"
| "Command16_GetFeatureName (GetConfigurationCommand _) = ''GetConfiguration''"
| "Command16_GetFeatureName (SendLocalListCommand _ _ _) = ''SendLocalList''"
| "Command16_GetFeatureName (RemoteStartCommand _ _) = ''RemoteStartTransaction''"
| "Command16_GetFeatureName (RemoteStopCommand _) = ''RemoteStopTransaction''"

fun Payload_GetFeatureName :: "Payload \<Rightarrow> string" where
  "Payload_GetFeatureName (BootPayload _) = ''BootNotification''"
| "Payload_GetFeatureName (AuthorizePayload _) = ''Authorize''"
| "Payload_GetFeatureName HeartbeatPayload = ''Heartbeat''"
| "Payload_GetFeatureName (StartPayload _) = ''StartTransaction''"
| "Payload_GetFeatureName (StopPayload _) = ''StopTransaction''"
| "Payload_GetFeatureName (MeterPayload _) = ''MeterValues''"
| "Payload_GetFeatureName (StatusPayload _) = ''StatusNotification''"
| "Payload_GetFeatureName (DataTransferPayload _) = ''DataTransfer''"
| "Payload_GetFeatureName (DiagnosticsPayload _) = ''DiagnosticsStatusNotification''"
| "Payload_GetFeatureName (FirmwarePayload _) = ''FirmwareStatusNotification''"
| "Payload_GetFeatureName (CommandPayload c) = Command16_GetFeatureName c"
| "Payload_GetFeatureName (Boot201Payload _) = ''BootNotification''"
| "Payload_GetFeatureName Heartbeat201Payload = ''Heartbeat''"
| "Payload_GetFeatureName (NotifyReportPayload _) = ''NotifyReport''"
| "Payload_GetFeatureName (GetBaseReportPayload _) = ''GetBaseReport''"
| "Payload_GetFeatureName (GetVariablesPayload _) = ''GetVariables''"
| "Payload_GetFeatureName (SetVariablesPayload _) = ''SetVariables''"
| "Payload_GetFeatureName (Reset201Payload _) = ''Reset''"
| "Payload_GetFeatureName (Authorize201Payload _) = ''Authorize''"
| "Payload_GetFeatureName (ClearedChargingLimitPayload _) = ''ClearedChargingLimit''"
| "Payload_GetFeatureName (RequestStartPayload _) = ''RequestStartTransaction''"
| "Payload_GetFeatureName (RequestStopPayload _) = ''RequestStopTransaction''"
| "Payload_GetFeatureName (TransactionEventPayload _) = ''TransactionEvent''"
| "Payload_GetFeatureName (Status201Payload _) = ''StatusNotification''"

text \<open>The struct of a type name, as a table from the names the handlers register.\<close>

definition decoders16 :: "(string \<Rightarrow> time option) \<Rightarrow> (reflectType \<times> (Json \<Rightarrow> Payload option)) list" where
  "decoders16 parse =
     [(''core.BootNotificationRequest'', \<lambda>j. map_option BootPayload (decBootNotificationRequest j)),
      (''core.AuthorizeRequest'', \<lambda>j. map_option AuthorizePayload (decField ''idTag'' j)),
      (''core.HeartbeatRequest'', \<lambda>j. map_option (\<lambda>_. HeartbeatPayload) (decHeartbeat j)),
      (''core.StartTransactionRequest'', \<lambda>j. map_option StartPayload (decStartTransactionRequest parse j)),
      (''core.StopTransactionRequest'', \<lambda>j. map_option StopPayload (decStopTransactionRequest parse j)),
      (''core.MeterValuesRequest'', \<lambda>j. map_option MeterPayload (decMeterValuesRequest parse j)),
      (''core.StatusNotificationRequest'', \<lambda>j. map_option StatusPayload (decStatusNotificationRequest parse j)),
      (''core.DataTransferRequest'', \<lambda>j. map_option DataTransferPayload (decDataTransferRequest j)),
      (''core.RemoteStartTransactionRequest'', \<lambda>j. map_option CommandPayload (decRemoteStart parse j)),
      (''core.RemoteStopTransactionRequest'', \<lambda>j. map_option CommandPayload (decRemoteStop j)),
      (''core.GetConfigurationRequest'', \<lambda>j. map_option CommandPayload (decGetConfiguration j)),
      (''core.ChangeConfigurationRequest'', \<lambda>j. map_option CommandPayload (decChangeConfiguration j)),
      (''firmware.DiagnosticsStatusNotificationRequest'', \<lambda>j. map_option DiagnosticsPayload (decField ''status'' j)),
      (''firmware.StatusNotificationRequest'', \<lambda>j. map_option FirmwarePayload (decField ''status'' j)),
      (''localauth.SendLocalListRequest'', \<lambda>j. map_option CommandPayload (decSendLocalList parse j)),
      (''remotetrigger.TriggerMessageRequest'', \<lambda>j. map_option CommandPayload (decTriggerMessage j))]"

definition decoders201 :: "(string \<Rightarrow> time option) \<Rightarrow> (reflectType \<times> (Json \<Rightarrow> Payload option)) list" where
  "decoders201 parse =
     [(''provisioning.BootNotificationRequest'', \<lambda>j. map_option Boot201Payload (decBootNotification201 j)),
      (''provisioning.HeartbeatRequest'', \<lambda>j. map_option (\<lambda>_. Heartbeat201Payload) (decHeartbeat j)),
      (''provisioning.NotifyReportRequest'', \<lambda>j. map_option NotifyReportPayload (decNotifyReport parse j)),
      (''provisioning.GetBaseReportRequest'', \<lambda>j. map_option GetBaseReportPayload (decGetBaseReport j)),
      (''provisioning.GetVariablesRequest'', \<lambda>j. map_option GetVariablesPayload (decGetVariables j)),
      (''provisioning.SetVariablesRequest'', \<lambda>j. map_option SetVariablesPayload (decSetVariables j)),
      (''provisioning.ResetRequest'', \<lambda>j. map_option Reset201Payload (decReset201 j)),
      (''authorization.AuthorizeRequest'', \<lambda>j. map_option Authorize201Payload (decAuthorize201 j)),
      (''authorization.ClearedChargingLimitRequest'',
         \<lambda>j. map_option ClearedChargingLimitPayload (decClearedChargingLimit j)),
      (''remotecontrol.RequestStartTransactionRequest'',
         \<lambda>j. map_option RequestStartPayload (decRequestStartTransaction parse j)),
      (''remotecontrol.RequestStopTransactionRequest'',
         \<lambda>j. map_option RequestStopPayload (decRequestStopTransaction j)),
      (''transactions.TransactionEventRequest'',
         \<lambda>j. map_option TransactionEventPayload (decTransactionEvent201 parse j)),
      (''availability.StatusNotificationRequest'',
         \<lambda>j. map_option Status201Payload (decStatusNotification201 parse j))]"

definition decodePayload :: "(string \<Rightarrow> time option) \<Rightarrow> reflectType \<Rightarrow> Json \<Rightarrow> Payload option" where
  "decodePayload parse requestType j =
     (case map_of (decoders16 parse @ decoders201 parse) requestType of None \<Rightarrow> None | Some d \<Rightarrow> d j)"

text \<open>The \<^verbatim>\<open>Validate\<close> method of a payload; the commands of 1.6 and the heartbeat have none.\<close>

datatype AnyValidationError = Error16 ValidationError | Error201 ValidationError201

fun Payload_Validate :: "Payload \<Rightarrow> AnyValidationError option" where
  "Payload_Validate (BootPayload r) = map_option Error16 (BootNotificationRequest_Validate r)"
| "Payload_Validate (AuthorizePayload idTag) = map_option Error16 (AuthorizeRequest_Validate idTag)"
| "Payload_Validate HeartbeatPayload = None"
| "Payload_Validate (StartPayload r) = map_option Error16 (StartTransactionRequest_Validate r)"
| "Payload_Validate (StopPayload r) = map_option Error16 (StopTransactionRequest_Validate r)"
| "Payload_Validate (MeterPayload r) = map_option Error16 (MeterValuesRequest_Validate r)"
| "Payload_Validate (StatusPayload r) = map_option Error16 (StatusNotificationRequest_Validate r)"
| "Payload_Validate (DataTransferPayload r) = map_option Error16 (DataTransferRequest_Validate r)"
| "Payload_Validate (DiagnosticsPayload s) = map_option Error16 (DiagnosticsStatusNotificationRequest_Validate s)"
| "Payload_Validate (FirmwarePayload s) = map_option Error16 (FirmwareStatusNotificationRequest_Validate s)"
| "Payload_Validate (CommandPayload _) = None"
| "Payload_Validate (Boot201Payload r) = map_option Error201 (BootNotification201_Validate r)"
| "Payload_Validate Heartbeat201Payload = None"
| "Payload_Validate (NotifyReportPayload r) = map_option Error201 (NotifyReport_Validate r)"
| "Payload_Validate (GetBaseReportPayload r) = map_option Error201 (GetBaseReport_Validate r)"
| "Payload_Validate (GetVariablesPayload ds) = map_option Error201 (GetVariables_Validate ds)"
| "Payload_Validate (SetVariablesPayload ds) = map_option Error201 (SetVariables_Validate ds)"
| "Payload_Validate (Reset201Payload r) = map_option Error201 (Reset201_Validate r)"
| "Payload_Validate (Authorize201Payload r) = map_option Error201 (Authorize201_Validate r)"
| "Payload_Validate (ClearedChargingLimitPayload r) = map_option Error201 (ClearedChargingLimit_Validate r)"
| "Payload_Validate (RequestStartPayload r) = map_option Error201 (RequestStartTransaction_Validate r)"
| "Payload_Validate (RequestStopPayload r) = map_option Error201 (RequestStopTransaction_Validate r)"
| "Payload_Validate (TransactionEventPayload r) = map_option Error201 (TransactionEvent201_Validate r)"
| "Payload_Validate (Status201Payload r) = map_option Error201 (StatusNotification201_Validate r)"

section \<open>Frames\<close>

type_synonym CallType = int

abbreviation CallTypeRequest :: CallType where "CallTypeRequest \<equiv> 2"
abbreviation CallTypeResult :: CallType where "CallTypeResult \<equiv> 3"
abbreviation CallTypeError :: CallType where "CallTypeError \<equiv> 4"

record 'p CallRequest =
  cr_TypeId :: CallType
  cr_UniqueId :: string
  cr_feature :: string
  cr_Payload :: 'p

record 'p CallResult =
  cres_TypeId :: CallType
  cres_UniqueId :: string
  cres_Payload :: 'p

datatype ParseError =
    NoElements | InvalidMessageType | UnsupportedMessageType int | NotOfType int | WrongLength
  | InvalidUniqueId | InvalidAction | UnsupportedAction string | NotRegistered RegistryError
  | Undecodable | ValidationFailed AnyValidationError

definition MessageType :: "Json list \<Rightarrow> ParseError + CallType" where
  "MessageType data =
     (case data of
        [] \<Rightarrow> Inl NoElements
      | JNum rawTypeId # _ \<Rightarrow>
          let typeId = int_of_float rawTypeId
          in if typeId \<noteq> CallTypeRequest \<and> typeId \<noteq> CallTypeResult \<and> typeId \<noteq> CallTypeError
             then Inl (UnsupportedMessageType typeId) else Inr typeId
      | _ \<Rightarrow> Inl InvalidMessageType)"

definition getMessageType :: "string \<Rightarrow> ParseError + reflectType" where
  "getMessageType action =
     (if action = ''BootNotification'' then Inr ''core.BootNotificationRequest''
      else if action = ''Authorize'' then Inr ''core.AuthorizeRequest''
      else if action = ''Heartbeat'' then Inr ''core.HeartbeatRequest''
      else if action = ''StartTransaction'' then Inr ''core.StartTransactionRequest''
      else if action = ''StopTransaction'' then Inr ''core.StopTransactionRequest''
      else if action = ''MeterValues'' then Inr ''core.MeterValuesRequest''
      else if action = ''StatusNotification'' then Inr ''core.StatusNotificationRequest''
      else if action = ''DataTransfer'' then Inr ''core.DataTransferRequest''
      else if action = ''DiagnosticsStatusNotification'' then Inr ''firmware.DiagnosticsStatusNotificationRequest''
      else if action = ''FirmwareStatusNotification'' then Inr ''firmware.StatusNotificationRequest''
      else Inl (UnsupportedAction action))"

definition ParseRawJsonRequest :: "(string \<Rightarrow> time option) \<Rightarrow> Json \<Rightarrow> reflectType \<Rightarrow> ParseError + Payload" where
  "ParseRawJsonRequest parse raw requestType =
     (let raw = (if raw = JNull then JObj [] else raw)
      in case decodePayload parse requestType raw of
           None \<Rightarrow> Inl Undecodable
         | Some result \<Rightarrow>
            (case Payload_Validate result of
               Some err \<Rightarrow> Inl (ValidationFailed err)
             | None \<Rightarrow> Inr result))"

definition ParseRequest :: "(string \<Rightarrow> time option) \<Rightarrow> Json list \<Rightarrow> (ParseError + Payload CallRequest) go" where
  "ParseRequest parse data =
     (case MessageType data of
        Inl err \<Rightarrow> Some (Inl err)
      | Inr typeId \<Rightarrow>
         if typeId \<noteq> CallTypeRequest then Some (Inl (NotOfType typeId))
         else if length data \<noteq> 4 then Some (Inl WrongLength)
         else case data ! 1 of
                JStr uniqueId \<Rightarrow>
                  (case data ! 2 of
                     JStr action \<Rightarrow>
                       Some (case getMessageType action of
                               Inl err \<Rightarrow> Inl err
                             | Inr requestType \<Rightarrow>
                                (case ParseRawJsonRequest parse (data ! 3) requestType of
                                   Inl err \<Rightarrow> Inl err
                                 | Inr request \<Rightarrow>
                                    Inr \<lparr>cr_TypeId = typeId, cr_UniqueId = uniqueId, cr_feature = action,
                                      cr_Payload = request\<rparr>))
                   | _ \<Rightarrow> None)
              | _ \<Rightarrow> Some (Inl InvalidUniqueId))"

definition ParseRequestVersionAware ::
    "(string \<Rightarrow> time option) \<Rightarrow> Json list \<Rightarrow> ProtocolVersion \<Rightarrow> featureRegistry \<Rightarrow> ParseError + Payload CallRequest" where
  "ParseRequestVersionAware parse data protocol registry =
     (case MessageType data of
        Inl err \<Rightarrow> Inl err
      | Inr typeId \<Rightarrow>
         if typeId \<noteq> CallTypeRequest then Inl (NotOfType typeId)
         else if length data \<noteq> 4 then Inl WrongLength
         else case data ! 1 of
                JStr uniqueId \<Rightarrow>
                  (case data ! 2 of
                     JStr action \<Rightarrow>
                       (case GetTypes protocol action registry of
                          Inl err \<Rightarrow> Inl (NotRegistered err)
                        | Inr types \<Rightarrow>
                           (case ParseRawJsonRequest parse (data ! 3) (ft_requestType types) of
                              Inl err \<Rightarrow> Inl err
                            | Inr request \<Rightarrow>
                               Inr \<lparr>cr_TypeId = typeId, cr_UniqueId = uniqueId, cr_feature = action,
                                 cr_Payload = request\<rparr>))
                   | _ \<Rightarrow> Inl InvalidAction)
              | _ \<Rightarrow> Inl InvalidUniqueId)"

definition ParseResultUnchecked :: "Json list \<Rightarrow> ParseError + Json CallResult" where
  "ParseResultUnchecked data =
     (case MessageType data of
        Inl err \<Rightarrow> Inl err
      | Inr typeId \<Rightarrow>
         if typeId \<noteq> CallTypeResult then Inl (NotOfType typeId)
         else if length data \<noteq> 3 then Inl WrongLength
         else case data ! 1 of
                JStr uniqueId \<Rightarrow> Inr \<lparr>cres_TypeId = typeId, cres_UniqueId = uniqueId, cres_Payload = data ! 2\<rparr>
              | _ \<Rightarrow> Inl InvalidUniqueId)"

section \<open>Outgoing frames\<close>

text \<open>The commands of 2.0.1 as the handlers build them: no profile and no group token.\<close>

datatype Request201 =
    RequestStartTransactionRequest201 IdToken int "int option"
  | RequestStopTransactionRequest201 string
  | ResetRequest201 string
  | GetVariablesRequest201 "GetVariableDataType list"
  | SetVariablesRequest201 "SetVariableDataType list"

datatype OcppRequest = Request16 Request | Request201 Request201

fun Request201_GetFeatureName :: "Request201 \<Rightarrow> string" where
  "Request201_GetFeatureName (RequestStartTransactionRequest201 _ _ _) = ''RequestStartTransaction''"
| "Request201_GetFeatureName (RequestStopTransactionRequest201 _) = ''RequestStopTransaction''"
| "Request201_GetFeatureName (ResetRequest201 _) = ''Reset''"
| "Request201_GetFeatureName (GetVariablesRequest201 _) = ''GetVariables''"
| "Request201_GetFeatureName (SetVariablesRequest201 _) = ''SetVariables''"

fun OcppRequest_GetFeatureName :: "OcppRequest \<Rightarrow> string" where
  "OcppRequest_GetFeatureName (Request16 r) = GetFeatureName r"
| "OcppRequest_GetFeatureName (Request201 r) = Request201_GetFeatureName r"

definition encIdToken :: "IdToken \<Rightarrow> Json" where
  "encIdToken t =
     JObj ([(''idToken'', JStr (it_IdToken t)), (''type'', JStr (it_Type t))]
       @ omit (it_AdditionalInfo t = []) ''additionalInfo''
           (JArr (map (\<lambda>a. JObj [(''additionalIdToken'', JStr (ai_AdditionalIdToken a)), (''type'', JStr (ai_Type a))])
              (it_AdditionalInfo t))))"

definition encEVSE :: "EVSE \<Rightarrow> Json" where
  "encEVSE e = JObj ([(''id'', encInt (evse_Id e))] @ omitPtr encInt ''connectorId'' (evse_ConnectorId e))"

definition encComponent :: "Component \<Rightarrow> Json" where
  "encComponent c =
     JObj ([(''name'', JStr (cm_Name c))] @ omit (cm_Instance c = []) ''instance'' (JStr (cm_Instance c))
       @ omitPtr encEVSE ''evse'' (cm_Evse c))"

definition encVariable :: "Variable \<Rightarrow> Json" where
  "encVariable v =
     JObj ([(''name'', JStr (vr_Name v))] @ omit (vr_Instance v = []) ''instance'' (JStr (vr_Instance v)))"

definition encGetVariableData :: "GetVariableDataType \<Rightarrow> Json" where
  "encGetVariableData d =
     JObj ([(''component'', encComponent (gv_Component d)), (''variable'', encVariable (gv_Variable d))]
       @ omit (gv_AttributeType d = []) ''attributeType'' (JStr (gv_AttributeType d)))"

definition encSetVariableData :: "SetVariableDataType \<Rightarrow> Json" where
  "encSetVariableData d =
     JObj (omit (sx_AttributeType d = []) ''attributeType'' (JStr (sx_AttributeType d))
       @ [(''attributeValue'', JStr (sx_AttributeValue d)), (''component'', encComponent (sx_Component d)),
          (''variable'', encVariable (sx_Variable d))])"

fun encRequest201 :: "Request201 \<Rightarrow> Json" where
  "encRequest201 (RequestStartTransactionRequest201 token remoteStartId evseId) =
     JObj ([(''idToken'', encIdToken token), (''remoteStartId'', encInt remoteStartId)]
       @ omitPtr encInt ''evseId'' evseId)"
| "encRequest201 (RequestStopTransactionRequest201 transactionId) = JObj [(''transactionId'', JStr transactionId)]"
| "encRequest201 (ResetRequest201 resetType) = JObj [(''type'', JStr resetType)]"
| "encRequest201 (GetVariablesRequest201 ds) = JObj [(''getVariableData'', JArr (map encGetVariableData ds))]"
| "encRequest201 (SetVariablesRequest201 ds) = JObj [(''setVariableData'', JArr (map encSetVariableData ds))]"

fun encOcppRequest :: "(time \<Rightarrow> string) \<Rightarrow> OcppRequest \<Rightarrow> Json" where
  "encOcppRequest format (Request16 r) = encRequest format r"
| "encOcppRequest format (Request201 r) = encRequest201 r"

definition CreateCallRequest :: "string \<Rightarrow> OcppRequest \<Rightarrow> OcppRequest CallRequest" where
  "CreateCallRequest uuid request =
     \<lparr>cr_TypeId = CallTypeRequest, cr_UniqueId = uuid, cr_feature = OcppRequest_GetFeatureName request,
      cr_Payload = request\<rparr>"

definition CallRequest_MarshalJSON :: "(time \<Rightarrow> string) \<Rightarrow> OcppRequest CallRequest \<Rightarrow> Json list" where
  "CallRequest_MarshalJSON format c =
     [encInt (cr_TypeId c), JStr (cr_UniqueId c), JStr (cr_feature c), encOcppRequest format (cr_Payload c)]"

datatype OcppResponse = Response16 Response16 | Response201 Response201

fun encOcppResponse :: "(time \<Rightarrow> string) \<Rightarrow> OcppResponse \<Rightarrow> Json" where
  "encOcppResponse format (Response16 r) = encResponse16 format r"
| "encOcppResponse format (Response201 r) = encResponse201 format r"

definition CreateCallResult :: "OcppResponse \<Rightarrow> string \<Rightarrow> OcppResponse CallResult" where
  "CreateCallResult confirmation uniqueId =
     \<lparr>cres_TypeId = CallTypeResult, cres_UniqueId = uniqueId, cres_Payload = confirmation\<rparr>"

definition CallResult_MarshalJSON :: "(time \<Rightarrow> string) \<Rightarrow> OcppResponse CallResult \<Rightarrow> Json list" where
  "CallResult_MarshalJSON format c =
     [encInt (cres_TypeId c), JStr (cres_UniqueId c), encOcppResponse format (cres_Payload c)]"

end
