(* ===== verification/Handlers201.thy ===== *)
theory Handlers201
  imports Handlers Adapter Messages
begin

text \<open>
  The OCPP 2.0.1 handlers of \<^verbatim>\<open>src/server/v201_handlers.go\<close> over the state of the system handler, with the
  helpers they use of \<^verbatim>\<open>src/server/system_handler.go\<close>. A handler is one step, as for OCPP 1.6; a connector
  is named by its key in the charge point state. An error is \<open>Inl\<close>, a nil dereference \<open>None\<close>. The
  text parser of \<^verbatim>\<open>encoding/json\<close> is the argument \<open>readJson\<close>.
\<close>

section \<open>Helpers of the system handler\<close>

definition setTransactionProtocolVersion ::
    "'db env \<Rightarrow> Transaction \<Rightarrow> string \<Rightarrow> 'db sys \<Rightarrow> Transaction \<times> 'db sys" where
  "setTransactionProtocolVersion env tr chargePointId s =
     (case getChargePoint env chargePointId s of
        (Some (_, state), s) \<Rightarrow>
          if cp_ProtocolVersion (cps_model state) \<noteq> []
          then (tr\<lparr>t_ProtocolVersion := cp_ProtocolVersion (cps_model state)\<rparr>, s)
          else (tr\<lparr>t_ProtocolVersion := ''ocpp1.6''\<rparr>, s)
      | (None, s) \<Rightarrow> (tr\<lparr>t_ProtocolVersion := ''ocpp1.6''\<rparr>, s))"

text \<open>The key of the connector, the connector, and the state with it.\<close>

definition getConnectorByEvseAndConnectorId ::
    "'db env \<Rightarrow> string \<Rightarrow> ChargePointState \<Rightarrow> int option \<Rightarrow> int \<Rightarrow> 'db sys
     \<Rightarrow> int \<times> Connector \<times> ChargePointState \<times> 'db sys" where
  "getConnectorByEvseAndConnectorId env k cps evseId connectorId s =
     (case (case evseId of None \<Rightarrow> None
            | Some e \<Rightarrow> find (\<lambda>(_, c). c_EvseId c = Some e \<and> c_Id c = connectorId) (cps_connectors cps)) of
        Some (i, c) \<Rightarrow> (i, c, cps, s)
      | None \<Rightarrow> (connectorId, getConnector env k cps connectorId s))"

definition updateConnectorEvseId :: "'db env \<Rightarrow> Connector \<Rightarrow> int option \<Rightarrow> 'db sys \<Rightarrow> Connector \<times> 'db sys" where
  "updateConnectorEvseId env connector evseId s =
     (if c_EvseId connector = None \<and> evseId \<noteq> None
      then let connector = connector\<lparr>c_EvseId := evseId\<rparr> in (connector, dbTry env (UpdateConnector connector) s)
      else (connector, s))"

section \<open>Provisioning\<close>

definition RegistrationStatusAccepted :: string where "RegistrationStatusAccepted = ''Accepted''"
definition RegistrationStatusRejected :: string where "RegistrationStatusRejected = ''Rejected''"

definition bootModel :: "ChargingStation \<Rightarrow> ChargePoint \<Rightarrow> ChargePoint" where
  "bootModel station model =
     model\<lparr>cp_Vendor := cs1_VendorName station, cp_Model := cs1_Model station,
       cp_SerialNumber := cs1_SerialNumber station, cp_FirmwareVersion := cs1_FirmwareVersion station,
       cp_ProtocolVersion := OCPP201\<rparr>"

definition OnBootNotification201 ::
    "'db env \<Rightarrow> time \<Rightarrow> string \<Rightarrow> BootNotification201 \<Rightarrow> 'db sys \<Rightarrow> (Response201 \<times> 'db sys) go" where
  "OnBootNotification201 env now chargePointId request s =
     (let accepted = (\<lambda>k state s.
            let state = state\<lparr>cps_model := bootModel (b2_ChargingStation request) (cps_model state)\<rparr>
            in (BootNotificationResponse201 (getTime now) defaultHeartbeatInterval RegistrationStatusAccepted,
                dbTry env (UpdateChargePoint (cps_model state)) (putCP k state s)))
      in case getChargePoint env chargePointId s of
           (Some (k, state), s) \<Rightarrow> Some (accepted k state s)
         | (None, s) \<Rightarrow>
             if \<not> acceptPoints env
             then Some (BootNotificationResponse201 now 0 RegistrationStatusRejected, s)
             else (case addChargePoint env chargePointId s of
                     (Some (k, state), s) \<Rightarrow> Some (accepted k state s)
                   | (None, s) \<Rightarrow> None))"

definition OnHeartbeat201 :: "time \<Rightarrow> Response201" where
  "OnHeartbeat201 now = HeartbeatResponse201 (getTime now)"

definition OnNotifyReport :: "'db env \<Rightarrow> string \<Rightarrow> NotifyReport \<Rightarrow> 'db sys \<Rightarrow> Response201 \<times> 'db sys" where
  "OnNotifyReport env chargePointId request s =
     (case getChargePoint env chargePointId s of
        (None, s) \<Rightarrow> (NotifyReportResponse, s)
      | (Some (k, state), s) \<Rightarrow>
          let report = \<lparr>dr_RequestId = nr_RequestId request, dr_SeqNo = nr_SeqNo request,
                dr_GeneratedAt = nr_GeneratedAt request, dr_Tbc = nr_Tbc request\<rparr>;
              model = (cps_model state)\<lparr>cp_DeviceModel := mput ''last_report'' report (cp_DeviceModel (cps_model state))\<rparr>;
              s = putCP k (state\<lparr>cps_model := model\<rparr>) s
          in (NotifyReportResponse, dbTry env (UpdateChargePoint model) s))"

section \<open>Authorization\<close>

definition OnAuthorize201 ::
    "'db env \<Rightarrow> time \<Rightarrow> string \<Rightarrow> Authorize201 \<Rightarrow> 'db sys \<Rightarrow> Response201 \<times> 'db sys" where
  "OnAuthorize201 env now chargePointId request s =
     (let idTag = IdToken201ToIdTag (Some (a2_IdToken request));
          (userTag, s) = getUserTag env now idTag s
      in if \<not> ut_IsEnabled userTag \<and> \<not> acceptTags env then (AuthorizeResponse201 ''Invalid'', s)
         else let (found, s) = getChargePoint env chargePointId s;
                  locationId = (case found of None \<Rightarrow> [] | Some (_, state) \<Rightarrow> cp_LocationId (cps_model state));
                  status = (case authorize env locationId [] idTag of
                              None \<Rightarrow> ''Accepted''
                            | Some r \<Rightarrow>
                               if ar_blocked r then ''Blocked'' else if ar_expired r then ''Expired''
                               else if \<not> ar_allowed r then ''Invalid'' else ''Accepted'')
              in (AuthorizeResponse201 status, s))"

definition OnClearedChargingLimit :: Response201 where
  "OnClearedChargingLimit = ClearedChargingLimitResponse"

section \<open>Transaction events\<close>

definition eventMessage :: "string \<Rightarrow> Connector \<Rightarrow> Transaction \<Rightarrow> time \<Rightarrow> EventMessage" where
  "eventMessage chargePointId connector tr t =
     zeroEvent\<lparr>ev_ChargePointId := chargePointId, ev_ConnectorId := c_Id connector, ev_TransactionId := t_Id tr,
       ev_Username := t_Username tr, ev_IdTag := t_IdTag tr, ev_Time := t\<rparr>"

text \<open>A new transaction: the counter is advanced first and its new value is the id.\<close>

definition eventStarted ::
    "'db env \<Rightarrow> time \<Rightarrow> string \<Rightarrow> string \<Rightarrow> ChargePointState \<Rightarrow> int \<Rightarrow> Connector \<Rightarrow> Transaction \<Rightarrow> 'db sys \<Rightarrow> 'db sys" where
  "eventStarted env now chargePointId k state i connector tr s =
     (let (tr, s) = setTransactionProtocolVersion env tr chargePointId s;
          (tr, s) = (if t_IdTag tr \<noteq> []
                     then let (userTag, s) = getUserTag env now (t_IdTag tr) s
                          in (tr\<lparr>t_UserTag := Some userTag, t_Username := ut_Username userTag\<rparr>, s)
                     else (tr, s));
          s = s\<lparr>newTransactionId := newTransactionId s + 1\<rparr>;
          tr = tr\<lparr>t_Id := newTransactionId s\<rparr>;
          (tr, s) = (case database env of None \<Rightarrow> (tr, s)
                     | Some D \<Rightarrow>
                        let (_, tr, a) = OnTransactionStart D (minuteOfDay env now) (db s) (billing s) tr
                        in (tr, dbDo D (AddTransaction tr) (s\<lparr>billing := a\<rparr>)));
          connector = connector\<lparr>c_CurrentTransactionId := t_Id tr\<rparr>;
          s = dbTry env (UpdateConnector connector) s;
          state = registerTransaction (t_Id tr) (putConn i connector state);
          s = updateActiveTransactionsCounter (putCP k state s)
      in notifyEventListeners TransactionStart (eventMessage chargePointId connector tr (t_TimeStart tr)) s)"

fun eventMeterValues :: "'db Database \<Rightarrow> Transaction \<Rightarrow> MeterValue201 list \<Rightarrow> 'db sys \<Rightarrow> 'db sys" where
  "eventMeterValues D tr [] s = s"
| "eventMeterValues D tr (mv # mvs) s =
     eventMeterValues D tr mvs
       (dbDo D (AddTransactionMeterValue (snd (OnMeterValue tr (MeterValue201ToTransactionMeter mv (t_Id tr))))) s)"

definition eventUpdated :: "'db env \<Rightarrow> Transaction \<Rightarrow> MeterValue201 list \<Rightarrow> 'db sys \<Rightarrow> 'db sys" where
  "eventUpdated env tr meterValues s =
     (case database env of None \<Rightarrow> s
      | Some D \<Rightarrow>
         (case GetTransaction D (t_Id tr) (db s) of
            (Some existing, None) \<Rightarrow> eventMeterValues D existing meterValues s
          | _ \<Rightarrow> s))"

definition eventEnded ::
    "'db env \<Rightarrow> string \<Rightarrow> string \<Rightarrow> ChargePointState \<Rightarrow> int \<Rightarrow> Connector \<Rightarrow> Transaction \<Rightarrow> 'db sys \<Rightarrow> 'db sys" where
  "eventEnded env chargePointId k state i connector tr s =
     (case database env of None \<Rightarrow> s
      | Some D \<Rightarrow>
         (case GetTransaction D (t_Id tr) (db s) of
            (Some existing, None) \<Rightarrow>
              let existing = existing\<lparr>t_IsFinished := True, t_TimeStop := t_TimeStop tr,
                    t_MeterStop := t_MeterStop tr, t_Reason := t_Reason tr\<rparr>;
                  existing = snd (OnTransactionFinished existing);
                  s = dbDo D (UpdateTransaction existing) s;
                  connector = connector\<lparr>c_CurrentTransactionId := -1\<rparr>;
                  s = dbDo D (UpdateConnector connector) s;
                  state = unregisterTransaction (t_Id existing) (putConn i connector state);
                  s = updateActiveTransactionsCounter (putCP k state s)
              in notifyEventListeners TransactionStop (eventMessage chargePointId connector existing (t_TimeStop existing)) s
          | _ \<Rightarrow> s))"

definition OnTransactionEvent ::
    "'db env \<Rightarrow> time \<Rightarrow> string \<Rightarrow> TransactionEvent201 \<Rightarrow> 'db sys \<Rightarrow> (string + Response201) \<times> 'db sys" where
  "OnTransactionEvent env now chargePointId request s =
     (let tr = TransactionEventToEntity (te_EventType request) (te_TransactionInfo request) (te_IdToken request)
            (te_Evse request) (te_MeterValue request) (te_Timestamp request) chargePointId
      in case getChargePoint env chargePointId s of
           (None, s) \<Rightarrow> (Inl (''charge point not found: '' @ chargePointId), s)
         | (Some (k, state), s) \<Rightarrow>
             let evseId = map_option evse_Id (te_Evse request);
                 (i, connector, state, s) = getConnectorByEvseAndConnectorId env k state evseId (t_ConnectorId tr) s;
                 (connector, s) = updateConnectorEvseId env connector evseId s;
                 state = putConn i connector state;
                 s = putCP k state s;
                 s = (if te_EventType request = TransactionEventStarted
                      then eventStarted env now chargePointId k state i connector tr s
                      else if te_EventType request = TransactionEventUpdated
                      then eventUpdated env tr (te_MeterValue request) s
                      else if te_EventType request = TransactionEventEnded
                      then eventEnded env chargePointId k state i connector tr s
                      else s)
             in (Inr TransactionEventResponse, s))"

section \<open>Availability\<close>

text \<open>The connector is found or created by the lookup, so the branch that creates it is not reached.\<close>

definition OnStatusNotification201 ::
    "'db env \<Rightarrow> string \<Rightarrow> StatusNotification201 \<Rightarrow> 'db sys \<Rightarrow> (string + Response201) \<times> 'db sys" where
  "OnStatusNotification201 env chargePointId request s =
     (case getChargePoint env chargePointId s of
        (None, s) \<Rightarrow> (Inl (''charge point not found: '' @ chargePointId), s)
      | (Some (k, state), s) \<Rightarrow>
          let (i, connector, state, s) =
                getConnectorByEvseAndConnectorId env k state (Some (n2_EvseId request)) (n2_ConnectorId request) s;
              connector = connector\<lparr>c_Status := n2_ConnectorStatus request, c_StatusTime := n2_Timestamp request\<rparr>;
              state = putConn i connector state;
              s = dbTry env (UpdateConnector connector) (putCP k state s);
              s = notifyEventListeners StatusNotification
                    (zeroEvent\<lparr>ev_LocationId := cp_LocationId (cps_model state),
                       ev_Evse := cps_EvseId state (n2_ConnectorId request), ev_Status := c_Status connector\<rparr>) s
          in (Inr StatusNotificationResponse201, s))"

section \<open>Commands\<close>

definition IdTokenTypeLocal :: string where "IdTokenTypeLocal = ''Local''"

definition decTokenData :: "Json \<Rightarrow> (string \<times> string) option" where
  "decTokenData = decObj (\<lambda>ms. do {
     x0 \<leftarrow> decStr (member ''idToken'' ms);
     x1 \<leftarrow> decStr (member ''type'' ms);
     Some (x0, x1)
   })"

definition tokenOf :: "(string \<Rightarrow> Json option) \<Rightarrow> string \<Rightarrow> IdToken" where
  "tokenOf readJson payload =
     (let token = \<lparr>it_IdToken = payload, it_Type = IdTokenTypeLocal, it_AdditionalInfo = []\<rparr>
      in if payload \<noteq> [] \<and> hd payload = CHR 0x7B
         then (case Option.bind (readJson payload) decTokenData of
                 None \<Rightarrow> token
               | Some (idToken, tokenType) \<Rightarrow>
                  token\<lparr>it_IdToken := idToken, it_Type := (if tokenType \<noteq> [] then tokenType else IdTokenTypeLocal)\<rparr>)
         else token)"

definition OnRequestStartTransaction :: "(string \<Rightarrow> Json option) \<Rightarrow> time \<Rightarrow> int \<Rightarrow> string \<Rightarrow> Request201" where
  "OnRequestStartTransaction readJson now connectorId payload =
     RequestStartTransactionRequest201 (tokenOf readJson payload) (Unix now mod 1000000)
       (if connectorId > 0 then Some connectorId else None)"

definition OnRequestStopTransaction ::
    "'db env \<Rightarrow> string \<Rightarrow> string \<Rightarrow> 'db sys \<Rightarrow> (string + Request201) \<times> 'db sys" where
  "OnRequestStopTransaction env chargePointId payload s =
     (let (transactionId, s) =
            (if payload \<noteq> [] then (payload, s)
             else case getChargePoint env chargePointId s of
                    (Some (_, state), s) \<Rightarrow>
                      (case cps_transactions state of [] \<Rightarrow> ([], s) | (txId, _) # _ \<Rightarrow> (Itoa txId, s))
                  | (None, s) \<Rightarrow> ([], s))
      in if transactionId = [] then (Inl ''no transaction ID provided and no active transaction found'', s)
         else (Inr (RequestStopTransactionRequest201 transactionId), s))"

definition OnReset201 :: "string \<Rightarrow> Request201" where
  "OnReset201 payload = ResetRequest201 (if payload = ''Soft'' \<or> payload = ''OnIdle'' then ''OnIdle'' else ''Immediate'')"

definition OnGetVariables :: "(string \<Rightarrow> Json option) \<Rightarrow> string \<Rightarrow> string + Request201" where
  "OnGetVariables readJson payload =
     (if payload \<noteq> [] \<and> hd payload = CHR ''[''
      then (case Option.bind (readJson payload) (decList decGetVariableDataType) of
              None \<Rightarrow> Inl ''failed to parse GetVariables payload''
            | Some ds \<Rightarrow> Inr (GetVariablesRequest201 ds))
      else Inr (GetVariablesRequest201
        [\<lparr>gv_Component = \<lparr>cm_Name = ''OCPPCommCtrlr'', cm_Instance = [], cm_Evse = None\<rparr>,
          gv_Variable = \<lparr>vr_Name = payload, vr_Instance = []\<rparr>, gv_AttributeType = []\<rparr>]))"

definition OnSetVariables :: "(string \<Rightarrow> Json option) \<Rightarrow> string \<Rightarrow> string + Request201" where
  "OnSetVariables readJson payload =
     (case Option.bind (readJson payload) (decList decSetVariableDataType) of
        None \<Rightarrow> Inl ''failed to parse SetVariables payload''
      | Some ds \<Rightarrow> Inr (SetVariablesRequest201 ds))"

definition OnTriggerMessage201 :: "string + Request201" where
  "OnTriggerMessage201 = Inl ''TriggerMessage not yet implemented for OCPP 2.0.1''"

end
