(* ===== verification/Props201.thy ===== *)
theory Props201
  imports Handlers201 Session
begin

text \<open>
  Properties of the OCPP 2.0.1 handlers: what a transaction event does to the id counter that it shares with
  OCPP 1.6, and which events change nothing.
\<close>

section \<open>Starting transactions\<close>

lemma counter_quiet: "quiet s s' \<Longrightarrow> newTransactionId s' = newTransactionId s"
  by (simp add: quiet_def)

lemma counter_setVersion:
  "setTransactionProtocolVersion env tr cp s = (tr', s') \<Longrightarrow> newTransactionId s' = newTransactionId s \<and> t_Id tr' = t_Id tr"
  by (auto simp: setTransactionProtocolVersion_def split: prod.splits option.splits if_splits
      dest!: quiet_getChargePoint counter_quiet)

lemma counter_getConnectorByEvse:
  assumes "getConnectorByEvseAndConnectorId env k st e i s = (j, c, st', s')"
  shows "newTransactionId s' = newTransactionId s"
  using assms
  by (auto simp: getConnectorByEvseAndConnectorId_def getConnector_def Let_def split: option.splits prod.splits)

lemma counter_updateEvse: "updateConnectorEvseId env c e s = (c', s') \<Longrightarrow> newTransactionId s' = newTransactionId s"
  by (auto simp: updateConnectorEvseId_def Let_def split: if_splits)

lemma out_updateActive: "\<exists>es. out (updateActiveTransactionsCounter s) = out s @ es"
  using quiet_updateActive [of s] unfolding quiet_def by blast

lemma eventStarted_id:
  assumes "database env = Some D"
  shows "\<exists>tr err. Wrote (AddTransaction tr) err \<in> set (out (eventStarted env now cp k st i c tr0 s))
     \<and> t_Id tr = newTransactionId s + 1
     \<and> newTransactionId (eventStarted env now cp k st i c tr0 s) = newTransactionId s + 1"
proof -
  obtain tr1 s1 where 1: "setTransactionProtocolVersion env tr0 cp s = (tr1, s1)"
    by (cases "setTransactionProtocolVersion env tr0 cp s")
  obtain tr2 s2 where 2: "(if t_IdTag tr1 \<noteq> [] then let (u, s) = getUserTag env now (t_IdTag tr1) s1
      in (tr1\<lparr>t_UserTag := Some u, t_Username := ut_Username u\<rparr>, s) else (tr1, s1)) = (tr2, s2)"
    by (cases "(if t_IdTag tr1 \<noteq> [] then let (u, s) = getUserTag env now (t_IdTag tr1) s1
      in (tr1\<lparr>t_UserTag := Some u, t_Username := ut_Username u\<rparr>, s) else (tr1, s1))")
  have n2: "newTransactionId s2 = newTransactionId s"
    using counter_setVersion [OF 1] 2
    by (auto simp: Let_def split: if_splits prod.splits dest!: quiet_getUserTag counter_quiet)
  let ?s3 = "s2\<lparr>newTransactionId := newTransactionId s + 1\<rparr>"
  obtain e tr3 a where 3: "OnTransactionStart D (minuteOfDay env now) (db ?s3) (billing ?s3)
      (tr2\<lparr>t_Id := newTransactionId s + 1\<rparr>) = (e, tr3, a)" by (rule prod_cases3)
  let ?s4 = "dbDo D (AddTransaction tr3) (?s3\<lparr>billing := a\<rparr>)"
  let ?c = "c\<lparr>c_CurrentTransactionId := t_Id tr3\<rparr>"
  let ?st = "registerTransaction (t_Id tr3) (putConn i ?c st)"
  let ?s5 = "putCP k ?st (dbTry env (UpdateConnector ?c) ?s4)"
  have run: "eventStarted env now cp k st i c tr0 s =
      notifyEventListeners TransactionStart (eventMessage cp ?c tr3 (t_TimeStart tr3)) (updateActiveTransactionsCounter ?s5)"
    using 2 3 n2 unfolding eventStarted_def by (simp add: assms 1 Let_def)
  have id3: "t_Id tr3 = newTransactionId s + 1" using OnTransactionStart_id [OF 3] by simp
  have "Wrote (AddTransaction tr3) (fst (exec D (AddTransaction tr3) (db (?s3\<lparr>billing := a\<rparr>)))) \<in> set (out ?s5)"
    by (simp add: assms dbTry_def)
  moreover obtain es where "out (updateActiveTransactionsCounter ?s5) = out ?s5 @ es" using out_updateActive by blast
  moreover have "newTransactionId (updateActiveTransactionsCounter ?s5) = newTransactionId s + 1"
    using counter_quiet [OF quiet_updateActive, of ?s5] by simp
  ultimately show ?thesis using id3 unfolding run by (auto intro!: exI [of _ tr3])
qed

lemma startCreate_next: "fst (startCreate env now cp k st c r s) = newTransactionId s"
proof -
  obtain u s1 where u: "getUserTag env now (sr_IdTag r) s = (u, s1)"
    by (cases "getUserTag env now (sr_IdTag r) s")
  then have "newTransactionId s1 = newTransactionId s" using quiet_getUserTag counter_quiet by blast
  then show ?thesis
    by (auto simp: startCreate_def u Let_def split: prod.splits dest!: startStore_trace(1))
qed

section \<open>Events that change nothing\<close>

lemma mput_same: "map_of m k = Some v \<Longrightarrow> mput k v m = m"
  by (induction m) (auto split: if_splits)

lemma putConn_same: "map_of (cps_connectors st) i = Some c \<Longrightarrow> putConn i c st = st"
  by (simp add: putConn_def mput_same)

lemma putCP_same: "map_of (chargePoints s) k = Some st \<Longrightarrow> putCP k st s = s"
  by (simp add: putCP_def mput_same)

text \<open>The connector an event names by EVSE and id, when it is known under its own id.\<close>

definition evse_known :: "'db sys \<Rightarrow> string \<Rightarrow> ChargePointState \<Rightarrow> EVSE \<Rightarrow> bool" where
  "evse_known s cp st e \<longleftrightarrow> map_of (chargePoints s) cp = Some st
     \<and> (\<exists>c. map_of (cps_connectors st) (the (evse_ConnectorId e)) = Some c \<and> c_EvseId c = Some (evse_Id e))
     \<and> evse_ConnectorId e \<noteq> None \<and> gomap_ok (cps_connectors st)
     \<and> (\<forall>i c. map_of (cps_connectors st) i = Some c \<longrightarrow> c_Id c = i)"

lemma find_connector:
  assumes "evse_known s cp st e"
  obtains c where
    "getConnectorByEvseAndConnectorId env cp st (Some (evse_Id e)) (the (evse_ConnectorId e)) s =
       (the (evse_ConnectorId e), c, st, s)"
    "map_of (cps_connectors st) (the (evse_ConnectorId e)) = Some c" "c_EvseId c = Some (evse_Id e)"
proof -
  let ?i = "the (evse_ConnectorId e)"
  let ?P = "\<lambda>(_ :: int, c). c_EvseId c = Some (evse_Id e) \<and> c_Id c = ?i"
  obtain c where c: "map_of (cps_connectors st) ?i = Some c" "c_EvseId c = Some (evse_Id e)"
    using assms unfolding evse_known_def by blast
  have "c_Id c = ?i" using assms c(1) unfolding evse_known_def by blast
  then have "(?i, c) \<in> set (cps_connectors st) \<and> ?P (?i, c)" using c map_of_SomeD by fastforce
  then obtain j d where f: "find ?P (cps_connectors st) = Some (j, d)"
    by (metis (mono_tags, lifting) find_None_iff not_Some_eq surj_pair)
  then have d: "(j, d) \<in> set (cps_connectors st)" "c_EvseId d = Some (evse_Id e)" "c_Id d = ?i"
    by (auto simp: find_Some_iff) (metis nth_mem)
  have "map_of (cps_connectors st) j = Some d" using assms d(1) by (simp add: evse_known_def map_of_in_set)
  then have "j = ?i" using assms d(3) unfolding evse_known_def by metis
  then show ?thesis
    using that [of d] f d \<open>map_of (cps_connectors st) j = Some d\<close>
    by (simp add: getConnectorByEvseAndConnectorId_def)
qed

lemma eventEnded_unknown:
  "database env = Some D \<Longrightarrow> fst (GetTransaction D (t_Id tr) (db s)) = None \<Longrightarrow> eventEnded env cp k st i c tr s = s"
  by (cases "GetTransaction D (t_Id tr) (db s)") (auto simp: eventEnded_def)

lemma eventUpdated_unknown:
  "database env = Some D \<Longrightarrow> fst (GetTransaction D (t_Id tr) (db s)) = None \<Longrightarrow> eventUpdated env tr mvs s = s"
  by (cases "GetTransaction D (t_Id tr) (db s)") (auto simp: eventUpdated_def)

section \<open>Properties\<close>


definition demoEvent :: "string \<Rightarrow> TransactionEvent201" where
  "demoEvent ty = \<lparr>te_EventType = ty, te_Timestamp = 0, te_TriggerReason = ''Authorized'', te_SeqNo = 0,
     te_TransactionInfo = \<lparr>ti_TransactionId = ''tx'', ti_ChargingState = [], ti_TimeSpentCharging = None,
       ti_StoppedReason = [], ti_RemoteStartId = None\<rparr>,
     te_Offline = None, te_NumberOfPhasesUsed = None, te_CableMaxCurrent = None, te_ReservationId = None,
     te_IdToken = None, te_Evse = Some \<lparr>evse_Id = 1, evse_ConnectorId = Some 1\<rparr>, te_MeterValue = [],
     te_PreconditioningStatus = []\<rparr>"


text \<open>
  Events that update or end a 2.0.1 transaction change nothing. The handler looks the transaction up under
  id 0, which the adapter leaves unset and no transaction has; the event is answered as processed, but the
  transaction stays open, its readings are dropped and its connector stays taken.
\<close>

theorem later_events_ignored:
  assumes "database env = Some D" "te_EventType r = TransactionEventUpdated \<or> te_EventType r = TransactionEventEnded"
    "te_Evse r = Some e" "evse_known s cp st e" "fst (GetTransaction D 0 (db s)) = None"
  shows "OnTransactionEvent env now cp r s = (Inr TransactionEventResponse, s)"
proof -
  define tr where "tr = TransactionEventToEntity (te_EventType r) (te_TransactionInfo r) (te_IdToken r) (te_Evse r)
      (te_MeterValue r) (te_Timestamp r) cp"
  obtain i where i: "evse_ConnectorId e = Some i" using assms(4) by (auto simp: evse_known_def)
  have tr: "t_ConnectorId tr = i" "t_Id tr = 0"
    using assms(3) i by (simp_all add: tr_def entity_fields)
      (simp add: TransactionEventToEntity_def Let_def split: option.split)
  obtain c where c: "getConnectorByEvseAndConnectorId env cp st (Some (evse_Id e)) i s = (i, c, st, s)"
      "map_of (cps_connectors st) i = Some c" "c_EvseId c = Some (evse_Id e)"
    using find_connector [OF assms(4), of env] i by auto
  have cp: "getChargePoint env cp s = (Some (cp, st), s)"
    using assms(4) by (simp add: getChargePoint_def evse_known_def)
  have same: "putCP cp (putConn i c st) s = s"
    using c(2) assms(4) by (simp add: putConn_same putCP_same evse_known_def)
  have run: "OnTransactionEvent env now cp r s = (Inr TransactionEventResponse,
      if te_EventType r = TransactionEventStarted then eventStarted env now cp cp (putConn i c st) i c tr s
      else if te_EventType r = TransactionEventUpdated then eventUpdated env tr (te_MeterValue r) s
      else if te_EventType r = TransactionEventEnded then eventEnded env cp cp (putConn i c st) i c tr s else s)"
    unfolding OnTransactionEvent_def tr_def [symmetric] by (simp add: assms(3) cp c tr same updateConnectorEvseId_def)
  have "te_EventType r \<noteq> TransactionEventStarted"
    using assms(2) by (auto simp: TransactionEventStarted_def TransactionEventUpdated_def TransactionEventEnded_def)
  then show ?thesis
    using assms(1,2,5) unfolding run by (auto simp: eventEnded_unknown eventUpdated_unknown tr)
qed

definition demoSys201 :: "Store sys" where
  "demoSys201 = demoSys\<lparr>chargePoints :=
     [(''CP1'', demoState\<lparr>cps_connectors := [(1, (NewConnector 1 ''CP1'')\<lparr>c_EvseId := Some 1\<rparr>)]\<rparr>)]\<rparr>"

theorem later_events_ignored_witness:
  "OnTransactionEvent demoEnv 0 ''CP1'' (demoEvent TransactionEventEnded) demoSys201 = (Inr TransactionEventResponse, demoSys201)"
proof (rule later_events_ignored)
  show "database demoEnv = Some listDatabase" by (simp add: demoEnv_def)
  show "evse_known demoSys201 ''CP1'' (demoState\<lparr>cps_connectors := [(1, (NewConnector 1 ''CP1'')\<lparr>c_EvseId := Some 1\<rparr>)]\<rparr>)
      \<lparr>evse_Id = 1, evse_ConnectorId = Some 1\<rparr>"
    by (auto simp: evse_known_def demoSys201_def NewConnector_def gomap_ok_def split: if_splits)
  show "fst (GetTransaction listDatabase 0 (db demoSys201)) = None" by code_simp
qed (simp_all add: demoEvent_def)

end
