(* ===== verification/Server.thy ===== *)
theory Server
  imports Messages
begin

text \<open>
  The websocket server of \<^verbatim>\<open>src/server/server.go\<close>: the pool of connections, the queue of envelopes, and the
  table that hands an answer of a charge point to the caller waiting for it.

  A websocket is a reference into \<open>sockets\<close>, because two connections may carry the same charge point id;
  the pool maps an id to one reference. A Go channel that is only sent to and received from is the list of the
  values in it. The loop of \<^verbatim>\<open>Pool.Start\<close> is one operation per case of its \<^verbatim>\<open>select\<close>, and the mutexes make
  every operation one step. \<open>None\<close> is a panic: a send on a closed channel. The unique id of a request is
  drawn by the caller (\<^verbatim>\<open>utility.NewUUID\<close>); the reports to the watchdog are listed in \<open>online\<close>.
\<close>

section \<open>State\<close>

record WebSocket =
  ws_id :: string
  ws_uniqueId :: string
  ws_protocol :: ProtocolVersion
  ws_isClosed :: bool
  ws_send :: "Json list list"
  ws_sendClosed :: bool

record envelope =
  env_recipient :: string
  env_callRequest :: "OcppRequest CallRequest option"
  env_callResult :: "OcppResponse CallResult option"

record server =
  sockets :: "(nat, WebSocket) gomap"
  clients :: "(string, nat) gomap"
  sendQueue :: "envelope list"
  pending :: "(string, nat) gomap"
  channels :: "(nat, Json list) gomap"
  fireAndForget :: "(string, unit) gomap"
  subprotocols :: "string list"
  online :: "(string \<times> bool) list"

definition NewServer :: server where
  "NewServer =
     \<lparr>sockets = [], clients = [], sendQueue = [], pending = [], channels = [], fireAndForget = [],
      subprotocols = [], online = []\<rparr>"

definition maxFireAndForget :: nat where "maxFireAndForget = 1024"
definition sendBuffer :: nat where "sendBuffer = 256"

definition getMessageData :: "(time \<Rightarrow> string) \<Rightarrow> envelope \<Rightarrow> Json list option" where
  "getMessageData format e =
     (case env_callRequest e of
        Some c \<Rightarrow> Some (CallRequest_MarshalJSON format c)
      | None \<Rightarrow>
         (case env_callResult e of
            Some c \<Rightarrow> Some (CallResult_MarshalJSON format c)
          | None \<Rightarrow> None))"

section \<open>The pool\<close>

definition socketOf :: "nat \<Rightarrow> server \<Rightarrow> WebSocket option" where
  "socketOf ref s = map_of (sockets s) ref"

definition putSocket :: "nat \<Rightarrow> WebSocket \<Rightarrow> server \<Rightarrow> server" where
  "putSocket ref ws s = s\<lparr>sockets := mput ref ws (sockets s)\<rparr>"

definition recipientAvailable :: "string \<Rightarrow> server \<Rightarrow> bool" where
  "recipientAvailable clientId s =
     list_ex (\<lambda>(_, ref). case socketOf ref s of None \<Rightarrow> False | Some ws \<Rightarrow> ws_id ws = clientId) (clients s)"

definition checkAddClient :: "nat \<Rightarrow> server \<Rightarrow> server" where
  "checkAddClient ref s =
     (case socketOf ref s of None \<Rightarrow> s
      | Some ws \<Rightarrow>
         let s = (if \<not> recipientAvailable (ws_id ws) s
                  then s\<lparr>clients := mput (ws_id ws) ref (clients s)\<rparr> else s)
         in s\<lparr>online := online s @ [(ws_id ws, True)]\<rparr>)"

definition deleteClient :: "nat \<Rightarrow> server \<Rightarrow> server" where
  "deleteClient ref s =
     (case socketOf ref s of None \<Rightarrow> s | Some ws \<Rightarrow> s\<lparr>clients := mdel (ws_id ws) (clients s)\<rparr>)"

text \<open>The case of an envelope: a full buffer closes the channel and drops the client.\<close>

definition poolSend :: "(time \<Rightarrow> string) \<Rightarrow> envelope \<Rightarrow> server \<Rightarrow> server go" where
  "poolSend format env s =
     (case map_of (clients s) (env_recipient env) of None \<Rightarrow> Some s
      | Some ref \<Rightarrow>
         (case socketOf ref s of None \<Rightarrow> Some s
          | Some ws \<Rightarrow>
             (case getMessageData format env of None \<Rightarrow> Some s
              | Some message \<Rightarrow>
                 if ws_sendClosed ws then None
                 else if length (ws_send ws) < sendBuffer
                 then Some (putSocket ref (ws\<lparr>ws_send := ws_send ws @ [message]\<rparr>) s)
                 else Some ((putSocket ref (ws\<lparr>ws_sendClosed := True\<rparr>) s)\<lparr>clients := mdel (ws_id ws) (clients s)\<rparr>))))"

definition poolNext :: "(time \<Rightarrow> string) \<Rightarrow> server \<Rightarrow> server go" where
  "poolNext format s =
     (case sendQueue s of [] \<Rightarrow> Some s | env # q \<Rightarrow> poolSend format env (s\<lparr>sendQueue := q\<rparr>))"

text \<open>Closing a channel twice is a panic as well.\<close>

fun closeClients :: "(string \<times> nat) list \<Rightarrow> server \<Rightarrow> server go" where
  "closeClients [] s = Some s"
| "closeClients ((_, ref) # cs) s =
     (case socketOf ref s of None \<Rightarrow> closeClients cs s
      | Some ws \<Rightarrow>
         if ws_sendClosed ws then None
         else closeClients cs (putSocket ref (ws\<lparr>ws_sendClosed := True\<rparr>) s))"

definition closeAllClients :: "server \<Rightarrow> server go" where
  "closeAllClients s = map_option (\<lambda>s. s\<lparr>clients := []\<rparr>) (closeClients (clients s) s)"

section \<open>Connections\<close>

definition AddSupportedSupProtocol :: "string \<Rightarrow> server \<Rightarrow> server" where
  "AddSupportedSupProtocol proto s =
     (if proto \<in> set (subprotocols s) then s else s\<lparr>subprotocols := subprotocols s @ [proto]\<rparr>)"

text \<open>The choice among the protocols a client offers; \<open>Contains\<close> is that of the utility package.\<close>

fun requestedProto :: "string list \<Rightarrow> string list \<Rightarrow> string" where
  "requestedProto supported [] = []"
| "requestedProto supported (proto # offered) =
     (if supported = [] \<or> Contains supported proto then proto else requestedProto supported offered)"

definition negotiate :: "string list \<Rightarrow> string list \<Rightarrow> ProtocolVersion" where
  "negotiate supported offered =
     (let protocol = ParseProtocolVersion (requestedProto supported offered)
      in if protocol = UnknownVersion then DefaultVersion else protocol)"

text \<open>
  A new connection: connections of the same id are unregistered, and the new one is registered when the upgrade
  succeeds. \<open>ref\<close> is the address of the new websocket.
\<close>

definition sameId :: "string \<Rightarrow> server \<Rightarrow> nat list" where
  "sameId cid s =
     map snd (filter (\<lambda>(_, ref). case socketOf ref s of None \<Rightarrow> False | Some ws \<Rightarrow> ws_id ws = cid) (clients s))"

definition handleWsRequest :: "string \<Rightarrow> string list \<Rightarrow> bool \<Rightarrow> nat \<Rightarrow> server \<Rightarrow> server" where
  "handleWsRequest cid offered upgraded ref s =
     (let s = fold deleteClient (sameId cid s) s
      in if \<not> upgraded then s
         else checkAddClient ref
                (putSocket ref
                   \<lparr>ws_id = cid, ws_uniqueId = [], ws_protocol = negotiate (subprotocols s) offered,
                    ws_isClosed = False, ws_send = [], ws_sendClosed = False\<rparr> s))"

text \<open>The end of a pump: the watchdog is told, the websocket unregistered and closed.\<close>

definition closeSocket :: "nat \<Rightarrow> server \<Rightarrow> server" where
  "closeSocket ref s =
     (case socketOf ref s of None \<Rightarrow> s
      | Some ws \<Rightarrow>
         deleteClient ref
           (putSocket ref (ws\<lparr>ws_isClosed := True\<rparr>) (s\<lparr>online := online s @ [(ws_id ws, False)]\<rparr>)))"

definition SetUniqueId :: "nat \<Rightarrow> string \<Rightarrow> server \<Rightarrow> server" where
  "SetUniqueId ref uniqueId s =
     (case socketOf ref s of None \<Rightarrow> s | Some ws \<Rightarrow> putSocket ref (ws\<lparr>ws_uniqueId := uniqueId\<rparr>) s)"

text \<open>One turn of the write pump; the message is written unless the websocket is closed.\<close>

definition writePump :: "nat \<Rightarrow> server \<Rightarrow> Json list option \<times> server" where
  "writePump ref s =
     (case socketOf ref s of None \<Rightarrow> (None, s)
      | Some ws \<Rightarrow>
         (case ws_send ws of [] \<Rightarrow> (None, s)
          | message # q \<Rightarrow>
             (if ws_isClosed ws then None else Some message, putSocket ref (ws\<lparr>ws_send := q\<rparr>) s)))"

section \<open>Requests and answers\<close>

definition SendResponse :: "nat \<Rightarrow> OcppResponse \<Rightarrow> server \<Rightarrow> server" where
  "SendResponse ref response s =
     (case socketOf ref s of None \<Rightarrow> s
      | Some ws \<Rightarrow>
         s\<lparr>sendQueue := sendQueue s @
            [\<lparr>env_recipient = ws_id ws, env_callRequest = None,
              env_callResult = Some (CreateCallResult response (ws_uniqueId ws))\<rparr>]\<rparr>)"

definition queueRequest :: "string \<Rightarrow> OcppRequest CallRequest \<Rightarrow> server \<Rightarrow> server" where
  "queueRequest clientId c s =
     s\<lparr>sendQueue := sendQueue s @
        [\<lparr>env_recipient = clientId, env_callRequest = Some c, env_callResult = None\<rparr>]\<rparr>"

definition markFireAndForget :: "string \<Rightarrow> server \<Rightarrow> server" where
  "markFireAndForget uniqueId s =
     (let kept = (if length (fireAndForget s) \<ge> maxFireAndForget
                  then mdel (fst (hd (fireAndForget s))) (fireAndForget s) else fireAndForget s)
      in s\<lparr>fireAndForget := mput uniqueId () kept\<rparr>)"

definition SendRequest :: "string \<Rightarrow> string \<Rightarrow> OcppRequest \<Rightarrow> server \<Rightarrow> (string + string) \<times> server" where
  "SendRequest uuid clientId request s =
     (if \<not> recipientAvailable clientId s then (Inl (clientId @ '' is not available''), s)
      else let c = CreateCallRequest uuid request
           in (Inr (cr_UniqueId c), queueRequest clientId c (markFireAndForget (cr_UniqueId c) s)))"

definition registerPending :: "string \<Rightarrow> nat \<Rightarrow> server \<Rightarrow> server" where
  "registerPending uniqueId channel s =
     s\<lparr>channels := mput channel [] (channels s), pending := mput uniqueId channel (pending s)\<rparr>"

definition releasePending :: "string \<Rightarrow> server \<Rightarrow> server" where
  "releasePending uniqueId s = s\<lparr>pending := mdel uniqueId (pending s)\<rparr>"

text \<open>\<open>channel\<close> is the address of the channel that is made.\<close>

definition SendRequestWithResponse ::
    "string \<Rightarrow> nat \<Rightarrow> string \<Rightarrow> OcppRequest \<Rightarrow> server \<Rightarrow> (string + nat) \<times> server" where
  "SendRequestWithResponse uuid channel clientId request s =
     (if \<not> recipientAvailable clientId s then (Inl (clientId @ '' is not available''), s)
      else let c = CreateCallRequest uuid request
           in (Inr channel, queueRequest clientId c (registerPending (cr_UniqueId c) channel s)))"

text \<open>\<open>Blocked\<close>: the channel holds a value already, and the send waits for a receiver.\<close>

datatype Resolution = Resolved server | Unmatched server | Blocked

definition channelOf :: "nat \<Rightarrow> server \<Rightarrow> Json list" where
  "channelOf ch s = (case map_of (channels s) ch of None \<Rightarrow> [] | Some ps \<Rightarrow> ps)"

definition ResolveResponse :: "string \<Rightarrow> Json \<Rightarrow> server \<Rightarrow> Resolution" where
  "ResolveResponse uniqueId payload s =
     (case map_of (pending s) uniqueId of
        None \<Rightarrow>
          if map_of (fireAndForget s) uniqueId \<noteq> None
          then Resolved (s\<lparr>fireAndForget := mdel uniqueId (fireAndForget s)\<rparr>)
          else Unmatched s
      | Some ch \<Rightarrow>
          if channelOf ch s = [] then Resolved (s\<lparr>channels := mput ch [payload] (channels s)\<rparr>)
          else Blocked)"

text \<open>The receive of a waiting caller, and the synchronous request as a whole: the answer or the timeout.\<close>

definition receive :: "nat \<Rightarrow> server \<Rightarrow> Json option \<times> server" where
  "receive ch s =
     (case channelOf ch s of [] \<Rightarrow> (None, s)
      | payload # rest \<Rightarrow> (Some payload, s\<lparr>channels := mput ch rest (channels s)\<rparr>))"

definition SyncFinish :: "string \<Rightarrow> nat \<Rightarrow> server \<Rightarrow> Json option \<times> server" where
  "SyncFinish uuid channel s = (let (answer, s) = receive channel s in (answer, releasePending uuid s))"

definition GetServerStatus :: "server \<Rightarrow> string \<times> nat" where
  "GetServerStatus s =
     (let clientList = concat (map (\<lambda>(_, ref). case socketOf ref s of None \<Rightarrow> [] | Some ws \<Rightarrow> ws_id ws @ '','') (clients s))
      in (if length clientList > 0 then butlast clientList else clientList, length (clients s)))"

end
