(* ===== verification/CentralSystem.thy ===== *)
theory CentralSystem
  imports Handlers201 Server LoadBalancer Startup
begin

text \<open>
  The central system of \<^verbatim>\<open>src/server/central_system.go\<close>: it joins the websocket server, the system handler,
  the 2.0.1 handlers and the power manager. A message of a charge point is classified, parsed, routed to its
  handler and answered; after starts, stops and boots the power manager is called. A command of the API becomes
  a request to a charge point whose answer is awaited.

  The calls of the power manager run as goroutines: they are queued in \<open>jobs\<close> and each runs later on the
  database the system handler uses. A message is a JSON value, \<open>None\<close> if its text is not JSON. Log lines are
  left out.
\<close>

section \<open>State\<close>

datatype PowerJob = JobCheckPowerLimit string | JobChargePointBoot string | JobSystemStart

record 'db central =
  cs_sys :: "'db sys"
  cs_server :: server
  cs_balancer :: "'db balancer"
  cs_connections :: "(string, ProtocolVersion) gomap"
  cs_registry :: featureRegistry
  cs_routingEnabled :: bool
  cs_v201 :: bool
  cs_jobs :: "PowerJob list"

text \<open>What the central system is configured with: the environments of its parts and the text functions.\<close>

record 'db csEnv =
  ce_env :: "'db env"
  ce_lbEnv :: "'db lbEnv"
  ce_parseTime :: "string \<Rightarrow> time option"
  ce_readJson :: "string \<Rightarrow> Json option"
  ce_readProfile :: "string \<Rightarrow> ChargingProfile option"

datatype CsError =
    NotJson | ParseFailed ParseError | FeatureNotSupported ProtocolVersion string | HandlersNotInitialized
  | NotYetImplemented | UnsupportedVersion ProtocolVersion | HandlerError string

text \<open>
  The outcome of a message: done with an error or without, the panic of the connection's goroutine, or a reader
  that waits because the channel of the answer is full.
\<close>

datatype 'db outcome = Done "CsError option" "'db central" | Panics | Waits

definition GetProtocolVersion :: "string \<Rightarrow> 'db central \<Rightarrow> ProtocolVersion" where
  "GetProtocolVersion chargePointId cs =
     (case map_of (cs_connections cs) chargePointId of None \<Rightarrow> UnknownVersion | Some v \<Rightarrow> v)"

definition RemoveConnection :: "string \<Rightarrow> 'db central \<Rightarrow> 'db central" where
  "RemoveConnection chargePointId cs = cs\<lparr>cs_connections := mdel chargePointId (cs_connections cs)\<rparr>"

definition ParseJson :: "Json option \<Rightarrow> Json list option" where
  "ParseJson j = (case j of Some (JArr data) \<Rightarrow> Some data | Some JNull \<Rightarrow> Some [] | _ \<Rightarrow> None)"

section \<open>Routing\<close>

text \<open>
  The switches over the action; a payload of another type is the panic of the type assertion. The result is the
  confirmation or the error, with the new state.
\<close>

definition routeOCPP16Request ::
    "'db env \<Rightarrow> time \<Rightarrow> string \<Rightarrow> string \<Rightarrow> Payload \<Rightarrow> 'db sys \<Rightarrow> ((CsError + OcppResponse) \<times> 'db sys) go" where
  "routeOCPP16Request env now cp action request s =
     (if action = ''BootNotification'' then
        (case request of
           BootPayload r \<Rightarrow>
             (let (accepted, s) = OnBootNotification env cp r s
              in Some (Inr (Response16 (BootNotificationResponse (getTime now) defaultHeartbeatInterval accepted)), s))
         | _ \<Rightarrow> None)
      else if action = ''Authorize'' then
        (case request of
           AuthorizePayload idTag \<Rightarrow>
             map_option (\<lambda>(status, s). (Inr (Response16 (AuthorizeResponse status)), s)) (OnAuthorize env now cp idTag s)
         | _ \<Rightarrow> None)
      else if action = ''Heartbeat'' then
        (case request of
           HeartbeatPayload \<Rightarrow>
             (let (t, s) = OnHeartbeat env now cp s in Some (Inr (Response16 (HeartbeatResponse t)), s))
         | _ \<Rightarrow> None)
      else if action = ''StartTransaction'' then
        (case request of
           StartPayload r \<Rightarrow>
             (let ((status, i), s) = OnStartTransaction env now cp r s
              in Some (Inr (Response16 (StartTransactionResponse status i)), s))
         | _ \<Rightarrow> None)
      else if action = ''StopTransaction'' then
        (case request of
           StopPayload r \<Rightarrow>
             map_option (\<lambda>s. (Inr (Response16 StopTransactionResponse), s)) (OnStopTransaction env now cp r s)
         | _ \<Rightarrow> None)
      else if action = ''MeterValues'' then
        (case request of
           MeterPayload r \<Rightarrow> Some (Inr (Response16 MeterValuesResponse), OnMeterValues env now cp r s)
         | _ \<Rightarrow> None)
      else if action = ''StatusNotification'' then
        (case request of
           StatusPayload r \<Rightarrow> Some (Inr (Response16 StatusNotificationResponse), OnStatusNotification env now cp r s)
         | _ \<Rightarrow> None)
      else if action = ''DataTransfer'' then
        (case request of
           DataTransferPayload r \<Rightarrow>
             (let (status, s) = OnDataTransfer env cp s in Some (Inr (Response16 (DataTransferResponse status)), s))
         | _ \<Rightarrow> None)
      else if action = ''DiagnosticsStatusNotification'' then
        (case request of
           DiagnosticsPayload status \<Rightarrow>
             Some (Inr (Response16 DiagnosticsStatusNotificationResponse), OnDiagnosticsStatusNotification env cp status s)
         | _ \<Rightarrow> None)
      else if action = ''FirmwareStatusNotification'' then
        (case request of
           FirmwarePayload status \<Rightarrow>
             Some (Inr (Response16 FirmwareStatusNotificationResponse), OnFirmwareStatusNotification env cp status s)
         | _ \<Rightarrow> None)
      else Some (Inl (FeatureNotSupported OCPP16 action), s))"

definition result201 :: "(string + Response201) \<times> 'db sys \<Rightarrow> (CsError + OcppResponse) \<times> 'db sys" where
  "result201 r = (case r of (Inl e, s) \<Rightarrow> (Inl (HandlerError e), s) | (Inr c, s) \<Rightarrow> (Inr (Response201 c), s))"

definition routeOCPP201Request ::
    "bool \<Rightarrow> 'db env \<Rightarrow> time \<Rightarrow> string \<Rightarrow> string \<Rightarrow> Payload \<Rightarrow> 'db sys \<Rightarrow> ((CsError + OcppResponse) \<times> 'db sys) go" where
  "routeOCPP201Request handlersSet env now cp action request s =
     (if \<not> handlersSet then Some (Inl HandlersNotInitialized, s)
      else if action = ''BootNotification'' then
        (case request of
           Boot201Payload r \<Rightarrow>
             map_option (\<lambda>(c, s). (Inr (Response201 c), s)) (OnBootNotification201 env now cp r s)
         | _ \<Rightarrow> None)
      else if action = ''Heartbeat'' then
        (case request of Heartbeat201Payload \<Rightarrow> Some (Inr (Response201 (OnHeartbeat201 now)), s) | _ \<Rightarrow> None)
      else if action = ''NotifyReport'' then
        (case request of
           NotifyReportPayload r \<Rightarrow> (let (c, s) = OnNotifyReport env cp r s in Some (Inr (Response201 c), s))
         | _ \<Rightarrow> None)
      else if action = ''Authorize'' then
        (case request of
           Authorize201Payload r \<Rightarrow> (let (c, s) = OnAuthorize201 env now cp r s in Some (Inr (Response201 c), s))
         | _ \<Rightarrow> None)
      else if action = ''ClearedChargingLimit'' then
        (case request of
           ClearedChargingLimitPayload r \<Rightarrow> Some (Inr (Response201 OnClearedChargingLimit), s) | _ \<Rightarrow> None)
      else if action = ''TransactionEvent'' then
        (case request of
           TransactionEventPayload r \<Rightarrow> Some (result201 (OnTransactionEvent env now cp r s)) | _ \<Rightarrow> None)
      else if action = ''StatusNotification'' then
        (case request of
           Status201Payload r \<Rightarrow> Some (result201 (OnStatusNotification201 env cp r s)) | _ \<Rightarrow> None)
      else Some (Inl (FeatureNotSupported OCPP201 action), s))"

section \<open>Messages\<close>

definition powerJobs :: "string \<Rightarrow> string \<Rightarrow> PowerJob list" where
  "powerJobs action cp =
     (if action = ''StartTransaction'' then [JobCheckPowerLimit cp]
      else if action = ''StopTransaction'' then [JobCheckPowerLimit cp]
      else if action = ''BootNotification'' then [JobChargePointBoot cp]
      else [])"

definition isClosed :: "nat \<Rightarrow> server \<Rightarrow> bool" where
  "isClosed ref s = (case socketOf ref s of None \<Rightarrow> False | Some ws \<Rightarrow> ws_isClosed ws)"

text \<open>The end of both handlers: the response is queued and the power manager called.\<close>

definition finishMessage ::
    "nat \<Rightarrow> string \<Rightarrow> string \<Rightarrow> ((CsError + OcppResponse) \<times> 'db sys) go \<Rightarrow> 'db central \<Rightarrow> 'db outcome" where
  "finishMessage ref cp action routed cs =
     (case routed of
        None \<Rightarrow> Panics
      | Some (Inl err, s) \<Rightarrow> Done (Some err) (cs\<lparr>cs_sys := s\<rparr>)
      | Some (Inr confirmation, s) \<Rightarrow>
          let cs = cs\<lparr>cs_sys := s\<rparr>
          in if isClosed ref (cs_server cs) then Done None cs
             else Done None (cs\<lparr>cs_server := SendResponse ref confirmation (cs_server cs),
                                cs_jobs := cs_jobs cs @ powerJobs action cp\<rparr>))"

definition handleIncomingMessageVersionAware ::
    "'db csEnv \<Rightarrow> time \<Rightarrow> nat \<Rightarrow> Json list \<Rightarrow> ProtocolVersion \<Rightarrow> string \<Rightarrow> 'db central \<Rightarrow> 'db outcome" where
  "handleIncomingMessageVersionAware ce now ref message protocol cp cs =
     (case ParseRequestVersionAware (ce_parseTime ce) message protocol (cs_registry cs) of
        Inl err \<Rightarrow> Done (Some (ParseFailed err)) cs
      | Inr c \<Rightarrow>
          let cs = cs\<lparr>cs_server := SetUniqueId ref (cr_UniqueId c) (cs_server cs)\<rparr>;
              request = cr_Payload c;
              action = Payload_GetFeatureName request
          in if protocol = OCPP16
             then finishMessage ref cp action (routeOCPP16Request (ce_env ce) now cp action request (cs_sys cs)) cs
             else if protocol = OCPP201
             then finishMessage ref cp action
                    (routeOCPP201Request (cs_v201 cs) (ce_env ce) now cp action request (cs_sys cs)) cs
             else if protocol = OCPP21 then Done (Some NotYetImplemented) cs
             else Done (Some (UnsupportedVersion protocol)) cs)"

definition legacyMessage :: "'db csEnv \<Rightarrow> time \<Rightarrow> nat \<Rightarrow> Json list \<Rightarrow> string \<Rightarrow> 'db central \<Rightarrow> 'db outcome" where
  "legacyMessage ce now ref message cp cs =
     (case ParseRequest (ce_parseTime ce) message of
        None \<Rightarrow> Panics
      | Some (Inl err) \<Rightarrow> Done (Some (ParseFailed err)) cs
      | Some (Inr c) \<Rightarrow>
          let cs = cs\<lparr>cs_server := SetUniqueId ref (cr_UniqueId c) (cs_server cs)\<rparr>;
              request = cr_Payload c;
              action = Payload_GetFeatureName request
          in finishMessage ref cp action (routeOCPP16Request (ce_env ce) now cp action request (cs_sys cs)) cs)"

definition handleResult :: "Json list \<Rightarrow> 'db central \<Rightarrow> 'db outcome" where
  "handleResult message cs =
     (case ParseResultUnchecked message of
        Inl _ \<Rightarrow> Done None cs
      | Inr result \<Rightarrow>
         (case ResolveResponse (cres_UniqueId result) (cres_Payload result) (cs_server cs) of
            Resolved s \<Rightarrow> Done None (cs\<lparr>cs_server := s\<rparr>)
          | Unmatched s \<Rightarrow> Done None cs
          | Blocked \<Rightarrow> Waits))"

definition handleIncomingMessage ::
    "'db csEnv \<Rightarrow> time \<Rightarrow> nat \<Rightarrow> WebSocket \<Rightarrow> Json option \<Rightarrow> 'db central \<Rightarrow> 'db outcome" where
  "handleIncomingMessage ce now ref ws data cs =
     (let cp = ws_id ws;
          protocol = ws_protocol ws;
          cs = cs\<lparr>cs_connections := mput cp protocol (cs_connections cs)\<rparr>
      in case ParseJson data of
           None \<Rightarrow> Done (Some NotJson) cs
         | Some message \<Rightarrow>
            (case MessageType message of
               Inl err \<Rightarrow> Done (Some (ParseFailed err)) cs
             | Inr callType \<Rightarrow>
                if callType = CallTypeError then Done None cs
                else if callType = CallTypeResult then handleResult message cs
                else if cs_routingEnabled cs
                then handleIncomingMessageVersionAware ce now ref message protocol cp cs
                else legacyMessage ce now ref message cp cs))"

text \<open>
  One turn of the read pump of a connection: a read error ends the connection, a message registers the websocket
  again and is handled.
\<close>

definition readPump :: "'db csEnv \<Rightarrow> time \<Rightarrow> nat \<Rightarrow> Json option option \<Rightarrow> 'db central \<Rightarrow> 'db outcome" where
  "readPump ce now ref read cs =
     (case socketOf ref (cs_server cs) of None \<Rightarrow> Done None cs
      | Some ws \<Rightarrow>
         (case read of
            None \<Rightarrow> Done None (cs\<lparr>cs_server := closeSocket ref (cs_server cs)\<rparr>)
          | Some data \<Rightarrow>
              handleIncomingMessage ce now ref ws data (cs\<lparr>cs_server := checkAddClient ref (cs_server cs)\<rparr>)))"

section \<open>The power manager\<close>

definition withBalancer :: "('db balancer \<Rightarrow> 'db balancer) \<Rightarrow> 'db central \<Rightarrow> 'db central" where
  "withBalancer f cs =
     (let b = f ((cs_balancer cs)\<lparr>b_db := db (cs_sys cs)\<rparr>)
      in cs\<lparr>cs_balancer := b, cs_sys := (cs_sys cs)\<lparr>db := b_db b\<rparr>\<rparr>)"

fun runPowerJob :: "'db csEnv \<Rightarrow> time \<Rightarrow> PowerJob \<Rightarrow> 'db central \<Rightarrow> 'db central" where
  "runPowerJob ce now (JobCheckPowerLimit cp) cs = withBalancer (CheckPowerLimit (ce_lbEnv ce) now cp) cs"
| "runPowerJob ce now (JobChargePointBoot cp) cs = withBalancer (onChargePointBoot (ce_lbEnv ce) now cp) cs"
| "runPowerJob ce now JobSystemStart cs = withBalancer (OnSystemStart (ce_lbEnv ce)) cs"

section \<open>Commands of the API\<close>

record CentralSystemCommand =
  cmd_ChargePointId :: string
  cmd_ConnectorId :: int
  cmd_FeatureName :: string
  cmd_Payload :: string
  cmd_ProtocolVersion :: string

definition resolveProtocolVersion :: "CentralSystemCommand \<Rightarrow> 'db central \<Rightarrow> ProtocolVersion" where
  "resolveProtocolVersion command cs =
     (let v = cmd_ProtocolVersion command
      in if v = ''ocpp2.0.1'' \<or> v = ''2.0.1'' \<or> v = ''201'' then OCPP201
         else if v = ''ocpp2.1'' \<or> v = ''2.1'' \<or> v = ''21'' then OCPP21
         else if v = ''ocpp1.6'' \<or> v = ''1.6'' \<or> v = ''16'' then OCPP16
         else let connected = GetProtocolVersion (cmd_ChargePointId command) cs
              in if connected \<noteq> UnknownVersion then connected else OCPP16)"

text \<open>The decoded payloads of the commands that carry an object.\<close>

definition decKeyValue :: "Json \<Rightarrow> (string \<times> string) option" where
  "decKeyValue = decObj (\<lambda>ms. do {
     x0 \<leftarrow> decStr (member ''key'' ms);
     x1 \<leftarrow> decStr (member ''value'' ms);
     Some (x0, x1)
   })"

definition decScheduleQuery :: "Json \<Rightarrow> (int \<times> string) option" where
  "decScheduleQuery = decObj (\<lambda>ms. do {
     x0 \<leftarrow> decInt (member ''duration'' ms);
     x1 \<leftarrow> decStr (member ''chargingRateUnit'' ms);
     Some (x0, x1)
   })"

definition decClearProfile :: "Json \<Rightarrow> Request option" where
  "decClearProfile = decObj (\<lambda>ms. do {
     x0 \<leftarrow> decPtr decInt (member ''id'' ms);
     x1 \<leftarrow> decPtr decInt (member ''connectorId'' ms);
     x2 \<leftarrow> decStr (member ''chargingProfilePurpose'' ms);
     x3 \<leftarrow> decPtr decInt (member ''stackLevel'' ms);
     Some (ClearChargingProfileRequest x0 x1 x2 x3)
   })"

definition handleApiRequestV16 ::
    "'db csEnv \<Rightarrow> CentralSystemCommand \<Rightarrow> 'db sys \<Rightarrow> (string + Request) \<times> 'db sys" where
  "handleApiRequestV16 ce command s =
     (let env = ce_env ce; cp = cmd_ChargePointId command; i = cmd_ConnectorId command; p = cmd_Payload command;
          feature = cmd_FeatureName command; read = ce_readJson ce
      in if feature = ''TriggerMessage'' then OnTriggerMessage env cp i p s
         else if feature = ''SendLocalList'' then OnSendLocalList env cp s
         else if feature = ''RemoteStartTransaction'' then OnRemoteStartTransaction env cp i p s
         else if feature = ''RemoteStopTransaction'' then OnRemoteStopTransaction env cp p s
         else if feature = ''GetConfiguration'' then OnGetConfiguration env cp p s
         else if feature = ''ChangeConfiguration'' then OnChangeConfiguration env cp (Option.bind (read p) decKeyValue) s
         else if feature = ''Reset'' then OnReset env cp p s
         else if feature = ''SetChargingProfile'' then OnSetChargingProfile env cp i (ce_readProfile ce p) s
         else if feature = ''GetCompositeSchedule''
         then OnGetCompositeSchedule env cp i p (Option.bind (read p) decScheduleQuery) s
         else if feature = ''ClearChargingProfile''
         then OnClearChargingProfile env cp (Option.bind (read p) decClearProfile) s
         else if feature = ''GetDiagnostics'' then OnGetDiagnostics env cp p s
         else (Inl (''feature not supported for OCPP 1.6: '' @ feature), s))"

definition handleApiRequestV201 ::
    "bool \<Rightarrow> 'db csEnv \<Rightarrow> time \<Rightarrow> CentralSystemCommand \<Rightarrow> 'db sys \<Rightarrow> (string + Request201) \<times> 'db sys" where
  "handleApiRequestV201 handlersSet ce now command s =
     (let cp = cmd_ChargePointId command; p = cmd_Payload command; feature = cmd_FeatureName command; read = ce_readJson ce
      in if \<not> handlersSet then (Inl ''OCPP 2.0.1 handlers not initialized'', s)
         else if feature = ''RequestStartTransaction''
         then (Inr (OnRequestStartTransaction read now (cmd_ConnectorId command) p), s)
         else if feature = ''RequestStopTransaction'' then OnRequestStopTransaction (ce_env ce) cp p s
         else if feature = ''Reset'' then (Inr (OnReset201 p), s)
         else if feature = ''GetVariables'' then (OnGetVariables read p, s)
         else if feature = ''SetVariables'' then (OnSetVariables read p, s)
         else if feature = ''TriggerMessage'' then (OnTriggerMessage201, s)
         else (Inl (''feature not supported for OCPP 2.0.1: '' @ feature), s))"

text \<open>
  The first half of an API call: an error, the status of the server, or a request whose answer is awaited on a
  channel; the second half writes the answer, or no content after the timeout.
\<close>

datatype ApiResult = ApiError string | ApiStatus "string \<times> nat" | ApiAwaits string nat

definition handleApiRequest ::
    "'db csEnv \<Rightarrow> time \<Rightarrow> string \<Rightarrow> nat \<Rightarrow> CentralSystemCommand \<Rightarrow> 'db central \<Rightarrow> ApiResult \<times> 'db central" where
  "handleApiRequest ce now uuid channel command cs =
     (if cmd_FeatureName command = [] then (ApiError ''feature name is empty'', cs)
      else let protocol = resolveProtocolVersion command cs
           in if cmd_FeatureName command = ''GetServerStatus'' then (ApiStatus (GetServerStatus (cs_server cs)), cs)
              else let (built, s) =
                         (if protocol = OCPP201
                          then map_prod (map_sum (\<lambda>e. e) Request201) (\<lambda>s. s)
                                 (handleApiRequestV201 (cs_v201 cs) ce now command (cs_sys cs))
                          else map_prod (map_sum (\<lambda>e. e) Request16) (\<lambda>s. s) (handleApiRequestV16 ce command (cs_sys cs)));
                       cs = cs\<lparr>cs_sys := s\<rparr>
                   in case built of
                        Inl e \<Rightarrow> (ApiError e, cs)
                      | Inr request \<Rightarrow>
                         (case SendRequestWithResponse uuid channel (cmd_ChargePointId command) request (cs_server cs) of
                            (Inl e, _) \<Rightarrow> (ApiError e, cs)
                          | (Inr ch, server) \<Rightarrow> (ApiAwaits uuid ch, cs\<lparr>cs_server := server\<rparr>)))"

datatype ApiReply = NoContent | Body Json

definition finishApiRequest :: "string \<Rightarrow> nat \<Rightarrow> 'db central \<Rightarrow> ApiReply \<times> 'db central" where
  "finishApiRequest uuid channel cs =
     (let (answer, server) = SyncFinish uuid channel (cs_server cs)
      in (case answer of None \<Rightarrow> NoContent | Some payload \<Rightarrow> Body payload, cs\<lparr>cs_server := server\<rparr>))"

text \<open>
  The HTTP listener of the API, \<^verbatim>\<open>src/server/server_api.go\<close>: method and path are checked, the body is decoded and
  the command run. The body is \<open>None\<close> if it cannot be read, and no JSON value if its text is not JSON.
\<close>

definition decCentralSystemCommand :: "Json \<Rightarrow> CentralSystemCommand option" where
  "decCentralSystemCommand = decObj (\<lambda>ms. do {
     x0 \<leftarrow> decStr (member ''charge_point_id'' ms);
     x1 \<leftarrow> decInt (member ''connector_id'' ms);
     x2 \<leftarrow> decStr (member ''feature_name'' ms);
     x3 \<leftarrow> decStr (member ''payload'' ms);
     x4 \<leftarrow> decStr (member ''protocol_version'' ms);
     Some \<lparr>cmd_ChargePointId = x0, cmd_ConnectorId = x1, cmd_FeatureName = x2, cmd_Payload = x3, cmd_ProtocolVersion = x4\<rparr>
   })"

datatype HttpReply = HttpStatus nat | HttpBody Json | HttpAwaits string nat

definition apiError :: "string \<Rightarrow> Json" where
  "apiError e = JObj [(''status'', JStr ''error''), (''error'', JStr e)]"

definition handleRoot ::
    "'db csEnv \<Rightarrow> time \<Rightarrow> string \<Rightarrow> nat \<Rightarrow> string \<Rightarrow> string \<Rightarrow> Json option option \<Rightarrow> 'db central \<Rightarrow> HttpReply \<times> 'db central" where
  "handleRoot ce now uuid channel method path body cs =
     (if method \<noteq> ''POST'' then (HttpStatus 405, cs)
      else if path \<noteq> ''/api'' then (HttpStatus 404, cs)
      else case body of None \<Rightarrow> (HttpStatus 400, cs)
           | Some j \<Rightarrow>
              (case Option.bind j decCentralSystemCommand of None \<Rightarrow> (HttpStatus 400, cs)
               | Some command \<Rightarrow>
                  (case handleApiRequest ce now uuid channel command cs of
                     (ApiError e, cs) \<Rightarrow> (HttpBody (apiError e), cs)
                   | (ApiStatus (clientList, count), cs) \<Rightarrow>
                       (HttpBody (JObj [(''connected_clients'', JStr clientList), (''total_clients'', encInt (int count))]), cs)
                   | (ApiAwaits u ch, cs) \<Rightarrow> (HttpAwaits u ch, cs))))"

section \<open>Construction\<close>

text \<open>
  The services are built by the configuration and given in the environment; the system handler loads its state
  before the central system is returned, and an error of it is the error of the construction.
\<close>

definition NewCentralSystem :: "'db csEnv \<Rightarrow> 'db \<Rightarrow> string option \<times> 'db central" where
  "NewCentralSystem ce d =
     (let affleck = (case database (ce_env ce) of None \<Rightarrow> NewAffleck | Some _ \<Rightarrow> SetDatabase NewAffleck);
          wsServer = AddSupportedSupProtocol ''ocpp2.0.1'' (AddSupportedSupProtocol ''ocpp1.6'' NewServer);
          (err, s) = OnStart (ce_env ce) (NewSystemHandler affleck d)
      in (err, \<lparr>cs_sys = s, cs_server = wsServer, cs_balancer = NewLoadBalancer (db s), cs_connections = [],
                cs_registry = NewFeatureRegistry, cs_routingEnabled = False, cs_v201 = (err = None), cs_jobs = []\<rparr>))"

definition EnableVersionAwareRouting :: "'db central \<Rightarrow> 'db central" where
  "EnableVersionAwareRouting cs = cs\<lparr>cs_routingEnabled := True, cs_registry := NewHandler16 (cs_registry cs)\<rparr>"

definition StartCentralSystem :: "'db central \<Rightarrow> 'db central" where
  "StartCentralSystem cs = cs\<lparr>cs_jobs := cs_jobs cs @ [JobSystemStart]\<rparr>"

text \<open>The program: construct, enable the routing, start.\<close>

definition main :: "'db csEnv \<Rightarrow> 'db \<Rightarrow> string + 'db central" where
  "main ce d =
     (case NewCentralSystem ce d of
        (Some err, _) \<Rightarrow> Inl err
      | (None, cs) \<Rightarrow> Inr (StartCentralSystem (EnableVersionAwareRouting cs)))"

end
