(* ===== verification/MessageProps.thy ===== *)
theory MessageProps
  imports Messages
begin

text \<open>
  Properties of the message layer: a parsed request has the struct its action names, so the type assertions of
  the router hold; the commands the system sends are read back by the parser as they were; the legacy parser
  panics on an action that is not a string.
\<close>

section \<open>Decoders and features\<close>

text \<open>
  The contract between a table of decoders and a list of features: what the decoder of a registered type
  returns is a payload of that feature.
\<close>

locale typed_decoders =
  fixes dec :: "reflectType \<Rightarrow> Json \<Rightarrow> Payload option" and features :: "(string \<times> featureTypes) list"
    and belongs :: "Payload \<Rightarrow> bool"
  assumes sound: "map_of features action = Some types \<Longrightarrow> dec (ft_requestType types) j = Some p \<Longrightarrow>
      Payload_GetFeatureName p = action \<and> belongs p"
begin

lemma typed_lookup:
  assumes "\<And>a. lookupFeature r v a = map_of features a" "GetTypes v action r = Inr types"
    "dec (ft_requestType types) j = Some p"
  shows "Payload_GetFeatureName p = action \<and> belongs p"
  using assms sound by (simp add: GetTypes_lookup)

end

fun is16 :: "Payload \<Rightarrow> bool" where
  "is16 (BootPayload _) = True"
| "is16 (AuthorizePayload _) = True"
| "is16 HeartbeatPayload = True"
| "is16 (StartPayload _) = True"
| "is16 (StopPayload _) = True"
| "is16 (MeterPayload _) = True"
| "is16 (StatusPayload _) = True"
| "is16 (DataTransferPayload _) = True"
| "is16 (DiagnosticsPayload _) = True"
| "is16 (FirmwarePayload _) = True"
| "is16 (CommandPayload _) = True"
| "is16 _ = False"

lemma decCommands:
  "decRemoteStart parse j = Some c \<Longrightarrow> Command16_GetFeatureName c = ''RemoteStartTransaction''"
  "decRemoteStop j = Some c \<Longrightarrow> Command16_GetFeatureName c = ''RemoteStopTransaction''"
  "decGetConfiguration j = Some c \<Longrightarrow> Command16_GetFeatureName c = ''GetConfiguration''"
  "decChangeConfiguration j = Some c \<Longrightarrow> Command16_GetFeatureName c = ''ChangeConfiguration''"
  "decSendLocalList parse j = Some c \<Longrightarrow> Command16_GetFeatureName c = ''SendLocalList''"
  "decTriggerMessage j = Some c \<Longrightarrow> Command16_GetFeatureName c = ''TriggerMessage''"
  by (cases j; auto simp: decRemoteStart_def decRemoteStop_def decGetConfiguration_def decChangeConfiguration_def
      decSendLocalList_def decTriggerMessage_def split: bind_splits)+

text \<open>The tables agree row by row.\<close>

definition rowSound :: "(Payload \<Rightarrow> bool) \<Rightarrow> string \<times> featureTypes \<Rightarrow> reflectType \<times> (Json \<Rightarrow> Payload option) \<Rightarrow> bool" where
  "rowSound belongs f d \<longleftrightarrow> fst d = ft_requestType (snd f)
     \<and> (\<forall>j p. snd d j = Some p \<longrightarrow> Payload_GetFeatureName p = fst f \<and> belongs p)"

lemma rows16: "list_all2 (rowSound is16) features16 (decoders16 parse)"
  by (simp add: features16_def feature_def decoders16_def rowSound_def) (auto dest: decCommands)

lemma rows201: "list_all2 (rowSound (\<lambda>p. \<not> is16 p)) features201 (decoders201 parse)"
  by (simp add: features201_def feature_def decoders201_def rowSound_def) auto

definition decoderNames :: "reflectType list" where
  "decoderNames = map (ft_requestType \<circ> snd) (features16 @ features201)"

lemma distinct_decoderNames: "distinct decoderNames"
  by code_simp

lemma rows_names: "list_all2 (rowSound b) fs ds \<Longrightarrow> map fst ds = map (ft_requestType \<circ> snd) fs"
  by (induction rule: list_all2_induct) (auto simp: rowSound_def)

lemma distinct_decoders: "distinct (map fst (decoders16 parse @ decoders201 parse))"
  using distinct_decoderNames rows_names [OF rows16] rows_names [OF rows201]
  by (simp add: decoderNames_def)

lemma rows_sound:
  assumes "list_all2 (rowSound b) fs ds" "set ds \<subseteq> set all" "distinct (map fst all)" "map_of fs action = Some types"
    "map_of all (ft_requestType types) = Some d" "d j = Some p"
  shows "Payload_GetFeatureName p = action \<and> b p"
proof -
  from assms(4) have "(action, types) \<in> set fs" by (rule map_of_SomeD)
  then obtain i where i: "i < length fs" "fs ! i = (action, types)" by (auto simp: in_set_conv_nth)
  define e where "e = ds ! i"
  have e: "e \<in> set ds" "rowSound b (action, types) e"
    using i list_all2_lengthD [OF assms(1)] list_all2_nthD [OF assms(1) i(1)] by (auto simp: e_def)
  then have "map_of all (fst e) = Some (snd e)" using assms(2,3) by (cases e) auto
  with e assms(5,6) show ?thesis by (simp add: rowSound_def)
qed

lemma decodePayload_row:
  "decodePayload parse ty j = Some p \<longleftrightarrow>
   (\<exists>d. map_of (decoders16 parse @ decoders201 parse) ty = Some d \<and> d j = Some p)"
  by (auto simp: decodePayload_def simp del: map_of_append split: option.split)

lemma decodePayload_sound:
  assumes "list_all2 (rowSound b) fs ds" "set ds \<subseteq> set (decoders16 parse @ decoders201 parse)"
    "map_of fs action = Some types" "decodePayload parse (ft_requestType types) j = Some p"
  shows "Payload_GetFeatureName p = action \<and> b p"
proof -
  from assms(4) obtain d where
    "map_of (decoders16 parse @ decoders201 parse) (ft_requestType types) = Some d" "d j = Some p"
    by (auto simp only: decodePayload_row)
  then show ?thesis by (rule rows_sound [OF assms(1,2) distinct_decoders assms(3)])
qed

interpretation typed16: typed_decoders "decodePayload parse" features16 is16 for parse
  by unfold_locales (rule decodePayload_sound [OF rows16 [of parse]], simp_all)

interpretation typed201: typed_decoders "decodePayload parse" features201 "\<lambda>p. \<not> is16 p" for parse
  by unfold_locales (rule decodePayload_sound [OF rows201 [of parse]], simp_all)

section \<open>Parsed requests\<close>

lemma ParseRawJsonRequest_Inr:
  "ParseRawJsonRequest parse raw ty = Inr p \<Longrightarrow> (\<exists>j. decodePayload parse ty j = Some p) \<and> Payload_Validate p = None"
  by (auto simp: ParseRawJsonRequest_def Let_def split: option.splits)

lemma ParseRequestVersionAware_Inr:
  assumes "ParseRequestVersionAware parse data v r = Inr c"
  shows "\<exists>types j. cr_TypeId c = CallTypeRequest \<and> data ! 1 = JStr (cr_UniqueId c) \<and> data ! 2 = JStr (cr_feature c)
    \<and> GetTypes v (cr_feature c) r = Inr types \<and> decodePayload parse (ft_requestType types) j = Some (cr_Payload c)
    \<and> Payload_Validate (cr_Payload c) = None"
  using assms by (auto simp: ParseRequestVersionAware_def split: sum.splits if_splits Json.splits
      dest!: ParseRawJsonRequest_Inr)

lemma parsed16:
  assumes "ParseRequestVersionAware parse data OCPP16 r = Inr c" "\<And>a. lookupFeature r OCPP16 a = map_of features16 a"
  shows "Payload_GetFeatureName (cr_Payload c) = cr_feature c \<and> is16 (cr_Payload c)
    \<and> Payload_Validate (cr_Payload c) = None"
proof -
  obtain types j where t: "GetTypes OCPP16 (cr_feature c) r = Inr types"
      "decodePayload parse (ft_requestType types) j = Some (cr_Payload c)" "Payload_Validate (cr_Payload c) = None"
    using ParseRequestVersionAware_Inr [OF assms(1)] by blast
  then show ?thesis using typed16.typed_lookup [OF assms(2) t(1,2)] by simp
qed

section \<open>Round trips\<close>

text \<open>The commands of the system that are registered features, as the structs they decode to.\<close>

fun commandOf :: "Request \<Rightarrow> Command16 option" where
  "commandOf (TriggerMessageRequest message connectorId) = Some (TriggerMessageCommand message connectorId)"
| "commandOf (ChangeConfigurationRequest k v) = Some (ChangeConfigurationCommand k v)"
| "commandOf (GetConfigurationRequest ks) = Some (GetConfigurationCommand ks)"
| "commandOf (SendLocalListRequest version entries updateType) =
     Some (SendLocalListCommand version
       (map (\<lambda>(idTag, st). \<lparr>ad_IdTag = idTag,
          ad_IdTagInfo = Some \<lparr>ii_ExpiryDate = None, ii_ParentIdTag = [], ii_Status = authStatusText st\<rparr>\<rparr>) entries)
       updateType)"
| "commandOf (RemoteStartTransactionRequest connectorId idTag) = Some (RemoteStartCommand connectorId idTag)"
| "commandOf (RemoteStopTransactionRequest transactionId) = Some (RemoteStopCommand transactionId)"
| "commandOf _ = None"

fun requestInts :: "Request \<Rightarrow> bool" where
  "requestInts (TriggerMessageRequest _ connectorId) = pred_option int64 connectorId"
| "requestInts (SendLocalListRequest version _ _) = int64 version"
| "requestInts (RemoteStartTransactionRequest connectorId _) = pred_option int64 connectorId"
| "requestInts (RemoteStopTransactionRequest transactionId) = int64 transactionId"
| "requestInts _ = True"

lemma EqualFold_refl [simp]: "EqualFold s s"
  by (simp add: EqualFold_def)

lemmas fold_names = EqualFold_def ToLower_def lowerChar_def Let_def

lemma decTriggerMessage_enc:
  "pred_option int64 c \<Longrightarrow>
   decTriggerMessage (encRequest format (TriggerMessageRequest m c)) = Some (TriggerMessageCommand m c)"
  by (cases c) (simp_all add: decTriggerMessage_def omitPtr_def member_def fold_names)

lemma decChangeConfiguration_enc:
  "decChangeConfiguration (encRequest format (ChangeConfigurationRequest k v)) = Some (ChangeConfigurationCommand k v)"
  by (simp add: decChangeConfiguration_def member_def fold_names)

lemma decGetConfiguration_enc:
  "decGetConfiguration (encRequest format (GetConfigurationRequest ks)) = Some (GetConfigurationCommand ks)"
  by (simp add: decGetConfiguration_def omit_def member_def comp_def those_map [where g = "\<lambda>x. x"])

lemma decRemoteStart_enc:
  "pred_option int64 c \<Longrightarrow>
   decRemoteStart parse (encRequest format (RemoteStartTransactionRequest c t)) = Some (RemoteStartCommand c t)"
  by (cases c) (simp_all add: decRemoteStart_def omitPtr_def member_def fold_names)

lemma decRemoteStop_enc:
  "int64 t \<Longrightarrow> decRemoteStop (encRequest format (RemoteStopTransactionRequest t)) = Some (RemoteStopCommand t)"
  by (simp add: decRemoteStop_def member_def)

lemma decAuthorizationData_enc:
  "decAuthorizationData parse (JObj [(''idTag'', JStr t), (''idTagInfo'', encIdTagInfo st)]) =
   Some \<lparr>ad_IdTag = t, ad_IdTagInfo = Some \<lparr>ii_ExpiryDate = None, ii_ParentIdTag = [], ii_Status = authStatusText st\<rparr>\<rparr>"
  by (simp add: decAuthorizationData_def decIdTagInfo_def encIdTagInfo_def member_def fold_names)

lemma decSendLocalList_enc:
  "int64 version \<Longrightarrow> decSendLocalList parse (encRequest format (SendLocalListRequest version es u)) =
   commandOf (SendLocalListRequest version es u)"
  by (simp add: decSendLocalList_def omit_def member_def fold_names comp_def prod.case_distrib
      decAuthorizationData_enc those_map [where g = "\<lambda>(t, st). \<lparr>ad_IdTag = t,
        ad_IdTagInfo = Some \<lparr>ii_ExpiryDate = None, ii_ParentIdTag = [], ii_Status = authStatusText st\<rparr>\<rparr>"]
      split: prod.split)

lemmas decCommands_enc = decTriggerMessage_enc decChangeConfiguration_enc decGetConfiguration_enc decRemoteStart_enc
  decRemoteStop_enc decSendLocalList_enc

lemma NewHandler16_lookup: "lookupFeature (NewHandler16 NewFeatureRegistry) OCPP16 a = map_of features16 a"
  by (simp add: handler16_lookup)
    (simp add: lookupFeature_def versionMapOf_def NewFeatureRegistry_def split: option.split)

text \<open>The types of the commands, from the registry to the decoder.\<close>

definition commandType :: "Request \<Rightarrow> reflectType" where
  "commandType r =
     (case map_of features16 (GetFeatureName r) of None \<Rightarrow> [] | Some types \<Rightarrow> ft_requestType types)"

lemma GetTypes_command:
  "commandOf r = Some c \<Longrightarrow> \<exists>types. GetTypes OCPP16 (GetFeatureName r) (NewHandler16 NewFeatureRegistry) = Inr types
     \<and> ft_requestType types = commandType r"
  by (cases r) (simp_all add: GetTypes_lookup NewHandler16_lookup commandType_def features16_def feature_def)

lemma encRequest_object: "\<exists>ms. encRequest format r = JObj ms"
  by (cases r) auto

lemma decodePayload_command:
  assumes "commandOf r = Some c" "requestInts r"
  shows "decodePayload parse (commandType r) (encRequest format r) = Some (CommandPayload c)"
  using assms
  by (cases r)
    (simp_all add: commandType_def features16_def feature_def decodePayload_def decoders16_def decCommands_enc
      del: encRequest.simps)

lemma MessageType_encInt [simp]:
  "t = CallTypeRequest \<or> t = CallTypeResult \<or> t = CallTypeError \<Longrightarrow> MessageType (encInt t # data) = Inr t"
  by (auto simp: MessageType_def encInt_def int_of_float_def int64_def Let_def)



text \<open>The unchecked assertion of the legacy parser, which the version aware one makes with a check.\<close>

lemma legacy_parser_panics:
  assumes "MessageType [t, JStr u, a, p] = Inr CallTypeRequest" "\<And>s. a \<noteq> JStr s"
  shows "ParseRequest parse [t, JStr u, a, p] = None"
    and "ParseRequestVersionAware parse [t, JStr u, a, p] v r = Inl InvalidAction"
  using assms by (cases a; simp add: ParseRequest_def ParseRequestVersionAware_def)+

end
