(* ===== verification/ServerProps.thy ===== *)
theory ServerProps
  imports Server
begin

text \<open>
  Properties of the websocket server over every interleaving of its operations: the invariant of its tables
  with the bounds of its buffers, the delivery of an answer to the caller that waits for it, and two behaviours
  of the pool that lose a live connection.
\<close>

section \<open>Operations and runs\<close>

text \<open>
  One constructor per operation: a new connection, a message read (which registers the websocket again), the end
  of a pump, one envelope of the pool, one turn of a write pump, the sending of responses and requests, an
  answer, and the receive and release of a waiting caller. An answer whose channel is full waits, so it is no
  step yet. An address or unique id that is allocated is new.
\<close>

datatype serverOp =
    Connect string "string list" bool nat
  | Read nat
  | CloseSocket nat
  | PoolNext
  | Write nat
  | SetId nat string
  | Respond nat OcppResponse
  | Request string string OcppRequest
  | RequestAnswer string nat string OcppRequest
  | Answer string Json
  | Receive nat
  | Release string

fun runOp :: "(time \<Rightarrow> string) \<Rightarrow> serverOp \<Rightarrow> server \<Rightarrow> server go" where
  "runOp format (Connect cid offered upgraded ref) s = Some (handleWsRequest cid offered upgraded ref s)"
| "runOp format (Read ref) s = Some (checkAddClient ref s)"
| "runOp format (CloseSocket ref) s = Some (closeSocket ref s)"
| "runOp format PoolNext s = poolNext format s"
| "runOp format (Write ref) s = Some (snd (writePump ref s))"
| "runOp format (SetId ref uniqueId) s = Some (SetUniqueId ref uniqueId s)"
| "runOp format (Respond ref response) s = Some (SendResponse ref response s)"
| "runOp format (Request uuid clientId request) s = Some (snd (SendRequest uuid clientId request s))"
| "runOp format (RequestAnswer uuid ch clientId request) s = Some (snd (SendRequestWithResponse uuid ch clientId request s))"
| "runOp format (Answer uniqueId payload) s =
     (case ResolveResponse uniqueId payload s of Resolved s \<Rightarrow> Some s | Unmatched s \<Rightarrow> Some s | Blocked \<Rightarrow> Some s)"
| "runOp format (Receive ch) s = Some (snd (receive ch s))"
| "runOp format (Release uniqueId) s = Some (releasePending uniqueId s)"

fun fresh :: "serverOp \<Rightarrow> server \<Rightarrow> bool" where
  "fresh (Connect _ _ _ ref) s \<longleftrightarrow> map_of (sockets s) ref = None"
| "fresh (Request uuid _ _) s \<longleftrightarrow> map_of (pending s) uuid = None"
| "fresh (RequestAnswer uuid ch _ _) s \<longleftrightarrow> map_of (channels s) ch = None \<and> map_of (pending s) uuid = None"
| "fresh _ s \<longleftrightarrow> True"

inductive runs :: "(time \<Rightarrow> string) \<Rightarrow> serverOp list \<Rightarrow> server \<Rightarrow> server \<Rightarrow> bool" for format where
  runs_Nil: "runs format [] s s"
| runs_Cons: "fresh op s \<Longrightarrow> runOp format op s = Some s1 \<Longrightarrow> runs format ops s1 s' \<Longrightarrow> runs format (op # ops) s s'"

inductive_cases runs_NilE: "runs format [] s s'"
inductive_cases runs_ConsE: "runs format (op # ops) s s'"

section \<open>The invariant\<close>

definition tables_ok :: "server \<Rightarrow> bool" where
  "tables_ok s \<longleftrightarrow> gomap_ok (sockets s) \<and> gomap_ok (clients s) \<and> gomap_ok (pending s) \<and> gomap_ok (channels s)
     \<and> gomap_ok (fireAndForget s)"

definition clients_ok :: "server \<Rightarrow> bool" where
  "clients_ok s \<longleftrightarrow> (\<forall>cid ref. map_of (clients s) cid = Some ref \<longrightarrow> (\<exists>ws. socketOf ref s = Some ws \<and> ws_id ws = cid))"

definition buffers_ok :: "server \<Rightarrow> bool" where
  "buffers_ok s \<longleftrightarrow> (\<forall>ref ws. socketOf ref s = Some ws \<longrightarrow> length (ws_send ws) \<le> sendBuffer)
     \<and> (\<forall>ch ps. map_of (channels s) ch = Some ps \<longrightarrow> length ps \<le> 1)
     \<and> length (fireAndForget s) \<le> maxFireAndForget"

definition pending_ok :: "server \<Rightarrow> bool" where
  "pending_ok s \<longleftrightarrow> (\<forall>u ch. map_of (pending s) u = Some ch \<longrightarrow> map_of (channels s) ch \<noteq> None)
     \<and> (\<forall>u v ch. map_of (pending s) u = Some ch \<longrightarrow> map_of (pending s) v = Some ch \<longrightarrow> u = v)"

definition server_ok :: "server \<Rightarrow> bool" where
  "server_ok s \<longleftrightarrow> tables_ok s \<and> clients_ok s \<and> buffers_ok s \<and> pending_ok s"

lemmas server_defs = server_ok_def tables_ok_def clients_ok_def buffers_ok_def pending_ok_def socketOf_def

lemma NewServer_ok: "server_ok NewServer"
  by (simp add: server_defs NewServer_def)

text \<open>Changes of one table.\<close>

lemma ok_putSocket:
  assumes "server_ok s" "length (ws_send ws) \<le> sendBuffer" "\<And>old. socketOf ref s = Some old \<Longrightarrow> ws_id ws = ws_id old"
  shows "server_ok (putSocket ref ws s)"
proof -
  have "clients_ok (putSocket ref ws s)"
    using assms(1,3) unfolding server_ok_def clients_ok_def putSocket_def socketOf_def by fastforce
  with assms(1,2) show ?thesis
    by (auto simp: server_ok_def tables_ok_def buffers_ok_def pending_ok_def putSocket_def socketOf_def)
qed

lemma putSocket_tables [simp]:
  "clients (putSocket ref ws s) = clients s" "pending (putSocket ref ws s) = pending s"
  "channels (putSocket ref ws s) = channels s" "fireAndForget (putSocket ref ws s) = fireAndForget s"
  by (simp_all add: putSocket_def)

lemma ok_mdel_clients: "server_ok s \<Longrightarrow> server_ok (s\<lparr>clients := mdel cid (clients s)\<rparr>)"
  by (auto simp: server_defs)

lemma ok_other: "server_ok s \<Longrightarrow> server_ok (s\<lparr>sendQueue := q\<rparr>)" "server_ok s \<Longrightarrow> server_ok (s\<lparr>online := l\<rparr>)"
  by (auto simp: server_defs)

lemma socket_size: "server_ok s \<Longrightarrow> socketOf ref s = Some ws \<Longrightarrow> length (ws_send ws) \<le> sendBuffer"
  by (simp add: server_ok_def buffers_ok_def)

lemma channel_size: "server_ok s \<Longrightarrow> length (channelOf ch s) \<le> 1"
  by (auto simp: server_ok_def buffers_ok_def channelOf_def split: option.split)

lemma ok_mput_channels: "server_ok s \<Longrightarrow> length ps \<le> 1 \<Longrightarrow> server_ok (s\<lparr>channels := mput ch ps (channels s)\<rparr>)"
  by (auto simp: server_defs)

lemma ok_checkAddClient: "server_ok s \<Longrightarrow> server_ok (checkAddClient ref s)"
  by (auto simp: checkAddClient_def server_defs Let_def split: option.split)

lemma ok_deleteClient: "server_ok s \<Longrightarrow> server_ok (deleteClient ref s)"
  by (auto simp: deleteClient_def ok_mdel_clients split: option.split)

lemma ok_deleteClients: "server_ok s \<Longrightarrow> server_ok (fold deleteClient refs s)"
  by (induction refs arbitrary: s) (simp_all add: ok_deleteClient)

lemma sockets_deleteClients [simp]: "sockets (fold deleteClient refs s) = sockets s"
proof (induction refs arbitrary: s)
  case (Cons ref refs)
  then show ?case by (simp add: deleteClient_def split: option.split)
qed simp

lemma ok_handleWsRequest:
  assumes "server_ok s" "map_of (sockets s) ref = None"
  shows "server_ok (handleWsRequest cid offered upgraded ref s)"
  using assms unfolding handleWsRequest_def Let_def
  by (auto intro!: ok_checkAddClient ok_putSocket ok_deleteClients simp: socketOf_def)

lemma ok_closeSocket: "server_ok s \<Longrightarrow> server_ok (closeSocket ref s)"
  unfolding closeSocket_def
  by (auto intro!: ok_deleteClient ok_putSocket ok_other simp: socketOf_def split: option.split)
    (auto simp: server_defs)

lemma ok_poolSend: "server_ok s \<Longrightarrow> poolSend format env s = Some s' \<Longrightarrow> server_ok s'"
proof -
  assume ok: "server_ok s" and send: "poolSend format env s = Some s'"
  have size: "length (ws_send ws) \<le> sendBuffer" if "socketOf ref s = Some ws" for ref ws
    using ok that by (rule socket_size)
  have drop: "server_ok ((putSocket ref ws s)\<lparr>clients := mdel cid (clients s)\<rparr>)"
    if "server_ok (putSocket ref ws s)" for ref ws cid
    using ok_mdel_clients [OF that] by simp
  show ?thesis
    using ok send size unfolding poolSend_def
    by (auto split: option.splits if_splits intro!: drop ok_putSocket)
qed

lemma ok_markFireAndForget: "server_ok s \<Longrightarrow> server_ok (markFireAndForget u s)"
proof -
  assume ok: "server_ok s"
  define kept where "kept = (if length (fireAndForget s) \<ge> maxFireAndForget
      then mdel (fst (hd (fireAndForget s))) (fireAndForget s) else fireAndForget s)"
  have g: "gomap_ok (fireAndForget s)" "length (fireAndForget s) \<le> maxFireAndForget"
    using ok by (auto simp: server_defs)
  have "gomap_ok kept \<and> length kept < maxFireAndForget"
  proof (cases "length (fireAndForget s) \<ge> maxFireAndForget")
    case True
    then have "fireAndForget s \<noteq> []" by (auto simp: maxFireAndForget_def)
    then have "fst (hd (fireAndForget s)) \<in> fst ` set (fireAndForget s)" by simp
    with True g show ?thesis by (simp add: kept_def length_mdel maxFireAndForget_def)
  qed (simp add: kept_def g)
  then have "gomap_ok (mput u () kept) \<and> length (mput u () kept) \<le> maxFireAndForget"
    by (simp add: length_mput)
  with ok show ?thesis unfolding markFireAndForget_def kept_def [symmetric] Let_def by (auto simp: server_defs)
qed

lemma ok_registerPending:
  "server_ok s \<Longrightarrow> map_of (channels s) ch = None \<Longrightarrow> server_ok (registerPending u ch s)"
proof -
  assume ok: "server_ok s" and new: "map_of (channels s) ch = None"
  have "map_of (pending s) v \<noteq> Some ch" for v
    using ok new unfolding server_ok_def pending_ok_def by (metis)
  with ok show ?thesis by (auto simp: server_defs registerPending_def)
qed

lemma ok_releasePending: "server_ok s \<Longrightarrow> server_ok (releasePending u s)"
  by (auto simp: server_defs releasePending_def)

lemma ok_ResolveResponse:
  "server_ok s \<Longrightarrow> ResolveResponse u p s = Resolved s' \<Longrightarrow> server_ok s'"
  "server_ok s \<Longrightarrow> ResolveResponse u p s = Unmatched s' \<Longrightarrow> server_ok s'"
  by (auto simp: ResolveResponse_def server_defs split: option.splits if_splits
      intro: le_trans [OF length_mdel_le])

lemma ok_receive: "server_ok s \<Longrightarrow> server_ok (snd (receive ch s))"
  using channel_size [of s ch]
  by (auto simp: receive_def split: list.splits intro!: ok_mput_channels)

lemma ok_writePump: "server_ok s \<Longrightarrow> server_ok (snd (writePump ref s))"
  using socket_size [of s ref]
  by (auto simp: writePump_def split: option.splits list.splits intro!: ok_putSocket)

lemma ok_SetUniqueId: "server_ok s \<Longrightarrow> server_ok (SetUniqueId ref u s)"
  using socket_size [of s ref] by (auto simp: SetUniqueId_def split: option.splits intro!: ok_putSocket)

lemma runOp_ok:
  assumes "server_ok s" "fresh op s" "runOp format op s = Some s'"
  shows "server_ok s'"
proof (cases op)
  case PoolNext
  with assms show ?thesis
    by (auto simp: poolNext_def split: list.splits dest: ok_poolSend [rotated] intro: ok_other)
next
  case (Answer u p)
  with assms show ?thesis by (auto dest: ok_ResolveResponse split: Resolution.splits)
qed (use assms in \<open>auto simp: ok_handleWsRequest ok_checkAddClient ok_closeSocket ok_receive ok_releasePending ok_writePump
    ok_SetUniqueId     SendResponse_def SendRequest_def SendRequestWithResponse_def queueRequest_def CreateCallRequest_def Let_def
    intro!: ok_other ok_markFireAndForget ok_registerPending split: option.splits if_splits\<close>)

lemma runs_ok: "runs format ops s s' \<Longrightarrow> server_ok s \<Longrightarrow> server_ok s'"
  by (induction rule: runs.induct) (auto dest: runOp_ok)

section \<open>Waiting callers\<close>

text \<open>
  The operations that concern a waiting caller: the answer to its request, its own release and its own
  receive.
\<close>

fun concerns :: "string \<Rightarrow> nat \<Rightarrow> serverOp \<Rightarrow> bool" where
  "concerns u ch (Answer v _) \<longleftrightarrow> v = u"
| "concerns u ch (Release v) \<longleftrightarrow> v = u"
| "concerns u ch (Receive c) \<longleftrightarrow> c = ch"
| "concerns u ch _ \<longleftrightarrow> False"

definition waiting :: "string \<Rightarrow> nat \<Rightarrow> server \<Rightarrow> bool" where
  "waiting u ch s \<longleftrightarrow> map_of (pending s) u = Some ch \<and> map_of (channels s) ch = Some []"

lemma waiting_tables:
  "pending s' = pending s \<Longrightarrow> channels s' = channels s \<Longrightarrow> waiting u ch s' = waiting u ch s"
  by (simp add: waiting_def)

lemma quiet_tables:
  "pending (checkAddClient ref s) = pending s" "channels (checkAddClient ref s) = channels s"
  "pending (deleteClient ref s) = pending s" "channels (deleteClient ref s) = channels s"
  "pending (markFireAndForget v s) = pending s" "channels (markFireAndForget v s) = channels s"
  "pending (queueRequest cid c s) = pending s" "channels (queueRequest cid c s) = channels s"
  by (simp_all add: checkAddClient_def deleteClient_def markFireAndForget_def queueRequest_def Let_def split: option.split)

lemma quiet_deleteClients:
  "pending (fold deleteClient refs s) = pending s" "channels (fold deleteClient refs s) = channels s"
  by (induction refs arbitrary: s) (simp_all add: quiet_tables)

lemma quiet_poolSend: "poolSend format env s = Some s' \<Longrightarrow> pending s' = pending s \<and> channels s' = channels s"
  by (auto simp: poolSend_def split: option.splits if_splits)

lemma runOp_waiting:
  assumes "server_ok s" "waiting u ch s" "fresh op s" "\<not> concerns u ch op" "runOp format op s = Some s'"
  shows "waiting u ch s'"
proof (cases op)
  case PoolNext
  with assms show ?thesis
    by (auto simp: poolNext_def split: list.splits dest!: quiet_poolSend intro: waiting_tables [THEN iffD2])
next
  case (Answer v p)
  have "c \<noteq> ch" if "map_of (pending s) v = Some c" for c
    using assms(1,2,4) that Answer unfolding server_ok_def pending_ok_def waiting_def by auto
  with Answer assms show ?thesis
    by (auto simp: ResolveResponse_def waiting_def split: option.splits if_splits)
next
  case (RequestAnswer v c cid r)
  with assms show ?thesis
    by (auto simp: SendRequestWithResponse_def registerPending_def waiting_def Let_def quiet_tables CreateCallRequest_def)
next
  case (Receive c)
  with assms show ?thesis by (auto simp: receive_def waiting_def split: list.splits)
qed (use assms in \<open>auto simp: waiting_def handleWsRequest_def closeSocket_def writePump_def SetUniqueId_def SendResponse_def
    SendRequest_def releasePending_def Let_def quiet_tables quiet_deleteClients split: option.splits list.splits\<close>)

lemma runs_waiting:
  "runs format ops s s' \<Longrightarrow> server_ok s \<Longrightarrow> waiting u ch s \<Longrightarrow> list_all (\<lambda>op. \<not> concerns u ch op) ops \<Longrightarrow> waiting u ch s'"
  by (induction rule: runs.induct) (auto dest: runOp_waiting runOp_ok)

lemma SendRequestWithResponse_waiting:
  assumes "SendRequestWithResponse u ch cid request s = (Inr ch, s')"
  shows "waiting u ch s'"
  using assms by (auto simp: SendRequestWithResponse_def registerPending_def waiting_def Let_def quiet_tables
      CreateCallRequest_def split: if_splits)

lemma waiting_resolved:
  assumes "waiting u ch s"
  shows "\<exists>s1 s2. ResolveResponse u p s = Resolved s1 \<and> SyncFinish u ch s1 = (Some p, s2) \<and> map_of (pending s2) u = None"
  using assms by (auto simp: waiting_def ResolveResponse_def SyncFinish_def receive_def channelOf_def releasePending_def)

section \<open>Connections that are lost\<close>

text \<open>
  When a charge point connects again before its old connection has ended, the end of the old one unregisters
  the new one, because the pool is searched by id: requests are refused although the connection is open.
\<close>

lemma old_close_drops_new_connection:
  assumes "server_ok s" "socketOf old s = Some ws" "map_of (sockets s) new = None"
  shows "\<not> recipientAvailable (ws_id ws) (closeSocket old (handleWsRequest (ws_id ws) offered True new s))"
proof -
  define s1 where "s1 = handleWsRequest (ws_id ws) offered True new s"
  have "new \<noteq> old" using assms(2,3) by (auto simp: socketOf_def)
  then have old: "socketOf old s1 = Some ws"
    using assms(2) by (auto simp: s1_def handleWsRequest_def checkAddClient_def socketOf_def putSocket_def Let_def
        split: option.split)
  have "server_ok s1" unfolding s1_def using assms(1,3) by (rule ok_handleWsRequest)
  then have "server_ok (closeSocket old s1)" by (rule ok_closeSocket)
  moreover have "map_of (clients (closeSocket old s1)) (ws_id ws) = None"
    using old by (simp add: closeSocket_def deleteClient_def socketOf_def putSocket_def)
  ultimately show ?thesis
    unfolding s1_def [symmetric] recipientAvailable_def list_ex_iff server_ok_def clients_ok_def tables_ok_def
    by (fastforce dest: map_of_in_set split: option.splits)
qed

text \<open>
  A connection whose buffer overflows is dropped and its channel closed, but the next message it sends
  registers it again, and the next envelope for it is a send on a closed channel: the pool panics.
\<close>

lemma overflow_then_message_panics:
  assumes "server_ok s" "map_of (clients s) cid = Some ref" "socketOf ref s = Some ws"
    "length (ws_send ws) = sendBuffer" "\<not> ws_sendClosed ws"
    "env_recipient e = cid" "getMessageData format e = Some m"
    "env_recipient e' = cid" "getMessageData format e' = Some m'"
  shows "\<exists>s1. poolSend format e s = Some s1 \<and> poolSend format e' (checkAddClient ref s1) = None"
proof -
  have cid: "ws_id ws = cid" using assms(1,2,3) unfolding server_ok_def clients_ok_def by fastforce
  define s1 where "s1 = (putSocket ref (ws\<lparr>ws_sendClosed := True\<rparr>) s)\<lparr>clients := mdel cid (clients s)\<rparr>"
  have s1: "poolSend format e s = Some s1"
    using assms cid by (simp add: poolSend_def s1_def)
  have closed: "socketOf ref s1 = Some (ws\<lparr>ws_sendClosed := True\<rparr>)"
    by (simp add: s1_def socketOf_def putSocket_def)
  have "server_ok s1" using ok_poolSend [OF assms(1) s1] .
  moreover have "map_of (clients s1) cid = None" by (simp add: s1_def)
  ultimately have "\<not> recipientAvailable cid s1"
    unfolding recipientAvailable_def list_ex_iff server_ok_def clients_ok_def tables_ok_def
    by (fastforce dest: map_of_in_set split: option.splits)
  then have "poolSend format e' (checkAddClient ref s1) = None"
    using closed cid assms(8,9) by (simp add: checkAddClient_def poolSend_def socketOf_def)
  with s1 show ?thesis by blast
qed

text \<open>A second answer to the same request, before the first is received, holds up the reader.\<close>

lemma duplicate_answer_blocks:
  "waiting u ch s \<Longrightarrow> ResolveResponse u p s = Resolved s1 \<Longrightarrow> ResolveResponse u q s1 = Blocked"
  by (auto simp: waiting_def ResolveResponse_def channelOf_def)

section \<open>Properties\<close>

definition demoServer :: server where
  "demoServer = handleWsRequest ''cp1'' [''ocpp1.6''] True 0 NewServer"

lemma demo_runs: "runs format [Connect ''cp1'' [''ocpp1.6''] True 0] NewServer demoServer"
  by (rule runs_Cons [OF _ _ runs_Nil]) (simp_all add: demoServer_def NewServer_def)

text \<open>
  C6. An answer reaches its caller. Once a request is queued for an answer, and whatever connections,
  disconnections, other requests, other answers and other callers come in between, the answer that carries the
  request's unique id is accepted, the waiting caller receives exactly its payload, and afterwards the entry
  of the request is gone.
\<close>

theorem answer_reaches_caller:
  assumes "server_ok s" "fresh (RequestAnswer u ch cid request) s"
    "SendRequestWithResponse u ch cid request s = (Inr ch, s1)"
    "runs format ops s1 s2" "list_all (\<lambda>op. \<not> concerns u ch op) ops"
  shows "\<exists>s3 s4. ResolveResponse u p s2 = Resolved s3 \<and> SyncFinish u ch s3 = (Some p, s4) \<and> map_of (pending s4) u = None"
proof -
  have "runOp format (RequestAnswer u ch cid request) s = Some s1" using assms(3) by simp
  then have "server_ok s1" using runOp_ok [OF assms(1,2)] by blast
  then have "waiting u ch s2"
    using runs_waiting [OF assms(4) _ _ assms(5)] SendRequestWithResponse_waiting [OF assms(3)] by blast
  then show ?thesis by (rule waiting_resolved)
qed

theorem answer_reaches_caller_witness:
  "\<exists>s3 s4. ResolveResponse ''u1'' (JStr ''x'')
       (closeSocket 0 (snd (SendRequestWithResponse ''u1'' 5 ''cp1'' (Request16 (ResetRequest ''Soft'')) demoServer))) = Resolved s3
     \<and> SyncFinish ''u1'' 5 s3 = (Some (JStr ''x''), s4) \<and> map_of (pending s4) ''u1'' = None"
proof (rule answer_reaches_caller)
  show "server_ok demoServer" by (rule runs_ok [OF demo_runs NewServer_ok])
  show "fresh (RequestAnswer ''u1'' 5 ''cp1'' (Request16 (ResetRequest ''Soft''))) demoServer" by code_simp
  show "SendRequestWithResponse ''u1'' 5 ''cp1'' (Request16 (ResetRequest ''Soft'')) demoServer =
      (Inr 5, snd (SendRequestWithResponse ''u1'' 5 ''cp1'' (Request16 (ResetRequest ''Soft'')) demoServer))"
    by code_simp
  show "runs (\<lambda>_. []) [CloseSocket 0]
      (snd (SendRequestWithResponse ''u1'' 5 ''cp1'' (Request16 (ResetRequest ''Soft'')) demoServer))
      (closeSocket 0 (snd (SendRequestWithResponse ''u1'' 5 ''cp1'' (Request16 (ResetRequest ''Soft'')) demoServer)))"
    by (rule runs_Cons [OF _ _ runs_Nil]) simp_all
qed simp

text \<open>
  C15. The tables of the server stay consistent and bounded along every run from its start: keys are
  distinct, a client of the pool is a connection with that id, at most 1024 fire-and-forget ids are kept, a
  connection has at most 256 messages in its buffer, and a waiting caller's channel holds at most one answer
  and belongs to one request.
\<close>

theorem server_tables_bounded:
  assumes "runs format ops NewServer s"
  shows "server_ok s \<and> length (fireAndForget s) \<le> 1024
    \<and> (\<forall>ref ws. socketOf ref s = Some ws \<longrightarrow> length (ws_send ws) \<le> 256)
    \<and> (\<forall>ch ps. map_of (channels s) ch = Some ps \<longrightarrow> length ps \<le> 1)"
  using runs_ok [OF assms NewServer_ok] by (simp add: server_ok_def buffers_ok_def maxFireAndForget_def sendBuffer_def)

theorem server_tables_bounded_witness: "server_ok demoServer \<and> length (fireAndForget demoServer) \<le> 1024"
  using server_tables_bounded [OF demo_runs [of "\<lambda>_. []"]] by blast

end
