(* ===== verification/System.thy ===== *)
theory System
  imports Handlers
begin

text \<open>
  The system handler as a transition system: every message a charge point can send, every operator
  command, every change of the online status, every tick of the trigger and every spawned goroutine is a
  step, in any order. What holds along all interleavings is proved by rule induction.
\<close>

section \<open>Steps\<close>

inductive step :: "'db env \<Rightarrow> 'db sys \<Rightarrow> 'db sys \<Rightarrow> bool" for env where
  step_start: "OnStartTransaction env now cp start s = (resp, s') \<Longrightarrow> step env s s'"
| step_stop: "OnStopTransaction env now cp stop s = Some s' \<Longrightarrow> step env s s'"
| step_meter: "OnMeterValues env now cp mv s = s' \<Longrightarrow> step env s s'"
| step_status: "OnStatusNotification env now cp sn s = s' \<Longrightarrow> step env s s'"
| step_boot: "OnBootNotification env cp boot s = (acc, s') \<Longrightarrow> step env s s'"
| step_heartbeat: "OnHeartbeat env now cp s = (t, s') \<Longrightarrow> step env s s'"
| step_authorize: "OnAuthorize env now cp tag s = Some (a, s') \<Longrightarrow> step env s s'"
| step_data: "OnDataTransfer env cp s = (d, s') \<Longrightarrow> step env s s'"
| step_diagnostics: "OnDiagnosticsStatusNotification env cp st s = s' \<Longrightarrow> step env s s'"
| step_firmware: "OnFirmwareStatusNotification env cp st s = s' \<Longrightarrow> step env s s'"
| step_online: "OnOnlineStatusChanged env now cp on s = Some s' \<Longrightarrow> step env s s'"
| step_command: "withChargePoint env cp f s = (res, s') \<Longrightarrow> step env s s'"
| step_locallist: "OnSendLocalList env cp s = (res, s') \<Longrightarrow> step env s s'"
| step_tick: "triggerMeterValues env s = s' \<Longrightarrow> step env s s'"
| step_go: "\<lbrakk>spawned s = gs @ g # hs; runGoroutine env now g (s\<lparr>spawned := gs @ hs\<rparr>) = s'\<rbrakk> \<Longrightarrow> step env s s'"

abbreviation steps :: "'db env \<Rightarrow> 'db sys \<Rightarrow> 'db sys \<Rightarrow> bool" where
  "steps env \<equiv> (step env)\<^sup>*\<^sup>*"

inductive_cases stepE: "step env s s'"

section \<open>Invariants\<close>

lemma quiet_requestMeterValues: "quiet s (requestMeterValues env ps s)"
proof (induction env ps s rule: requestMeterValues.induct)
  case (2 env k i ps s)
  let ?s = "case map_of (chargePoints s) k of None \<Rightarrow> s
        | Some st \<Rightarrow> (case map_of (cps_connectors st) i of None \<Rightarrow> s
            | Some c \<Rightarrow> if sendOk env (c_ChargePointId c)
               then emit (Sent (c_ChargePointId c) (NewTriggerMessageRequest ''MeterValues'' (c_Id c))) s
               else s)"
  have "quiet s ?s" by (auto simp: quiet_emit split: option.split)
  also have "quiet ?s (requestMeterValues env ps ?s)" by (rule 2)
  finally show ?case by simp
qed simp

lemma quiet_spawned: "quiet s (s\<lparr>spawned := gs\<rparr>)"
  by (auto simp: quiet_def sys_ok_def)

lemma quiet_load: "quiet s (snd (getChargePoint env cp s))"
  by (rule quiet_getChargePoint [OF prod.collapse [symmetric]])

lemma snd_eq: "f = (a, b) \<Longrightarrow> b = snd f"
  by simp

lemma step_advances:
  assumes "step env s s'" "sys_ok s"
  shows "advances s s'"
  using assms(1)
proof (cases rule: step.cases)
  case (step_start now cp start resp)
  with OnStartTransaction_advances [OF assms(2), of env now cp start] show ?thesis by simp
next
  case step_stop
  then show ?thesis using assms(2) by (intro quiet_advances OnStopTransaction_quiet)
next
  case step_meter
  then show ?thesis using OnMeterValues_quiet [OF assms(2)] by (auto intro: quiet_advances)
next
  case step_status
  then show ?thesis using OnStatusNotification_quiet [OF assms(2)] by (auto intro: quiet_advances)
next
  case step_boot
  then show ?thesis using OnBootNotification_quiet [OF assms(2)] by (auto dest!: snd_eq intro: quiet_advances)
next
  case step_heartbeat
  then show ?thesis by (auto dest!: snd_eq intro: quiet_advances OnHeartbeat_quiet)
next
  case step_authorize
  then show ?thesis using assms(2) by (intro quiet_advances OnAuthorize_quiet)
next
  case step_data
  then show ?thesis by (auto dest!: snd_eq intro: quiet_advances OnDataTransfer_quiet)
next
  case step_diagnostics
  then show ?thesis
    using OnDiagnosticsStatusNotification_quiet [OF assms(2)] by (auto intro: quiet_advances)
next
  case step_firmware
  then show ?thesis
    using OnFirmwareStatusNotification_quiet [OF assms(2)] by (auto intro: quiet_advances)
next
  case step_online
  then show ?thesis using assms(2) by (intro quiet_advances OnOnlineStatusChanged_quiet)
next
  case step_command
  then show ?thesis
    by (auto dest!: snd_eq simp: withChargePoint_state quiet_load intro: quiet_advances)
next
  case step_locallist
  then show ?thesis
    by (auto dest!: snd_eq simp: OnSendLocalList_state quiet_load intro: quiet_advances)
next
  case step_tick
  then show ?thesis
    by (auto simp: triggerMeterValues_def intro: quiet_advances quiet_requestMeterValues)
next
  case (step_go gs g hs now)
  have q: "quiet s (s\<lparr>spawned := gs @ hs\<rparr>)" by (rule quiet_spawned)
  then have "quiet (s\<lparr>spawned := gs @ hs\<rparr>) s'"
    using assms(2) runGoroutine_quiet step_go quiet_ok by blast
  with q show ?thesis by (blast intro: quiet_advances quiet_trans)
qed

lemma steps_advance:
  assumes "steps env s s'" "sys_ok s"
  shows "advances s s'"
  using assms(1)
proof (induction rule: rtranclp_induct)
  case (step t u)
  then have "sys_ok t" using assms(2) by (auto simp: advances_def)
  with step show ?case by (blast intro: step_advances advances_trans)
qed simp

lemma sys_ok_NewSystemHandler: "sys_ok (NewSystemHandler a d)"
  by (simp add: sys_ok_def NewSystemHandler_def)

end
