(* ===== verification/Composition.thy ===== *)
theory Composition
  imports CentralProps System
begin

text \<open>
  The composed program as a transition system: messages of any connection, calls of the power manager and
  the verdicts it waits for, API commands and their answers, operations of the websocket server, and the background steps of the system
  handler, in any order. On the program as \<^verbatim>\<open>main\<close> builds it every step is a step of the handler's own transition
  system or leaves its counter and its trace alone, so the invariants proved there hold of the program.
\<close>

section \<open>Steps of the program\<close>

text \<open>The end of the goroutine that waits for the verdict on a profile.\<close>

definition takeVerdict ::
    "'db csEnv \<Rightarrow> time \<Rightarrow> PendingProfile list \<Rightarrow> PendingProfile \<Rightarrow> Answer \<Rightarrow> 'db central \<Rightarrow> 'db central" where
  "takeVerdict ce now others p answer cs =
     withBalancer (\<lambda>b. onVerdict (ce_lbEnv ce) now p answer (b\<lparr>b_pending := others\<rparr>)) cs"

inductive csStep :: "'db csEnv \<Rightarrow> 'db central \<Rightarrow> 'db central \<Rightarrow> bool" for ce where
  cs_message: "handleIncomingMessage ce now ref ws data cs = Done err cs' \<Longrightarrow> csStep ce cs cs'"
| cs_job: "cs_jobs cs = js @ j # ks \<Longrightarrow> runPowerJob ce now j (cs\<lparr>cs_jobs := js @ ks\<rparr>) = cs' \<Longrightarrow> csStep ce cs cs'"
| cs_verdict: "b_pending (cs_balancer cs) = ps @ p # qs \<Longrightarrow> takeVerdict ce now (ps @ qs) p answer cs = cs' \<Longrightarrow> csStep ce cs cs'"
| cs_read: "readPump ce now ref read cs = Done err cs' \<Longrightarrow> csStep ce cs cs'"
| cs_api: "handleRoot ce now uuid ch method path body cs = (res, cs') \<Longrightarrow> csStep ce cs cs'"
| cs_apiEnd: "finishApiRequest uuid ch cs = (reply, cs') \<Longrightarrow> csStep ce cs cs'"
| cs_server: "runs format ops (cs_server cs) server \<Longrightarrow> csStep ce cs (cs\<lparr>cs_server := server\<rparr>)"
| cs_background: "step (ce_env ce) (cs_sys cs) s \<Longrightarrow> csStep ce cs (cs\<lparr>cs_sys := s\<rparr>)"

abbreviation csSteps :: "'db csEnv \<Rightarrow> 'db central \<Rightarrow> 'db central \<Rightarrow> bool" where
  "csSteps ce \<equiv> (csStep ce)\<^sup>*\<^sup>*"

text \<open>What \<open>main\<close> sets up and no step changes, with the invariant of the handler.\<close>

definition routed16 :: "'db central \<Rightarrow> bool" where
  "routed16 cs \<longleftrightarrow> cs_routingEnabled cs \<and> cs_registry cs = NewHandler16 NewFeatureRegistry"

section \<open>Messages are handler steps\<close>

lemma route16_step:
  assumes "routeOCPP16Request env now cp a p s = Some (r, s')"
  shows "s' = s \<or> step env s s'"
  using assms unfolding routeOCPP16Request_def
  by (auto simp: Let_def split: if_splits Payload.splits prod.splits intro: step.intros)

lemma finishMessage_sys:
  assumes "finishMessage ref cp a routed cs = Done err cs'"
  shows "\<exists>r. routed = Some (r, cs_sys cs')"
  using assms by (auto simp: finishMessage_def Let_def split: option.splits sum.splits prod.splits if_splits)

lemma finishMessage_routed: "finishMessage ref cp a routed cs = Done err cs' \<Longrightarrow> routed16 cs' = routed16 cs"
  by (auto simp: finishMessage_def Let_def routed16_def split: option.splits sum.splits prod.splits if_splits)

lemma NewHandler16_only:
  assumes "v \<noteq> OCPP16"
  shows "GetTypes v a (NewHandler16 NewFeatureRegistry) = Inl (VersionNotSupported v)"
proof -
  have "map_of (fold (\<lambda>(a, t). RegisterFeature OCPP16 a t) fs r) v = map_of r v" for fs r
    using assms by (induction fs arbitrary: r) (auto simp: RegisterFeature_def)
  then show ?thesis by (simp add: GetTypes_def NewHandler16_def NewFeatureRegistry_def)
qed

lemma parsed_version16:
  assumes "ParseRequestVersionAware parse m v (NewHandler16 NewFeatureRegistry) = Inr c"
  shows "v = OCPP16"
  using assms by (rule contrapos_pp)
    (auto simp: ParseRequestVersionAware_def NewHandler16_only split: sum.split Json.split)

lemma versionAware_step:
  assumes "handleIncomingMessageVersionAware ce now ref m v cp cs = Done err cs'" "routed16 cs"
  shows "routed16 cs' \<and> (cs_sys cs' = cs_sys cs \<or> step (ce_env ce) (cs_sys cs) (cs_sys cs'))"
proof (cases "ParseRequestVersionAware (ce_parseTime ce) m v (cs_registry cs)")
  case (Inr c)
  let ?cs = "cs\<lparr>cs_server := SetUniqueId ref (cr_UniqueId c) (cs_server cs)\<rparr>"
  let ?a = "Payload_GetFeatureName (cr_Payload c)"
  have "v = OCPP16" using Inr assms(2) parsed_version16 unfolding routed16_def by fastforce
  with Inr assms(1)
  have fin: "finishMessage ref cp ?a (routeOCPP16Request (ce_env ce) now cp ?a (cr_Payload c) (cs_sys cs)) ?cs = Done err cs'"
    by (simp add: handleIncomingMessageVersionAware_def Let_def)
  have "routed16 ?cs" using assms(2) by (simp add: routed16_def)
  then show ?thesis using finishMessage_routed [OF fin] finishMessage_sys [OF fin] route16_step by blast
qed (use assms in \<open>simp add: handleIncomingMessageVersionAware_def\<close>)

lemma message_step:
  assumes "handleIncomingMessage ce now ref ws data cs = Done err cs'" "routed16 cs"
  shows "routed16 cs' \<and> (cs_sys cs' = cs_sys cs \<or> step (ce_env ce) (cs_sys cs) (cs_sys cs'))"
proof -
  let ?cs = "cs\<lparr>cs_connections := mput (ws_id ws) (ws_protocol ws) (cs_connections cs)\<rparr>"
  have r: "routed16 ?cs" using assms(2) by (simp add: routed16_def)
  have "routed16 cs' \<and> (cs_sys cs' = cs_sys ?cs \<or> step (ce_env ce) (cs_sys ?cs) (cs_sys cs'))"
  proof (cases "\<exists>m. handleIncomingMessageVersionAware ce now ref m (ws_protocol ws) (ws_id ws) ?cs = Done err cs'")
    case True
    then show ?thesis using versionAware_step r by blast
  next
    case False
    then have "cs_sys cs' = cs_sys ?cs \<and> routed16 cs'"
      using assms r
      by (auto simp: handleIncomingMessage_def Let_def handleResult_def routed16_def
          split: option.splits sum.splits if_splits Resolution.splits)
    then show ?thesis by blast
  qed
  then show ?thesis by simp
qed

lemma read_step:
  assumes "readPump ce now ref read cs = Done err cs'" "routed16 cs"
  shows "routed16 cs' \<and> (cs_sys cs' = cs_sys cs \<or> step (ce_env ce) (cs_sys cs) (cs_sys cs'))"
proof -
  let ?cs = "cs\<lparr>cs_server := checkAddClient ref (cs_server cs)\<rparr>"
  have "routed16 ?cs" using assms(2) by (simp add: routed16_def)
  then show ?thesis
    using assms message_step [of ce now ref _ _ ?cs err cs']
    by (auto simp: readPump_def routed16_def split: option.splits)
qed

section \<open>Commands and jobs\<close>

lemma api16_state:
  "snd (handleApiRequestV16 ce command s) = s
   \<or> snd (handleApiRequestV16 ce command s) = snd (getChargePoint (ce_env ce) (cmd_ChargePointId command) s)"
  by (simp add: handleApiRequestV16_def Let_def command_defs withChargePoint_state OnSendLocalList_state)

lemma stop201_state:
  "snd (OnRequestStopTransaction env cp p s) = s
   \<or> snd (OnRequestStopTransaction env cp p s) = snd (getChargePoint env cp s)"
  by (cases "getChargePoint env cp s")
    (auto simp: OnRequestStopTransaction_def Let_def split: option.split list.split prod.split)

lemma api201_state:
  "snd (handleApiRequestV201 b ce now command s) = s
   \<or> snd (handleApiRequestV201 b ce now command s) = snd (getChargePoint (ce_env ce) (cmd_ChargePointId command) s)"
  using stop201_state [of "ce_env ce" "cmd_ChargePointId command" "cmd_Payload command" s]
  by (auto simp: handleApiRequestV201_def Let_def)

lemma quiet_either: "t = s \<or> t = snd (getChargePoint env cp s) \<Longrightarrow> quiet s t"
  by (elim disjE) (simp_all add: quiet_load)

lemma api_step:
  assumes "handleApiRequest ce now uuid ch command cs = (res, cs')"
  shows "quiet (cs_sys cs) (cs_sys cs') \<and> routed16 cs' = routed16 cs"
proof -
  let ?g = "snd (getChargePoint (ce_env ce) (cmd_ChargePointId command) (cs_sys cs))"
  let ?s16 = "snd (handleApiRequestV16 ce command (cs_sys cs))"
  let ?s201 = "snd (handleApiRequestV201 (cs_v201 cs) ce now command (cs_sys cs))"
  let ?r = "if resolveProtocolVersion command cs = OCPP201
     then map_prod (map_sum (\<lambda>e. e) Request201) (\<lambda>s. s) (handleApiRequestV201 (cs_v201 cs) ce now command (cs_sys cs))
     else map_prod (map_sum (\<lambda>e. e) Request16) (\<lambda>s. s) (handleApiRequestV16 ce command (cs_sys cs))"
  obtain built s where r: "?r = (built, s)" by (rule prod.exhaust)
  then have s: "s \<in> {?s16, ?s201}" by (auto simp: map_prod_def split: if_splits prod.splits)
  have "cs' = cs \<or> cs_sys cs' = s \<and> routed16 cs' = routed16 cs"
  proof (cases "cmd_FeatureName command = [] \<or> cmd_FeatureName command = ''GetServerStatus''")
    case True
    then show ?thesis using assms by (auto simp: handleApiRequest_def Let_def)
  next
    case False
    with assms have "(case built of Inl e \<Rightarrow> (ApiError e, cs\<lparr>cs_sys := s\<rparr>)
      | Inr request \<Rightarrow>
         (case SendRequestWithResponse uuid ch (cmd_ChargePointId command) request (cs_server (cs\<lparr>cs_sys := s\<rparr>)) of
            (Inl e, _) \<Rightarrow> (ApiError e, cs\<lparr>cs_sys := s\<rparr>)
          | (Inr ch, server) \<Rightarrow> (ApiAwaits uuid ch, cs\<lparr>cs_sys := s, cs_server := server\<rparr>))) = (res, cs')"
      unfolding handleApiRequest_def Let_def r by (simp only: de_Morgan_disj if_False prod.case)
    then have "cs' = cs\<lparr>cs_sys := s\<rparr> \<or> (\<exists>server. cs' = cs\<lparr>cs_sys := s, cs_server := server\<rparr>)"
      by (cases built) (auto split: prod.splits sum.splits)
    then show ?thesis by (auto simp: routed16_def)
  qed
  with s have "cs_sys cs' \<in> {cs_sys cs, ?s16, ?s201} \<and> routed16 cs' = routed16 cs" by auto
  moreover have "quiet (cs_sys cs) ?s16" by (rule quiet_either [OF api16_state])
  moreover have "quiet (cs_sys cs) ?s201" by (rule quiet_either [OF api201_state])
  ultimately show ?thesis by auto
qed

lemma root_step:
  assumes "handleRoot ce now uuid ch method path body cs = (res, cs')"
  shows "quiet (cs_sys cs) (cs_sys cs') \<and> routed16 cs' = routed16 cs"
proof (cases "cs' = cs")
  case False
  then obtain command reply where "handleApiRequest ce now uuid ch command cs = (reply, cs')"
    using assms by (simp add: handleRoot_def split: if_splits option.splits prod.splits ApiResult.splits)
  then show ?thesis by (rule api_step)
qed simp

lemma quiet_db: "quiet s (s\<lparr>db := d\<rparr>)"
  by (auto simp: quiet_def sys_ok_def)

lemma job_step: "quiet (cs_sys cs) (cs_sys (runPowerJob ce now j cs)) \<and> routed16 (runPowerJob ce now j cs) = routed16 cs"
  by (cases j) (simp_all add: withBalancer_def Let_def quiet_db routed16_def)

lemma csStep_advances:
  assumes "csStep ce cs cs'" "routed16 cs" "sys_ok (cs_sys cs)"
  shows "routed16 cs' \<and> advances (cs_sys cs) (cs_sys cs')"
  using assms(1)
proof cases
  case cs_message
  from message_step [OF this assms(2)] show ?thesis using step_advances assms(3) by fastforce
next
  case (cs_job js j ks now)
  have "routed16 (cs\<lparr>cs_jobs := js @ ks\<rparr>)" using assms(2) by (simp add: routed16_def)
  then show ?thesis using job_step [of "cs\<lparr>cs_jobs := js @ ks\<rparr>" ce now j] cs_job(2) by (simp add: quiet_advances)
next
  case (cs_verdict ps p qs now answer)
  have "quiet (cs_sys cs) (cs_sys cs')" unfolding cs_verdict(2) [symmetric]
    by (simp add: takeVerdict_def withBalancer_def Let_def quiet_db)
  then show ?thesis
    using assms(2) cs_verdict(2) by (auto simp: takeVerdict_def withBalancer_def Let_def routed16_def intro: quiet_advances)
next
  case (cs_read now ref read err)
  from read_step [OF this assms(2)] show ?thesis using step_advances assms(3) by fastforce
next
  case cs_api
  from root_step [OF this] show ?thesis using assms(2) by (simp add: quiet_advances)
next
  case cs_apiEnd
  then show ?thesis using assms(2) by (auto simp: finishApiRequest_def Let_def routed16_def split: prod.splits)
next
  case cs_server
  then show ?thesis using assms(2) by (simp add: routed16_def)
next
  case cs_background
  then show ?thesis using assms step_advances by (simp add: routed16_def)
qed

lemma csSteps_advance:
  assumes "csSteps ce cs cs'" "routed16 cs" "sys_ok (cs_sys cs)"
  shows "routed16 cs' \<and> advances (cs_sys cs) (cs_sys cs')"
  using assms(1)
proof (induction rule: rtranclp_induct)
  case (step t u)
  then have "sys_ok (cs_sys t)" using assms(3) by (auto simp: advances_def)
  with step csStep_advances show ?case by (blast intro: advances_trans)
qed (use assms in simp)

section \<open>The state main starts in\<close>

lemma meters_ok: "gomap_ok m \<Longrightarrow> gomap_ok (fold (\<lambda>mv. mput (m_Id mv) mv) ms m)"
  by (induction ms arbitrary: m) auto

lemma sys_ok_loaded:
  "sys_ok s \<Longrightarrow> sys_ok (s\<lparr>lastMeter := fold (\<lambda>mv. mput (m_Id mv) mv) ms (lastMeter s)\<rparr>)"
  "sys_ok s \<Longrightarrow> sys_ok (s\<lparr>newTransactionId := n, lastMeter := fold (\<lambda>mv. mput (m_Id mv) mv) ms (lastMeter s)\<rparr>)"
  by (auto simp: sys_ok_def meters_ok)

lemma loadState_ok:
  assumes "loadState env D s = Inr (n, m, s')" "sys_ok s"
  shows "sys_ok s'"
proof -
  have "sys_ok (initAll env cps (dbDo D ResetOnlineStatus s))" for cps
    using assms(2) quiet_initAll [of "dbDo D ResetOnlineStatus s" env cps] by (simp add: quiet_def)
  then show ?thesis
    using assms(1) by (auto simp: loadState_def Let_def sys_ok_loaded split: prod.splits option.splits)
qed

lemma startListening_ok:
  assumes "startListening env n m s = (None, s')" "sys_ok s"
  shows "sys_ok s'"
proof -
  let ?s1 = "updateActiveTransactionsCounter s"
  let ?s2 = "checkListenAll env (chargePoints ?s1) ?s1"
  have "sys_ok ?s1" using assms(2) sys_ok_traces traces_updateActive by blast
  then have "sys_ok (spawn GoSweepTransactions ?s2)"
    using quiet_checkListenAll [of ?s1 env "chargePoints ?s1"] by (simp add: quiet_def sys_ok_def)
  then show ?thesis
    using assms(1) quiet_notify [of "spawn GoSweepTransactions ?s2"]
    by (auto simp: startListening_def Let_def quiet_def split: if_splits)
qed

lemma OnStart_ok: "OnStart env s = (None, s') \<Longrightarrow> sys_ok s \<Longrightarrow> sys_ok s'"
  by (auto simp: OnStart_def split: option.splits sum.splits dest: loadState_ok startListening_ok)

lemma main_ok: "main ce d = Inr cs \<Longrightarrow> routed16 cs \<and> sys_ok (cs_sys cs)"
  by (auto simp: main_def NewCentralSystem_def EnableVersionAwareRouting_def StartCentralSystem_def Let_def routed16_def
      split: prod.splits option.splits dest: OnStart_ok [OF _ sys_ok_NewSystemHandler])

section \<open>Properties\<close>

text \<open>
  Transaction ids of the program are unique: from the state \<^verbatim>\<open>main\<close> builds, along every interleaving of the
  messages of any connections, API commands, power manager calls, websocket operations and background work, the
  transactions added to the database carry strictly increasing ids, none below the counter the start read from
  the database; and the handler's maps stay well formed.
\<close>

theorem program_transaction_ids_unique:
  assumes "main ce d = Inr cs" "csSteps ce cs cs'"
  shows "sys_ok (cs_sys cs') \<and> (\<exists>es. out (cs_sys cs') = out (cs_sys cs) @ es \<and> sorted_wrt (<) (addedIds es)
    \<and> (\<forall>i \<in> set (addedIds es). newTransactionId (cs_sys cs) \<le> i \<and> i < newTransactionId (cs_sys cs')))"
  using csSteps_advance [OF assms(2)] main_ok [OF assms(1)] unfolding advances_def by blast

definition demoProgram :: "Store central" where
  "demoProgram = StartCentralSystem (EnableVersionAwareRouting (snd (NewCentralSystem demoCsEnv emptyStore)))"

definition demoFrame :: "Json list" where
  "demoFrame = [JNum 2, JStr ''u1'', JStr ''StartTransaction'',
     JObj [(''connectorId'', JNum 1), (''idTag'', JStr ''TAG1''), (''meterStart'', JNum 1000), (''timestamp'', JStr ''t'')]]"

lemma demo_main: "main demoCsEnv emptyStore = Inr demoProgram"
proof -
  have "fst (NewCentralSystem demoCsEnv emptyStore) = None" by code_simp
  then show ?thesis by (cases "NewCentralSystem demoCsEnv emptyStore") (simp add: main_def demoProgram_def)
qed

lemma demo_parsed:
  "ParseRequestVersionAware (\<lambda>_. Some 0) demoFrame OCPP16 (NewHandler16 NewFeatureRegistry) =
   Inr \<lparr>cr_TypeId = CallTypeRequest, cr_UniqueId = ''u1'', cr_feature = ''StartTransaction'', cr_Payload = StartPayload demoStart\<rparr>"
  by code_simp

lemma demo_program_added: "addedIds (out (snd (OnStartTransaction demoEnv 0 ''CP1'' demoStart (cs_sys demoProgram)))) = [1]"
  by code_simp

lemma demo_type: "MessageType demoFrame = Inr CallTypeRequest"
  by code_simp

lemma demo_message:
  "\<exists>cs'. handleIncomingMessage demoCsEnv 0 0 (demoSocket OCPP16) (Some (JArr demoFrame)) (demoProgram\<lparr>cs_server := srv\<rparr>) = Done None cs'
     \<and> cs_sys cs' = snd (OnStartTransaction demoEnv 0 ''CP1'' demoStart (cs_sys demoProgram))"
proof -
  have "cs_routingEnabled demoProgram" "cs_registry demoProgram = NewHandler16 NewFeatureRegistry"
    using main_routing [OF demo_main] by simp_all
  then show ?thesis
    using demo_parsed demo_type
    by (cases "OnStartTransaction demoEnv 0 ''CP1'' demoStart (cs_sys demoProgram)")
      (auto simp: handleIncomingMessage_def ParseJson_def handleIncomingMessageVersionAware_def demoSocket_def demoCsEnv_def
        routeOCPP16Request_def finishMessage_def Let_def)
qed

theorem program_transaction_ids_unique_witness:
  "\<exists>cs' es. csSteps demoCsEnv demoProgram cs' \<and> out (cs_sys cs') = out (cs_sys demoProgram) @ es
     \<and> addedIds (out (cs_sys cs')) = [1] \<and> sorted_wrt (<) (addedIds es)"
proof -
  obtain cs' where m: "handleIncomingMessage demoCsEnv 0 0 (demoSocket OCPP16) (Some (JArr demoFrame)) demoProgram = Done None cs'"
      "addedIds (out (cs_sys cs')) = [1]"
    using demo_message [of "cs_server demoProgram"] demo_program_added by auto
  then have s: "csSteps demoCsEnv demoProgram cs'" by (auto intro: csStep.intros)
  from program_transaction_ids_unique [OF demo_main s] m(2) s show ?thesis by blast
qed

section \<open>Answers\<close>

lemma SetUniqueId_socket:
  "socketOf ref s = Some w \<Longrightarrow> socketOf ref (SetUniqueId ref u s) = Some (w\<lparr>ws_uniqueId := u\<rparr>)
     \<and> sendQueue (SetUniqueId ref u s) = sendQueue s"
  by (simp add: SetUniqueId_def putSocket_def socketOf_def)

text \<open>The envelope of a response.\<close>

definition responseTo :: "WebSocket \<Rightarrow> string \<Rightarrow> OcppResponse \<Rightarrow> envelope" where
  "responseTo w u r = \<lparr>env_recipient = ws_id w, env_callRequest = None, env_callResult = Some (CreateCallResult r u)\<rparr>"

lemma finishMessage_answer:
  assumes "finishMessage ref cp a routed cs = Done err cs'" "socketOf ref (cs_server cs) = Some w" "\<not> ws_isClosed w"
  shows "if err = None
    then \<exists>r. sendQueue (cs_server cs') = sendQueue (cs_server cs) @ [responseTo w (ws_uniqueId w) r]
           \<and> cs_jobs cs' = cs_jobs cs @ powerJobs a cp
    else sendQueue (cs_server cs') = sendQueue (cs_server cs) \<and> cs_jobs cs' = cs_jobs cs"
  using assms
  by (auto simp: finishMessage_def Let_def isClosed_def SendResponse_def responseTo_def
      split: option.splits sum.splits prod.splits)

lemma responseTo_recipient: "env_recipient (responseTo w u r) = ws_id w"
  by (simp add: responseTo_def)

lemma responseTo_written:
  "getMessageData format (responseTo w u r) = Some [encInt CallTypeResult, JStr u, encOcppResponse format r]"
  by (simp add: getMessageData_def responseTo_def CallResult_MarshalJSON_def CreateCallResult_def)

text \<open>
  C4. A request is answered at most once, under its own unique id: in any state of the running program, a
  request on an open connection that is handled without error queues exactly one response, addressed to the
  connection's charge point and written with the unique id of the request, and starts exactly the power manager
  call of its action; a request that ends in an error queues nothing and starts nothing, so the charge point
  gets no answer to it.
\<close>

theorem request_answered_under_its_id:
  assumes "main ce d = Inr cs0" "csSteps ce cs0 cs"
    "handleIncomingMessage ce now ref ws (Some (JArr [t, JStr u, JStr a, p])) cs = Done err cs'"
    "MessageType [t, JStr u, JStr a, p] = Inr CallTypeRequest"
    "socketOf ref (cs_server cs) = Some w" "\<not> ws_isClosed w"
  shows "if err = None
    then \<exists>env r. sendQueue (cs_server cs') = sendQueue (cs_server cs) @ [env] \<and> env_recipient env = ws_id w
           \<and> getMessageData format env = Some [encInt CallTypeResult, JStr u, encOcppResponse format r]
           \<and> cs_jobs cs' = cs_jobs cs @ powerJobs a (ws_id ws)
    else sendQueue (cs_server cs') = sendQueue (cs_server cs) \<and> cs_jobs cs' = cs_jobs cs"
proof -
  let ?m = "[t, JStr u, JStr a, p]"
  have r: "cs_routingEnabled cs" "cs_registry cs = NewHandler16 NewFeatureRegistry"
    using csSteps_advance [OF assms(2)] main_ok [OF assms(1)] by (auto simp: routed16_def)
  define cs1 where "cs1 = cs\<lparr>cs_connections := mput (ws_id ws) (ws_protocol ws) (cs_connections cs)\<rparr>"
  have cs1: "handleIncomingMessageVersionAware ce now ref ?m (ws_protocol ws) (ws_id ws) cs1 = Done err cs'"
    using assms(3,4) r(1) by (simp add: handleIncomingMessage_def ParseJson_def cs1_def Let_def)
  show ?thesis
  proof (cases "ParseRequestVersionAware (ce_parseTime ce) ?m (ws_protocol ws) (NewHandler16 NewFeatureRegistry)")
    case (Inr c)
    let ?s = "SetUniqueId ref u (cs_server cs)"
    let ?cs = "cs1\<lparr>cs_server := ?s\<rparr>"
    have v: "ws_protocol ws = OCPP16" by (rule parsed_version16 [OF Inr])
    have c: "cr_UniqueId c = u" "cr_feature c = a" using ParseRequestVersionAware_Inr [OF Inr] by auto
    have a: "Payload_GetFeatureName (cr_Payload c) = a"
      using parsed16 [OF Inr [unfolded v] NewHandler16_lookup] c(2) by simp
    have fin: "finishMessage ref (ws_id ws) a (routeOCPP16Request (ce_env ce) now (ws_id ws) a (cr_Payload c) (cs_sys cs)) ?cs = Done err cs'"
      using cs1 Inr r(2) v c a by (simp add: handleIncomingMessageVersionAware_def Let_def cs1_def)
    have w: "socketOf ref (cs_server ?cs) = Some (w\<lparr>ws_uniqueId := u\<rparr>)" "sendQueue ?s = sendQueue (cs_server cs)"
      using SetUniqueId_socket [OF assms(5)] by simp_all
    from finishMessage_answer [OF fin w(1)] assms(6) w(2) show ?thesis
      by (cases "err = None") (auto simp: cs1_def responseTo_written responseTo_recipient)
  qed (use cs1 r in \<open>auto simp: handleIncomingMessageVersionAware_def cs1_def\<close>)
qed

lemma demo_connected:
  "\<exists>srv w. runs format [Connect ''CP1'' [''ocpp1.6''] True 0] (cs_server demoProgram) srv \<and> sendQueue srv = []
     \<and> socketOf 0 srv = Some w \<and> \<not> ws_isClosed w"
proof -
  let ?s = "cs_server demoProgram"
  let ?srv = "handleWsRequest ''CP1'' [''ocpp1.6''] True 0 ?s"
  have "map_of (sockets ?s) 0 = None" by code_simp
  then have "runs format [Connect ''CP1'' [''ocpp1.6''] True 0] ?s ?srv" by (auto intro: runs.intros)
  moreover have "sendQueue ?srv = []" by code_simp
  moreover have "case socketOf 0 ?srv of None \<Rightarrow> False | Some w \<Rightarrow> \<not> ws_isClosed w" by code_simp
  ultimately show ?thesis by (auto split: option.splits)
qed

theorem request_answered_under_its_id_witness:
  "\<exists>cs cs' env. csSteps demoCsEnv demoProgram cs
     \<and> handleIncomingMessage demoCsEnv 0 0 (demoSocket OCPP16) (Some (JArr demoFrame)) cs = Done None cs'
     \<and> sendQueue (cs_server cs) = [] \<and> sendQueue (cs_server cs') = [env]
     \<and> cs_jobs cs' = cs_jobs cs @ [JobCheckPowerLimit ''CP1'']"
proof -
  obtain srv w where c: "runs (\<lambda>_. []) [Connect ''CP1'' [''ocpp1.6''] True 0] (cs_server demoProgram) srv" "sendQueue srv = []"
      "socketOf 0 srv = Some w" "\<not> ws_isClosed w"
    using demo_connected by blast
  let ?cs = "demoProgram\<lparr>cs_server := srv\<rparr>"
  have s: "csSteps demoCsEnv demoProgram ?cs" using csStep.cs_server [OF c(1)] by blast
  obtain cs' where m: "handleIncomingMessage demoCsEnv 0 0 (demoSocket OCPP16) (Some (JArr demoFrame)) ?cs = Done None cs'"
    using demo_message by blast
  have "socketOf 0 (cs_server ?cs) = Some w" using c(3) by simp
  from request_answered_under_its_id [OF demo_main s m [unfolded demoFrame_def] demo_type [unfolded demoFrame_def] this c(4)]
  have "\<exists>env. sendQueue (cs_server cs') = [env] \<and> cs_jobs cs' = cs_jobs ?cs @ [JobCheckPowerLimit ''CP1'']"
    using c(2) by (auto simp: powerJobs_def demoSocket_def)
  with s m c(2) show ?thesis by (intro exI [of _ ?cs] exI [of _ cs']) auto
qed

end
