(* ===== verification/Migrations.thy ===== *)
theory Migrations
  imports Mongo
begin

text \<open>
  The schema migrations of \<^verbatim>\<open>src/internal/migrations.go\<close> and the functions of \<^verbatim>\<open>src/internal/mongo.go\<close> that run
  them. They test whether a field is there at all, so they are modelled on documents and not on the entities:
  a document is a Go map from field names to BSON values, a filter a predicate on documents, \<^verbatim>\<open>$set\<close> and \<^verbatim>\<open>$unset\<close>
  are updates of the map. The driver is a parameter (\<open>rawDb\<close>) with the collections of \<open>Mongo\<close> by name; an index
  is created and dropped by the driver and the result ignored, as in the source. The clock is an argument.
  Values of BSON types that the collections do not use (floats, arrays) are left out.
\<close>

section \<open>Documents\<close>

datatype Bson = BNull | BBool bool | BInt int | BStr string | BTime time | BDoc "(string \<times> Bson) list"

type_synonym Doc = "(string, Bson) gomap"

definition setFields :: "(string \<times> Bson) list \<Rightarrow> Doc \<Rightarrow> Doc" where
  "setFields = fold (\<lambda>(k, v). mput k v)"

definition unsetFields :: "string list \<Rightarrow> Doc \<Rightarrow> Doc" where
  "unsetFields = fold mdel"

definition lacks :: "string \<Rightarrow> Doc \<Rightarrow> bool" where
  "lacks k d \<longleftrightarrow> map_of d k = None"

definition fieldIs :: "string \<Rightarrow> Bson \<Rightarrow> Doc \<Rightarrow> bool" where
  "fieldIs k v d \<longleftrightarrow> map_of d k = Some v"

definition fieldBefore :: "string \<Rightarrow> time \<Rightarrow> Doc \<Rightarrow> bool" where
  "fieldBefore k t d = (case map_of d k of Some (BTime t') \<Rightarrow> t' < t | _ \<Rightarrow> False)"

definition fieldAtLeast :: "string \<Rightarrow> int \<Rightarrow> Doc \<Rightarrow> bool" where
  "fieldAtLeast k i d = (case map_of d k of Some (BInt i') \<Rightarrow> i \<le> i' | _ \<Rightarrow> False)"

text \<open>Decoding of a field into a Go value: a missing field or null gives the zero value.\<close>

definition fieldInt :: "string \<Rightarrow> Doc \<Rightarrow> int option" where
  "fieldInt k d = (case map_of d k of None \<Rightarrow> Some 0 | Some BNull \<Rightarrow> Some 0 | Some (BInt i) \<Rightarrow> Some i | _ \<Rightarrow> None)"

definition fieldStr :: "string \<Rightarrow> Doc \<Rightarrow> string option" where
  "fieldStr k d = (case map_of d k of None \<Rightarrow> Some [] | Some BNull \<Rightarrow> Some [] | Some (BStr s) \<Rightarrow> Some s | _ \<Rightarrow> None)"

definition fieldTime :: "string \<Rightarrow> Doc \<Rightarrow> time option" where
  "fieldTime k d =
     (case map_of d k of None \<Rightarrow> Some zeroTime | Some BNull \<Rightarrow> Some zeroTime | Some (BTime t) \<Rightarrow> Some t | _ \<Rightarrow> None)"

text \<open>The order of a descending sort by a time field: documents without it come last.\<close>

definition timeKey :: "string \<Rightarrow> Doc \<Rightarrow> int" where
  "timeKey k d = (case map_of d k of Some (BTime t) \<Rightarrow> t | _ \<Rightarrow> zeroTime - 1)"

record 'db rawDb =
  Collection :: "string \<Rightarrow> ('db, Doc) coll"
  CreateOne :: "string \<Rightarrow> string list \<Rightarrow> string \<Rightarrow> 'db \<Rightarrow> DbErr option \<times> 'db"
  DropOne :: "string \<Rightarrow> string \<Rightarrow> 'db \<Rightarrow> DbErr option \<times> 'db"

definition decodeErr :: DbErr where "decodeErr = Failed ''error decoding document''"

text \<open>The error of a migration: what failed, and the cause.\<close>

datatype MigError = MigError string DbErr

type_synonym 'db action = "'db \<Rightarrow> MigError option \<times> 'db"

definition onError :: "string \<Rightarrow> DbErr option \<times> 'db \<Rightarrow> 'db action \<Rightarrow> MigError option \<times> 'db" where
  "onError what r continue =
     (case r of (Some e, d) \<Rightarrow> (Some (MigError what e), d) | (None, d) \<Rightarrow> continue d)"

section \<open>Multi-version support\<close>

definition migrationOCPPMultiVersionUp :: "'db rawDb \<Rightarrow> 'db action" where
  "migrationOCPPMultiVersionUp R d =
     onError ''failed to update charge_points''
       (updateMany (Collection R ''charge_points'') (lacks ''protocol_version'')
         (setFields [(''protocol_version'', BStr ''ocpp1.6''), (''device_model'', BDoc [])]) d) (\<lambda>d.
     onError ''failed to update connectors''
       (updateMany (Collection R ''connectors'') (lacks ''evse_id'') (setFields [(''evse_id'', BNull)]) d) (\<lambda>d.
     onError ''failed to update transactions''
       (updateMany (Collection R ''transactions'') (lacks ''protocol_version'')
         (setFields [(''protocol_version'', BStr ''ocpp1.6''), (''evse_id'', BNull), (''metadata'', BDoc [])]) d) (\<lambda>d.
     let d = snd (CreateOne R ''charge_points'' [''protocol_version''] ''protocol_version_1'' d);
         d = snd (CreateOne R ''transactions'' [''protocol_version''] ''protocol_version_1'' d);
         d = snd (CreateOne R ''connectors'' [''charge_point_id'', ''evse_id''] ''charge_point_evse_1'' d)
     in (None, d))))"

definition migrationOCPPMultiVersionDown :: "'db rawDb \<Rightarrow> 'db action" where
  "migrationOCPPMultiVersionDown R d =
     onError ''failed to rollback charge_points''
       (updateMany (Collection R ''charge_points'') (\<lambda>_. True) (unsetFields [''protocol_version'', ''device_model'']) d) (\<lambda>d.
     onError ''failed to rollback connectors''
       (updateMany (Collection R ''connectors'') (\<lambda>_. True) (unsetFields [''evse_id'']) d) (\<lambda>d.
     onError ''failed to rollback transactions''
       (updateMany (Collection R ''transactions'') (\<lambda>_. True)
         (unsetFields [''protocol_version'', ''evse_id'', ''metadata'']) d) (\<lambda>d.
     let d = snd (DropOne R ''charge_points'' ''protocol_version_1'' d);
         d = snd (DropOne R ''transactions'' ''protocol_version_1'' d);
         d = snd (DropOne R ''connectors'' ''charge_point_evse_1'' d)
     in (None, d))))"

section \<open>The trigger flag\<close>

definition migrationTriggerMessageUp :: "'db rawDb \<Rightarrow> 'db action" where
  "migrationTriggerMessageUp R d =
     onError ''failed to update charge_points''
       (updateMany (Collection R ''charge_points'') (lacks ''trigger_message'')
         (setFields [(''trigger_message'', BBool True)]) d) (\<lambda>d. (None, d))"

definition migrationTriggerMessageDown :: "'db rawDb \<Rightarrow> 'db action" where
  "migrationTriggerMessageDown R d =
     onError ''failed to rollback charge_points''
       (updateMany (Collection R ''charge_points'') (fieldIs ''trigger_message'' (BBool True))
         (unsetFields [''trigger_message'']) d) (\<lambda>d. (None, d))"

section \<open>Abandoned transactions\<close>

definition stuckTransactionCutoff :: int where "stuckTransactionCutoff = 24 * 60 * nanos_per_minute"
definition reasonBacklogStopped :: string where "reasonBacklogStopped = ''stopped by system (backlog)''"
definition reasonBacklogAborted :: string where "reasonBacklogAborted = ''aborted by system (backlog)''"

text \<open>The fields the migration reads of a candidate, and of its newest sample.\<close>

record Backlog =
  bk_Id :: int
  bk_ChargePointId :: string
  bk_ConnectorId :: int
  bk_MeterStart :: int
  bk_TimeStart :: time
  bk_PaymentAmount :: int

definition decBacklog :: "Doc \<Rightarrow> Backlog option" where
  "decBacklog d = do {
     x0 \<leftarrow> fieldInt ''transaction_id'' d;
     x1 \<leftarrow> fieldStr ''charge_point_id'' d;
     x2 \<leftarrow> fieldInt ''connector_id'' d;
     x3 \<leftarrow> fieldInt ''meter_start'' d;
     x4 \<leftarrow> fieldTime ''time_start'' d;
     x5 \<leftarrow> fieldInt ''payment_amount'' d;
     Some \<lparr>bk_Id = x0, bk_ChargePointId = x1, bk_ConnectorId = x2, bk_MeterStart = x3, bk_TimeStart = x4,
       bk_PaymentAmount = x5\<rparr>
   }"

definition decSample :: "Doc \<Rightarrow> (int \<times> time) option" where
  "decSample d = do {
     x0 \<leftarrow> fieldInt ''value'' d;
     x1 \<leftarrow> fieldTime ''time'' d;
     Some (x0, x1)
   }"

definition findDecoded :: "('db, Doc) coll \<Rightarrow> (Doc \<Rightarrow> bool) \<Rightarrow> (Doc \<Rightarrow> 'a option) \<Rightarrow> 'db \<Rightarrow> DbErr + 'a list" where
  "findDecoded C P dec d =
     (case findMany C P d of Inl e \<Rightarrow> Inl e
      | Inr docs \<Rightarrow> (case those (map dec docs) of None \<Rightarrow> Inl decodeErr | Some xs \<Rightarrow> Inr xs))"

text \<open>The release of a connector that still points at the transaction; \<open>pin\<close> is the filter of both passes.\<close>

definition pinFilter :: "string \<Rightarrow> int \<Rightarrow> int \<Rightarrow> Doc \<Rightarrow> bool" where
  "pinFilter chargePointId connectorId transactionId d \<longleftrightarrow>
     fieldIs ''charge_point_id'' (BStr chargePointId) d \<and> fieldIs ''connector_id'' (BInt connectorId) d
     \<and> fieldIs ''current_transaction_id'' (BInt transactionId) d"

definition releasedFields :: "Doc \<Rightarrow> Doc" where
  "releasedFields = setFields [(''current_transaction_id'', BInt (-1)), (''current_power_limit'', BInt 0)]"

definition closedFields :: "int \<Rightarrow> time \<Rightarrow> string \<Rightarrow> Doc \<Rightarrow> Doc" where
  "closedFields meterStop timeStop reason =
     setFields [(''is_finished'', BBool True), (''time_stop'', BTime timeStop), (''meter_stop'', BInt meterStop),
       (''reason'', BStr reason)]"

definition closeOne :: "'db rawDb \<Rightarrow> Backlog \<Rightarrow> int \<Rightarrow> time \<Rightarrow> string \<Rightarrow> 'db \<Rightarrow> 'db action \<Rightarrow> MigError option \<times> 'db" where
  "closeOne R transaction meterStop timeStop reason d continue =
     onError ''failed to close transaction''
       (updateOne (Collection R ''transactions'') (fieldIs ''transaction_id'' (BInt (bk_Id transaction)))
         (closedFields meterStop timeStop reason) d) (\<lambda>d.
     onError ''failed to release connector of transaction''
       (updateOne (Collection R ''connectors'')
         (pinFilter (bk_ChargePointId transaction) (bk_ConnectorId transaction) (bk_Id transaction)) releasedFields d)
       continue)"

fun closeStuck :: "'db rawDb \<Rightarrow> time \<Rightarrow> Backlog list \<Rightarrow> 'db action" where
  "closeStuck R cutoff [] d = (None, d)"
| "closeStuck R cutoff (transaction # candidates) d =
     (if bk_PaymentAmount transaction > 0 then closeStuck R cutoff candidates d
      else case findOneDesc (Collection R ''meter_values'') (timeKey ''time'')
             (fieldIs ''transaction_id'' (BInt (bk_Id transaction))) d of
             Inl NotFound \<Rightarrow>
               closeOne R transaction (bk_MeterStart transaction) (bk_TimeStart transaction) reasonBacklogAborted d
                 (closeStuck R cutoff candidates)
           | Inl (Failed e) \<Rightarrow> (Some (MigError ''failed to read meter values of transaction'' (Failed e)), d)
           | Inr sample \<Rightarrow>
              (case decSample sample of
                 None \<Rightarrow> (Some (MigError ''failed to read meter values of transaction'' decodeErr), d)
               | Some (v, t) \<Rightarrow>
                   if cutoff < t then closeStuck R cutoff candidates d
                   else closeOne R transaction v t reasonBacklogStopped d (closeStuck R cutoff candidates)))"

definition decPinned :: "Doc \<Rightarrow> (int \<times> string \<times> int) option" where
  "decPinned d = do {
     x0 \<leftarrow> fieldInt ''connector_id'' d;
     x1 \<leftarrow> fieldStr ''charge_point_id'' d;
     x2 \<leftarrow> fieldInt ''current_transaction_id'' d;
     Some (x0, x1, x2)
   }"

definition finishedFilter :: "int \<Rightarrow> Doc \<Rightarrow> bool" where
  "finishedFilter t d \<longleftrightarrow> fieldIs ''transaction_id'' (BInt t) d \<and> fieldIs ''is_finished'' (BBool True) d"

fun releaseLoop :: "'db rawDb \<Rightarrow> (int \<times> string \<times> int) list \<Rightarrow> int \<Rightarrow> 'db \<Rightarrow> (MigError + int) \<times> 'db" where
  "releaseLoop R [] released d = (Inr released, d)"
| "releaseLoop R ((i, cp, t) # pinned) released d =
     (case findMany (Collection R ''transactions'') (finishedFilter t) d of
        Inl e \<Rightarrow> (Inl (MigError ''failed to read transaction'' e), d)
      | Inr found \<Rightarrow>
          if length found = 0 then releaseLoop R pinned released d
          else case updateOne (Collection R ''connectors'') (pinFilter cp i t) releasedFields d of
                 (Some e, d) \<Rightarrow> (Inl (MigError ''failed to release connector'' e), d)
               | (None, d) \<Rightarrow> releaseLoop R pinned (released + 1) d)"

definition releaseOrphanedConnectors :: "'db rawDb \<Rightarrow> 'db \<Rightarrow> (MigError + int) \<times> 'db" where
  "releaseOrphanedConnectors R d =
     (case findDecoded (Collection R ''connectors'') (fieldAtLeast ''current_transaction_id'' 0) decPinned d of
        Inl e \<Rightarrow> (Inl (MigError ''failed to read connectors'' e), d)
      | Inr pinned \<Rightarrow> releaseLoop R pinned 0 d)"

definition stuckFilter :: "time \<Rightarrow> Doc \<Rightarrow> bool" where
  "stuckFilter cutoff d \<longleftrightarrow> fieldIs ''is_finished'' (BBool False) d \<and> fieldBefore ''time_start'' cutoff d"

definition migrationStuckTransactionsUp :: "'db rawDb \<Rightarrow> time \<Rightarrow> 'db action" where
  "migrationStuckTransactionsUp R now d =
     (let cutoff = now - stuckTransactionCutoff
      in case findDecoded (Collection R ''transactions'') (stuckFilter cutoff) decBacklog d of
           Inl e \<Rightarrow> (Some (MigError ''failed to read unfinished transactions'' e), d)
         | Inr candidates \<Rightarrow>
            (case closeStuck R cutoff candidates d of
               (Some e, d) \<Rightarrow> (Some e, d)
             | (None, d) \<Rightarrow>
                (case releaseOrphanedConnectors R d of (Inl e, d) \<Rightarrow> (Some e, d) | (Inr _, d) \<Rightarrow> (None, d))))"

definition reopenedFields :: "Doc \<Rightarrow> Doc" where
  "reopenedFields = setFields [(''is_finished'', BBool False), (''time_stop'', BTime zeroTime), (''reason'', BStr [])]"

definition backlogReason :: "Doc \<Rightarrow> bool" where
  "backlogReason d \<longleftrightarrow> fieldIs ''reason'' (BStr reasonBacklogStopped) d \<or> fieldIs ''reason'' (BStr reasonBacklogAborted) d"

definition migrationStuckTransactionsDown :: "'db rawDb \<Rightarrow> 'db action" where
  "migrationStuckTransactionsDown R d =
     onError ''failed to rollback transactions''
       (updateMany (Collection R ''transactions'') backlogReason reopenedFields d) (\<lambda>d. (None, d))"

section \<open>Running the migrations\<close>

record 'db Migration =
  mi_Version :: int
  mi_Description :: string
  mi_Up :: "'db action"
  mi_Down :: "'db action"

definition GetMigrations :: "'db rawDb \<Rightarrow> time \<Rightarrow> 'db Migration list" where
  "GetMigrations R now =
     [\<lparr>mi_Version = 1,
       mi_Description = ''Add OCPP multi-version support fields (protocol_version, evse_id, metadata)'',
       mi_Up = migrationOCPPMultiVersionUp R, mi_Down = migrationOCPPMultiVersionDown R\<rparr>,
      \<lparr>mi_Version = 2,
       mi_Description = ''Enable trigger_message on charge points that predate the flag'',
       mi_Up = migrationTriggerMessageUp R, mi_Down = migrationTriggerMessageDown R\<rparr>,
      \<lparr>mi_Version = 3,
       mi_Description = ''Close transactions abandoned while the sweeper could not reach them'',
       mi_Up = migrationStuckTransactionsUp R now, mi_Down = migrationStuckTransactionsDown R\<rparr>]"

definition decSchema :: "Doc \<Rightarrow> (int \<times> time) option" where
  "decSchema d = do {
     x0 \<leftarrow> fieldInt ''version'' d;
     x1 \<leftarrow> fieldTime ''updated_at'' d;
     Some (x0, x1)
   }"

definition getSchemaVersionInternal :: "'db rawDb \<Rightarrow> 'db \<Rightarrow> DbErr + int" where
  "getSchemaVersionInternal R d =
     (case findOne (Collection R ''schema_version'') (\<lambda>_. True) d of
        Inl NotFound \<Rightarrow> Inr 0
      | Inl (Failed e) \<Rightarrow> Inl (Failed e)
      | Inr doc \<Rightarrow> (case decSchema doc of None \<Rightarrow> Inl decodeErr | Some (v, _) \<Rightarrow> Inr v))"

definition schemaDoc :: "time \<Rightarrow> int \<Rightarrow> Doc" where
  "schemaDoc now version = [(''version'', BInt version), (''updated_at'', BTime now)]"

definition updateSchemaVersionInternal :: "'db rawDb \<Rightarrow> time \<Rightarrow> int \<Rightarrow> 'db \<Rightarrow> DbErr option \<times> 'db" where
  "updateSchemaVersionInternal R now version d =
     upsertOne (Collection R ''schema_version'') (\<lambda>_. True) (\<lambda>_. schemaDoc now version) (schemaDoc now version) d"

datatype RunError = VersionUnreadable DbErr | MigrationFailed int MigError | VersionNotWritten DbErr

fun runPending :: "'db rawDb \<Rightarrow> time \<Rightarrow> int \<Rightarrow> 'db Migration list \<Rightarrow> 'db \<Rightarrow> RunError option \<times> 'db" where
  "runPending R now currentVersion [] d = (None, d)"
| "runPending R now currentVersion (m # migrations) d =
     (if mi_Version m > currentVersion then
        (case mi_Up m d of
           (Some e, d) \<Rightarrow> (Some (MigrationFailed (mi_Version m) e), d)
         | (None, d) \<Rightarrow>
            (case updateSchemaVersionInternal R now (mi_Version m) d of
               (Some e, d) \<Rightarrow> (Some (VersionNotWritten e), d)
             | (None, d) \<Rightarrow> runPending R now currentVersion migrations d))
      else runPending R now currentVersion migrations d)"

definition RunMigrations :: "'db rawDb \<Rightarrow> time \<Rightarrow> 'db \<Rightarrow> RunError option \<times> 'db" where
  "RunMigrations R now d =
     (case getSchemaVersionInternal R d of
        Inl e \<Rightarrow> (Some (VersionUnreadable e), d)
      | Inr currentVersion \<Rightarrow> runPending R now currentVersion (GetMigrations R now) d)"

definition GetSchemaVersion :: "'db rawDb \<Rightarrow> 'db \<Rightarrow> DbErr + int" where
  "GetSchemaVersion R d = getSchemaVersionInternal R d"

definition UpdateSchemaVersion :: "'db rawDb \<Rightarrow> time \<Rightarrow> int \<Rightarrow> 'db \<Rightarrow> DbErr option \<times> 'db" where
  "UpdateSchemaVersion R now version d = updateSchemaVersionInternal R now version d"

text \<open>The generic insertion into a table.\<close>

definition mongo_Write :: "'db rawDb \<Rightarrow> string \<Rightarrow> Doc \<Rightarrow> 'db \<Rightarrow> DbErr option \<times> 'db" where
  "mongo_Write R table data d = insertOne (Collection R table) data d"

end
