(* ===== verification/MigrationProps.thy ===== *)
theory MigrationProps
  imports Migrations
begin

text \<open>
  What the migrations do to the documents. The driver is used through the locale \<open>document_store\<close>; the
  specification of a migration is a function from the contents of all collections to the new contents, and
  the migrations refine it. From that: a second run changes nothing, explicit settings are kept, and no
  connector is left pointing at a finished transaction.
\<close>

section \<open>The driver\<close>

locale document_store =
  fixes R :: "'db rawDb" and up :: "'db \<Rightarrow> bool" and content :: "string \<Rightarrow> 'db \<Rightarrow> Doc list"
  assumes reads: "coll_reads up (Collection R n) (content n)"
    and writes: "coll_writes up (Collection R n) (content n)"
    and apart: "n \<noteq> m \<Longrightarrow> coll_keeps (Collection R n) (content m)"
    and created: "up d \<Longrightarrow> up (snd (CreateOne R n ks i d)) \<and> content m (snd (CreateOne R n ks i d)) = content m d"
    and dropped: "up d \<Longrightarrow> up (snd (DropOne R n i d)) \<and> content m (snd (DropOne R n i d)) = content m d"

text \<open>The contents of all collections, and their change at one of them.\<close>

type_synonym contents = "string \<Rightarrow> Doc list"

definition onEach :: "string \<Rightarrow> (Doc \<Rightarrow> Doc) \<Rightarrow> contents \<Rightarrow> contents" where
  "onEach n f C = C(n := map f (C n))"

definition onMatch :: "(Doc \<Rightarrow> bool) \<Rightarrow> (Doc \<Rightarrow> Doc) \<Rightarrow> Doc \<Rightarrow> Doc" where
  "onMatch P f x = (if P x then f x else x)"

lemma onMatch_simps [simp]: "P x \<Longrightarrow> onMatch P f x = f x" "\<not> P x \<Longrightarrow> onMatch P f x = x"
  by (simp_all add: onMatch_def)

lemma onEach_simps [simp]:
  "onEach n f C n = map f (C n)" "m \<noteq> n \<Longrightarrow> onEach n f C m = C m"
  by (simp_all add: onEach_def)

section \<open>Updates of one document\<close>

definition uniqueBy :: "(Doc \<Rightarrow> 'k) \<Rightarrow> Doc list \<Rightarrow> bool" where
  "uniqueBy key xs \<longleftrightarrow> distinct (map key xs)"

lemma updateFirst_unique:
  assumes "distinct (map key xs)" "\<And>x. x \<in> set xs \<Longrightarrow> P x \<Longrightarrow> key x = k"
  shows "updateFirst P f xs = map (onMatch P f) xs"
  using assms
proof (induction xs)
  case (Cons a xs)
  show ?case
  proof (cases "P a")
    case True
    have "\<not> P x" if "x \<in> set xs" for x
    proof
      assume "P x"
      then have "key x = key a" using Cons.prems(2) [of x] Cons.prems(2) [of a] that True by simp
      then show False using Cons.prems(1) that by (force simp: image_iff)
    qed
    then have "map (onMatch P f) xs = xs" by (simp add: map_idI)
    with True show ?thesis by simp
  qed (use Cons in simp)
qed simp

lemma updateFirst_none: "(\<And>x. x \<in> set xs \<Longrightarrow> \<not> P x) \<Longrightarrow> updateFirst P f xs = xs"
  by (induction xs) auto

lemma map_of_fields [simp]:
  "map_of (setFields fs d) k = (case map_of (rev fs) k of None \<Rightarrow> map_of d k | Some v \<Rightarrow> Some v)"
  by (induction fs arbitrary: d) (auto simp: setFields_def map_of_append split: option.splits)

lemma map_of_unset [simp]: "map_of (unsetFields ks d) k = (if k \<in> set ks then None else map_of d k)"
  by (induction ks arbitrary: d) (auto simp: unsetFields_def)

section \<open>Specifications\<close>

definition specMultiVersion :: "contents \<Rightarrow> contents" where
  "specMultiVersion =
     onEach ''transactions'' (onMatch (lacks ''protocol_version'')
       (setFields [(''protocol_version'', BStr ''ocpp1.6''), (''evse_id'', BNull), (''metadata'', BDoc [])]))
     \<circ> onEach ''connectors'' (onMatch (lacks ''evse_id'') (setFields [(''evse_id'', BNull)]))
     \<circ> onEach ''charge_points'' (onMatch (lacks ''protocol_version'')
       (setFields [(''protocol_version'', BStr ''ocpp1.6''), (''device_model'', BDoc [])]))"

definition specTrigger :: "contents \<Rightarrow> contents" where
  "specTrigger = onEach ''charge_points'' (onMatch (lacks ''trigger_message'') (setFields [(''trigger_message'', BBool True)]))"

text \<open>What is decided of a candidate: \<open>None\<close> if it is left alone, else final reading, time and reason.\<close>

definition verdict :: "time \<Rightarrow> Doc list \<Rightarrow> Backlog \<Rightarrow> (int \<times> time \<times> string) option" where
  "verdict cutoff meters t =
     (if bk_PaymentAmount t > 0 then None
      else case greatest (timeKey ''time'') (filter (fieldIs ''transaction_id'' (BInt (bk_Id t))) meters) of
             None \<Rightarrow> Some (bk_MeterStart t, bk_TimeStart t, reasonBacklogAborted)
           | Some m \<Rightarrow>
              (case decSample m of None \<Rightarrow> None
               | Some (v, tm) \<Rightarrow> if cutoff < tm then None else Some (v, tm, reasonBacklogStopped)))"

definition closeBacklog :: "time \<Rightarrow> Doc list \<Rightarrow> Doc \<Rightarrow> Doc" where
  "closeBacklog cutoff meters x =
     (if \<not> stuckFilter cutoff x then x
      else case decBacklog x of None \<Rightarrow> x
           | Some t \<Rightarrow>
              (case verdict cutoff meters t of None \<Rightarrow> x | Some (m, tm, r) \<Rightarrow> closedFields m tm r x))"

definition pointsAtFinished :: "Doc list \<Rightarrow> Doc \<Rightarrow> bool" where
  "pointsAtFinished trs c =
     (case map_of c ''current_transaction_id'' of
        Some (BInt t) \<Rightarrow> 0 \<le> t \<and> list_ex (finishedFilter t) trs
      | _ \<Rightarrow> False)"

definition specStuck :: "time \<Rightarrow> contents \<Rightarrow> contents" where
  "specStuck cutoff C =
     (let T = map (closeBacklog cutoff (C ''meter_values'')) (C ''transactions'')
      in C(''transactions'' := T, ''connectors'' := map (onMatch (pointsAtFinished T) releasedFields) (C ''connectors'')))"

text \<open>Documents with the fields the third migration keys on, each key once, and samples that decode.\<close>

definition trKey :: "Doc \<Rightarrow> Bson option" where "trKey d = map_of d ''transaction_id''"

definition connKey :: "Doc \<Rightarrow> Bson option \<times> Bson option" where
  "connKey d = (map_of d ''charge_point_id'', map_of d ''connector_id'')"

fun isInt :: "Bson option \<Rightarrow> bool" where "isInt (Some (BInt i)) = True" | "isInt _ = False"
fun isNat :: "Bson option \<Rightarrow> bool" where "isNat (Some (BInt i)) = (0 \<le> i)" | "isNat _ = False"
fun isStr :: "Bson option \<Rightarrow> bool" where "isStr (Some (BStr s)) = True" | "isStr _ = False"

definition wellFormed :: "contents \<Rightarrow> bool" where
  "wellFormed C \<longleftrightarrow>
     list_all (\<lambda>x. isNat (trKey x) \<and> decBacklog x \<noteq> None) (C ''transactions'')
     \<and> distinct (map trKey (C ''transactions''))
     \<and> list_all (\<lambda>c. isInt (map_of c ''connector_id'') \<and> isStr (map_of c ''charge_point_id'')
          \<and> isInt (map_of c ''current_transaction_id'')) (C ''connectors'')
     \<and> distinct (map connKey (C ''connectors''))
     \<and> list_all (\<lambda>m. decSample m \<noteq> None) (C ''meter_values'')"

section \<open>Facts on the steps\<close>

lemmas field_defs = fieldIs_def fieldBefore_def fieldAtLeast_def fieldInt_def fieldStr_def fieldTime_def lacks_def

lemma closedFields_keys: "trKey (closedFields m tm r x) = trKey x"
  by (simp add: trKey_def closedFields_def)

lemma releasedFields_keys: "connKey (releasedFields c) = connKey c"
  by (simp add: connKey_def releasedFields_def)

lemma released_current: "map_of (releasedFields c) ''current_transaction_id'' = Some (BInt (-1))"
  by (simp add: releasedFields_def)

lemma map_onMatch_key: "(\<And>x. key (f x) = key x) \<Longrightarrow> map key (map (onMatch P f) xs) = map key xs"
  by (auto simp: onMatch_def)

definition releases :: "(Doc \<Rightarrow> bool) list \<Rightarrow> Doc \<Rightarrow> Doc" where
  "releases = fold (\<lambda>P. onMatch P releasedFields)"

lemma releases_simps [simp]: "releases [] = (\<lambda>c. c)" "releases (P # Ps) = releases Ps \<circ> onMatch P releasedFields"
  by (auto simp: releases_def)

lemma releases_any:
  assumes "\<And>P c. P \<in> set Ps \<Longrightarrow> \<not> P (releasedFields c)"
  shows "releases Ps c = onMatch (\<lambda>c. list_ex (\<lambda>P. P c) Ps) releasedFields c"
  using assms
proof (induction Ps arbitrary: c)
  case (Cons P Ps)
  have ih: "releases Ps c = onMatch (\<lambda>c. list_ex (\<lambda>P. P c) Ps) releasedFields c" for c
    by (rule Cons.IH, rule Cons.prems) simp
  have "list_ex (\<lambda>P. P (releasedFields c)) Ps = False" using Cons.prems by (auto simp: list_ex_iff)
  then show ?case by (cases "P c") (simp_all add: ih, simp add: onMatch_def)
qed (simp add: onMatch_def)

lemma pinFilter_key: "pinFilter cp i t c \<Longrightarrow> connKey c = (Some (BStr cp), Some (BInt i))"
  by (simp add: pinFilter_def connKey_def fieldIs_def)

lemma pinFilter_released: "0 \<le> t \<Longrightarrow> \<not> pinFilter cp i t (releasedFields c)"
  by (simp add: pinFilter_def fieldIs_def released_current)

context document_store
begin

lemma updateMany_store:
  assumes "up d"
  shows "\<exists>d'. updateMany (Collection R n) P f d = (None, d') \<and> up d'
    \<and> (\<lambda>m. content m d') = onEach n (onMatch P f) (\<lambda>m. content m d)"
proof -
  obtain d' where d': "updateMany (Collection R n) P f d = (None, d')" "up d'"
      "content n d' = map (\<lambda>x. if P x then f x else x) (content n d)"
    using writes [of n] assms unfolding coll_writes_def by blast
  have "content m d' = content m d" if "m \<noteq> n" for m
    using coll_keepsD(4) [OF apart [of n m], of P f d] that d'(1) by simp
  moreover have "content n d' = map (onMatch P f) (content n d)" using d'(3) by (simp add: onMatch_def)
  ultimately have "(\<lambda>m. content m d') = onEach n (onMatch P f) (\<lambda>m. content m d)" by (auto simp: onEach_def)
  with d' show ?thesis by blast
qed

lemma updateOne_store:
  assumes "up d" "distinct (map key (content n d))" "\<And>x. P x \<Longrightarrow> key x = k"
  shows "\<exists>d'. updateOne (Collection R n) P f d = (None, d') \<and> up d'
    \<and> (\<lambda>m. content m d') = onEach n (onMatch P f) (\<lambda>m. content m d)"
proof -
  obtain d' where d': "updateOne (Collection R n) P f d = (None, d')" "up d'"
      "content n d' = updateFirst P f (content n d)"
    using writes [of n] assms(1) unfolding coll_writes_def by blast
  have "content m d' = content m d" if "m \<noteq> n" for m
    using coll_keepsD(2) [OF apart [of n m], of P f d] that d'(1) by simp
  moreover have "content n d' = map (onMatch P f) (content n d)"
    unfolding d'(3) by (rule updateFirst_unique [OF assms(2)]) (rule assms(3))
  ultimately have "(\<lambda>m. content m d') = onEach n (onMatch P f) (\<lambda>m. content m d)" by (auto simp: onEach_def)
  with d' show ?thesis by blast
qed

lemma multiVersion_refines:
  assumes "up d"
  shows "\<exists>d'. migrationOCPPMultiVersionUp R d = (None, d') \<and> up d'
    \<and> (\<lambda>m. content m d') = specMultiVersion (\<lambda>m. content m d)"
proof -
  let ?f1 = "setFields [(''protocol_version'', BStr ''ocpp1.6''), (''device_model'', BDoc [])]"
  let ?f2 = "setFields [(''evse_id'', BNull)]"
  let ?f3 = "setFields [(''protocol_version'', BStr ''ocpp1.6''), (''evse_id'', BNull), (''metadata'', BDoc [])]"
  obtain d1 where d1: "updateMany (Collection R ''charge_points'') (lacks ''protocol_version'') ?f1 d = (None, d1)" "up d1"
      "(\<lambda>m. content m d1) = onEach ''charge_points'' (onMatch (lacks ''protocol_version'') ?f1) (\<lambda>m. content m d)"
    using updateMany_store [OF assms] by blast
  obtain d2 where d2: "updateMany (Collection R ''connectors'') (lacks ''evse_id'') ?f2 d1 = (None, d2)" "up d2"
      "(\<lambda>m. content m d2) = onEach ''connectors'' (onMatch (lacks ''evse_id'') ?f2) (\<lambda>m. content m d1)"
    using updateMany_store [OF d1(2)] by blast
  obtain d3 where d3: "updateMany (Collection R ''transactions'') (lacks ''protocol_version'') ?f3 d2 = (None, d3)" "up d3"
      "(\<lambda>m. content m d3) = onEach ''transactions'' (onMatch (lacks ''protocol_version'') ?f3) (\<lambda>m. content m d2)"
    using updateMany_store [OF d2(2)] by blast
  have "(\<lambda>m. content m d3) = specMultiVersion (\<lambda>m. content m d)"
    using d1(3) d2(3) d3(3) by (simp add: specMultiVersion_def)
  with d1(1) d2(1) d3(1,2) created show ?thesis
    by (simp add: migrationOCPPMultiVersionUp_def onError_def Let_def)
qed

lemma trigger_refines:
  assumes "up d"
  shows "\<exists>d'. migrationTriggerMessageUp R d = (None, d') \<and> up d' \<and> (\<lambda>m. content m d') = specTrigger (\<lambda>m. content m d)"
  using updateMany_store [OF assms, of "''charge_points''" "lacks ''trigger_message''" "setFields [(''trigger_message'', BBool True)]"]
  by (auto simp: migrationTriggerMessageUp_def onError_def specTrigger_def)

end

section \<open>Abandoned transactions\<close>

text \<open>The loop over the candidates, on the contents and on one document.\<close>

definition closeStep :: "time \<Rightarrow> Doc list \<Rightarrow> Backlog \<Rightarrow> Doc \<Rightarrow> Doc" where
  "closeStep cutoff meters t x =
     (case verdict cutoff meters t of None \<Rightarrow> x
      | Some (m, tm, r) \<Rightarrow> onMatch (fieldIs ''transaction_id'' (BInt (bk_Id t))) (closedFields m tm r) x)"

definition pinOf :: "Backlog \<Rightarrow> Doc \<Rightarrow> bool" where
  "pinOf t = pinFilter (bk_ChargePointId t) (bk_ConnectorId t) (bk_Id t)"

definition closedOf :: "time \<Rightarrow> Doc list \<Rightarrow> Backlog list \<Rightarrow> Backlog list" where
  "closedOf cutoff meters = filter (\<lambda>t. verdict cutoff meters t \<noteq> None)"

definition afterClose :: "time \<Rightarrow> Backlog list \<Rightarrow> contents \<Rightarrow> contents" where
  "afterClose cutoff ts C =
     C(''transactions'' := map (fold (closeStep cutoff (C ''meter_values'')) ts) (C ''transactions''),
       ''connectors'' := map (releases (map pinOf (closedOf cutoff (C ''meter_values'') ts))) (C ''connectors''))"

lemma closeStep_keys [simp]: "trKey (closeStep cutoff meters t x) = trKey x"
  by (simp add: closeStep_def onMatch_def closedFields_keys split: option.split prod.split)

lemma afterClose_skip: "verdict cutoff (C ''meter_values'') t = None \<Longrightarrow> afterClose cutoff (t # ts) C = afterClose cutoff ts C"
  by (rule ext) (simp add: afterClose_def closedOf_def closeStep_def)

lemma afterClose_close:
  assumes "verdict cutoff (C ''meter_values'') t = Some (m, tm, r)"
  shows "afterClose cutoff (t # ts) C =
    afterClose cutoff ts (onEach ''connectors'' (onMatch (pinOf t) releasedFields)
      (onEach ''transactions'' (onMatch (fieldIs ''transaction_id'' (BInt (bk_Id t))) (closedFields m tm r)) C))"
  using assms by (intro ext) (simp add: afterClose_def closedOf_def closeStep_def [abs_def] onEach_def comp_def)

definition keyed :: "contents \<Rightarrow> bool" where
  "keyed C \<longleftrightarrow> distinct (map trKey (C ''transactions'')) \<and> distinct (map connKey (C ''connectors''))
     \<and> list_all (\<lambda>m. decSample m \<noteq> None) (C ''meter_values'')"

lemma keyed_step:
  "keyed C \<Longrightarrow> keyed (onEach ''connectors'' (onMatch P releasedFields) (onEach ''transactions'' (onMatch Q (closedFields m tm r)) C))"
  by (simp add: keyed_def map_onMatch_key closedFields_keys releasedFields_keys del: map_map)

context document_store
begin

lemma closeOne_refines:
  assumes "up d" "keyed (\<lambda>n. content n d)"
  shows "\<exists>d'. closeOne R t m tm r d k = k d' \<and> up d'
    \<and> (\<lambda>n. content n d') = onEach ''connectors'' (onMatch (pinOf t) releasedFields)
        (onEach ''transactions'' (onMatch (fieldIs ''transaction_id'' (BInt (bk_Id t))) (closedFields m tm r)) (\<lambda>n. content n d))"
proof -
  let ?P = "fieldIs ''transaction_id'' (BInt (bk_Id t))" and ?f = "closedFields m tm r"
  have keys: "distinct (map trKey (content ''transactions'' d))" using assms(2) by (simp add: keyed_def)
  obtain d1 where d1: "updateOne (Collection R ''transactions'') ?P ?f d = (None, d1)" "up d1"
      "(\<lambda>n. content n d1) = onEach ''transactions'' (onMatch ?P ?f) (\<lambda>n. content n d)"
    using updateOne_store [OF assms(1) keys, of ?P "Some (BInt (bk_Id t))"] by (auto simp: fieldIs_def trKey_def)
  have "content ''connectors'' d1 = content ''connectors'' d" using fun_cong [OF d1(3), of "''connectors''"] by simp
  then have "distinct (map connKey (content ''connectors'' d1))" using assms(2) by (simp add: keyed_def)
  from updateOne_store [OF d1(2) this, of "pinOf t" "(Some (BStr (bk_ChargePointId t)), Some (BInt (bk_ConnectorId t)))" releasedFields]
  obtain d2 where "updateOne (Collection R ''connectors'') (pinOf t) releasedFields d1 = (None, d2)" "up d2"
      "(\<lambda>n. content n d2) = onEach ''connectors'' (onMatch (pinOf t) releasedFields) (\<lambda>n. content n d1)"
    by (auto simp: pinOf_def pinFilter_key)
  with d1 show ?thesis by (auto simp: closeOne_def onError_def pinOf_def)
qed

lemma closeStuck_refines:
  assumes "up d" "keyed (\<lambda>n. content n d)"
  shows "\<exists>d'. closeStuck R cutoff ts d = (None, d') \<and> up d' \<and> (\<lambda>n. content n d') = afterClose cutoff ts (\<lambda>n. content n d)"
  using assms
proof (induction ts arbitrary: d)
  case Nil
  then show ?case by (auto simp: afterClose_def closedOf_def)
next
  case (Cons t ts)
  let ?C = "\<lambda>n. content n d" and ?P = "fieldIs ''transaction_id'' (BInt (bk_Id t))"
  let ?M = "content ''meter_values'' d"
  have find: "findOneDesc (Collection R ''meter_values'') (timeKey ''time'') ?P d = foundOne (greatest (timeKey ''time'') (filter ?P ?M))"
    by (rule coll_readsD(3) [OF reads Cons.prems(1)])
  show ?case
  proof (cases "verdict cutoff ?M t")
    case None
    have "closeStuck R cutoff (t # ts) d = closeStuck R cutoff ts d"
    proof (cases "bk_PaymentAmount t > 0")
      case False
      with None obtain m where m: "greatest (timeKey ''time'') (filter ?P ?M) = Some m"
        by (auto simp: verdict_def split: option.splits)
      then have "m \<in> set ?M" using greatest_Some [OF m] by simp
      then obtain v tm where "decSample m = Some (v, tm)"
        using Cons.prems(2) by (auto simp: keyed_def list_all_iff)
      with False None m find show ?thesis by (auto simp: verdict_def foundOne_def split: if_splits)
    qed simp
    then show ?thesis using Cons.IH [OF Cons.prems] afterClose_skip [of cutoff ?C t] None by simp
  next
    case (Some v)
    obtain m tm r where v: "v = (m, tm, r)" by (cases v)
    have "closeStuck R cutoff (t # ts) d = closeOne R t m tm r d (closeStuck R cutoff ts)"
      using Some v find by (auto simp: verdict_def foundOne_def split: if_splits option.splits)
    moreover obtain d1 where d1: "closeOne R t m tm r d (closeStuck R cutoff ts) = closeStuck R cutoff ts d1" "up d1"
        "(\<lambda>n. content n d1) = onEach ''connectors'' (onMatch (pinOf t) releasedFields) (onEach ''transactions'' (onMatch ?P (closedFields m tm r)) ?C)"
      using closeOne_refines [OF Cons.prems] by blast
    moreover have "keyed (\<lambda>n. content n d1)" unfolding d1(3) by (rule keyed_step [OF Cons.prems(2)])
    ultimately show ?thesis
      using Cons.IH [OF d1(2)] afterClose_close [of cutoff ?C t m tm r ts] Some v by simp
  qed
qed

end

subsection \<open>One document\<close>

lemma those_SomeD: "those (map f xs) = Some ys \<Longrightarrow> map Some ys = map f xs"
  by (induction xs arbitrary: ys) (auto split: option.splits)

lemma those_total: "(\<And>x. x \<in> set xs \<Longrightarrow> f x \<noteq> None) \<Longrightarrow> \<exists>ys. those (map f xs) = Some ys"
  by (induction xs) (auto split: option.splits)

lemma closeStep_other: "trKey x \<noteq> Some (BInt (bk_Id t)) \<Longrightarrow> closeStep cutoff meters t x = x"
  by (simp add: closeStep_def onMatch_def trKey_def fieldIs_def split: option.split)

lemma fold_closeStep:
  assumes "distinct (map bk_Id ts)" "trKey x = Some (BInt i)"
  shows "fold (closeStep cutoff meters) ts x =
    (case find (\<lambda>t. bk_Id t = i) ts of None \<Rightarrow> x | Some t \<Rightarrow> closeStep cutoff meters t x)"
  using assms
proof (induction ts arbitrary: x)
  case (Cons t ts)
  show ?case
  proof (cases "bk_Id t = i")
    case True
    then have "find (\<lambda>t. bk_Id t = i) ts = None" using Cons.prems(1) by (auto simp: find_None_iff image_iff)
    with Cons True show ?thesis by simp
  next
    case False
    then have "closeStep cutoff meters t x = x" using Cons.prems(2) by (simp add: closeStep_other)
    with Cons False show ?thesis by simp
  qed
qed simp

lemma decBacklog_id: "decBacklog x = Some t \<Longrightarrow> isNat (trKey x) \<Longrightarrow> trKey x = Some (BInt (bk_Id t)) \<and> 0 \<le> bk_Id t"
  by (cases "trKey x" rule: isNat.cases) (auto simp: decBacklog_def trKey_def fieldInt_def split: bind_splits)

text \<open>The candidates of the query, as the backlog entries of the documents it selects.\<close>

definition candidatesOf :: "time \<Rightarrow> Doc list \<Rightarrow> Backlog list" where
  "candidatesOf cutoff trs = map (the \<circ> decBacklog) (filter (stuckFilter cutoff) trs)"

definition trsOk :: "Doc list \<Rightarrow> bool" where
  "trsOk trs \<longleftrightarrow> list_all (\<lambda>x. isNat (trKey x) \<and> decBacklog x \<noteq> None) trs \<and> distinct (map trKey trs)"

lemma candidate_id: "trsOk trs \<Longrightarrow> x \<in> set trs \<Longrightarrow> trKey x = Some (BInt (bk_Id (the (decBacklog x)))) \<and> 0 \<le> bk_Id (the (decBacklog x))"
  using decBacklog_id by (fastforce simp: trsOk_def list_all_iff)

lemma candidates_distinct: "trsOk trs \<Longrightarrow> distinct (map bk_Id (candidatesOf cutoff trs))"
proof -
  assume ok: "trsOk trs"
  have "map (\<lambda>i. Some (BInt i)) (map bk_Id (candidatesOf cutoff trs)) = map trKey (filter (stuckFilter cutoff) trs)"
    using candidate_id [OF ok] by (auto simp: candidatesOf_def)
  moreover have "distinct (map trKey (filter (stuckFilter cutoff) trs))"
    using ok by (simp add: trsOk_def distinct_map_filter)
  ultimately show ?thesis by (metis distinct_map)
qed

lemma find_candidate:
  assumes "trsOk trs" "x \<in> set trs" "trKey x = Some (BInt i)"
  shows "find (\<lambda>t. bk_Id t = i) (candidatesOf cutoff trs) = (if stuckFilter cutoff x then decBacklog x else None)"
proof -
  have same: "y = x" if "y \<in> set trs" "bk_Id (the (decBacklog y)) = i" for y
    using that assms candidate_id [OF assms(1) that(1)] by (auto simp: trsOk_def distinct_map inj_on_def)
  have "bk_Id (the (decBacklog x)) = i" using candidate_id [OF assms(1,2)] assms(3) by simp
  moreover obtain t where "decBacklog x = Some t" using assms(1,2) by (auto simp: trsOk_def list_all_iff)
  moreover have "find (\<lambda>t. bk_Id t = i) (map (the \<circ> decBacklog) ys) = (if x \<in> set ys then Some (the (decBacklog x)) else None)"
    if "set ys \<subseteq> set trs" for ys
    using that same calculation(1) by (induction ys) auto
  ultimately show ?thesis using assms(2) by (auto simp: candidatesOf_def)
qed

lemma closed_documents:
  assumes "trsOk trs"
  shows "map (fold (closeStep cutoff meters) (candidatesOf cutoff trs)) trs = map (closeBacklog cutoff meters) trs"
proof (rule map_cong)
  fix x
  assume x: "x \<in> set trs"
  have i: "trKey x = Some (BInt (bk_Id (the (decBacklog x))))" using candidate_id [OF assms x] by simp
  have "closeStep cutoff meters t x = (case verdict cutoff meters t of None \<Rightarrow> x | Some (m, tm, r) \<Rightarrow> closedFields m tm r x)"
    if "decBacklog x = Some t" for t
    using i that by (simp add: closeStep_def onMatch_def trKey_def fieldIs_def split: option.split prod.split)
  then show "fold (closeStep cutoff meters) (candidatesOf cutoff trs) x = closeBacklog cutoff meters x"
    using fold_closeStep [OF candidates_distinct [OF assms] i] find_candidate [OF assms x i]
    by (simp add: closeBacklog_def split: option.split)
qed simp

text \<open>A connector released in the first pass points at a transaction that is finished afterwards.\<close>

lemma pinned_finished:
  assumes "trsOk trs" "t \<in> set (closedOf cutoff meters (candidatesOf cutoff trs))" "pinOf t c"
  shows "pointsAtFinished (map (closeBacklog cutoff meters) trs) c"
proof -
  obtain x where x: "x \<in> set trs" "stuckFilter cutoff x" "t = the (decBacklog x)" "verdict cutoff meters t \<noteq> None"
    using assms(2) by (auto simp: closedOf_def candidatesOf_def)
  obtain m tm r where v: "verdict cutoff meters t = Some (m, tm, r)" using x(4) by auto
  have dec: "decBacklog x = Some t" using x(1,3) assms(1) by (auto simp: trsOk_def list_all_iff)
  have id: "trKey x = Some (BInt (bk_Id t))" "0 \<le> bk_Id t" using candidate_id [OF assms(1) x(1)] x(3) by simp_all
  have "finishedFilter (bk_Id t) (closeBacklog cutoff meters x)"
    using x(2) dec v id(1) by (simp add: closeBacklog_def finishedFilter_def fieldIs_def closedFields_def trKey_def)
  then have "list_ex (finishedFilter (bk_Id t)) (map (closeBacklog cutoff meters) trs)"
    using x(1) by (auto simp: list_ex_iff)
  then show ?thesis using assms(3) id(2) by (simp add: pointsAtFinished_def pinOf_def pinFilter_def fieldIs_def)
qed

subsection \<open>Connectors that point at finished transactions\<close>

definition connsOk :: "Doc list \<Rightarrow> bool" where
  "connsOk cs \<longleftrightarrow> list_all (\<lambda>c. isInt (map_of c ''connector_id'') \<and> isStr (map_of c ''charge_point_id'')
     \<and> isInt (map_of c ''current_transaction_id'')) cs \<and> distinct (map connKey cs)"

lemma connector_fields:
  assumes "connsOk cs" "c \<in> set cs"
  obtains i cp t where "map_of c ''connector_id'' = Some (BInt i)" "map_of c ''charge_point_id'' = Some (BStr cp)"
    "map_of c ''current_transaction_id'' = Some (BInt t)"
proof -
  have "isInt (map_of c ''connector_id'')" "isStr (map_of c ''charge_point_id'')" "isInt (map_of c ''current_transaction_id'')"
    using assms by (simp_all add: connsOk_def list_all_iff)
  then show ?thesis using that by (elim isInt.elims isStr.elims) auto
qed

lemma decPinned_fields:
  "\<lbrakk>map_of c ''connector_id'' = Some (BInt i); map_of c ''charge_point_id'' = Some (BStr cp);
    map_of c ''current_transaction_id'' = Some (BInt t)\<rbrakk> \<Longrightarrow> decPinned c = Some (i, cp, t)"
  by (simp add: decPinned_def fieldInt_def fieldStr_def)

text \<open>The pins the second pass finds, and those of them it releases.\<close>

definition pinnedOf :: "Doc list \<Rightarrow> (int \<times> string \<times> int) list" where
  "pinnedOf cs = map (the \<circ> decPinned) (filter (fieldAtLeast ''current_transaction_id'' 0) cs)"

definition pinsAt :: "Doc list \<Rightarrow> (int \<times> string \<times> int) list \<Rightarrow> (Doc \<Rightarrow> bool) list" where
  "pinsAt trs pinned = map (\<lambda>(i, cp, t). pinFilter cp i t) (filter (\<lambda>(i, cp, t). list_ex (finishedFilter t) trs) pinned)"

lemma pinned_released:
  assumes "connsOk cs"
  shows "map (releases (pinsAt trs (pinnedOf cs))) cs = map (onMatch (pointsAtFinished trs) releasedFields) cs"
proof (rule map_cong)
  have pins: "\<exists>i cp. map_of y ''connector_id'' = Some (BInt i) \<and> map_of y ''charge_point_id'' = Some (BStr cp)
      \<and> (\<exists>t. map_of y ''current_transaction_id'' = Some (BInt t) \<and> the (decPinned y) = (i, cp, t))" if "y \<in> set cs" for y
    using connector_fields [OF assms that] decPinned_fields by (metis option.sel)
  fix c
  assume c: "c \<in> set cs"
  obtain i cp t where f: "map_of c ''connector_id'' = Some (BInt i)" "map_of c ''charge_point_id'' = Some (BStr cp)"
      "map_of c ''current_transaction_id'' = Some (BInt t)" "the (decPinned c) = (i, cp, t)" using pins [OF c] by blast
  have "\<not> P (releasedFields c')" if P: "P \<in> set (pinsAt trs (pinnedOf cs))" for P c'
  proof -
    have "P \<in> (\<lambda>(i, cp, t). pinFilter cp i t) ` (\<lambda>y. the (decPinned y)) ` {y \<in> set cs. fieldAtLeast ''current_transaction_id'' 0 y}"
      using P unfolding pinsAt_def pinnedOf_def by (simp add: image_image) blast
    then obtain y where "y \<in> set cs" "fieldAtLeast ''current_transaction_id'' 0 y" "P = (\<lambda>(i, cp, t). pinFilter cp i t) (the (decPinned y))"
      by blast
    then show ?thesis using pins [of y] pinFilter_released by (auto simp: fieldAtLeast_def)
  qed
  then have "releases (pinsAt trs (pinnedOf cs)) c = onMatch (\<lambda>c. list_ex (\<lambda>P. P c) (pinsAt trs (pinnedOf cs))) releasedFields c"
    by (rule releases_any)
  moreover have "list_ex (\<lambda>P. P c) (pinsAt trs (pinnedOf cs)) \<longleftrightarrow> pointsAtFinished trs c"
  proof
    assume "list_ex (\<lambda>P. P c) (pinsAt trs (pinnedOf cs))"
    then obtain y i' cp' t' where y: "y \<in> set cs" "fieldAtLeast ''current_transaction_id'' 0 y" "the (decPinned y) = (i', cp', t')"
        "list_ex (finishedFilter t') trs" "pinFilter cp' i' t' c"
      by (fastforce simp: list_ex_iff pinsAt_def pinnedOf_def)
    with pins [OF y(1)] f show "pointsAtFinished trs c"
      by (auto simp: pinFilter_def fieldIs_def fieldAtLeast_def pointsAtFinished_def)
  next
    assume "pointsAtFinished trs c"
    then have t: "0 \<le> t" "list_ex (finishedFilter t) trs" using f by (simp_all add: pointsAtFinished_def)
    have "c \<in> set (filter (fieldAtLeast ''current_transaction_id'' 0) cs)" using c f t(1) by (simp add: fieldAtLeast_def)
    then have "(the \<circ> decPinned) c \<in> set (pinnedOf cs)" unfolding pinnedOf_def set_map by (rule imageI)
    then have "(i, cp, t) \<in> set (filter (\<lambda>(i, cp, t). list_ex (finishedFilter t) trs) (pinnedOf cs))" using f t(2) by simp
    from imageI [OF this, of "\<lambda>(i, cp, t). pinFilter cp i t"]
    have "pinFilter cp i t \<in> set (pinsAt trs (pinnedOf cs))" by (simp add: pinsAt_def)
    moreover have "pinFilter cp i t c" using f by (simp add: pinFilter_def fieldIs_def)
    ultimately show "list_ex (\<lambda>P. P c) (pinsAt trs (pinnedOf cs))" unfolding list_ex_iff by blast
  qed
  ultimately show "releases (pinsAt trs (pinnedOf cs)) c = onMatch (pointsAtFinished trs) releasedFields c"
    by (simp add: onMatch_def)
qed simp

lemma length_filter_ex: "length (filter P xs) = 0 \<longleftrightarrow> \<not> list_ex P xs"
  by (auto simp: filter_empty_conv list_ex_iff)

context document_store
begin

lemma findDecoded_store:
  assumes "up d" "\<And>x. x \<in> set (content n d) \<Longrightarrow> P x \<Longrightarrow> dec x \<noteq> None"
  shows "findDecoded (Collection R n) P dec d = Inr (map (the \<circ> dec) (filter P (content n d)))"
proof -
  have "those (map dec xs) = Some (map (the \<circ> dec) xs)" if "\<And>x. x \<in> set xs \<Longrightarrow> dec x \<noteq> None" for xs
    using that
  proof (induction xs)
    case (Cons a xs)
    obtain y where "dec a = Some y" using Cons.prems [of a] by auto
    with Cons show ?case by simp
  qed simp
  note total = this
  have "those (map dec (filter P (content n d))) = Some (map (the \<circ> dec) (filter P (content n d)))"
    by (rule total) (simp add: assms(2))
  then show ?thesis by (simp add: findDecoded_def coll_readsD(2) [OF reads assms(1)])
qed

lemma releaseLoop_refines:
  assumes "up d" "distinct (map connKey (content ''connectors'' d))"
  shows "\<exists>d' k. releaseLoop R pinned r d = (Inr k, d') \<and> up d'
    \<and> (\<lambda>n. content n d') = onEach ''connectors'' (releases (pinsAt (content ''transactions'' d) pinned)) (\<lambda>n. content n d)"
  using assms
proof (induction pinned arbitrary: d r)
  case Nil
  then show ?case by (auto simp: pinsAt_def onEach_def)
next
  case (Cons p pinned)
  obtain i cp t where p: "p = (i, cp, t)" by (cases p)
  let ?T = "content ''transactions''"
  have find: "findMany (Collection R ''transactions'') (finishedFilter t) d = Inr (filter (finishedFilter t) (?T d))"
    by (rule coll_readsD(2) [OF reads Cons.prems(1)])
  show ?case
  proof (cases "list_ex (finishedFilter t) (?T d)")
    case False
    then show ?thesis using Cons.IH [OF Cons.prems, of r] find by (simp add: p pinsAt_def length_filter_ex del: length_0_conv)
  next
    case True
    obtain d1 where d1: "updateOne (Collection R ''connectors'') (pinFilter cp i t) releasedFields d = (None, d1)" "up d1"
        "(\<lambda>n. content n d1) = onEach ''connectors'' (onMatch (pinFilter cp i t) releasedFields) (\<lambda>n. content n d)"
      using updateOne_store [OF Cons.prems, of "pinFilter cp i t" "(Some (BStr cp), Some (BInt i))" releasedFields] pinFilter_key by blast
    have c1: "content ''connectors'' d1 = map (onMatch (pinFilter cp i t) releasedFields) (content ''connectors'' d)" "?T d1 = ?T d"
      using fun_cong [OF d1(3), of "''connectors''"] fun_cong [OF d1(3), of "''transactions''"] by simp_all
    have "distinct (map connKey (content ''connectors'' d1))"
      unfolding c1 by (subst map_onMatch_key) (simp_all add: releasedFields_keys Cons.prems(2))
    from Cons.IH [OF d1(2) this, of "r + 1"] obtain d' k where
      d': "releaseLoop R pinned (r + 1) d1 = (Inr k, d')" "up d'"
        "(\<lambda>n. content n d') = onEach ''connectors'' (releases (pinsAt (?T d1) pinned)) (\<lambda>n. content n d1)" by blast
    have "(\<lambda>n. content n d') = onEach ''connectors'' (releases (pinsAt (?T d) (p # pinned))) (\<lambda>n. content n d)"
      using True unfolding d'(3) d1(3) c1(2) by (simp add: p pinsAt_def onEach_def comp_def)
    then show ?thesis using True find d1(1) d'(1,2) by (auto simp: p length_filter_ex simp del: length_0_conv)
  qed
qed

end

lemma connsOk_map:
  assumes "connsOk cs" "\<And>c. f c = c \<or> f c = releasedFields c"
  shows "connsOk (map f cs)"
proof -
  have "connKey (f c) = connKey c" for c using assms(2) [of c] releasedFields_keys by auto
  then have "distinct (map connKey (map f cs))" using assms(1) by (simp add: connsOk_def comp_def)
  moreover have "isInt (map_of (f c) ''connector_id'') \<and> isStr (map_of (f c) ''charge_point_id'')
      \<and> isInt (map_of (f c) ''current_transaction_id'')" if "c \<in> set cs" for c
    using assms(1) that assms(2) [of c] by (auto simp: connsOk_def list_all_iff releasedFields_def)
  ultimately show ?thesis by (simp add: connsOk_def list_all_iff)
qed

lemma onMatch_cases: "onMatch P f c = c \<or> onMatch P f c = f c"
  by (simp add: onMatch_def)

lemma released_points_nowhere: "\<not> pointsAtFinished trs (releasedFields c)"
  by (simp add: pointsAtFinished_def released_current)

text \<open>The first pass releases only connectors that the second would release as well.\<close>

lemma released_twice:
  assumes "\<And>c. P c \<Longrightarrow> pointsAtFinished trs c"
  shows "onMatch (pointsAtFinished trs) releasedFields (onMatch P releasedFields c) = onMatch (pointsAtFinished trs) releasedFields c"
  using assms [of c] by (cases "P c") (simp_all add: released_points_nowhere)

lemma first_pass:
  assumes "trsOk trs"
  shows "releases (map pinOf (closedOf cutoff meters (candidatesOf cutoff trs))) =
    onMatch (\<lambda>c. list_ex (\<lambda>t. pinOf t c) (closedOf cutoff meters (candidatesOf cutoff trs))) releasedFields"
proof
  fix c
  let ?Ts = "closedOf cutoff meters (candidatesOf cutoff trs)"
  have "0 \<le> bk_Id t" if "t \<in> set ?Ts" for t
    using that candidate_id [OF assms] by (auto simp: closedOf_def candidatesOf_def)
  then have "\<not> P (releasedFields c)" if "P \<in> set (map pinOf ?Ts)" for P c
    using that pinFilter_released by (auto simp: pinOf_def)
  then have "releases (map pinOf ?Ts) c = onMatch (\<lambda>c. list_ex (\<lambda>P. P c) (map pinOf ?Ts)) releasedFields c"
    by (rule releases_any)
  then show "releases (map pinOf ?Ts) c = onMatch (\<lambda>c. list_ex (\<lambda>t. pinOf t c) ?Ts) releasedFields c"
    by (simp add: onMatch_def list_ex_iff)
qed

lemma wellFormed_parts:
  assumes "wellFormed C"
  shows "trsOk (C ''transactions'')" "connsOk (C ''connectors'')" "keyed C"
  using assms by (simp_all add: wellFormed_def trsOk_def connsOk_def keyed_def)

context document_store
begin

lemma stuck_refines:
  assumes d: "up d" "wellFormed (\<lambda>n. content n d)"
  shows "\<exists>d'. migrationStuckTransactionsUp R now d = (None, d') \<and> up d'
    \<and> (\<lambda>n. content n d') = specStuck (now - stuckTransactionCutoff) (\<lambda>n. content n d)"
proof -
  let ?cut = "now - stuckTransactionCutoff" and ?C = "\<lambda>n. content n d"
  let ?trs = "?C ''transactions''" and ?cs = "?C ''connectors''" and ?M = "?C ''meter_values''"
  let ?ts = "candidatesOf ?cut ?trs" and ?T = "map (closeBacklog ?cut ?M) ?trs"
  note ok = wellFormed_parts [OF d(2)]
  have cands: "findDecoded (Collection R ''transactions'') (stuckFilter ?cut) decBacklog d = Inr ?ts"
    unfolding candidatesOf_def by (rule findDecoded_store [OF d(1)]) (use ok(1) in \<open>auto simp: trsOk_def list_all_iff\<close>)
  obtain d1 where d1: "closeStuck R ?cut ?ts d = (None, d1)" "up d1" "(\<lambda>n. content n d1) = afterClose ?cut ?ts ?C"
    using closeStuck_refines [OF d(1) ok(3)] by blast
  let ?P = "\<lambda>c. list_ex (\<lambda>t. pinOf t c) (closedOf ?cut ?M ?ts)"
  have cs1: "content ''connectors'' d1 = map (onMatch ?P releasedFields) ?cs"
    using fun_cong [OF d1(3), of "''connectors''"] first_pass [OF ok(1)] by (simp add: afterClose_def)
  have trs1: "content ''transactions'' d1 = ?T"
    using fun_cong [OF d1(3), of "''transactions''"] closed_documents [OF ok(1)] by (simp add: afterClose_def)
  have conns1: "connsOk (content ''connectors'' d1)"
    unfolding cs1 by (rule connsOk_map [OF ok(2)]) (rule onMatch_cases)
  have pins: "findDecoded (Collection R ''connectors'') (fieldAtLeast ''current_transaction_id'' 0) decPinned d1
      = Inr (pinnedOf (content ''connectors'' d1))"
    unfolding pinnedOf_def
    by (rule findDecoded_store [OF d1(2)]) (erule connector_fields [OF conns1], simp add: decPinned_fields)
  have "distinct (map connKey (content ''connectors'' d1))" using conns1 by (simp add: connsOk_def)
  from releaseLoop_refines [OF d1(2) this, of "pinnedOf (content ''connectors'' d1)" 0, unfolded trs1]
  obtain d2 k where d2: "releaseLoop R (pinnedOf (content ''connectors'' d1)) 0 d1 = (Inr k, d2)" "up d2"
      "(\<lambda>n. content n d2) = onEach ''connectors'' (releases (pinsAt ?T (pinnedOf (content ''connectors'' d1)))) (\<lambda>n. content n d1)"
    by blast
  have "pointsAtFinished ?T c" if "?P c" for c
    using that pinned_finished [OF ok(1)] by (auto simp: list_ex_iff)
  then have "map (onMatch (pointsAtFinished ?T) releasedFields) (content ''connectors'' d1) = map (onMatch (pointsAtFinished ?T) releasedFields) ?cs"
    unfolding cs1 by (simp add: released_twice)
  then have conns2: "content ''connectors'' d2 = map (onMatch (pointsAtFinished ?T) releasedFields) ?cs"
    using fun_cong [OF d2(3), of "''connectors''"] pinned_released [OF conns1, of ?T] by simp
  have rest: "content n d2 = content n d1" if "n \<noteq> ''connectors''" for n
    using fun_cong [OF d2(3), of n] that by simp
  have trs2: "content ''transactions'' d2 = ?T" using rest [of "''transactions''"] trs1 by simp
  have others: "content n d2 = ?C n" if "n \<noteq> ''connectors''" "n \<noteq> ''transactions''" for n
    using fun_cong [OF d1(3), of n] rest [of n] that by (simp add: afterClose_def)
  have "content n d2 = specStuck ?cut ?C n" for n
  proof -
    consider "n = ''connectors''" | "n = ''transactions''" | "n \<noteq> ''connectors''" "n \<noteq> ''transactions''" by blast
    then show ?thesis
    proof cases
      case 1
      show ?thesis unfolding 1 conns2 by (simp add: specStuck_def Let_def)
    next
      case 2
      show ?thesis unfolding 2 trs2 by (simp add: specStuck_def Let_def)
    next
      case 3
      then show ?thesis by (simp add: specStuck_def Let_def others)
    qed
  qed
  then have "(\<lambda>n. content n d2) = specStuck ?cut ?C" by (rule ext)
  then show ?thesis
    using cands d1(1) pins d2(1,2) by (simp add: migrationStuckTransactionsUp_def Let_def releaseOrphanedConnectors_def)
qed

end

section \<open>The run\<close>

definition specVersion :: "time \<Rightarrow> int \<Rightarrow> contents \<Rightarrow> contents" where
  "specVersion now v C = C(''schema_version'' := schemaDoc now v # tl (C ''schema_version''))"

definition versionOf :: "contents \<Rightarrow> int option" where
  "versionOf C = (case C ''schema_version'' of [] \<Rightarrow> Some 0 | x # _ \<Rightarrow> map_option fst (decSchema x))"

definition stepTo :: "time \<Rightarrow> int \<Rightarrow> int \<Rightarrow> (contents \<Rightarrow> contents) \<Rightarrow> contents \<Rightarrow> contents" where
  "stepTo now v n f C = (if n > v then specVersion now n (f C) else C)"

text \<open>The migrations above the current version, in order, each with its version recorded.\<close>

definition specRun :: "time \<Rightarrow> int \<Rightarrow> contents \<Rightarrow> contents" where
  "specRun now v = stepTo now v 3 (specStuck (now - stuckTransactionCutoff)) \<circ> stepTo now v 2 specTrigger \<circ> stepTo now v 1 specMultiVersion"

lemma specVersion_simps [simp]:
  "specVersion now v C ''schema_version'' = schemaDoc now v # tl (C ''schema_version'')"
  "n \<noteq> ''schema_version'' \<Longrightarrow> specVersion now v C n = C n"
  by (simp_all add: specVersion_def)

lemma decSchema_schemaDoc [simp]: "decSchema (schemaDoc now v) = Some (v, now)"
  by (simp add: decSchema_def schemaDoc_def fieldInt_def fieldTime_def)

lemma versionOf_specVersion: "versionOf (specVersion now v C) = Some v"
  by (simp add: versionOf_def)

lemma spec_schema [simp]:
  "specMultiVersion C ''schema_version'' = C ''schema_version''" "specTrigger C ''schema_version'' = C ''schema_version''"
  "specStuck cutoff C ''schema_version'' = C ''schema_version''"
  by (simp_all add: specMultiVersion_def specTrigger_def specStuck_def Let_def)

lemma versionOf_specRun: "versionOf C = Some v \<Longrightarrow> versionOf (specRun now v C) = Some (max v 3)"
  by (simp add: specRun_def stepTo_def versionOf_specVersion max_def)

lemma wellFormed_cong:
  "C ''transactions'' = D ''transactions'' \<Longrightarrow> C ''connectors'' = D ''connectors'' \<Longrightarrow> C ''meter_values'' = D ''meter_values''
    \<Longrightarrow> wellFormed C = wellFormed D"
  by (simp add: wellFormed_def)

lemma wellFormed_multiVersion: "wellFormed C \<Longrightarrow> wellFormed (specMultiVersion C)"
proof -
  let ?f2 = "onMatch (lacks ''evse_id'') (setFields [(''evse_id'', BNull)])"
  let ?f3 = "onMatch (lacks ''protocol_version'')
    (setFields [(''protocol_version'', BStr ''ocpp1.6''), (''evse_id'', BNull), (''metadata'', BDoc [])])"
  have f3: "map_of (?f3 x) k = map_of x k" if "k \<noteq> ''protocol_version''" "k \<noteq> ''evse_id''" "k \<noteq> ''metadata''" for x k
    using that by (simp add: onMatch_def)
  have f2: "map_of (?f2 x) k = map_of x k" if "k \<noteq> ''evse_id''" for x k using that by (simp add: onMatch_def)
  have "trKey (?f3 x) = trKey x" "decBacklog (?f3 x) = decBacklog x" "connKey (?f2 x) = connKey x" for x
    by (simp_all add: trKey_def decBacklog_def connKey_def fieldInt_def fieldStr_def fieldTime_def f2 f3)
  then show "wellFormed C \<Longrightarrow> wellFormed (specMultiVersion C)"
    by (simp add: wellFormed_def specMultiVersion_def list_all_iff f2 comp_def)
qed

lemma wellFormed_trigger: "wellFormed C \<Longrightarrow> wellFormed (specTrigger C)"
  by (simp add: wellFormed_def specTrigger_def)

lemma wellFormed_version: "wellFormed (specVersion now v C) = wellFormed C"
  by (rule wellFormed_cong) simp_all

context document_store
begin

lemma version_store:
  assumes "up d"
  shows "\<exists>d'. updateSchemaVersionInternal R now v d = (None, d') \<and> up d'
    \<and> (\<lambda>n. content n d') = specVersion now v (\<lambda>n. content n d)"
proof -
  let ?s = "''schema_version''"
  obtain d' where d': "updateSchemaVersionInternal R now v d = (None, d')" "up d'"
      "content ?s d' = upsertFirst (\<lambda>_. True) (\<lambda>_. schemaDoc now v) (schemaDoc now v) (content ?s d)"
    using writes [of ?s] assms unfolding coll_writes_def updateSchemaVersionInternal_def by blast
  have "content n d' = content n d" if "n \<noteq> ?s" for n
    using coll_keepsD(3) [OF apart [of ?s n], of "\<lambda>_. True" "\<lambda>_. schemaDoc now v" "schemaDoc now v" d] that d'(1)
    by (simp add: updateSchemaVersionInternal_def)
  moreover have "content ?s d' = schemaDoc now v # tl (content ?s d)"
    unfolding d'(3) by (cases "content ?s d") (simp_all add: upsertFirst_def)
  ultimately have "(\<lambda>n. content n d') = specVersion now v (\<lambda>n. content n d)" by (auto simp: specVersion_def)
  with d' show ?thesis by blast
qed

text \<open>One turn of the loop, for a migration that refines \<open>f\<close>.\<close>

lemma runPending_step:
  assumes "up d" "\<exists>d1. mi_Up m d = (None, d1) \<and> up d1 \<and> (\<lambda>n. content n d1) = f (\<lambda>n. content n d)"
  shows "\<exists>d'. runPending R now v (m # ms) d = runPending R now v ms d' \<and> up d'
    \<and> (\<lambda>n. content n d') = stepTo now v (mi_Version m) f (\<lambda>n. content n d)"
proof (cases "mi_Version m > v")
  case True
  obtain d1 where d1: "mi_Up m d = (None, d1)" "up d1" "(\<lambda>n. content n d1) = f (\<lambda>n. content n d)" using assms(2) by blast
  from version_store [OF d1(2), of now "mi_Version m"] obtain d' where
    "updateSchemaVersionInternal R now (mi_Version m) d1 = (None, d')" "up d'"
    "(\<lambda>n. content n d') = specVersion now (mi_Version m) (\<lambda>n. content n d1)" by blast
  with True d1 show ?thesis by (auto simp: stepTo_def)
qed (use assms(1) in \<open>auto simp: stepTo_def\<close>)

lemma version_read: "up d \<Longrightarrow> versionOf (\<lambda>n. content n d) = Some v \<Longrightarrow> getSchemaVersionInternal R d = Inr v"
  by (auto simp: getSchemaVersionInternal_def coll_readsD(1) [OF reads] versionOf_def foundOne_def split: list.splits)

lemma run_refines:
  assumes d: "up d" "wellFormed (\<lambda>n. content n d)" "versionOf (\<lambda>n. content n d) = Some v"
  shows "\<exists>d'. RunMigrations R now d = (None, d') \<and> up d' \<and> (\<lambda>n. content n d') = specRun now v (\<lambda>n. content n d)"
proof -
  let ?C = "\<lambda>n. content n d"
  obtain m1 m2 m3 where ms: "GetMigrations R now = [m1, m2, m3]" "mi_Version m1 = 1" "mi_Version m2 = 2" "mi_Version m3 = 3"
      "mi_Up m1 = migrationOCPPMultiVersionUp R" "mi_Up m2 = migrationTriggerMessageUp R" "mi_Up m3 = migrationStuckTransactionsUp R now"
    by (simp add: GetMigrations_def)
  have wf: "wellFormed (stepTo now v n f D)" if "wellFormed D" "\<And>D. wellFormed D \<Longrightarrow> wellFormed (f D)" for n f D
    using that by (simp add: stepTo_def wellFormed_version)
  from runPending_step [OF d(1), of m1 specMultiVersion now v "[m2, m3]", unfolded ms(2,5), OF multiVersion_refines [OF d(1)]]
  obtain d1 where d1: "runPending R now v [m1, m2, m3] d = runPending R now v [m2, m3] d1" "up d1"
      "(\<lambda>n. content n d1) = stepTo now v 1 specMultiVersion ?C" by blast
  from runPending_step [OF d1(2), of m2 specTrigger now v "[m3]", unfolded ms(3,6), OF trigger_refines [OF d1(2)]]
  obtain d2 where d2: "runPending R now v [m2, m3] d1 = runPending R now v [m3] d2" "up d2"
      "(\<lambda>n. content n d2) = stepTo now v 2 specTrigger (\<lambda>n. content n d1)" by blast
  have "wellFormed (\<lambda>n. content n d2)"
    unfolding d2(3) d1(3) by (intro wf d(2) wellFormed_multiVersion wellFormed_trigger)
  from runPending_step [OF d2(2), of m3 "specStuck (now - stuckTransactionCutoff)" now v "[]", unfolded ms(4,7), OF stuck_refines [OF d2(2) this]]
  obtain d3 where d3: "runPending R now v [m3] d2 = runPending R now v [] d3" "up d3"
      "(\<lambda>n. content n d3) = stepTo now v 3 (specStuck (now - stuckTransactionCutoff)) (\<lambda>n. content n d2)" by blast
  have "(\<lambda>n. content n d3) = specRun now v ?C" unfolding d3(3) d2(3) d1(3) specRun_def by simp
  then show ?thesis
    using version_read [OF d(1,3)] ms(1) d1(1) d2(1) d3(1,2) by (simp add: RunMigrations_def)
qed

lemma run_again:
  assumes "up d" "versionOf (\<lambda>n. content n d) = Some v" "3 \<le> v"
  shows "RunMigrations R now d = (None, d)"
  using version_read [OF assms(1,2)] assms(3) by (simp add: RunMigrations_def GetMigrations_def)

end

section \<open>What is left alone\<close>

text \<open>Sessions that are billed, recent, or with a sample newer than the cutoff.\<close>

definition spared :: "time \<Rightarrow> Doc list \<Rightarrow> Doc \<Rightarrow> bool" where
  "spared cutoff meters x \<longleftrightarrow>
     \<not> fieldBefore ''time_start'' cutoff x
     \<or> fieldAtLeast ''payment_amount'' 1 x
     \<or> list_ex (\<lambda>m. map_of m ''transaction_id'' = trKey x \<and> cutoff < timeKey ''time'' m) meters"

lemma decSample_late: "decSample m = Some (v, tm) \<Longrightarrow> timeKey ''time'' m \<le> tm"
  by (auto simp: decSample_def fieldTime_def timeKey_def split: bind_splits option.splits Bson.splits)

lemma decBacklog_amount: "decBacklog x = Some t \<Longrightarrow> fieldInt ''payment_amount'' x = Some (bk_PaymentAmount t)"
  by (auto simp: decBacklog_def split: bind_splits)

lemma fieldInt_least: "fieldInt k x = Some a \<Longrightarrow> fieldAtLeast k i x \<Longrightarrow> i \<le> a"
proof (cases "map_of x k")
  case (Some b)
  then show "fieldInt k x = Some a \<Longrightarrow> fieldAtLeast k i x \<Longrightarrow> i \<le> a" by (cases b) (simp_all add: fieldInt_def fieldAtLeast_def)
qed (simp add: fieldAtLeast_def)

lemma spared_unchanged:
  assumes "spared cutoff meters x" "isNat (trKey x)"
  shows "closeBacklog cutoff meters x = x"
proof (cases "stuckFilter cutoff x")
  case stuck: True
  show ?thesis
  proof (cases "decBacklog x")
    case (Some t)
    have id: "trKey x = Some (BInt (bk_Id t))" using decBacklog_id [OF Some assms(2)] by simp
    let ?mine = "filter (fieldIs ''transaction_id'' (BInt (bk_Id t))) meters"
    have "verdict cutoff meters t = None"
    proof (cases "0 < bk_PaymentAmount t")
      case False
      then have "\<not> fieldAtLeast ''payment_amount'' 1 x"
        using fieldInt_least [OF decBacklog_amount [OF Some], of 1] by auto
      then obtain m where m: "m \<in> set ?mine" "cutoff < timeKey ''time'' m"
        using assms(1) stuck id by (auto simp: spared_def stuckFilter_def list_ex_iff fieldIs_def)
      then have "?mine \<noteq> []" by (metis empty_iff empty_set)
      then obtain g where g: "greatest (timeKey ''time'') ?mine = Some g" using greatest_None [of "timeKey ''time''" ?mine] by blast
      have "timeKey ''time'' m \<le> timeKey ''time'' g" using greatest_Some [OF g] m(1) by blast
      then have "cutoff < tm" if "decSample g = Some (v, tm)" for v tm using decSample_late [OF that] m(2) by simp
      with False g show ?thesis by (auto simp: verdict_def split: option.split)
    qed (simp add: verdict_def)
    with Some show ?thesis by (simp add: closeBacklog_def)
  qed (simp add: closeBacklog_def)
qed (simp add: closeBacklog_def)

definition sameOn :: "string list \<Rightarrow> Doc \<Rightarrow> Doc \<Rightarrow> bool" where
  "sameOn ks x y \<longleftrightarrow> list_all (\<lambda>k. map_of y k = map_of x k) ks"

definition sessionKeys :: "string list" where
  "sessionKeys = [''transaction_id'', ''time_start'', ''payment_amount'', ''is_finished'', ''time_stop'', ''meter_stop'', ''reason'']"

lemma spared_cong: "sameOn sessionKeys x y \<Longrightarrow> spared cutoff meters y = spared cutoff meters x"
  by (simp add: sameOn_def sessionKeys_def spared_def fieldBefore_def fieldAtLeast_def trKey_def)

lemma list_all2_map_id: "(\<And>x. x \<in> set xs \<Longrightarrow> P x (f x)) \<Longrightarrow> list_all2 P xs (map f xs)"
  by (induction xs) simp_all

lemma multiVersion_same:
  "list_all2 (sameOn sessionKeys) (C ''transactions'') (specMultiVersion C ''transactions'')"
  "list_all2 (sameOn [''trigger_message'']) (C ''charge_points'') (specMultiVersion C ''charge_points'')"
  by (auto simp: specMultiVersion_def sameOn_def sessionKeys_def onMatch_def intro!: list_all2_map_id)

lemma stuck_spares:
  "wellFormed C \<Longrightarrow> list_all2 (\<lambda>x y. spared cutoff (C ''meter_values'') x \<longrightarrow> y = x) (C ''transactions'') (specStuck cutoff C ''transactions'')"
  by (auto simp: specStuck_def Let_def wellFormed_def list_all_iff spared_unchanged intro!: list_all2_map_id)

lemma stuck_no_orphans:
  "list_all (\<lambda>c. \<not> pointsAtFinished (specStuck cutoff C ''transactions'') c) (specStuck cutoff C ''connectors'')"
  by (auto simp: specStuck_def Let_def list_all_iff onMatch_def released_points_nowhere)

lemma trigger_same:
  "list_all2 (\<lambda>x y. \<not> lacks ''trigger_message'' x \<longrightarrow> y = x) (C ''charge_points'') (specTrigger C ''charge_points'')"
  by (auto simp: specTrigger_def onMatch_def intro!: list_all2_map_id)

lemma stepTo_refl: "list_all2 P (C n) (f C n) \<Longrightarrow> n \<noteq> ''schema_version'' \<Longrightarrow> (\<And>x. P x x) \<Longrightarrow> list_all2 P (C n) (stepTo now v k f C n)"
  by (simp add: stepTo_def list_all2_refl)

lemma stepTo_same: "f C n = C n \<Longrightarrow> n \<noteq> ''schema_version'' \<Longrightarrow> stepTo now v k f C n = C n"
  by (simp add: stepTo_def)

text \<open>The contents the third migration starts from.\<close>

definition beforeStuck :: "time \<Rightarrow> int \<Rightarrow> contents \<Rightarrow> contents" where
  "beforeStuck now v = stepTo now v 2 specTrigger \<circ> stepTo now v 1 specMultiVersion"

lemma beforeStuck_parts:
  "beforeStuck now v C ''meter_values'' = C ''meter_values''"
  "list_all2 (sameOn sessionKeys) (C ''transactions'') (beforeStuck now v C ''transactions'')"
  "list_all2 (\<lambda>x y. \<not> lacks ''trigger_message'' x \<longrightarrow> map_of y ''trigger_message'' = map_of x ''trigger_message'')
     (C ''charge_points'') (beforeStuck now v C ''charge_points'')"
proof -
  let ?D = "stepTo now v 1 specMultiVersion C"
  show "beforeStuck now v C ''meter_values'' = C ''meter_values''"
    by (simp add: beforeStuck_def stepTo_same specTrigger_def specMultiVersion_def)
  have "beforeStuck now v C ''transactions'' = ?D ''transactions''" by (simp add: beforeStuck_def stepTo_same specTrigger_def)
  moreover have "list_all2 (sameOn sessionKeys) (C ''transactions'') (?D ''transactions'')"
    by (rule stepTo_refl [where f = specMultiVersion, OF multiVersion_same(1)]) (simp_all add: sameOn_def list_all_iff)
  ultimately show "list_all2 (sameOn sessionKeys) (C ''transactions'') (beforeStuck now v C ''transactions'')" by simp
  have "list_all2 (sameOn [''trigger_message'']) (C ''charge_points'') (?D ''charge_points'')"
    by (rule stepTo_refl [where f = specMultiVersion, OF multiVersion_same(2)]) (simp_all add: sameOn_def)
  moreover have "list_all2 (\<lambda>x y. \<not> lacks ''trigger_message'' x \<longrightarrow> y = x) (?D ''charge_points'') (beforeStuck now v C ''charge_points'')"
    unfolding beforeStuck_def comp_def by (rule stepTo_refl [where f = specTrigger, OF trigger_same]) simp_all
  ultimately show "list_all2 (\<lambda>x y. \<not> lacks ''trigger_message'' x \<longrightarrow> map_of y ''trigger_message'' = map_of x ''trigger_message'')
      (C ''charge_points'') (beforeStuck now v C ''charge_points'')"
    by (rule list_all2_trans [rotated]) (simp add: sameOn_def lacks_def)
qed

lemma specRun_stuck: "v < 3 \<Longrightarrow> n \<noteq> ''schema_version'' \<Longrightarrow> specRun now v C n = specStuck (now - stuckTransactionCutoff) (beforeStuck now v C) n"
  by (simp add: specRun_def beforeStuck_def stepTo_def)

lemma wellFormed_beforeStuck: "wellFormed C \<Longrightarrow> wellFormed (beforeStuck now v C)"
  by (simp add: beforeStuck_def stepTo_def wellFormed_version wellFormed_multiVersion wellFormed_trigger)

lemma specRun_spares:
  assumes "wellFormed C" "v < 3"
  shows "list_all2 (\<lambda>x y. spared (now - stuckTransactionCutoff) (C ''meter_values'') x \<longrightarrow> sameOn sessionKeys x y)
    (C ''transactions'') (specRun now v C ''transactions'')"
proof -
  let ?cut = "now - stuckTransactionCutoff" and ?D = "beforeStuck now v C"
  have "list_all2 (\<lambda>x y. spared ?cut (C ''meter_values'') x \<longrightarrow> y = x) (?D ''transactions'') (specRun now v C ''transactions'')"
    using stuck_spares [OF wellFormed_beforeStuck [OF assms(1), of now v], of ?cut] assms(2)
    by (simp add: specRun_stuck beforeStuck_parts(1))
  with beforeStuck_parts(2) [of C now v] show ?thesis
    by (rule list_all2_trans [rotated]) (use spared_cong in blast)
qed

subsection \<open>The rollback\<close>

definition reopen :: "Doc \<Rightarrow> Doc" where "reopen = onMatch backlogReason reopenedFields"

lemma verdict_reason:
  "verdict cutoff meters t = Some (m, tm, r) \<Longrightarrow> r = reasonBacklogStopped \<or> r = reasonBacklogAborted"
  by (auto simp: verdict_def split: if_splits option.splits)

lemma reopen_closed:
  assumes "\<not> backlogReason x"
  shows "fieldIs ''is_finished'' v (reopen (closeBacklog cutoff meters x)) = fieldIs ''is_finished'' v x"
    and "map_of (reopen (closeBacklog cutoff meters x)) ''meter_stop'' = map_of (closeBacklog cutoff meters x) ''meter_stop''"
proof -
  consider "closeBacklog cutoff meters x = x"
    | m tm r where "closeBacklog cutoff meters x = closedFields m tm r x" "backlogReason (closedFields m tm r x)"
        "fieldIs ''is_finished'' (BBool False) x"
  proof (cases "stuckFilter cutoff x")
    case True
    then have unfinished: "fieldIs ''is_finished'' (BBool False) x" by (simp add: stuckFilter_def)
    show ?thesis
    proof (cases "Option.bind (decBacklog x) (verdict cutoff meters)")
      case None
      then have "closeBacklog cutoff meters x = x" by (auto simp: closeBacklog_def split: option.split bind_splits)
      then show ?thesis by (rule that(1))
    next
      case (Some w)
      obtain m tm r where w: "w = (m, tm, r)" by (cases w)
      from Some w obtain t where t: "decBacklog x = Some t" "verdict cutoff meters t = Some (m, tm, r)" by (auto split: bind_splits)
      have "backlogReason (closedFields m tm r x)"
        using verdict_reason [OF t(2)] by (auto simp: backlogReason_def fieldIs_def closedFields_def)
      then show ?thesis using True t unfinished by (intro that(2)) (simp_all add: closeBacklog_def)
    qed
  qed (auto simp: closeBacklog_def)
  then have "fieldIs ''is_finished'' v (reopen (closeBacklog cutoff meters x)) = fieldIs ''is_finished'' v x
      \<and> map_of (reopen (closeBacklog cutoff meters x)) ''meter_stop'' = map_of (closeBacklog cutoff meters x) ''meter_stop''"
    by cases (use assms in \<open>auto simp: reopen_def reopenedFields_def fieldIs_def\<close>)
  then show "fieldIs ''is_finished'' v (reopen (closeBacklog cutoff meters x)) = fieldIs ''is_finished'' v x"
    and "map_of (reopen (closeBacklog cutoff meters x)) ''meter_stop'' = map_of (closeBacklog cutoff meters x) ''meter_stop''" by simp_all
qed

context document_store
begin

lemma stuckDown_store:
  assumes "up d"
  shows "\<exists>d'. migrationStuckTransactionsDown R d = (None, d') \<and> up d'
    \<and> (\<lambda>m. content m d') = onEach ''transactions'' reopen (\<lambda>m. content m d)"
  using updateMany_store [OF assms, of "''transactions''" backlogReason reopenedFields]
  by (auto simp: migrationStuckTransactionsDown_def onError_def reopen_def)

end

text \<open>A document store in memory: the driver the examples run on.\<close>

record DocStore =
  ds_docs :: "string \<Rightarrow> Doc list"
  ds_up :: bool

definition docRaw :: "DocStore rawDb" where
  "docRaw = \<lparr>Collection = (\<lambda>n. listColl ds_up (\<lambda>d. ds_docs d n) (\<lambda>xs d. d\<lparr>ds_docs := (ds_docs d)(n := xs)\<rparr>)),
     CreateOne = (\<lambda>_ _ _ d. (None, d)), DropOne = (\<lambda>_ _ d. (None, d))\<rparr>"

interpretation docs: document_store docRaw ds_up "\<lambda>n d. ds_docs d n"
  by unfold_locales (auto simp: docRaw_def intro!: listColl_ok listColl_keeps)

text \<open>
  A store before the first migration: an abandoned session with a sample, a billed one, a running one, and connectors
  that point at the first and the last.
\<close>

definition backlogDoc :: "int \<Rightarrow> time \<Rightarrow> int \<Rightarrow> Doc" where
  "backlogDoc i start amount =
     [(''transaction_id'', BInt i), (''charge_point_id'', BStr ''CP1''), (''connector_id'', BInt i), (''meter_start'', BInt 100),
      (''time_start'', BTime start), (''payment_amount'', BInt amount), (''is_finished'', BBool False), (''meter_stop'', BInt 0)]"

definition pinDoc :: "int \<Rightarrow> int \<Rightarrow> Doc" where
  "pinDoc i t = [(''charge_point_id'', BStr ''CP1''), (''connector_id'', BInt i), (''current_transaction_id'', BInt t)]"

definition backlogStore :: DocStore where
  "backlogStore = \<lparr>ds_docs = (\<lambda>n.
       if n = ''transactions'' then [backlogDoc 1 1000 0, backlogDoc 2 1000 500, backlogDoc 3 stuckTransactionCutoff 0]
       else if n = ''connectors'' then [pinDoc 1 1, pinDoc 2 (-1), pinDoc 3 3]
       else if n = ''meter_values'' then [[(''transaction_id'', BInt 1), (''value'', BInt 900), (''time'', BTime 2000)]]
       else if n = ''charge_points'' then [[(''charge_point_id'', BStr ''CP1''), (''trigger_message'', BBool False)], [(''charge_point_id'', BStr ''CP2'')]]
       else []), ds_up = True\<rparr>"

definition backlogNow :: time where "backlogNow = 2 * stuckTransactionCutoff"

lemma backlogStore_ok:
  "ds_up backlogStore" "wellFormed (\<lambda>n. ds_docs backlogStore n)" "versionOf (\<lambda>n. ds_docs backlogStore n) = Some 0"
  "list_all (\<lambda>x. \<not> backlogReason x) (ds_docs backlogStore ''transactions'')"
  by (simp_all add: backlogStore_def wellFormed_def backlogDoc_def pinDoc_def trKey_def connKey_def decBacklog_def decSample_def
      fieldInt_def fieldStr_def fieldTime_def versionOf_def backlogReason_def fieldIs_def)

section \<open>Theorems\<close>

text \<open>
  C30. On a reachable server whose documents are well-formed, \<^verbatim>\<open>RunMigrations\<close> succeeds, changes the collections as
  the specification of the pending migrations says, records the last version, and does nothing at all when it is
  run a second time, at any later moment.
\<close>

theorem migrations_refine:
  assumes store: "document_store R up content"
    and d: "up d" "wellFormed (\<lambda>n. content n d)" "versionOf (\<lambda>n. content n d) = Some v"
  shows "\<exists>d'. RunMigrations R now d = (None, d') \<and> (\<lambda>n. content n d') = specRun now v (\<lambda>n. content n d)
    \<and> getSchemaVersionInternal R d' = Inr (max v 3) \<and> RunMigrations R later d' = (None, d')"
proof -
  obtain d' where d': "RunMigrations R now d = (None, d')" "up d'" "(\<lambda>n. content n d') = specRun now v (\<lambda>n. content n d)"
    using document_store.run_refines [OF store d] by blast
  have v: "versionOf (\<lambda>n. content n d') = Some (max v 3)" unfolding d'(3) by (rule versionOf_specRun [OF d(3)])
  then show ?thesis
    using d' document_store.version_read [OF store d'(2) v] document_store.run_again [OF store d'(2) v] by auto
qed

theorem migrations_refine_witness:
  "\<exists>d'. RunMigrations docRaw backlogNow backlogStore = (None, d')
     \<and> getSchemaVersionInternal docRaw d' = Inr 3 \<and> RunMigrations docRaw (backlogNow + 1) d' = (None, d')
     \<and> map (\<lambda>x. (map_of x ''is_finished'', map_of x ''meter_stop'')) (ds_docs d' ''transactions'') =
         [(Some (BBool True), Some (BInt 900)), (Some (BBool False), Some (BInt 0)), (Some (BBool False), Some (BInt 0))]"
proof -
  have "map (\<lambda>x. (map_of x ''is_finished'', map_of x ''meter_stop'')) (specRun backlogNow 0 (\<lambda>n. ds_docs backlogStore n) ''transactions'') =
      [(Some (BBool True), Some (BInt 900)), (Some (BBool False), Some (BInt 0)), (Some (BBool False), Some (BInt 0))]"
    by code_simp
  moreover obtain d' where d': "RunMigrations docRaw backlogNow backlogStore = (None, d')"
      "(\<lambda>n. ds_docs d' n) = specRun backlogNow 0 (\<lambda>n. ds_docs backlogStore n)"
      "getSchemaVersionInternal docRaw d' = Inr (max 0 3)" "RunMigrations docRaw (backlogNow + 1) d' = (None, d')"
    using migrations_refine [where content = "\<lambda>n d. ds_docs d n" and d = backlogStore, OF docs.document_store_axioms backlogStore_ok(1-3), of backlogNow "backlogNow + 1"] by blast
  ultimately show ?thesis using fun_cong [OF d'(2), of "''transactions''"] by auto
qed

text \<open>
  C31. After the run no connector points at a finished transaction; a session that is billed, that started after the
  cutoff, or that has a meter sample newer than it keeps its state; a charge point with a trigger setting keeps it.
\<close>

theorem migrations_spare:
  assumes store: "document_store R up content"
    and d: "up d" "wellFormed (\<lambda>n. content n d)" "versionOf (\<lambda>n. content n d) = Some v" "v < 3"
  shows "\<exists>d'. RunMigrations R now d = (None, d')
    \<and> list_all (\<lambda>c. \<not> pointsAtFinished (content ''transactions'' d') c) (content ''connectors'' d')
    \<and> list_all2 (\<lambda>x y. spared (now - stuckTransactionCutoff) (content ''meter_values'' d) x \<longrightarrow> sameOn sessionKeys x y)
        (content ''transactions'' d) (content ''transactions'' d')
    \<and> list_all2 (\<lambda>x y. \<not> lacks ''trigger_message'' x \<longrightarrow> map_of y ''trigger_message'' = map_of x ''trigger_message'')
        (content ''charge_points'' d) (content ''charge_points'' d')"
proof -
  let ?C = "\<lambda>n. content n d"
  obtain d' where d': "RunMigrations R now d = (None, d')" "(\<lambda>n. content n d') = specRun now v ?C"
    using document_store.run_refines [OF store d(1-3)] by blast
  have c: "content n d' = specRun now v ?C n" for n using fun_cong [OF d'(2), of n] .
  have "list_all (\<lambda>c. \<not> pointsAtFinished (content ''transactions'' d') c) (content ''connectors'' d')"
    unfolding c using d(4) stuck_no_orphans by (simp add: specRun_stuck)
  moreover have "specRun now v ?C ''charge_points'' = beforeStuck now v ?C ''charge_points''"
    using d(4) by (simp add: specRun_stuck specStuck_def Let_def)
  ultimately show ?thesis
    using d'(1) specRun_spares [OF d(2,4)] beforeStuck_parts(3) [of ?C] by (auto simp: c)
qed

theorem migrations_spare_witness:
  "\<exists>d'. RunMigrations docRaw backlogNow backlogStore = (None, d')
     \<and> list_all (\<lambda>c. \<not> pointsAtFinished (ds_docs d' ''transactions'') c) (ds_docs d' ''connectors'')
     \<and> map_of (ds_docs d' ''charge_points'' ! 0) ''trigger_message'' = Some (BBool False)"
proof -
  have "ds_docs backlogStore ''charge_points'' = [[(''charge_point_id'', BStr ''CP1''), (''trigger_message'', BBool False)], [(''charge_point_id'', BStr ''CP2'')]]"
    by (simp add: backlogStore_def)
  then show ?thesis
    using migrations_spare [where content = "\<lambda>n d. ds_docs d n" and d = backlogStore, OF docs.document_store_axioms backlogStore_ok(1-3), of backlogNow]
    by (auto simp: list_all2_Cons1 lacks_def)
qed

text \<open>
  Rolling the third migration back reopens exactly the transactions it closed: where no transaction carried a
  backlog reason before, every transaction is finished or open again as it was. The final reading it wrote stays.
\<close>

theorem stuck_rolled_back:
  assumes store: "document_store R up content"
    and d: "up d" "wellFormed (\<lambda>n. content n d)" "list_all (\<lambda>x. \<not> backlogReason x) (content ''transactions'' d)"
  shows "\<exists>d1 d2. migrationStuckTransactionsUp R now d = (None, d1) \<and> migrationStuckTransactionsDown R d1 = (None, d2)
    \<and> list_all2 (\<lambda>x y. fieldIs ''is_finished'' v y = fieldIs ''is_finished'' v x) (content ''transactions'' d) (content ''transactions'' d2)
    \<and> list_all2 (\<lambda>x y. map_of y ''meter_stop'' = map_of x ''meter_stop'') (content ''transactions'' d1) (content ''transactions'' d2)"
proof -
  let ?close = "closeBacklog (now - stuckTransactionCutoff) (content ''meter_values'' d)" and ?n = "''transactions''"
  obtain d1 where d1: "migrationStuckTransactionsUp R now d = (None, d1)" "up d1"
      "(\<lambda>n. content n d1) = specStuck (now - stuckTransactionCutoff) (\<lambda>n. content n d)"
    using document_store.stuck_refines [OF store d(1,2)] by blast
  obtain d2 where d2: "migrationStuckTransactionsDown R d1 = (None, d2)" "(\<lambda>n. content n d2) = onEach ?n reopen (\<lambda>n. content n d1)"
    using document_store.stuckDown_store [OF store d1(2)] by blast
  have c1: "content ?n d1 = map ?close (content ?n d)"
    using fun_cong [OF d1(3), of ?n] by (simp add: specStuck_def Let_def)
  have c2: "content ?n d2 = map reopen (content ?n d1)" using fun_cong [OF d2(2), of ?n] by simp
  have "list_all2 (\<lambda>x y. fieldIs ''is_finished'' v y = fieldIs ''is_finished'' v x) (content ?n d) (map (reopen \<circ> ?close) (content ?n d))"
    using d(3) by (intro list_all2_map_id) (simp add: list_all_iff reopen_closed(1))
  moreover have "list_all2 (\<lambda>x y. map_of y ''meter_stop'' = map_of x ''meter_stop'') (content ?n d1) (content ?n d2)"
    unfolding c1 c2 using d(3) by (simp add: list.rel_map list_all2_same list_all_iff reopen_closed(2))
  ultimately show ?thesis using d1(1) d2(1) by (simp add: c1 c2)
qed

theorem stuck_rolled_back_witness:
  "\<exists>d1 d2. migrationStuckTransactionsUp docRaw backlogNow backlogStore = (None, d1)
     \<and> migrationStuckTransactionsDown docRaw d1 = (None, d2)
     \<and> list_all (fieldIs ''is_finished'' (BBool False)) (ds_docs d2 ''transactions'')"
proof -
  have "list_all (fieldIs ''is_finished'' (BBool False)) (ds_docs backlogStore ''transactions'')"
    by (simp add: backlogStore_def backlogDoc_def fieldIs_def)
  moreover have "list_all2 (\<lambda>x y. P y = P x) xs ys \<Longrightarrow> list_all P xs \<Longrightarrow> list_all P ys" for P :: "Doc \<Rightarrow> bool" and xs ys
    by (induction rule: list_all2_induct) auto
  ultimately show ?thesis
    using stuck_rolled_back [where content = "\<lambda>n d. ds_docs d n" and d = backlogStore, OF docs.document_store_axioms backlogStore_ok(1,2,4), of backlogNow "BBool False"] by blast
qed

end
