(* ===== verification/ServiceStore.thy ===== *)
theory ServiceStore
  imports Mongo
begin

text \<open>
  The part of \<^verbatim>\<open>src/internal/mongo.go\<close> that serves the other components: subscriptions and charge point status for
  the bot, payment methods and orders, the error table with its daily count, and the message log; with the
  records of \<^verbatim>\<open>src/entity\<close> they store. The collections are parameters as in \<open>Mongo\<close>; a sorted query with a
  descending string key and a limit and the removal of one document are operations of their own.
\<close>

section \<open>Records\<close>

record UserSubscription =
  us_UserID :: int
  us_User :: string
  us_SubscriptionType :: string

record ConnectorStatus =
  sc_ConnectorID :: int
  sc_Status :: string
  sc_StatusTime :: time
  sc_Time :: string
  sc_TransactionId :: int
  sc_Info :: string

record ChargePointStatus =
  ss_ChargePointID :: string
  ss_ConnectorID :: int
  ss_Status :: string
  ss_StatusTime :: time
  ss_IsOnline :: bool
  ss_EventTime :: time
  ss_Time :: string
  ss_TransactionId :: int
  ss_Connectors :: "ConnectorStatus list"

record PaymentMethod =
  pm_Description :: string
  pm_Identifier :: string
  pm_CardNumber :: string
  pm_CardType :: string
  pm_CardBrand :: string
  pm_CardCountry :: string
  pm_ExpiryDate :: string
  pm_IsDefault :: bool
  pm_UserId :: string
  pm_UserName :: string
  pm_FailCount :: int
  pm_CofTid :: string

record PaymentOrder =
  po_TransactionId :: int
  po_Order :: int
  po_UserId :: string
  po_UserName :: string
  po_Amount :: int
  po_Currency :: string
  po_Description :: string
  po_Identifier :: string
  po_IsCompleted :: bool
  po_Result :: string
  po_Date :: string
  po_TimeOpened :: time
  po_TimeClosed :: time

record ErrorCount =
  ec_Location :: string
  ec_ChargePointID :: string
  ec_ErrorCode :: string
  ec_Count :: int

record FeatureLogMessage =
  lm_Time :: string
  lm_TimeStamp :: time
  lm_Feature :: string
  lm_ChargePointId :: string
  lm_Text :: string
  lm_Importance :: string

definition FeatureLogMessageType :: string where "FeatureLogMessageType = ''featureLogMessage''"

definition lm_MessageType :: "FeatureLogMessage \<Rightarrow> string" where "lm_MessageType fm = FeatureLogMessageType"
definition lm_DataType :: "FeatureLogMessage \<Rightarrow> string" where "lm_DataType fm = FeatureLogMessageType"

section \<open>Operations\<close>

record 'db Services =
  subscriptionsC :: "('db, UserSubscription) coll"
  deleteSubscriptionC :: "(UserSubscription \<Rightarrow> bool) \<Rightarrow> 'db \<Rightarrow> DbErr option \<times> 'db"
  paymentMethodsC :: "('db, PaymentMethod) coll"
  paymentOrdersC :: "('db, PaymentOrder) coll"
  errorsC :: "('db, ErrorData) coll"
  logC :: "('db, FeatureLogMessage) coll"
  findDescLimit :: "(FeatureLogMessage \<Rightarrow> string) \<Rightarrow> nat \<Rightarrow> 'db \<Rightarrow> DbErr + FeatureLogMessage list"

subsection \<open>Log\<close>

definition mongo_WriteLogMessage :: "'db Services \<Rightarrow> FeatureLogMessage \<Rightarrow> 'db \<Rightarrow> DbErr option \<times> 'db" where
  "mongo_WriteLogMessage S data d = insertOne (logC S) data d"

definition mongo_ReadLog :: "'db Services \<Rightarrow> 'db \<Rightarrow> FeatureLogMessage slice_err" where
  "mongo_ReadLog S d = decodedAll (findDescLimit S lm_Time 1000 d)"

subsection \<open>Connectors and samples\<close>

definition mongo_GetConnectors :: "'db Mongo \<Rightarrow> 'db \<Rightarrow> Connector slice_err" where
  "mongo_GetConnectors M d = decodedAll (findMany (connectorsC M) (\<lambda>_. True) d)"

definition mongo_AddSampleMeterValue :: "'db Mongo \<Rightarrow> TransactionMeter \<Rightarrow> 'db \<Rightarrow> DbErr option \<times> 'db" where
  "mongo_AddSampleMeterValue M mv d =
     upsertOne (meterValuesC M) (\<lambda>m. m_Id m = m_Id mv \<and> m_Measurand m = m_Measurand mv) (\<lambda>_. mv) mv d"

subsection \<open>Subscriptions\<close>

definition mongo_GetSubscriptions :: "'db Services \<Rightarrow> 'db \<Rightarrow> UserSubscription slice_err" where
  "mongo_GetSubscriptions S d = decodedAll (findMany (subscriptionsC S) (\<lambda>_. True) d)"

definition mongo_GetSubscription :: "'db Services \<Rightarrow> int \<Rightarrow> 'db \<Rightarrow> UserSubscription ptr_err" where
  "mongo_GetSubscription S i d = decoded (findOne (subscriptionsC S) (\<lambda>x. us_UserID x = i) d)"

definition mongo_AddSubscription :: "'db Services \<Rightarrow> UserSubscription \<Rightarrow> 'db \<Rightarrow> DbErr option \<times> 'db" where
  "mongo_AddSubscription S subscription d =
     (if fst (mongo_GetSubscription S (us_UserID subscription) d) \<noteq> None then (Some (Failed ''user is already subscribed''), d)
      else if us_UserID subscription = 0 \<or> us_User subscription = [] then (Some (Failed ''wrong user id''), d)
      else insertOne (subscriptionsC S) subscription d)"

definition mongo_DeleteSubscription :: "'db Services \<Rightarrow> UserSubscription \<Rightarrow> 'db \<Rightarrow> DbErr option \<times> 'db" where
  "mongo_DeleteSubscription S subscription d = deleteSubscriptionC S (\<lambda>x. us_UserID x = us_UserID subscription) d"

definition mongo_UpdateSubscription :: "'db Services \<Rightarrow> UserSubscription \<Rightarrow> 'db \<Rightarrow> DbErr option \<times> 'db" where
  "mongo_UpdateSubscription S subscription d =
     updateOne (subscriptionsC S) (\<lambda>x. us_UserID x = us_UserID subscription) (\<lambda>_. subscription) d"

subsection \<open>Status\<close>

text \<open>
  The charge point documents joined with their connectors, decoded into the status records: the fields that
  the documents do not have get their zero values.
\<close>

definition connectorStatus :: "Connector \<Rightarrow> ConnectorStatus" where
  "connectorStatus c =
     \<lparr>sc_ConnectorID = c_Id c, sc_Status = c_Status c, sc_StatusTime = c_StatusTime c, sc_Time = [],
      sc_TransactionId = c_CurrentTransactionId c, sc_Info = c_Info c\<rparr>"

definition pointStatus :: "ChargePoint \<Rightarrow> ChargePointStatus" where
  "pointStatus cp =
     \<lparr>ss_ChargePointID = cp_Id cp, ss_ConnectorID = 0, ss_Status = cp_Status cp, ss_StatusTime = cp_StatusTime cp,
      ss_IsOnline = cp_IsOnline cp, ss_EventTime = cp_EventTime cp, ss_Time = [], ss_TransactionId = 0,
      ss_Connectors = map connectorStatus (cp_Connectors cp)\<rparr>"

definition mongo_GetLastStatus :: "'db Mongo \<Rightarrow> 'db \<Rightarrow> ChargePointStatus slice_err" where
  "mongo_GetLastStatus M d =
     (case joinConnectors M (\<lambda>_. True) d of
        Inl e \<Rightarrow> ([], Some (Failed (''aggregate connectors states: '' @ errText e)))
      | Inr cps \<Rightarrow> (map pointStatus cps, None))"

subsection \<open>Payments\<close>

text \<open>The default method of a user, or the one that failed least.\<close>

definition mongo_GetPaymentMethod :: "'db Services \<Rightarrow> string \<Rightarrow> 'db \<Rightarrow> PaymentMethod ptr_err" where
  "mongo_GetPaymentMethod S userId d =
     (case findOne (paymentMethodsC S) (\<lambda>m. pm_UserId m = userId \<and> pm_IsDefault m) d of
        Inr m \<Rightarrow> (Some m, None)
      | Inl _ \<Rightarrow> decoded (findOneDesc (paymentMethodsC S) (\<lambda>m. - pm_FailCount m) (\<lambda>m. pm_UserId m = userId) d))"

definition mongo_GetLastOrder :: "'db Services \<Rightarrow> 'db \<Rightarrow> PaymentOrder ptr_err" where
  "mongo_GetLastOrder S d = decoded (findOneDesc (paymentOrdersC S) po_TimeOpened (\<lambda>_. True) d)"

definition mongo_GetPaymentOrderByTransaction :: "'db Services \<Rightarrow> int \<Rightarrow> 'db \<Rightarrow> PaymentOrder ptr_err" where
  "mongo_GetPaymentOrderByTransaction S transactionId d =
     decoded (findOne (paymentOrdersC S) (\<lambda>x. po_TransactionId x = transactionId \<and> \<not> po_IsCompleted x) d)"

definition mongo_SavePaymentOrder :: "'db Services \<Rightarrow> PaymentOrder \<Rightarrow> 'db \<Rightarrow> DbErr option \<times> 'db" where
  "mongo_SavePaymentOrder S order d =
     upsertOne (paymentOrdersC S) (\<lambda>x. po_Order x = po_Order order) (\<lambda>_. order) order d"

subsection \<open>Errors\<close>

definition mongo_WriteError :: "'db Services \<Rightarrow> ErrorData \<Rightarrow> 'db \<Rightarrow> DbErr option \<times> 'db" where
  "mongo_WriteError S data d = insertOne (errorsC S) data d"

definition errorKey :: "ErrorData \<Rightarrow> string \<times> string \<times> string" where
  "errorKey x = (ed_Location x, ed_ChargePointID x, ed_VendorErrorCode x)"

definition errorGroups :: "ErrorData list \<Rightarrow> ErrorCount list" where
  "errorGroups xs =
     map (\<lambda>(l, cp, code). \<lparr>ec_Location = l, ec_ChargePointID = cp, ec_ErrorCode = code,
            ec_Count = int (length (filter (\<lambda>x. errorKey x = (l, cp, code)) xs))\<rparr>)
       (remdups (map errorKey xs))"

definition mongo_GetTodayErrorCount :: "'db Services \<Rightarrow> time \<Rightarrow> 'db \<Rightarrow> ErrorCount slice_err" where
  "mongo_GetTodayErrorCount S now d =
     (case findMany (errorsC S) (\<lambda>x. startOfDay now \<le> ed_Timestamp x
              \<and> ed_Timestamp x < startOfDay now + 86400 * nanos_per_second) d of
        Inl e \<Rightarrow> ([], Some e)
      | Inr xs \<Rightarrow> (errorGroups xs, None))"

section \<open>The contract of the subscription table\<close>

text \<open>Removal of the first match.\<close>

fun deleteFirst :: "('a \<Rightarrow> bool) \<Rightarrow> 'a list \<Rightarrow> 'a list" where
  "deleteFirst P [] = []"
| "deleteFirst P (x # xs) = (if P x then xs else x # deleteFirst P xs)"

definition subs_keyed :: "UserSubscription list \<Rightarrow> bool" where
  "subs_keyed xs \<longleftrightarrow> distinct (map us_UserID xs) \<and> 0 \<notin> us_UserID ` set xs"

locale subscription_table =
  fixes S :: "'db Services" and up :: "'db \<Rightarrow> bool" and subs :: "'db \<Rightarrow> UserSubscription list"
  assumes reads: "coll_reads up (subscriptionsC S) subs"
    and writes: "coll_writes up (subscriptionsC S) subs"
    and deletes: "up d \<Longrightarrow> \<exists>d'. deleteSubscriptionC S P d = (None, d') \<and> up d' \<and> subs d' = deleteFirst P (subs d)"
begin

lemma add_subscription:
  assumes "up d"
  shows "us_UserID x \<in> us_UserID ` set (subs d) \<Longrightarrow> mongo_AddSubscription S x d = (Some (Failed ''user is already subscribed''), d)"
    and "us_UserID x \<notin> us_UserID ` set (subs d) \<Longrightarrow> us_UserID x = 0 \<or> us_User x = [] \<Longrightarrow> mongo_AddSubscription S x d = (Some (Failed ''wrong user id''), d)"
    and "us_UserID x \<notin> us_UserID ` set (subs d) \<Longrightarrow> us_UserID x \<noteq> 0 \<Longrightarrow> us_User x \<noteq> [] \<Longrightarrow>
      \<exists>d'. mongo_AddSubscription S x d = (None, d') \<and> up d' \<and> subs d' = subs d @ [x]"
proof -
  have known: "fst (mongo_GetSubscription S (us_UserID x) d) = find (\<lambda>y. us_UserID y = us_UserID x) (subs d)"
    by (simp add: mongo_GetSubscription_def coll_readsD(1) [OF reads assms] decoded_def foundOne_def split: option.split)
  have iff: "find (\<lambda>y. us_UserID y = us_UserID x) (subs d) = None \<longleftrightarrow> us_UserID x \<notin> us_UserID ` set (subs d)"
    by (auto simp: find_None_iff image_iff)
  have insert: "\<exists>d'. insertOne (subscriptionsC S) x d = (None, d') \<and> up d' \<and> subs d' = subs d @ [x]"
    using writes assms unfolding coll_writes_def by blast
  show "us_UserID x \<in> us_UserID ` set (subs d) \<Longrightarrow> mongo_AddSubscription S x d = (Some (Failed ''user is already subscribed''), d)"
    using known iff by (simp add: mongo_AddSubscription_def)
  show "us_UserID x \<notin> us_UserID ` set (subs d) \<Longrightarrow> us_UserID x = 0 \<or> us_User x = [] \<Longrightarrow> mongo_AddSubscription S x d = (Some (Failed ''wrong user id''), d)"
    using known iff by (simp add: mongo_AddSubscription_def)
  show "us_UserID x \<notin> us_UserID ` set (subs d) \<Longrightarrow> us_UserID x \<noteq> 0 \<Longrightarrow> us_User x \<noteq> [] \<Longrightarrow>
      \<exists>d'. mongo_AddSubscription S x d = (None, d') \<and> up d' \<and> subs d' = subs d @ [x]"
    using known iff insert by (simp add: mongo_AddSubscription_def)
qed

lemma delete_subscription:
  "up d \<Longrightarrow> \<exists>d'. mongo_DeleteSubscription S x d = (None, d') \<and> up d' \<and> subs d' = deleteFirst (\<lambda>y. us_UserID y = us_UserID x) (subs d)"
  by (simp add: mongo_DeleteSubscription_def deletes)

lemma get_subscriptions: "up d \<Longrightarrow> mongo_GetSubscriptions S d = (subs d, None)"
  by (simp add: mongo_GetSubscriptions_def coll_readsD(2) [OF reads] decodedAll_def)

end

lemma deleteFirst_keyed:
  "distinct (map us_UserID xs) \<Longrightarrow> deleteFirst (\<lambda>y. us_UserID y = i) xs = filter (\<lambda>y. us_UserID y \<noteq> i) xs"
proof (induction xs)
  case (Cons x xs)
  have "filter (\<lambda>y. us_UserID y \<noteq> i) xs = xs" if "us_UserID x = i"
    using Cons.prems that by (intro filter_True) (metis distinct.simps(2) image_eqI list.set_map list.simps(9))
  with Cons show ?case by auto
qed simp

section \<open>Tables in memory\<close>

text \<open>The descending order of strings, byte by byte; equal keys keep their order.\<close>

fun strLess :: "string \<Rightarrow> string \<Rightarrow> bool" where
  "strLess [] t = (t \<noteq> [])"
| "strLess (a # s) [] = False"
| "strLess (a # s) (b # t) = (if a = b then strLess s t else (of_char a :: nat) < of_char b)"

fun insertDesc :: "('a \<Rightarrow> string) \<Rightarrow> 'a \<Rightarrow> 'a list \<Rightarrow> 'a list" where
  "insertDesc key x [] = [x]"
| "insertDesc key x (y # ys) = (if strLess (key x) (key y) then y # insertDesc key x ys else x # y # ys)"

record SvcStore =
  sv_subs :: "UserSubscription list"
  sv_methods :: "PaymentMethod list"
  sv_orders :: "PaymentOrder list"
  sv_errors :: "ErrorData list"
  sv_log :: "FeatureLogMessage list"
  sv_up :: bool

definition listServices :: "SvcStore Services" where
  "listServices =
     \<lparr>subscriptionsC = listColl sv_up sv_subs (\<lambda>x d. d\<lparr>sv_subs := x\<rparr>),
      deleteSubscriptionC = (\<lambda>P d. if sv_up d then (None, d\<lparr>sv_subs := deleteFirst P (sv_subs d)\<rparr>) else (Some downErr, d)),
      paymentMethodsC = listColl sv_up sv_methods (\<lambda>x d. d\<lparr>sv_methods := x\<rparr>),
      paymentOrdersC = listColl sv_up sv_orders (\<lambda>x d. d\<lparr>sv_orders := x\<rparr>),
      errorsC = listColl sv_up sv_errors (\<lambda>x d. d\<lparr>sv_errors := x\<rparr>),
      logC = listColl sv_up sv_log (\<lambda>x d. d\<lparr>sv_log := x\<rparr>),
      findDescLimit = (\<lambda>key n d. if sv_up d then Inr (take n (foldr (insertDesc key) (sv_log d) [])) else Inl downErr)\<rparr>"

interpretation svc: subscription_table listServices sv_up sv_subs
  by unfold_locales (simp_all add: listServices_def listColl_ok)

end
