(* ===== verification/Telegram.thy ===== *)
theory Telegram
  imports SystemState ServiceStore
begin

text \<open>
  The notification bot of \<^verbatim>\<open>src/telegram/bot.go\<close>. The Telegram API is a parameter: the error text, if any, that the
  n-th call of \<^verbatim>\<open>Send\<close> answers for a message, and the updates it delivers. The channels are bounded lists: a goroutine
  whose message does not fit waits, \<open>tg_waiting\<close> for the event handlers, \<open>tg_pending\<close> for the update loop. A pump
  turn is one pass of its loop. The calls of \<^verbatim>\<open>Send\<close> are kept in the order in which they are made.
\<close>

section \<open>Texts\<close>

definition removeMarkup :: "string \<Rightarrow> string" where
  "removeMarkup input = filter (\<lambda>c. c \<notin> set [CHR 0x5C, CHR 0x60, CHR ''*'', CHR ''_'', CHR ''|'']) input"

definition reservedChars :: string where
  "reservedChars = [CHR 0x5C, CHR 0x60] @ ''*_{}[]()#+-.!|''"

definition sanitizeChar :: "char \<Rightarrow> string" where
  "sanitizeChar c = (if c \<in> set reservedChars then [CHR 0x5C, c] else [c])"

definition sanitize :: "string \<Rightarrow> string" where
  "sanitize input = concat (map sanitizeChar input)"

definition nl :: string where "nl = [CHR 0x0A]"
definition code :: "string \<Rightarrow> string" where "code s = [CHR 0x60] @ s @ [CHR 0x60]"
definition bold :: "string \<Rightarrow> string" where "bold s = ''*'' @ s @ ''*''"

definition connectorLine :: "EventMessage \<Rightarrow> string" where
  "connectorLine event =
     bold (ev_ChargePointId event) @ '': Connector '' @ Itoa (ev_ConnectorId event) @ '': '' @ code (ev_Status event) @ nl"

definition infoLine :: "EventMessage \<Rightarrow> string" where
  "infoLine event = (if ev_Info event \<noteq> [] then sanitize (ev_Info event) @ nl else [])"

definition statusText :: "EventMessage \<Rightarrow> string option" where
  "statusText event =
     (if ev_Status event \<noteq> ''Faulted'' then None
      else Some ((if ev_ConnectorId event = 0 then bold (ev_ChargePointId event) @ '': '' @ code (ev_Status event) @ nl
                  else connectorLine event
                    @ (if ev_TransactionId event \<ge> 0 then ''Transaction ID: '' @ Itoa (ev_TransactionId event) @ nl else []))
            @ infoLine event))"

definition sessionText :: "string \<Rightarrow> EventMessage \<Rightarrow> string" where
  "sessionText phase event =
     connectorLine event @ ''Transaction ID: '' @ Itoa (ev_TransactionId event) @ '' '' @ phase @ nl
     @ ''User: '' @ sanitize (ev_Username event) @ nl @ ''ID Tag: '' @ ev_IdTag event @ nl"

definition startText :: "EventMessage \<Rightarrow> string" where
  "startText event = sessionText ''START'' event @ infoLine event"

definition stopText :: "EventMessage \<Rightarrow> string" where
  "stopText event = sessionText ''STOP'' event @ ''Info: '' @ sanitize (ev_Info event) @ nl"

definition activeText :: "EventMessage \<Rightarrow> string" where
  "activeText event = sessionText ''ACTIVE'' event @ ''Info: '' @ sanitize (ev_Info event) @ nl"

definition userLine :: "EventMessage \<Rightarrow> string" where
  "userLine event = (if ev_Username event \<noteq> [] then ''User: '' @ sanitize (ev_Username event) @ nl else [])"

definition authorizeText :: "EventMessage \<Rightarrow> string" where
  "authorizeText event =
     bold (ev_ChargePointId event) @ '': user: '' @ code (ev_IdTag event) @ nl
     @ ''Auth status: '' @ ev_Status event @ nl @ userLine event @ infoLine event"

definition alertText :: "EventMessage \<Rightarrow> string" where
  "alertText event =
     bold (ev_ChargePointId event) @ '':''
     @ (if ev_ConnectorId event > 0 then '' Connector: '' @ Itoa (ev_ConnectorId event) else [])
     @ '' '' @ code ''ALERT'' @ nl
     @ (if ev_TransactionId event > 0 then ''Transaction ID: '' @ Itoa (ev_TransactionId event) @ nl else [])
     @ userLine event
     @ (if ev_IdTag event \<noteq> [] then ''ID Tag: '' @ ev_IdTag event @ nl else [])
     @ sanitize (ev_Info event)"

definition infoText :: "EventMessage \<Rightarrow> string" where
  "infoText event = sanitize (ev_Info event)"

fun eventText :: "Event \<Rightarrow> EventMessage \<Rightarrow> string option" where
  "eventText StatusNotification event = statusText event"
| "eventText TransactionStart event = Some (startText event)"
| "eventText TransactionStop event = Some (stopText event)"
| "eventText TransactionEvent event = Some (activeText event)"
| "eventText Authorize event = Some (authorizeText event)"
| "eventText Alert event = Some (alertText event)"
| "eventText Information event = Some (infoText event)"

section \<open>State\<close>

record MessageContent =
  mc_ChatID :: int
  mc_Text :: string

record OutMessage =
  om_ChatID :: int
  om_Text :: string
  om_ParseMode :: string

text \<open>The operations of the storage interface that the bot uses.\<close>

record 'db BotDb =
  bd_GetSubscriptions :: "'db \<Rightarrow> UserSubscription slice_err"
  bd_AddSubscription :: "UserSubscription \<Rightarrow> 'db \<Rightarrow> DbErr option \<times> 'db"
  bd_DeleteSubscription :: "UserSubscription \<Rightarrow> 'db \<Rightarrow> DbErr option \<times> 'db"
  bd_GetLastStatus :: "'db \<Rightarrow> ChargePointStatus slice_err"

definition mongoBotDb :: "'db Services \<Rightarrow> 'db Mongo \<Rightarrow> 'db BotDb" where
  "mongoBotDb S M =
     \<lparr>bd_GetSubscriptions = mongo_GetSubscriptions S, bd_AddSubscription = mongo_AddSubscription S,
      bd_DeleteSubscription = mongo_DeleteSubscription S, bd_GetLastStatus = mongo_GetLastStatus M\<rparr>"

record 'db TgBot =
  tg_database :: "'db BotDb option"
  tg_db :: 'db
  tg_subscriptions :: "(int, UserSubscription) gomap"
  tg_event :: "MessageContent list"
  tg_send :: "MessageContent list"
  tg_stop :: bool
  tg_waiting :: "MessageContent list"
  tg_pending :: "MessageContent option"
  tg_eventPump :: bool
  tg_sendPump :: bool
  tg_sent :: "(OutMessage \<times> string option) list"

type_synonym api = "nat \<Rightarrow> OutMessage \<Rightarrow> string option"

definition channelSize :: nat where "channelSize = 100"

definition emptyBot :: "'db \<Rightarrow> 'db TgBot" where
  "emptyBot d =
     \<lparr>tg_database = None, tg_db = d, tg_subscriptions = [], tg_event = [], tg_send = [], tg_stop = False, tg_waiting = [],
      tg_pending = None, tg_eventPump = False, tg_sendPump = False, tg_sent = []\<rparr>"

text \<open>The constructor, with the error of the API's own constructor.\<close>

definition NewBot :: "string option \<Rightarrow> 'db \<Rightarrow> string + 'db TgBot" where
  "NewBot apiErr d = (case apiErr of Some err \<Rightarrow> Inl err | None \<Rightarrow> Inr (emptyBot d))"

definition bot_SetDatabase :: "'db BotDb \<Rightarrow> 'db TgBot \<Rightarrow> 'db TgBot" where
  "bot_SetDatabase D b = b\<lparr>tg_database := Some D\<rparr>"

definition loadSubscriptions :: "UserSubscription list \<Rightarrow> (int, UserSubscription) gomap" where
  "loadSubscriptions xs = fold (\<lambda>x. mput (us_UserID x) x) xs []"

definition bot_Start :: "'db TgBot \<Rightarrow> 'db TgBot" where
  "bot_Start b =
     (let b = b\<lparr>tg_subscriptions :=
            (case tg_database b of None \<Rightarrow> []
             | Some D \<Rightarrow> (case bd_GetSubscriptions D (tg_db b) of (_, Some err) \<Rightarrow> [] | (xs, None) \<Rightarrow> loadSubscriptions xs))\<rparr>
      in b\<lparr>tg_sendPump := True, tg_eventPump := True\<rparr>)"

text \<open>Closing a channel twice panics.\<close>

definition bot_Stop :: "'db TgBot \<Rightarrow> 'db TgBot go" where
  "bot_Stop b = (if tg_stop b then None else Some (b\<lparr>tg_stop := True\<rparr>))"

section \<open>Sending\<close>

definition apiSend :: "api \<Rightarrow> OutMessage \<Rightarrow> 'db TgBot \<Rightarrow> string option \<times> 'db TgBot" where
  "apiSend api msg b =
     (let err = api (length (tg_sent b)) msg in (err, b\<lparr>tg_sent := tg_sent b @ [(msg, err)]\<rparr>))"

definition markdownMessage :: "int \<Rightarrow> string \<Rightarrow> OutMessage" where
  "markdownMessage i text = \<lparr>om_ChatID = i, om_Text = text, om_ParseMode = ''MarkdownV2''\<rparr>"

definition safeMessage :: "int \<Rightarrow> string \<Rightarrow> OutMessage" where
  "safeMessage i text = \<lparr>om_ChatID = i, om_Text = ''This message caused an error:'' @ nl @ removeMarkup text, om_ParseMode = []\<rparr>"

definition errorMessage :: "int \<Rightarrow> string \<Rightarrow> OutMessage" where
  "errorMessage i err = \<lparr>om_ChatID = i, om_Text = ''Error: '' @ err, om_ParseMode = []\<rparr>"

definition sendMessage :: "api \<Rightarrow> int \<Rightarrow> string \<Rightarrow> 'db TgBot \<Rightarrow> 'db TgBot" where
  "sendMessage api i text b =
     (case apiSend api (markdownMessage i text) b of
        (None, b) \<Rightarrow> b
      | (Some _, b) \<Rightarrow>
         (case apiSend api (safeMessage i text) b of
            (None, b) \<Rightarrow> b
          | (Some err, b) \<Rightarrow> snd (apiSend api (errorMessage i err) b)))"

definition eventTurn :: "api \<Rightarrow> 'db TgBot \<Rightarrow> 'db TgBot" where
  "eventTurn api b =
     (case tg_event b of [] \<Rightarrow> b
      | event # rest \<Rightarrow>
          fold (\<lambda>(_, subscription). sendMessage api (us_UserID subscription) (mc_Text event)) (tg_subscriptions b) (b\<lparr>tg_event := rest\<rparr>))"

definition sendTurn :: "api \<Rightarrow> 'db TgBot \<Rightarrow> 'db TgBot" where
  "sendTurn api b =
     (case tg_send b of [] \<Rightarrow> b | msg # rest \<Rightarrow> sendMessage api (mc_ChatID msg) (mc_Text msg) (b\<lparr>tg_send := rest\<rparr>))"

section \<open>Events\<close>

text \<open>A handler has composed its message and is about to send it on the channel.\<close>

definition bot_notify :: "Event \<Rightarrow> EventMessage \<Rightarrow> 'db TgBot \<Rightarrow> 'db TgBot" where
  "bot_notify kind event b =
     (case eventText kind event of None \<Rightarrow> b
      | Some text \<Rightarrow> b\<lparr>tg_waiting := tg_waiting b @ [\<lparr>mc_ChatID = 0, mc_Text = text\<rparr>]\<rparr>)"

section \<open>Commands\<close>

definition connectorStatusLine :: "time \<Rightarrow> ConnectorStatus \<Rightarrow> string" where
  "connectorStatusLine now c =
     ''Connector '' @ Itoa (sc_ConnectorID c) @ '': '' @ code (sc_Status c) @ '' '' @ sanitize (TimeAgo (timeSub now (sc_StatusTime c))) @ nl
     @ (if sc_TransactionId c > 0 then ''Transaction: '' @ Itoa (sc_TransactionId c) @ nl else [])
     @ (if sc_Info c \<noteq> [] \<and> sc_Status c \<noteq> ''Available'' then sanitize (sc_Info c) @ nl else [])"

definition pointStatusLines :: "time \<Rightarrow> ChargePointStatus \<Rightarrow> string" where
  "pointStatusLines now s =
     bold (ss_ChargePointID s) @ '': '' @ (if ss_IsOnline s then ''Online'' else ''*OFFLINE*'')
     @ '' '' @ sanitize (TimeAgo (timeSub now (ss_EventTime s))) @ nl
     @ concat (map (connectorStatusLine now) (ss_Connectors s)) @ nl"

definition composeStatusMessage :: "time \<Rightarrow> 'db TgBot \<Rightarrow> string" where
  "composeStatusMessage now b =
     ''Status info:'' @ nl @ nl
     @ (case tg_database b of None \<Rightarrow> []
        | Some D \<Rightarrow> (case bd_GetLastStatus D (tg_db b) of
             (_, Some err) \<Rightarrow> ''Error getting last status:'' @ nl @ '' '' @ code (errText err)
           | (status, None) \<Rightarrow> concat (map (pointStatusLines now) status)))
     @ nl @ ''Active subscriptions: '' @ Itoa (int (length (tg_subscriptions b)))"

text \<open>A message of an update: the command, if it is one, the sender and the chat.\<close>

record TgMessage =
  tm_Command :: "string option"
  tm_FromID :: int
  tm_UserName :: string
  tm_ChatID :: int

definition commandStart :: "TgMessage \<Rightarrow> 'db TgBot \<Rightarrow> string \<times> 'db TgBot" where
  "commandStart m b =
     (let subscription = \<lparr>us_UserID = tm_FromID m, us_User = tm_UserName m, us_SubscriptionType = ''status''\<rparr>;
          b = b\<lparr>tg_subscriptions := mput (tm_FromID m) subscription (tg_subscriptions b)\<rparr>;
          msg = ''Hello '' @ bold (tm_UserName m) @ '', you are now subscribed to updates''
      in case tg_database b of None \<Rightarrow> (msg, b)
         | Some D \<Rightarrow> (case bd_AddSubscription D subscription (tg_db b) of
              (Some err, d) \<Rightarrow> (''Error adding subscription:'' @ nl @ '' '' @ code (errText err), b\<lparr>tg_db := d\<rparr>)
            | (None, d) \<Rightarrow> (msg, b\<lparr>tg_db := d\<rparr>)))"

definition commandStop :: "TgMessage \<Rightarrow> 'db TgBot \<Rightarrow> string \<times> 'db TgBot" where
  "commandStop m b =
     (let b = b\<lparr>tg_subscriptions := mdel (tm_FromID m) (tg_subscriptions b)\<rparr>;
          b = (case tg_database b of None \<Rightarrow> b
               | Some D \<Rightarrow> b\<lparr>tg_db := snd (bd_DeleteSubscription D
                    \<lparr>us_UserID = tm_FromID m, us_User = [], us_SubscriptionType = []\<rparr> (tg_db b))\<rparr>)
      in (''Your subscription has been removed'', b))"

definition handleCommand :: "time \<Rightarrow> TgMessage \<Rightarrow> string \<Rightarrow> 'db TgBot \<Rightarrow> string option \<times> 'db TgBot" where
  "handleCommand now m command b =
     (if command = ''start'' then (case commandStart m b of (t, b) \<Rightarrow> (Some t, b))
      else if command = ''stop'' then (case commandStop m b of (t, b) \<Rightarrow> (Some t, b))
      else if command = ''test'' then (Some (bold ''ChargePointId'' @ '': Connector '' @ Itoa 1 @ '': '' @ code ''Status''), b)
      else if command = ''status'' then (Some (composeStatusMessage now b), b)
      else (None, b))"

text \<open>One update: the message is composed and waits for room in the channel.\<close>

definition updateTurn :: "time \<Rightarrow> TgMessage option \<Rightarrow> 'db TgBot \<Rightarrow> 'db TgBot" where
  "updateTurn now update b =
     (case update of None \<Rightarrow> b
      | Some m \<Rightarrow>
         (case tm_Command m of None \<Rightarrow> b
          | Some command \<Rightarrow>
             (case handleCommand now m command b of
                (None, b) \<Rightarrow> b
              | (Some text, b) \<Rightarrow> b\<lparr>tg_pending := Some \<lparr>mc_ChatID = tm_ChatID m, mc_Text = text\<rparr>\<rparr>)))"

section \<open>Runs\<close>

text \<open>
  The goroutines interleave: the handlers, the three pumps and \<^verbatim>\<open>Stop\<close>. A send on a full channel waits until a turn
  of the other side makes room; a pump may take further messages after \<^verbatim>\<open>Stop\<close> until it sees the closed channel.
\<close>

inductive bot_step :: "api \<Rightarrow> 'db TgBot \<Rightarrow> 'db TgBot \<Rightarrow> bool" for api where
  notify: "bot_step api b (bot_notify kind event b)"
| accept: "i < length (tg_waiting b) \<Longrightarrow> length (tg_event b) < channelSize \<Longrightarrow>
    bot_step api b (b\<lparr>tg_event := tg_event b @ [tg_waiting b ! i], tg_waiting := take i (tg_waiting b) @ drop (Suc i) (tg_waiting b)\<rparr>)"
| event: "tg_eventPump b \<Longrightarrow> tg_event b \<noteq> [] \<Longrightarrow> bot_step api b (eventTurn api b)"
| send: "tg_sendPump b \<Longrightarrow> tg_send b \<noteq> [] \<Longrightarrow> bot_step api b (sendTurn api b)"
| update: "tg_pending b = None \<Longrightarrow> bot_step api b (updateTurn now u b)"
| reply: "tg_pending b = Some msg \<Longrightarrow> length (tg_send b) < channelSize \<Longrightarrow>
    bot_step api b (b\<lparr>tg_send := tg_send b @ [msg], tg_pending := None\<rparr>)"
| stop: "bot_Stop b = Some b' \<Longrightarrow> bot_step api b b'"
| eventEnd: "tg_stop b \<Longrightarrow> bot_step api b (b\<lparr>tg_eventPump := False\<rparr>)"
| sendEnd: "tg_stop b \<Longrightarrow> bot_step api b (b\<lparr>tg_sendPump := False\<rparr>)"

end
