(* ===== verification/TelegramProps.thy ===== *)
theory TelegramProps
  imports Telegram
begin

text \<open>
  Properties of the notification bot: what an escaped text reads as, that a queued event reaches every subscriber, that
  the channels stay bounded along every interleaving, and that the subscribers survive a restart.
\<close>

section \<open>Escaping\<close>

text \<open>
  The characters that have to be escaped in MarkdownV2 according to Telegram's documentation (a backslash begins an
  escape), and the reader of a text without markup: \<open>None\<close> when such a character stands for itself.
\<close>

definition markdownReserved :: string where
  "markdownReserved = [CHR 0x5C, CHR 0x60] @ ''_*[]()~>#+-=|{}.!''"

fun readPlain :: "string \<Rightarrow> string option" where
  "readPlain [] = Some []"
| "readPlain (c # s) =
     (if c = CHR 0x5C then (case s of [] \<Rightarrow> None | x # t \<Rightarrow> map_option ((#) x) (readPlain t))
      else if c \<in> set markdownReserved then None
      else map_option ((#) c) (readPlain s))"

definition unescaped :: string where "unescaped = ''~>=''"

lemma reserved_split: "c \<in> set markdownReserved \<longleftrightarrow> c \<in> set reservedChars \<or> c \<in> set unescaped"
  by (auto simp: markdownReserved_def reservedChars_def unescaped_def)

lemma reserved_apart: "c \<in> set unescaped \<Longrightarrow> c \<notin> set reservedChars"
  by (auto simp: reservedChars_def unescaped_def)

lemma backslash_reserved: "CHR 0x5C \<in> set reservedChars"
  by (simp add: reservedChars_def)

lemma readPlain_sanitize: "readPlain (sanitize s) = (if set s \<inter> set unescaped = {} then Some s else None)"
proof (induction s)
  case (Cons c s)
  show ?case
  proof (cases "c \<in> set reservedChars")
    case True
    then have "sanitize (c # s) = CHR 0x5C # c # sanitize s" by (simp add: sanitize_def sanitizeChar_def)
    with True Cons reserved_apart show ?thesis by auto
  next
    case False
    then have "sanitize (c # s) = c # sanitize s" "c \<noteq> CHR 0x5C" using backslash_reserved by (auto simp: sanitize_def sanitizeChar_def)
    with False Cons reserved_split show ?thesis by auto
  qed
qed (simp add: sanitize_def)

text \<open>
  A sanitized text is read by Telegram as the text itself, exactly when it has none of the three characters
  that the escaping leaves out; one of them anywhere makes the message unreadable as MarkdownV2.
\<close>

theorem sanitize_reads_back:
  "readPlain (sanitize s) = (if set s \<inter> set ''~>='' = {} then Some s else None)"
  using readPlain_sanitize [of s] by (simp add: unescaped_def)

section \<open>Delivery\<close>

text \<open>The calls for one message to one chat: the text as Markdown first, and a further call only after an error.\<close>

definition delivery :: "int \<Rightarrow> string \<Rightarrow> (OutMessage \<times> string option) list \<Rightarrow> bool" where
  "delivery i text calls \<longleftrightarrow>
     calls \<noteq> [] \<and> length calls \<le> 3
     \<and> fst (hd calls) = markdownMessage i text
     \<and> list_all (\<lambda>(m, e). om_ChatID m = i) calls
     \<and> list_all (\<lambda>(m, e). e \<noteq> None) (butlast calls)
     \<and> (snd (last calls) = None \<or> length calls = 3)"

lemma message_chat:
  "om_ChatID (markdownMessage i text) = i" "om_ChatID (safeMessage i text) = i" "om_ChatID (errorMessage i err) = i"
  by (simp_all add: markdownMessage_def safeMessage_def errorMessage_def)

lemma sendMessage_log: "\<exists>calls. sendMessage api i text b = b\<lparr>tg_sent := tg_sent b @ calls\<rparr> \<and> delivery i text calls"
proof -
  let ?m1 = "markdownMessage i text" and ?m2 = "safeMessage i text"
  define n where "n = length (tg_sent b)"
  consider "api n ?m1 = None" | e1 where "api n ?m1 = Some e1" "api (Suc n) ?m2 = None"
    | e1 e2 where "api n ?m1 = Some e1" "api (Suc n) ?m2 = Some e2" by fastforce
  then show ?thesis
  proof cases
    case 1
    then have "sendMessage api i text b = b\<lparr>tg_sent := tg_sent b @ [(?m1, None)]\<rparr>"
      by (simp add: sendMessage_def apiSend_def n_def Let_def)
    then show ?thesis by (intro exI [of _ "[(?m1, None)]"]) (simp add: delivery_def message_chat)
  next
    case (2 e1)
    then have "sendMessage api i text b = b\<lparr>tg_sent := tg_sent b @ [(?m1, Some e1), (?m2, None)]\<rparr>"
      by (simp add: sendMessage_def apiSend_def n_def Let_def)
    then show ?thesis by (intro exI [of _ "[(?m1, Some e1), (?m2, None)]"]) (simp add: delivery_def message_chat)
  next
    case (3 e1 e2)
    let ?m3 = "errorMessage i e2"
    let ?calls = "[(?m1, Some e1), (?m2, Some e2), (?m3, api (Suc (Suc n)) ?m3)]"
    have "sendMessage api i text b = b\<lparr>tg_sent := tg_sent b @ ?calls\<rparr>"
      using 3 by (simp add: sendMessage_def apiSend_def n_def Let_def)
    then show ?thesis by (intro exI [of _ ?calls]) (simp add: delivery_def message_chat)
  qed
qed

lemma sendAll_log:
  "\<exists>cs. fold (\<lambda>(_, sub). sendMessage api (us_UserID sub) text) subs b = b\<lparr>tg_sent := tg_sent b @ concat cs\<rparr>
    \<and> list_all2 (\<lambda>(_, sub) calls. delivery (us_UserID sub) text calls) subs cs"
proof (induction subs arbitrary: b)
  case Nil
  show ?case by (intro exI [of _ "[]"]) simp
next
  case (Cons p subs)
  obtain k sub where p: "p = (k, sub)" by (cases p)
  obtain calls where calls: "sendMessage api (us_UserID sub) text b = b\<lparr>tg_sent := tg_sent b @ calls\<rparr>" "delivery (us_UserID sub) text calls"
    using sendMessage_log by blast
  obtain cs where "fold (\<lambda>(_, sub). sendMessage api (us_UserID sub) text) subs (b\<lparr>tg_sent := tg_sent b @ calls\<rparr>)
        = b\<lparr>tg_sent := (tg_sent b @ calls) @ concat cs\<rparr>"
      "list_all2 (\<lambda>(_, sub) calls. delivery (us_UserID sub) text calls) subs cs"
    using Cons.IH [of "b\<lparr>tg_sent := tg_sent b @ calls\<rparr>"] by auto
  with calls show ?case by (intro exI [of _ "calls # cs"]) (simp add: p)
qed

text \<open>The calls for a sequence of events, each to every subscriber.\<close>

definition deliveries :: "(int, UserSubscription) gomap \<Rightarrow> MessageContent list \<Rightarrow> (OutMessage \<times> string option) list \<Rightarrow> bool" where
  "deliveries subs events calls \<longleftrightarrow>
     (\<exists>css. list_all2 (\<lambda>event cs. list_all2 (\<lambda>(_, sub) c. delivery (us_UserID sub) (mc_Text event) c) subs cs) events css
        \<and> calls = concat (concat css))"

lemma eventTurn_log:
  assumes "tg_event b = event # rest"
  shows "\<exists>calls. eventTurn api b = b\<lparr>tg_event := rest, tg_sent := tg_sent b @ calls\<rparr> \<and> deliveries (tg_subscriptions b) [event] calls"
proof -
  obtain cs where cs: "fold (\<lambda>(_, sub). sendMessage api (us_UserID sub) (mc_Text event)) (tg_subscriptions b) (b\<lparr>tg_event := rest\<rparr>)
        = b\<lparr>tg_event := rest, tg_sent := tg_sent b @ concat cs\<rparr>"
      "list_all2 (\<lambda>(_, sub) calls. delivery (us_UserID sub) (mc_Text event) calls) (tg_subscriptions b) cs"
    using sendAll_log [of api "mc_Text event" "tg_subscriptions b" "b\<lparr>tg_event := rest\<rparr>"] by auto
  then have "deliveries (tg_subscriptions b) [event] (concat cs)"
    by (auto simp: deliveries_def intro!: exI [of _ "[cs]"])
  with cs(1) assms show ?thesis by (auto simp: eventTurn_def)
qed

lemma deliveries_Cons:
  assumes "deliveries subs [event] calls" "deliveries subs rest calls'"
  shows "deliveries subs (event # rest) (calls @ calls')"
proof -
  obtain cs where "list_all2 (\<lambda>(_, sub) c. delivery (us_UserID sub) (mc_Text event) c) subs cs" "calls = concat cs"
    using assms(1) by (auto simp: deliveries_def list_all2_Cons1)
  moreover obtain css where "list_all2 (\<lambda>event cs. list_all2 (\<lambda>(_, sub) c. delivery (us_UserID sub) (mc_Text event) c) subs cs) rest css"
      "calls' = concat (concat css)" using assms(2) by (auto simp: deliveries_def)
  ultimately show ?thesis unfolding deliveries_def by (intro exI [of _ "cs # css"]) simp
qed

text \<open>
  C34. The turns of the event pump empty the channel: as many turns as there are queued events make, in their order and
  for every subscriber, the calls of one delivery each: the text as Markdown first, a fallback only after an error, at
  most three calls. Nothing else of the bot changes.
\<close>

theorem queued_events_delivered:
  "\<exists>calls. (eventTurn api ^^ length (tg_event b)) b = b\<lparr>tg_event := [], tg_sent := tg_sent b @ calls\<rparr>
    \<and> deliveries (tg_subscriptions b) (tg_event b) calls"
proof (induction "tg_event b" arbitrary: b)
  case Nil
  then show ?case by (intro exI [of _ "[]"]) (simp add: deliveries_def)
next
  case (Cons event rest)
  obtain calls where c: "eventTurn api b = b\<lparr>tg_event := rest, tg_sent := tg_sent b @ calls\<rparr>"
      "deliveries (tg_subscriptions b) [event] calls" using eventTurn_log [OF Cons.hyps(2) [symmetric]] by blast
  let ?b = "b\<lparr>tg_event := rest, tg_sent := tg_sent b @ calls\<rparr>"
  obtain calls' where "(eventTurn api ^^ length rest) ?b = b\<lparr>tg_event := [], tg_sent := tg_sent b @ calls @ calls'\<rparr>"
      "deliveries (tg_subscriptions b) rest calls'"
    using Cons.hyps(1) [of ?b] by auto
  with c show ?case
    using deliveries_Cons [OF c(2)] Cons.hyps(2) [symmetric]
    by (intro exI [of _ "calls @ calls'"]) (simp add: funpow_swap1)
qed

section \<open>Runs\<close>

definition bot_ok :: "'db TgBot \<Rightarrow> bool" where
  "bot_ok b \<longleftrightarrow> length (tg_event b) \<le> channelSize \<and> length (tg_send b) \<le> channelSize
     \<and> gomap_ok (tg_subscriptions b) \<and> list_all (\<lambda>(k, sub). us_UserID sub = k) (tg_subscriptions b)"

lemma bot_okI: "\<lbrakk>bot_ok b; length (tg_event b') \<le> channelSize; length (tg_send b') \<le> channelSize; tg_subscriptions b' = tg_subscriptions b\<rbrakk> \<Longrightarrow> bot_ok b'"
  by (simp add: bot_ok_def)

lemma eventTurn_ok: "bot_ok b \<Longrightarrow> bot_ok (eventTurn api b)"
proof (cases "tg_event b")
  case (Cons event rest)
  assume ok: "bot_ok b"
  obtain calls where "eventTurn api b = b\<lparr>tg_event := rest, tg_sent := tg_sent b @ calls\<rparr>" using eventTurn_log [OF Cons] by blast
  with ok Cons show "bot_ok (eventTurn api b)" by (auto simp: bot_ok_def)
qed (simp add: eventTurn_def)

lemma sendTurn_log:
  assumes "tg_send b = msg # rest"
  shows "\<exists>calls. sendTurn api b = b\<lparr>tg_send := rest, tg_sent := tg_sent b @ calls\<rparr> \<and> delivery (mc_ChatID msg) (mc_Text msg) calls"
  using sendMessage_log [of api "mc_ChatID msg" "mc_Text msg" "b\<lparr>tg_send := rest\<rparr>"] assms by (auto simp: sendTurn_def)

lemma sendTurn_ok: "bot_ok b \<Longrightarrow> bot_ok (sendTurn api b)"
proof (cases "tg_send b")
  case (Cons msg rest)
  assume ok: "bot_ok b"
  obtain calls where "sendTurn api b = b\<lparr>tg_send := rest, tg_sent := tg_sent b @ calls\<rparr>" using sendTurn_log [OF Cons] by blast
  with ok Cons show "bot_ok (sendTurn api b)" by (auto simp: bot_ok_def)
qed (simp add: sendTurn_def)

text \<open>What an update changes: the subscriptions, the database and the pending answer.\<close>

lemma updateTurn_frame:
  "tg_event (updateTurn now u b) = tg_event b" "tg_send (updateTurn now u b) = tg_send b" "tg_sent (updateTurn now u b) = tg_sent b"
  "tg_database (updateTurn now u b) = tg_database b" "tg_waiting (updateTurn now u b) = tg_waiting b"
  by (auto simp: updateTurn_def handleCommand_def commandStart_def commandStop_def Let_def split: option.split prod.split)

lemma list_all_mput: "list_all P m \<Longrightarrow> P (k, v) \<Longrightarrow> list_all P (mput k v m)"
  by (auto simp: list_all_iff dest!: set_mput)

lemma list_all_mdel: "list_all P m \<Longrightarrow> list_all P (mdel k m)"
  by (auto simp: list_all_iff dest!: set_mdel)

lemma updateTurn_subscriptions:
  "tg_subscriptions (updateTurn now u b) = tg_subscriptions b
    \<or> (\<exists>m. u = Some m \<and> tg_subscriptions (updateTurn now u b) = mput (tm_FromID m)
          \<lparr>us_UserID = tm_FromID m, us_User = tm_UserName m, us_SubscriptionType = ''status''\<rparr> (tg_subscriptions b))
    \<or> (\<exists>m. u = Some m \<and> tg_subscriptions (updateTurn now u b) = mdel (tm_FromID m) (tg_subscriptions b))"
  by (auto simp: updateTurn_def handleCommand_def commandStart_def commandStop_def Let_def split: option.split prod.split)

lemma updateTurn_ok: "bot_ok b \<Longrightarrow> bot_ok (updateTurn now u b)"
  using updateTurn_subscriptions [of now u b]
  by (auto simp: bot_ok_def updateTurn_frame intro!: list_all_mput list_all_mdel)

lemma bot_step_ok: "bot_step api b b' \<Longrightarrow> bot_ok b \<Longrightarrow> bot_ok b'"
proof (induction rule: bot_step.induct)
  case (notify b kind event)
  then show ?case by (auto simp: bot_notify_def bot_ok_def split: option.split)
next
  case (stop b b')
  then show ?case by (auto simp: bot_Stop_def bot_ok_def split: if_splits)
qed (auto simp: eventTurn_ok sendTurn_ok updateTurn_ok, auto simp: bot_ok_def)

text \<open>
  Along every interleaving of the handlers, the pumps, the updates and Stop, both channels hold at most a hundred
  messages, every user has at most one subscription and it is kept under the id of the user.
\<close>

theorem bot_channels_bounded:
  assumes "(bot_step api)\<^sup>*\<^sup>* (bot_Start (emptyBot d)) b"
  shows "length (tg_event b) \<le> 100 \<and> length (tg_send b) \<le> 100 \<and> distinct (map (us_UserID \<circ> snd) (tg_subscriptions b))"
proof -
  have "bot_ok (bot_Start (emptyBot d))" by (simp add: bot_ok_def bot_Start_def emptyBot_def gomap_ok_def)
  with assms have ok: "bot_ok b" by (induction rule: rtranclp_induct) (auto dest: bot_step_ok)
  then have same: "map (us_UserID \<circ> snd) (tg_subscriptions b) = map fst (tg_subscriptions b)"
    by (auto simp: bot_ok_def list_all_iff)
  have "distinct (map (us_UserID \<circ> snd) (tg_subscriptions b))" unfolding same using ok by (simp add: bot_ok_def gomap_ok_def)
  with ok show ?thesis by (simp add: bot_ok_def channelSize_def)
qed

theorem bot_channels_bounded_witness:
  "\<exists>b. (bot_step (\<lambda>_ _. None))\<^sup>*\<^sup>* (bot_Start (emptyBot ())) b \<and> length (tg_event b) = 1 \<and> length (tg_event b) \<le> 100"
proof -
  let ?b0 = "bot_Start (emptyBot ())"
  let ?b1 = "bot_notify Alert zeroEvent ?b0"
  let ?b2 = "?b1\<lparr>tg_event := tg_event ?b1 @ [tg_waiting ?b1 ! 0], tg_waiting := take 0 (tg_waiting ?b1) @ drop (Suc 0) (tg_waiting ?b1)\<rparr>"
  have one: "length (tg_waiting ?b1) = 1" "tg_event ?b1 = []"
    by (simp_all add: bot_notify_def bot_Start_def emptyBot_def Let_def)
  have "bot_step (\<lambda>_ _. None) ?b1 ?b2" by (rule bot_step.accept) (simp_all add: one channelSize_def)
  with bot_step.notify have run: "(bot_step (\<lambda>_ _. None))\<^sup>*\<^sup>* ?b0 ?b2" by (meson converse_rtranclp_into_rtranclp r_into_rtranclp)
  from bot_channels_bounded [OF run] run one show ?thesis by (intro exI [of _ ?b2]) simp
qed

section \<open>Restart\<close>

definition subscribers :: "'db TgBot \<Rightarrow> int set" where
  "subscribers b = fst ` set (tg_subscriptions b)"

text \<open>Senders that Telegram gives a user name.\<close>

definition namedSender :: "TgMessage option \<Rightarrow> bool" where
  "namedSender u = (case u of None \<Rightarrow> True | Some m \<Rightarrow> tm_FromID m \<noteq> 0 \<and> tm_UserName m \<noteq> [])"

lemma keys_load: "fst ` set (loadSubscriptions xs) = us_UserID ` set xs"
proof -
  have "fst ` set (fold (\<lambda>x. mput (us_UserID x) x) xs m) = fst ` set m \<union> us_UserID ` set xs" for m
    by (induction xs arbitrary: m) (auto simp: keys_mput)
  then show ?thesis by (simp add: loadSubscriptions_def)
qed

context subscription_table
begin

definition agrees :: "'db TgBot \<Rightarrow> bool" where
  "agrees b \<longleftrightarrow> up (tg_db b) \<and> distinct (map us_UserID (subs (tg_db b))) \<and> subscribers b = us_UserID ` set (subs (tg_db b))"

lemma commandStart_agrees:
  assumes "tg_database b = Some (mongoBotDb S M)" "agrees b" "tm_FromID m \<noteq> 0" "tm_UserName m \<noteq> []"
  shows "agrees (snd (commandStart m b))"
proof -
  let ?sub = "\<lparr>us_UserID = tm_FromID m, us_User = tm_UserName m, us_SubscriptionType = ''status''\<rparr>"
  have up: "up (tg_db b)" using assms(2) by (simp add: agrees_def)
  show ?thesis
  proof (cases "tm_FromID m \<in> us_UserID ` set (subs (tg_db b))")
    case True
    with add_subscription(1) [OF up, of ?sub] assms show ?thesis
      by (auto simp: commandStart_def mongoBotDb_def agrees_def subscribers_def keys_mput Let_def)
  next
    case False
    with add_subscription(3) [OF up, of ?sub] assms obtain d' where
      "mongo_AddSubscription S ?sub (tg_db b) = (None, d')" "up d'" "subs d' = subs (tg_db b) @ [?sub]" by auto
    with assms False show ?thesis
      by (auto simp: commandStart_def mongoBotDb_def agrees_def subscribers_def keys_mput Let_def)
  qed
qed

lemma commandStop_agrees:
  assumes "tg_database b = Some (mongoBotDb S M)" "agrees b"
  shows "agrees (snd (commandStop m b))"
proof -
  let ?sub = "\<lparr>us_UserID = tm_FromID m, us_User = [], us_SubscriptionType = []\<rparr>"
  have b: "up (tg_db b)" "distinct (map us_UserID (subs (tg_db b)))" using assms(2) by (simp_all add: agrees_def)
  obtain d' where d': "mongo_DeleteSubscription S ?sub (tg_db b) = (None, d')" "up d'"
      "subs d' = filter (\<lambda>y. us_UserID y \<noteq> tm_FromID m) (subs (tg_db b))"
    using delete_subscription [OF b(1), of ?sub] deleteFirst_keyed [OF b(2)] by auto
  have "us_UserID ` set (subs d') = us_UserID ` set (subs (tg_db b)) - {tm_FromID m}" unfolding d'(3) by auto
  moreover have "distinct (map us_UserID (subs d'))" using b(2) unfolding d'(3) by (rule distinct_map_filter)
  ultimately show ?thesis
    using assms d'(1,2) by (simp add: commandStop_def mongoBotDb_def agrees_def subscribers_def keys_mdel Let_def)
qed

lemma agrees_pending: "agrees (b\<lparr>tg_pending := p\<rparr>) = agrees b"
  by (simp add: agrees_def subscribers_def)

lemma updateTurn_agrees:
  assumes "tg_database b = Some (mongoBotDb S M)" "agrees b" "namedSender u"
  shows "agrees (updateTurn now u b)"
proof (cases u)
  case (Some m)
  obtain t1 b1 where b1: "commandStart m b = (t1, b1)" by fastforce
  obtain t2 b2 where b2: "commandStop m b = (t2, b2)" by fastforce
  have "agrees b1" using commandStart_agrees [OF assms(1,2), of m] assms(3) b1 Some by (simp add: namedSender_def)
  moreover have "agrees b2" using commandStop_agrees [OF assms(1,2), of m] b2 by simp
  ultimately show ?thesis
    using assms(2) b1 b2 Some by (auto simp: updateTurn_def handleCommand_def agrees_pending split: option.split)
qed (simp add: assms(2) updateTurn_def)

lemma updates_agree:
  assumes "tg_database b = Some (mongoBotDb S M)" "agrees b" "list_all namedSender us"
  shows "agrees (fold (updateTurn now) us b) \<and> tg_database (fold (updateTurn now) us b) = Some (mongoBotDb S M)"
  using assms by (induction us arbitrary: b) (simp_all add: updateTurn_agrees updateTurn_frame)

lemma start_loads:
  assumes "tg_database b = Some (mongoBotDb S M)" "up (tg_db b)"
  shows "subscribers (bot_Start b) = us_UserID ` set (subs (tg_db b))" "tg_db (bot_Start b) = tg_db b" "tg_database (bot_Start b) = tg_database b"
  using assms by (simp_all add: bot_Start_def mongoBotDb_def get_subscriptions subscribers_def keys_load Let_def)

lemma restart_same:
  assumes "tg_database b = Some (mongoBotDb S M)" "up (tg_db b)" "distinct (map us_UserID (subs (tg_db b)))" "list_all namedSender us"
  shows "subscribers (bot_Start (fold (updateTurn now) us (bot_Start b))) = subscribers (fold (updateTurn now) us (bot_Start b))"
proof -
  have "agrees (bot_Start b)" using start_loads [OF assms(1,2)] assms(2,3) by (simp add: agrees_def)
  then have b': "agrees (fold (updateTurn now) us (bot_Start b))" "tg_database (fold (updateTurn now) us (bot_Start b)) = Some (mongoBotDb S M)"
    using updates_agree [of "bot_Start b" M us now] start_loads(3) [OF assms(1,2)] assms(1,4) by auto
  then show ?thesis using start_loads(1) [OF b'(2)] by (simp add: agrees_def)
qed

end

text \<open>
  C35. A restart keeps the subscribers: whatever commands users with a user name have sent since the start, loading
  the subscriptions again gives the same users.
\<close>

theorem restart_keeps_subscribers:
  assumes "subscription_table S up subs" "tg_database b = Some (mongoBotDb S M)"
    and "up (tg_db b)" "distinct (map us_UserID (subs (tg_db b)))" "list_all namedSender us"
  shows "subscribers (bot_Start (fold (updateTurn now) us (bot_Start b))) = subscribers (fold (updateTurn now) us (bot_Start b))"
  by (rule subscription_table.restart_same [OF assms])

definition svcMongo :: "SvcStore Mongo" where
  "svcMongo =
     \<lparr>chargePointsC = listColl sv_up (\<lambda>_. []) (\<lambda>_ d. d), connectorsC = listColl sv_up (\<lambda>_. []) (\<lambda>_ d. d),
      locationsC = listColl sv_up (\<lambda>_. []) (\<lambda>_ d. d), userTagsC = listColl sv_up (\<lambda>_. []) (\<lambda>_ d. d),
      usersC = listColl sv_up (\<lambda>_. []) (\<lambda>_ d. d), paymentPlansC = listColl sv_up (\<lambda>_. []) (\<lambda>_ d. d),
      transactionsC = listColl sv_up (\<lambda>_. []) (\<lambda>_ d. d), meterValuesC = listColl sv_up (\<lambda>_. []) (\<lambda>_ d. d),
      stopTransactionC = listColl sv_up (\<lambda>_. []) (\<lambda>_ d. d)\<rparr>"

definition demoBot :: "SvcStore TgBot" where
  "demoBot = bot_SetDatabase (mongoBotDb listServices svcMongo)
     (emptyBot \<lparr>sv_subs = [\<lparr>us_UserID = 7, us_User = ''ann'', us_SubscriptionType = ''status''\<rparr>], sv_methods = [], sv_orders = [],
        sv_errors = [], sv_log = [], sv_up = True\<rparr>)"

definition demoUpdates :: "TgMessage option list" where
  "demoUpdates = [Some \<lparr>tm_Command = Some ''start'', tm_FromID = 8, tm_UserName = ''bob'', tm_ChatID = 8\<rparr>,
     Some \<lparr>tm_Command = Some ''stop'', tm_FromID = 7, tm_UserName = ''ann'', tm_ChatID = 7\<rparr>]"

theorem restart_keeps_subscribers_witness:
  "subscribers (bot_Start (fold (updateTurn 0) demoUpdates (bot_Start demoBot))) = {8}"
proof -
  have "subscribers (fold (updateTurn 0) demoUpdates (bot_Start demoBot)) = {8}" by code_simp
  moreover have "tg_database demoBot = Some (mongoBotDb listServices svcMongo)" by (simp add: demoBot_def bot_SetDatabase_def)
  moreover have "sv_up (tg_db demoBot)" "distinct (map us_UserID (sv_subs (tg_db demoBot)))" "list_all namedSender demoUpdates"
    by (simp_all add: demoBot_def bot_SetDatabase_def emptyBot_def demoUpdates_def namedSender_def)
  ultimately show ?thesis
    using restart_keeps_subscribers [OF svc.subscription_table_axioms, of demoBot svcMongo demoUpdates 0] by blast
qed

text \<open>
  A user without a user name is subscribed until the next restart only: the subscription is kept in memory and
  answered with an error, and the database refuses it.
\<close>

lemma unnamed_subscriber_lost:
  "8 \<in> subscribers (updateTurn 0 (Some \<lparr>tm_Command = Some ''start'', tm_FromID = 8, tm_UserName = [], tm_ChatID = 8\<rparr>) (bot_Start demoBot))
   \<and> 8 \<notin> subscribers (bot_Start (updateTurn 0 (Some \<lparr>tm_Command = Some ''start'', tm_FromID = 8, tm_UserName = [], tm_ChatID = 8\<rparr>) (bot_Start demoBot)))"
  by code_simp

end
