(* ===== verification/Ocpi.thy ===== *)
theory Ocpi
  imports SystemState Json
begin

text \<open>
  The roaming client of \<^verbatim>\<open>src/ocpi\<close>: the HTTP client with its retries, the authorization that waits for it at most
  fifteen seconds, and the listener that forwards events. The roaming service and the network are a parameter: what
  comes back for a request that is sent at some moment, with the times it takes. The timeout of five seconds is that
  of the request's context. A body is the tree of its JSON text, or \<open>None\<close> when it is not JSON. The clock runs in
  nanoseconds; computing takes no time.
\<close>

section \<open>HTTP client\<close>

record HttpRequest =
  hr_Url :: string
  hr_ContentType :: string
  hr_Authorization :: string
  hr_Body :: Json

text \<open>The status after the time for the headers, then the body, or the error of the transport.\<close>

record Exchange =
  ex_HeadersTook :: nat
  ex_Status :: "string + int"
  ex_BodyTook :: nat
  ex_Body :: "string + Json option"

datatype HttpError = CreatingRequest | SendingRequest string | NonOKStatus int | ReadingBody string

record Client =
  cl_url :: string
  cl_token :: string
  cl_validUrl :: "string \<Rightarrow> bool"
  cl_Do :: "time \<Rightarrow> HttpRequest \<Rightarrow> Exchange"

definition seconds :: "nat \<Rightarrow> nat" where "seconds n = n * 1000000000"

definition deadlineText :: string where "deadlineText = ''context deadline exceeded''"

definition clientRequest :: "Client \<Rightarrow> string \<Rightarrow> Json \<Rightarrow> HttpRequest" where
  "clientRequest c endpoint body =
     \<lparr>hr_Url = cl_url c @ endpoint, hr_ContentType = ''application/json'', hr_Authorization = ''Token '' @ cl_token c,
      hr_Body = body\<rparr>"

text \<open>The result of a request that starts at \<open>now\<close>, and the time it took.\<close>

definition doRequest :: "Client \<Rightarrow> string \<Rightarrow> Json \<Rightarrow> time \<Rightarrow> (HttpError + Json option) \<times> nat" where
  "doRequest c endpoint body now =
     (if \<not> cl_validUrl c (cl_url c @ endpoint) then (Inl CreatingRequest, 0)
      else let resp = cl_Do c now (clientRequest c endpoint body);
               headers = ex_HeadersTook resp; all = headers + ex_BodyTook resp
           in if headers > seconds 5 then (Inl (SendingRequest deadlineText), seconds 5)
              else case ex_Status resp of
                     Inl err \<Rightarrow> (Inl (SendingRequest err), headers)
                   | Inr code \<Rightarrow>
                      if code \<noteq> 200 then (Inl (NonOKStatus code), headers)
                      else if all > seconds 5 then (Inl (ReadingBody deadlineText), seconds 5)
                      else case ex_Body resp of
                             Inl err \<Rightarrow> (Inl (ReadingBody err), all)
                           | Inr b \<Rightarrow> (Inr b, all))"

text \<open>
  The goroutine of \<^verbatim>\<open>POST\<close>: the moments of its requests, the moment of the callback and its arguments. After a failed
  attempt it sleeps, also after the last one.
\<close>

function attempts :: "Client \<Rightarrow> string \<Rightarrow> Json \<Rightarrow> nat \<Rightarrow> HttpError \<Rightarrow> time \<Rightarrow> time list \<times> time \<times> (HttpError + Json option)" where
  "attempts c endpoint body attempt err now =
     (if attempt < 3 then
        (case doRequest c endpoint body now of
           (Inr resp, took) \<Rightarrow> ([now], now + int took, Inr resp)
         | (Inl err, took) \<Rightarrow>
             (let (sent, end, r) = attempts c endpoint body (attempt + 1) err (now + int took + int (seconds ((attempt + 1) * 10)))
              in (now # sent, end, r)))
      else ([], now, Inl err))"
  by pat_completeness auto
termination
  by (relation "measure (\<lambda>(c, endpoint, body, attempt, err, now). 3 - attempt)") auto

declare attempts.simps [simp del]

text \<open>\<^verbatim>\<open>POST\<close>: no request and no callback when the data cannot be marshalled.\<close>

definition POST :: "Client \<Rightarrow> string \<Rightarrow> Json option \<Rightarrow> time \<Rightarrow> (time list \<times> time \<times> (HttpError + Json option)) option" where
  "POST c endpoint data now = (case data of None \<Rightarrow> None | Some body \<Rightarrow> Some (attempts c endpoint body 0 CreatingRequest now))"

section \<open>Authorization\<close>

definition authorizeEndpoint :: string where "authorizeEndpoint = ''/authorize''"

definition authorizeRequest :: "string \<Rightarrow> string \<Rightarrow> string \<Rightarrow> Json" where
  "authorizeRequest locationId evseId idTag =
     JObj [(''location_id'', JStr locationId), (''evse_id'', JStr evseId), (''id_tag'', JStr idTag)]"

record AuthData =
  ad_Status :: string
  ad_Info :: string

definition decAuthData :: "Json \<Rightarrow> AuthData option" where
  "decAuthData = decObj (\<lambda>ms. do {
     x0 \<leftarrow> decStr (member ''status'' ms);
     x1 \<leftarrow> decStr (member ''info'' ms);
     Some \<lparr>ad_Status = x0, ad_Info = x1\<rparr>
   })"

record AuthResponse =
  ap_Data :: "AuthData option"
  ap_StatusCode :: int
  ap_StatusMessage :: string
  ap_Timestamp :: string

definition decAuthResponse :: "Json \<Rightarrow> AuthResponse option" where
  "decAuthResponse = decObj (\<lambda>ms. do {
     x0 \<leftarrow> decPtr decAuthData (member ''data'' ms);
     x1 \<leftarrow> decInt (member ''status_code'' ms);
     x2 \<leftarrow> decStr (member ''status_message'' ms);
     x3 \<leftarrow> decStr (member ''timestamp'' ms);
     Some \<lparr>ap_Data = x0, ap_StatusCode = x1, ap_StatusMessage = x2, ap_Timestamp = x3\<rparr>
   })"

definition ParseResponse :: "Json option \<Rightarrow> AuthData option" where
  "ParseResponse body =
     (case Option.bind body decAuthResponse of
        None \<Rightarrow> None
      | Some res \<Rightarrow> if ap_StatusCode res \<noteq> 1000 then None else ap_Data res)"

record AuthVerdict =
  av_Allowed :: bool
  av_Expired :: bool
  av_Blocked :: bool
  av_Info :: string

definition NewFromResponse :: "AuthData option \<Rightarrow> AuthVerdict" where
  "NewFromResponse response =
     (case response of
        None \<Rightarrow> \<lparr>av_Allowed = False, av_Expired = False, av_Blocked = False, av_Info = []\<rparr>
      | Some data \<Rightarrow>
          \<lparr>av_Allowed = (ad_Status data = ''ALLOWED''), av_Expired = (ad_Status data = ''EXPIRED''),
           av_Blocked = (ad_Status data = ''BLOCKED''), av_Info = ad_Info data\<rparr>)"

text \<open>
  The select of \<^verbatim>\<open>Authorize\<close> between the callback and the timer: its result and the moment it returns. When both are
  ready at once Go takes either; \<open>tie\<close> is the choice of the callback.
\<close>

definition authorizeSelect :: "bool \<Rightarrow> time \<Rightarrow> time \<times> (HttpError + Json option) \<Rightarrow> AuthVerdict option \<times> time" where
  "authorizeSelect tie start callback =
     (let (done, r) = callback; limit = start + int (seconds 15)
      in if done < limit \<or> done = limit \<and> tie then
           ((case r of Inr body \<Rightarrow> Some (NewFromResponse (ParseResponse body)) | Inl _ \<Rightarrow> None), done)
         else (None, limit))"

definition Authorize_Authorize :: "Client \<Rightarrow> bool \<Rightarrow> time \<Rightarrow> string \<Rightarrow> string \<Rightarrow> string \<Rightarrow> AuthVerdict option \<times> time" where
  "Authorize_Authorize c tie now locationId evseId idTag =
     (case POST c authorizeEndpoint (Some (authorizeRequest locationId evseId idTag)) now of
        None \<Rightarrow> (None, now + int (seconds 15))
      | Some (_, callback) \<Rightarrow> authorizeSelect tie now callback)"

section \<open>Service\<close>

definition OCPI_Authorize :: "Client \<Rightarrow> bool \<Rightarrow> time \<Rightarrow> string \<Rightarrow> string \<Rightarrow> string \<Rightarrow> authResult" where
  "OCPI_Authorize c tie now locationId evseId idTag =
     (case fst (Authorize_Authorize c tie now locationId evseId idTag) of
        None \<Rightarrow> \<lparr>ar_allowed = False, ar_expired = False, ar_blocked = False, ar_info = []\<rparr>
      | Some res \<Rightarrow> \<lparr>ar_allowed = av_Allowed res, ar_expired = av_Expired res, ar_blocked = av_Blocked res, ar_info = av_Info res\<rparr>)"

text \<open>The listener; \<open>enc\<close> is the marshalled event. The result of a post is dropped by the empty callback.\<close>

definition startEndpoint :: string where "startEndpoint = ''/transactions/start''"
definition stopEndpoint :: string where "stopEndpoint = ''/transactions/stop''"
definition statusEndpoint :: string where "statusEndpoint = ''/status''"

fun ocpiEndpoint :: "Event \<Rightarrow> EventMessage \<Rightarrow> string option" where
  "ocpiEndpoint StatusNotification event = (if ev_LocationId event \<noteq> [] \<and> ev_Evse event \<noteq> [] then Some statusEndpoint else None)"
| "ocpiEndpoint TransactionStart event = Some startEndpoint"
| "ocpiEndpoint TransactionStop event = Some stopEndpoint"
| "ocpiEndpoint Authorize event = None"
| "ocpiEndpoint TransactionEvent event = None"
| "ocpiEndpoint Alert event = None"
| "ocpiEndpoint Information event = None"

definition ocpiNotify :: "Client \<Rightarrow> (EventMessage \<Rightarrow> Json option) \<Rightarrow> time \<Rightarrow> Event \<Rightarrow> EventMessage \<Rightarrow> time list" where
  "ocpiNotify c enc now kind event =
     (case ocpiEndpoint kind event of
        None \<Rightarrow> []
      | Some endpoint \<Rightarrow> (case POST c endpoint (enc event) now of None \<Rightarrow> [] | Some (sent, _) \<Rightarrow> sent))"

section \<open>Lemmas\<close>

lemma doRequest_took: "snd (doRequest c endpoint body now) \<le> seconds 5"
  by (auto simp: doRequest_def Let_def split: sum.split)

text \<open>What a request that succeeds has seen: status 200 and the body, within the timeout.\<close>

lemma doRequest_success:
  assumes "doRequest c endpoint body now = (Inr resp, took)"
  shows "ex_Status (cl_Do c now (clientRequest c endpoint body)) = Inr 200"
    and "ex_Body (cl_Do c now (clientRequest c endpoint body)) = Inr resp"
    and "took = ex_HeadersTook (cl_Do c now (clientRequest c endpoint body)) + ex_BodyTook (cl_Do c now (clientRequest c endpoint body))"
  using assms by (auto simp: doRequest_def Let_def split: if_splits sum.splits)

lemma attempts_end: "attempts c endpoint body 3 err now = ([], now, Inl err)"
  by (simp add: attempts.simps)

lemma attempts_success:
  "attempt < 3 \<Longrightarrow> doRequest c endpoint body now = (Inr resp, took) \<Longrightarrow> attempts c endpoint body attempt err now = ([now], now + int took, Inr resp)"
  by (subst attempts.simps) simp

lemma attempts_retry:
  "attempt < 3 \<Longrightarrow> doRequest c endpoint body now = (Inl e, took) \<Longrightarrow>
    attempts c endpoint body attempt err now =
      (now # fst (attempts c endpoint body (attempt + 1) e (now + int took + int (seconds ((attempt + 1) * 10)))),
       snd (attempts c endpoint body (attempt + 1) e (now + int took + int (seconds ((attempt + 1) * 10)))))"
  by (subst attempts.simps) (simp add: split_def Let_def)

text \<open>A callback never comes before the attempt it belongs to starts.\<close>

lemma attempts_after: "now \<le> fst (snd (attempts c endpoint body attempt err now))"
proof (induction c endpoint body attempt err now rule: attempts.induct)
  case (1 c endpoint body attempt err now)
  show ?case
  proof (cases "attempt < 3")
    case True
    obtain r took where d: "doRequest c endpoint body now = (r, took)" by fastforce
    show ?thesis
    proof (cases r)
      case (Inl e)
      with 1 True d have "now + int took + int (seconds ((attempt + 1) * 10))
          \<le> fst (snd (attempts c endpoint body (attempt + 1) e (now + int took + int (seconds ((attempt + 1) * 10)))))" by simp
      with True d Inl show ?thesis by (simp add: attempts_retry)
    qed (use True d in \<open>simp add: attempts_success\<close>)
  qed (simp add: attempts.simps)
qed

end
