(* ===== verification/OcpiProps.thy ===== *)
theory OcpiProps
  imports Ocpi HandlerProps
begin

text \<open>
  Properties of the roaming client: which of its attempts can decide an authorization, how long it waits, how often it
  asks, and, together with the authorization handler, when a tag is accepted on the word of the service.
\<close>

section \<open>Which attempts count\<close>

text \<open>The decision from an answer, and the authorization as two attempts with a common limit.\<close>

definition readVerdict :: "Json option \<Rightarrow> AuthVerdict" where
  "readVerdict body = NewFromResponse (ParseResponse body)"

definition secondStart :: "time \<Rightarrow> nat \<Rightarrow> time" where
  "secondStart now took = now + int took + int (seconds 10)"

definition twoAttempts :: "Client \<Rightarrow> bool \<Rightarrow> time \<Rightarrow> Json \<Rightarrow> AuthVerdict option" where
  "twoAttempts c tie now body =
     (case doRequest c authorizeEndpoint body now of
        (Inr resp, _) \<Rightarrow> Some (readVerdict resp)
      | (Inl _, t1) \<Rightarrow>
         (case doRequest c authorizeEndpoint body (secondStart now t1) of
            (Inr resp, t2) \<Rightarrow> if t1 + t2 < seconds 5 \<or> t1 + t2 = seconds 5 \<and> tie then Some (readVerdict resp) else None
          | (Inl _, _) \<Rightarrow> None))"

lemma authorize_select_two:
  "fst (Authorize_Authorize c tie now locationId evseId idTag) = twoAttempts c tie now (authorizeRequest locationId evseId idTag)"
proof -
  let ?b = "authorizeRequest locationId evseId idTag" and ?e = authorizeEndpoint
  let ?run = "attempts c ?e ?b 0 CreatingRequest now"
  have run: "Authorize_Authorize c tie now locationId evseId idTag = authorizeSelect tie now (snd ?run)"
    by (simp add: Authorize_Authorize_def POST_def split_def)
  obtain r1 t1 where d1: "doRequest c ?e ?b now = (r1, t1)" by fastforce
  have t1: "t1 \<le> seconds 5" using doRequest_took [of c ?e ?b now] d1 by simp
  show ?thesis
  proof (cases r1)
    case (Inr resp)
    then have "snd ?run = (now + int t1, Inr resp)" using d1 by (simp add: attempts_success)
    then show ?thesis
      using run d1 Inr t1 by (simp add: authorizeSelect_def twoAttempts_def readVerdict_def Let_def seconds_def)
  next
    case (Inl e1)
    define now2 where "now2 = secondStart now t1"
    have run2: "snd ?run = snd (attempts c ?e ?b 1 e1 now2)"
      using d1 Inl by (simp add: attempts_retry now2_def secondStart_def)
    obtain r2 t2 where d2: "doRequest c ?e ?b now2 = (r2, t2)" by fastforce
    show ?thesis
    proof (cases r2)
      case (Inr resp)
      then have "snd ?run = (now2 + int t2, Inr resp)" using d2 run2 by (simp add: attempts_success)
      then show ?thesis
        using run d1 d2 Inl Inr
        by (auto simp: authorizeSelect_def twoAttempts_def readVerdict_def Let_def seconds_def now2_def secondStart_def)
    next
      case (Inl e2)
      define now3 where "now3 = now2 + int t2 + int (seconds 20)"
      have "snd ?run = snd (attempts c ?e ?b 2 e2 now3)"
        using d2 run2 Inl by (simp add: attempts_retry now3_def numeral_2_eq_2)
      moreover have "now3 \<le> fst (snd (attempts c ?e ?b 2 e2 now3))" by (rule attempts_after)
      moreover have "now + int (seconds 15) < now3" by (simp add: now3_def now2_def secondStart_def seconds_def)
      ultimately have "fst (authorizeSelect tie now (snd ?run)) = None"
        by (auto simp: authorizeSelect_def Let_def split_def)
      then show ?thesis using run d1 d2 \<open>r1 = Inl e1\<close> Inl by (simp add: twoAttempts_def now2_def)
    qed
  qed
qed

text \<open>
  Of the three attempts of an authorization only the first two can decide it, the second only if the two together
  took no more than five seconds: the third is sent after the fifteen seconds the caller waits.
\<close>

theorem authorize_two_attempts:
  "fst (Authorize_Authorize c tie now locationId evseId idTag) = twoAttempts c tie now (authorizeRequest locationId evseId idTag)"
  by (rule authorize_select_two)

section \<open>Bounds\<close>

definition waits :: "nat \<Rightarrow> int" where
  "waits attempt = (\<Sum>i\<leftarrow>[attempt..<3]. int (seconds 5) + int (seconds ((i + 1) * 10)))"

lemma waits_step: "attempt < 3 \<Longrightarrow> waits attempt = int (seconds 5) + int (seconds ((attempt + 1) * 10)) + waits (attempt + 1)"
  by (simp add: waits_def upt_conv_Cons)

lemma waits_nonneg: "0 \<le> waits attempt"
  unfolding waits_def by (rule sum_list_nonneg) auto

lemma waits_all: "waits 0 = int (seconds 75)"
proof -
  have "waits 3 = 0" by (simp add: waits_def)
  moreover have "waits 2 = int (seconds 35) + waits 3" "waits 1 = int (seconds 25) + waits 2" "waits 0 = int (seconds 15) + waits 1"
    using waits_step [of 2] waits_step [of 1] waits_step [of 0] by (simp_all add: seconds_def numeral_2_eq_2 numeral_3_eq_3)
  ultimately show ?thesis by (simp add: seconds_def)
qed

lemma attempts_bounded:
  "length (fst (attempts c endpoint body attempt err now)) \<le> 3 - attempt
    \<and> fst (snd (attempts c endpoint body attempt err now)) \<le> now + waits attempt
    \<and> sorted_wrt (\<lambda>t u. t + int (seconds 10) \<le> u) (fst (attempts c endpoint body attempt err now))
    \<and> list_all (\<lambda>t. now \<le> t) (fst (attempts c endpoint body attempt err now))"
proof (induction c endpoint body attempt err now rule: attempts.induct)
  case (1 c endpoint body attempt err now)
  show ?case
  proof (cases "attempt < 3")
    case True
    obtain r took where d: "doRequest c endpoint body now = (r, took)" by fastforce
    have took: "took \<le> seconds 5" using doRequest_took [of c endpoint body now] d by simp
    have sum: "waits attempt = int (seconds 5) + int (seconds ((attempt + 1) * 10)) + waits (attempt + 1)"
      using True by (rule waits_step)
    show ?thesis
    proof (cases r)
      case (Inr resp)
      have "int took \<le> waits attempt" using took waits_nonneg [of "attempt + 1"] sum by simp
      with True d Inr show ?thesis by (simp add: attempts_success)
    next
      case (Inl e)
      let ?n = "now + int took + int (seconds ((attempt + 1) * 10))"
      let ?a = "attempts c endpoint body (attempt + 1) e ?n"
      have ih: "length (fst ?a) \<le> 3 - (attempt + 1)"
        "fst (snd ?a) \<le> ?n + waits (attempt + 1)"
        "sorted_wrt (\<lambda>t u. t + int (seconds 10) \<le> u) (fst ?a)" "list_all (\<lambda>t. ?n \<le> t) (fst ?a)"
        using 1 True d Inl by simp_all
      have run: "fst (attempts c endpoint body attempt err now) = now # fst ?a"
        "snd (attempts c endpoint body attempt err now) = snd ?a" using True d Inl by (simp_all add: attempts_retry)
      have "\<forall>t \<in> set (fst ?a). now + int (seconds 10) \<le> t"
        using ih(4) by (auto simp: list_all_iff seconds_def)
      moreover have "\<forall>t \<in> set (fst ?a). now \<le> t" using calculation by (auto simp: seconds_def)
      ultimately show ?thesis
        using ih(1-3) took True unfolding run sum by (auto simp: list_all_iff)
    qed
  qed (simp add: attempts.simps waits_nonneg)
qed

text \<open>
  An authorization returns within fifteen seconds, and a post sends at most three requests, at least ten seconds
  apart, and calls back within seventy-five seconds.
\<close>

theorem ocpi_time_bounds:
  "snd (Authorize_Authorize c tie now locationId evseId idTag) \<le> now + int (seconds 15)
    \<and> (\<exists>sent ready r. POST c endpoint (Some body) now = Some (sent, ready, r) \<and> length sent \<le> 3
        \<and> sorted_wrt (\<lambda>t u. t + int (seconds 10) \<le> u) sent \<and> ready \<le> now + int (seconds 75))"
proof -
  have "snd (authorizeSelect tie now callback) \<le> now + int (seconds 15)" for callback
    by (simp add: authorizeSelect_def Let_def split_def)
  then have "snd (Authorize_Authorize c tie now locationId evseId idTag) \<le> now + int (seconds 15)"
    by (simp add: Authorize_Authorize_def split: option.split)
  moreover obtain sent ready r where run: "attempts c endpoint body 0 CreatingRequest now = (sent, ready, r)"
    by (cases "attempts c endpoint body 0 CreatingRequest now") auto
  ultimately show ?thesis
    using attempts_bounded [of c endpoint body 0 CreatingRequest now] by (simp add: POST_def waits_all)
qed

section \<open>Accepted by the service\<close>

text \<open>An exchange that allows the tag.\<close>

definition allows :: "Exchange \<Rightarrow> bool" where
  "allows ex \<longleftrightarrow> ex_Status ex = Inr 200
     \<and> (case ex_Body ex of
          Inr (Some j) \<Rightarrow> (case decAuthResponse j of
             Some res \<Rightarrow> ap_StatusCode res = 1000 \<and> (case ap_Data res of Some data \<Rightarrow> ad_Status data = ''ALLOWED'' | None \<Rightarrow> False)
           | None \<Rightarrow> False)
        | _ \<Rightarrow> False)"

lemma allowed_verdict:
  "av_Allowed (readVerdict body) \<longleftrightarrow> (case body of Some j \<Rightarrow> (case decAuthResponse j of
     Some res \<Rightarrow> ap_StatusCode res = 1000 \<and> (case ap_Data res of Some data \<Rightarrow> ad_Status data = ''ALLOWED'' | None \<Rightarrow> False)
   | None \<Rightarrow> False) | None \<Rightarrow> False)"
  by (auto simp: readVerdict_def NewFromResponse_def ParseResponse_def split: option.split bind_split)

lemma allowed_exchange:
  assumes "doRequest c endpoint body now = (Inr resp, took)" "av_Allowed (readVerdict resp)"
  shows "allows (cl_Do c now (clientRequest c endpoint body))"
proof -
  obtain j where "resp = Some j" using assms(2) by (auto simp: allowed_verdict split: option.splits)
  then show ?thesis
    using assms(2) doRequest_success(1,2) [OF assms(1)] by (auto simp: allows_def allowed_verdict split: option.splits)
qed

lemma ocpi_allowed:
  assumes "ar_allowed (OCPI_Authorize c tie now locationId evseId idTag)"
  shows "\<exists>t. now \<le> t \<and> t \<le> now + int (seconds 15)
    \<and> allows (cl_Do c t (clientRequest c authorizeEndpoint (authorizeRequest locationId evseId idTag)))"
proof -
  let ?b = "authorizeRequest locationId evseId idTag" and ?e = authorizeEndpoint
  obtain v where v: "twoAttempts c tie now ?b = Some v" "av_Allowed v"
    using assms by (auto simp: OCPI_Authorize_def authorize_select_two split: option.splits)
  obtain r1 t1 where d1: "doRequest c ?e ?b now = (r1, t1)" by fastforce
  have t1: "t1 \<le> seconds 5" using doRequest_took [of c ?e ?b now] d1 by simp
  show ?thesis
  proof (cases r1)
    case (Inr resp)
    then have "allows (cl_Do c now (clientRequest c ?e ?b))"
      using v d1 by (intro allowed_exchange) (auto simp: twoAttempts_def)
    then show ?thesis by (intro exI [of _ now]) (simp add: seconds_def)
  next
    case (Inl e)
    obtain r2 t2 where d2: "doRequest c ?e ?b (secondStart now t1) = (r2, t2)" by fastforce
    obtain resp where "r2 = Inr resp" "v = readVerdict resp"
      using v(1) d1 d2 Inl by (auto simp: twoAttempts_def split: sum.splits if_splits)
    then have "allows (cl_Do c (secondStart now t1) (clientRequest c ?e ?b))"
      using v(2) d2 by (intro allowed_exchange) auto
    moreover have "now \<le> secondStart now t1 \<and> secondStart now t1 \<le> now + int (seconds 15)"
      using t1 by (simp add: secondStart_def seconds_def)
    ultimately show ?thesis by blast
  qed
qed

lemma authorize_answer:
  assumes "map_of (chargePoints s) cp = Some st" "OnAuthorize env now cp idTag s = Some (answer, s')"
  shows "answer = decision env (cps_model st) (fst (getUserTag env now idTag s))"
proof (cases "cp_IsEnabled (cps_model st)")
  case True
  obtain tag s1 where tag: "getUserTag env now idTag s = (tag, s1)" by fastforce
  show ?thesis
    using assms True tag
    by (auto simp: OnAuthorize_def authorizeIdTag_def decision_def authorize_def Let_def bind_eq_Some_conv split: option.splits if_splits)
qed (use assms in \<open>simp add: OnAuthorize_def authorizeIdTag_def decision_def\<close>)

lemma authorize_runs:
  assumes "map_of (chargePoints s) cp = Some st" "database env = Some D"
  shows "\<exists>r. OnAuthorize env now cp idTag s = Some r"
  using assms by (auto simp: OnAuthorize_def authorizeIdTag_def Let_def split: option.split prod.split)

text \<open>A service that is busy at first and allows the tag at the second attempt.\<close>

definition busyThenAllowed :: Client where
  "busyThenAllowed = \<lparr>cl_url = ''https://ocpi'', cl_token = ''key'', cl_validUrl = (\<lambda>_. True),
     cl_Do = (\<lambda>now req. if now = 0 then \<lparr>ex_HeadersTook = 5, ex_Status = Inr 503, ex_BodyTook = 0, ex_Body = Inr None\<rparr>
       else \<lparr>ex_HeadersTook = 5, ex_Status = Inr 200, ex_BodyTook = 2,
              ex_Body = Inr (Some (JObj [(''data'', JObj [(''status'', JStr ''ALLOWED'')]), (''status_code'', JNum 1000)]))\<rparr>)\<rparr>"

definition roamingEnv :: "Store env" where
  "roamingEnv = demoEnv\<lparr>acceptTags := False, auth := Some (OCPI_Authorize busyThenAllowed False 0)\<rparr>"



end
