(* ===== verification/Listeners.thy ===== *)
theory Listeners
  imports TelegramProps OcpiProps
begin

text \<open>
  The event listeners together: \<^verbatim>\<open>notifyEventListeners\<close> of \<^verbatim>\<open>src/server/system_handler.go\<close> with the bot and the roaming
  client that \<^verbatim>\<open>NewCentralSystem\<close> adds. A notification runs in a goroutine of its own that calls one listener after the
  other; the call of the bot ends only when its channel takes the message. The effects \<open>Notified\<close> of the handlers are the
  notifications that are started.
\<close>

section \<open>Notifications\<close>

datatype listener = Bot | Roaming

record notification =
  nf_kind :: Event
  nf_event :: EventMessage
  nf_left :: "listener list"

record 'db notifier =
  nt_listeners :: "listener list"
  nt_bot :: "'db TgBot"
  nt_running :: "notification list"
  nt_posts :: "(string \<times> EventMessage) list"

text \<open>The order in which \<^verbatim>\<open>NewCentralSystem\<close> adds the listeners.\<close>

definition addListeners :: "bool \<Rightarrow> bool \<Rightarrow> listener list" where
  "addListeners telegramEnabled ocpiEnabled = (if telegramEnabled then [Bot] else []) @ (if ocpiEnabled then [Roaming] else [])"

definition startNotification :: "Event \<Rightarrow> EventMessage \<Rightarrow> 'db notifier \<Rightarrow> 'db notifier" where
  "startNotification kind event n =
     n\<lparr>nt_running := nt_running n @ [\<lparr>nf_kind = kind, nf_event = event, nf_left = nt_listeners n\<rparr>]\<rparr>"

definition roamingPosts :: "Event \<Rightarrow> EventMessage \<Rightarrow> (string \<times> EventMessage) list" where
  "roamingPosts kind event = (case ocpiEndpoint kind event of None \<Rightarrow> [] | Some endpoint \<Rightarrow> [(endpoint, event)])"

text \<open>The next call of a notification; \<open>None\<close> while the channel of the bot is full.\<close>

definition callListener :: "notification \<Rightarrow> listener \<Rightarrow> 'db notifier \<Rightarrow> 'db notifier option" where
  "callListener f l n =
     (case l of
        Bot \<Rightarrow>
          (case eventText (nf_kind f) (nf_event f) of
             None \<Rightarrow> Some n
           | Some text \<Rightarrow>
              if length (tg_event (nt_bot n)) < channelSize then
                Some (n\<lparr>nt_bot := (nt_bot n)\<lparr>tg_event := tg_event (nt_bot n) @ [\<lparr>mc_ChatID = 0, mc_Text = text\<rparr>]\<rparr>\<rparr>)
              else None)
      | Roaming \<Rightarrow> Some (n\<lparr>nt_posts := nt_posts n @ roamingPosts (nf_kind f) (nf_event f)\<rparr>))"

definition advance :: "nat \<Rightarrow> 'db notifier \<Rightarrow> 'db notifier option" where
  "advance i n =
     (case nf_left (nt_running n ! i) of
        [] \<Rightarrow> Some (n\<lparr>nt_running := take i (nt_running n) @ drop (Suc i) (nt_running n)\<rparr>)
      | l # ls \<Rightarrow>
          map_option (\<lambda>n. n\<lparr>nt_running := (nt_running n)[i := (nt_running n ! i)\<lparr>nf_left := ls\<rparr>]\<rparr>) (callListener (nt_running n ! i) l n))"

inductive notifier_step :: "api \<Rightarrow> 'db notifier \<Rightarrow> 'db notifier \<Rightarrow> bool" for api where
  start: "notifier_step api n (startNotification kind event n)"
| goOn: "i < length (nt_running n) \<Longrightarrow> advance i n = Some n' \<Longrightarrow> notifier_step api n n'"
| pump: "tg_eventPump (nt_bot n) \<Longrightarrow> notifier_step api n (n\<lparr>nt_bot := eventTurn api (nt_bot n)\<rparr>)"
| botStop: "bot_Stop (nt_bot n) = Some b \<Longrightarrow> notifier_step api n (n\<lparr>nt_bot := b\<rparr>)"
| botEnd: "tg_stop (nt_bot n) \<Longrightarrow> notifier_step api n (n\<lparr>nt_bot := (nt_bot n)\<lparr>tg_eventPump := False\<rparr>\<rparr>)"

text \<open>The notifications that a run of the handlers starts.\<close>

definition notifications :: "Effect list \<Rightarrow> (Event \<times> EventMessage) list" where
  "notifications es = List.map_filter (\<lambda>e. case e of Notified kind event \<Rightarrow> Some (kind, event) | _ \<Rightarrow> None) es"

definition startAll :: "Effect list \<Rightarrow> 'db notifier \<Rightarrow> 'db notifier" where
  "startAll es = fold (\<lambda>(kind, event). startNotification kind event) (notifications es)"

section \<open>Every listener is called while the pump runs\<close>

definition pumped :: "'db notifier \<Rightarrow> bool" where
  "pumped n \<longleftrightarrow> tg_eventPump (nt_bot n) \<and> length (tg_event (nt_bot n)) \<le> channelSize"

text \<open>A turn of the pump makes room in a full channel.\<close>

lemma pump_makes_room:
  assumes "pumped n"
  shows "\<exists>n1. (notifier_step api)\<^sup>*\<^sup>* n n1 \<and> pumped n1 \<and> length (tg_event (nt_bot n1)) < channelSize
    \<and> nt_running n1 = nt_running n \<and> nt_posts n1 = nt_posts n"
proof (cases "tg_event (nt_bot n)")
  case Nil
  with assms show ?thesis by (intro exI [of _ n]) (simp add: channelSize_def)
next
  case (Cons e rest)
  then obtain calls where turn: "eventTurn api (nt_bot n) = (nt_bot n)\<lparr>tg_event := rest, tg_sent := tg_sent (nt_bot n) @ calls\<rparr>"
    using eventTurn_log by blast
  let ?n1 = "n\<lparr>nt_bot := eventTurn api (nt_bot n)\<rparr>"
  have "notifier_step api n ?n1" using assms by (intro notifier_step.pump) (simp add: pumped_def)
  moreover have "pumped ?n1 \<and> length (tg_event (nt_bot ?n1)) < channelSize" using assms Cons by (simp add: pumped_def turn)
  ultimately show ?thesis by (intro exI [of _ ?n1]) (simp add: r_into_rtranclp)
qed

definition postsOf :: "notification \<Rightarrow> listener list \<Rightarrow> (string \<times> EventMessage) list" where
  "postsOf f ls = concat (map (\<lambda>l. if l = Roaming then roamingPosts (nf_kind f) (nf_event f) else []) ls)"

lemma postsOf_left [simp]: "postsOf (f\<lparr>nf_left := xs\<rparr>) ls = postsOf f ls"
  by (simp add: postsOf_def cong: if_cong)

lemma postsOf_Cons: "postsOf f (l # ls) = postsOf f [l] @ postsOf f ls"
  by (simp add: postsOf_def)

lemma callListener_room:
  assumes "pumped n" "length (tg_event (nt_bot n)) < channelSize"
  shows "\<exists>n2. callListener f l n = Some n2 \<and> pumped n2 \<and> nt_running n2 = nt_running n \<and> nt_posts n2 = nt_posts n @ postsOf f [l]"
  using assms by (cases l) (auto simp: callListener_def pumped_def postsOf_def split: option.split)

text \<open>The first notification ends after all its calls.\<close>

lemma first_ends:
  assumes "pumped n" "nt_running n = f # fs"
  shows "\<exists>n'. (notifier_step api)\<^sup>*\<^sup>* n n' \<and> pumped n' \<and> nt_running n' = fs \<and> nt_posts n' = nt_posts n @ postsOf f (nf_left f)"
  using assms
proof (induction "nf_left f" arbitrary: f n)
  case Nil
  let ?n = "n\<lparr>nt_running := fs\<rparr>"
  have "advance 0 n = Some ?n" using Nil by (simp add: advance_def)
  then have "notifier_step api n ?n" using Nil by (intro notifier_step.goOn) auto
  with Nil show ?case by (intro exI [of _ ?n]) (auto simp: pumped_def postsOf_def)
next
  case (Cons l ls)
  obtain n1 where n1: "(notifier_step api)\<^sup>*\<^sup>* n n1" "pumped n1" "length (tg_event (nt_bot n1)) < channelSize"
      "nt_running n1 = nt_running n" "nt_posts n1 = nt_posts n" using pump_makes_room [OF Cons.prems(1)] by blast
  obtain n2 where n2: "callListener f l n1 = Some n2" "pumped n2" "nt_running n2 = nt_running n1" "nt_posts n2 = nt_posts n1 @ postsOf f [l]"
    using callListener_room [OF n1(2,3)] by blast
  let ?f = "f\<lparr>nf_left := ls\<rparr>" and ?n3 = "n2\<lparr>nt_running := f\<lparr>nf_left := ls\<rparr> # fs\<rparr>"
  have "advance 0 n1 = Some ?n3"
    using Cons.hyps(2) [symmetric] Cons.prems(2) n1(4) n2 by (simp add: advance_def)
  then have "notifier_step api n1 ?n3" using Cons.prems(2) n1(4) by (intro notifier_step.goOn) auto
  moreover have "pumped ?n3" using n2(2) by (simp add: pumped_def)
  then obtain n' where n': "(notifier_step api)\<^sup>*\<^sup>* ?n3 n'" "pumped n'" "nt_running n' = fs" "nt_posts n' = nt_posts ?n3 @ postsOf ?f (nf_left ?f)"
    using Cons.hyps(1) [of ?f ?n3] by auto
  ultimately have "(notifier_step api)\<^sup>*\<^sup>* n n'" using n1(1) by (meson rtranclp.rtrancl_into_rtrancl rtranclp_trans)
  moreover have "nt_posts n' = nt_posts n @ postsOf f (nf_left f)"
    using n'(4) n2(4) n1(5) Cons.hyps(2) [symmetric] postsOf_Cons [of f l ls] by simp
  ultimately show ?case using n'(2,3) by blast
qed

lemma all_end:
  assumes "pumped n"
  shows "\<exists>n'. (notifier_step api)\<^sup>*\<^sup>* n n' \<and> nt_running n' = [] \<and> nt_posts n' = nt_posts n @ concat (map (\<lambda>f. postsOf f (nf_left f)) (nt_running n))"
  using assms
proof (induction "nt_running n" arbitrary: n)
  case (Cons f fs)
  obtain n1 where n1: "(notifier_step api)\<^sup>*\<^sup>* n n1" "pumped n1" "nt_running n1 = fs" "nt_posts n1 = nt_posts n @ postsOf f (nf_left f)"
    using first_ends [OF Cons.prems Cons.hyps(2) [symmetric]] by blast
  obtain n' where "(notifier_step api)\<^sup>*\<^sup>* n1 n'" "nt_running n' = []"
      "nt_posts n' = nt_posts n1 @ concat (map (\<lambda>f. postsOf f (nf_left f)) (nt_running n1))"
    using Cons.hyps(1) [of n1] n1 by auto
  with n1 Cons.hyps(2) [symmetric] show ?case by (intro exI [of _ n']) (auto intro: rtranclp_trans)
qed auto

section \<open>A full channel without a pump\<close>

definition jammed :: "notification \<Rightarrow> 'db notifier \<Rightarrow> bool" where
  "jammed f n \<longleftrightarrow> \<not> tg_eventPump (nt_bot n) \<and> channelSize \<le> length (tg_event (nt_bot n)) \<and> f \<in> set (nt_running n)
     \<and> (\<exists>ls. nf_left f = Bot # ls) \<and> eventText (nf_kind f) (nf_event f) \<noteq> None"

lemma callListener_jammed:
  assumes "callListener g l n = Some n'"
  shows "nt_running n' = nt_running n" "tg_eventPump (nt_bot n') = tg_eventPump (nt_bot n)"
    "length (tg_event (nt_bot n)) \<le> length (tg_event (nt_bot n'))"
  using assms by (auto simp: callListener_def split: listener.splits option.splits if_splits)

lemma in_set_without:
  assumes "x \<in> set xs" "i < length xs" "xs ! i \<noteq> x"
  shows "x \<in> set (take i xs @ drop (Suc i) xs)" "x \<in> set (xs[i := y])"
proof -
  have "xs = take i xs @ xs ! i # drop (Suc i) xs" using assms(2) by (rule id_take_nth_drop)
  then show "x \<in> set (take i xs @ drop (Suc i) xs)" using assms(1,3) by (metis Un_iff set_ConsD set_append)
  then show "x \<in> set (xs[i := y])" using assms(2) by (simp add: upd_conv_take_nth_drop)
qed

lemma advance_jammed:
  assumes "jammed f n" "i < length (nt_running n)" "advance i n = Some n'"
  shows "jammed f n'"
proof -
  obtain ls where f: "nf_left f = Bot # ls" "eventText (nf_kind f) (nf_event f) \<noteq> None" using assms(1) by (auto simp: jammed_def)
  have "callListener f Bot n = None" using assms(1) f by (auto simp: jammed_def callListener_def)
  then have other: "nt_running n ! i \<noteq> f" using assms(3) f(1) by (auto simp: advance_def)
  have f_in: "f \<in> set (nt_running n)" using assms(1) by (simp add: jammed_def)
  show ?thesis
  proof (cases "nf_left (nt_running n ! i)")
    case Nil
    with assms in_set_without(1) [OF f_in assms(2) other] show ?thesis by (auto simp: jammed_def advance_def)
  next
    case (Cons l ls')
    then obtain n2 where n2: "callListener (nt_running n ! i) l n = Some n2"
        "n' = n2\<lparr>nt_running := (nt_running n2)[i := (nt_running n2 ! i)\<lparr>nf_left := ls'\<rparr>]\<rparr>"
      using assms(3) by (auto simp: advance_def)
    note keep = callListener_jammed [OF n2(1)]
    have "f \<in> set (nt_running n')" unfolding n2(2) using in_set_without(2) [OF f_in assms(2) other] keep(1) by simp
    moreover have "\<not> tg_eventPump (nt_bot n')" "channelSize \<le> length (tg_event (nt_bot n'))"
      using assms(1) keep(2,3) n2(2) by (simp_all add: jammed_def)
    ultimately show ?thesis using f by (simp add: jammed_def)
  qed
qed

lemma step_jammed: "notifier_step api n n' \<Longrightarrow> jammed f n \<Longrightarrow> jammed f n'"
proof (induction rule: notifier_step.induct)
  case (goOn i n n')
  then show ?case using advance_jammed by blast
qed (auto simp: jammed_def startNotification_def bot_Stop_def split: if_splits)

section \<open>Theorems\<close>

lemma running_startAll:
  "nt_running (startAll es n) = nt_running n @ map (\<lambda>(kind, event). \<lparr>nf_kind = kind, nf_event = event, nf_left = nt_listeners n\<rparr>) (notifications es)
    \<and> nt_posts (startAll es n) = nt_posts n \<and> nt_bot (startAll es n) = nt_bot n"
proof -
  have "nt_running (fold (\<lambda>(kind, event). startNotification kind event) ks n)
        = nt_running n @ map (\<lambda>(kind, event). \<lparr>nf_kind = kind, nf_event = event, nf_left = nt_listeners n\<rparr>) ks
      \<and> nt_posts (fold (\<lambda>(kind, event). startNotification kind event) ks n) = nt_posts n
      \<and> nt_bot (fold (\<lambda>(kind, event). startNotification kind event) ks n) = nt_bot n" for ks
    by (induction ks arbitrary: n) (auto simp: startNotification_def)
  then show ?thesis by (simp add: startAll_def)
qed

lemma postsOf_both: "postsOf f (addListeners t True) = roamingPosts (nf_kind f) (nf_event f)"
  by (simp add: addListeners_def postsOf_def)

text \<open>
  While the event pump of the bot runs, the notifications of any trace of effects of the handlers can all end: there is
  a continuation in which no notification is left and the roaming client has been called for every event, whatever is
  queued for the bot.
\<close>

theorem notifications_reach_listeners:
  assumes "tg_eventPump (nt_bot n)" "length (tg_event (nt_bot n)) \<le> 100" "nt_running n = []" "nt_listeners n = addListeners t True"
  shows "\<exists>n'. (notifier_step api)\<^sup>*\<^sup>* (startAll es n) n' \<and> nt_running n' = []
    \<and> nt_posts n' = nt_posts n @ concat (map (\<lambda>(kind, event). roamingPosts kind event) (notifications es))"
proof -
  have "pumped (startAll es n)" using assms(1,2) running_startAll [of es n] by (simp add: pumped_def channelSize_def)
  from all_end [OF this, of api] obtain n' where
    "(notifier_step api)\<^sup>*\<^sup>* (startAll es n) n'" "nt_running n' = []"
    "nt_posts n' = nt_posts n @ concat (map (\<lambda>f. postsOf f (nf_left f)) (nt_running (startAll es n)))"
    using running_startAll [of es n] by auto
  moreover have "map (\<lambda>f. postsOf f (nf_left f)) (nt_running (startAll es n)) = map (\<lambda>(kind, event). roamingPosts kind event) (notifications es)"
    using running_startAll [of es n] assms(3,4) by (auto simp: postsOf_both)
  ultimately show ?thesis by auto
qed

text \<open>
  C40. Once the pump has ended and the channel is full, a notification that starts with the bot never ends, in any run: the
  listeners after the bot are not called for its event.
\<close>

theorem jammed_notification_never_ends:
  assumes "(notifier_step api)\<^sup>*\<^sup>* n n'" "jammed f n"
  shows "f \<in> set (nt_running n')"
proof -
  from assms have "jammed f n'" by (induction rule: rtranclp_induct) (auto dest: step_jammed)
  then show ?thesis by (simp add: jammed_def)
qed

definition jamNotification :: notification where
  "jamNotification = \<lparr>nf_kind = TransactionStop, nf_event = zeroEvent, nf_left = addListeners True True\<rparr>"

definition jamDemo :: "unit notifier" where
  "jamDemo = \<lparr>nt_listeners = addListeners True True,
     nt_bot = (emptyBot ())\<lparr>tg_stop := True, tg_event := replicate 100 \<lparr>mc_ChatID = 0, mc_Text = ''queued''\<rparr>\<rparr>,
     nt_running = [jamNotification], nt_posts = []\<rparr>"

theorem jammed_notification_never_ends_witness:
  "jamNotification \<in> set (nt_running (startNotification Alert zeroEvent jamDemo))"
proof -
  have "jammed jamNotification jamDemo"
    by (simp add: jammed_def jamDemo_def jamNotification_def addListeners_def emptyBot_def channelSize_def)
  moreover have "(notifier_step (\<lambda>_ _. None))\<^sup>*\<^sup>* jamDemo (startNotification Alert zeroEvent jamDemo)"
    by (rule r_into_rtranclp) (rule notifier_step.start)
  ultimately show ?thesis by (rule jammed_notification_never_ends [rotated])
qed

theorem notifications_reach_listeners_witness:
  "\<exists>n'. (notifier_step (\<lambda>_ _. None))\<^sup>*\<^sup>*
       (startAll [Notified TransactionStart zeroEvent] (jamDemo\<lparr>nt_bot := (nt_bot jamDemo)\<lparr>tg_eventPump := True\<rparr>, nt_running := []\<rparr>)) n'
     \<and> nt_posts n' = [(startEndpoint, zeroEvent)]"
proof -
  let ?n = "jamDemo\<lparr>nt_bot := (nt_bot jamDemo)\<lparr>tg_eventPump := True\<rparr>, nt_running := []\<rparr>"
  have "tg_eventPump (nt_bot ?n)" "length (tg_event (nt_bot ?n)) \<le> 100" "nt_running ?n = []" "nt_listeners ?n = addListeners True True"
    by (simp_all add: jamDemo_def)
  from notifications_reach_listeners [OF this, of "\<lambda>_ _. None" "[Notified TransactionStart zeroEvent]"] show ?thesis
    by (auto simp: notifications_def roamingPosts_def map_filter_simps jamDemo_def)
qed

end
