(* ===== verification/Monitoring.thy ===== *)
theory Monitoring
  imports ServiceStore
begin

text \<open>
  The logger of \<^verbatim>\<open>src/internal/logger.go\<close> and the error listener of \<^verbatim>\<open>src/internal/errorlistener/error_listener.go\<close>. The
  calendar of a time in the configured zone is a parameter of the logger. A gauge is a Go map from its labels to the
  last value set. The writer's channel is a bounded list; a turn of the writer is one pass of its loop.
\<close>

section \<open>Logger\<close>

datatype Importance = ImpInfo | ImpWarning | ImpError | ImpRaw

fun importanceText :: "Importance \<Rightarrow> string" where
  "importanceText ImpInfo = '' ''"
| "importanceText ImpWarning = ''?''"
| "importanceText ImpError = ''!''"
| "importanceText ImpRaw = ''-''"

record LogEvent =
  le_Importance :: Importance
  le_Message :: FeatureLogMessage

record civil =
  cv_Year :: nat
  cv_Month :: nat
  cv_Day :: nat
  cv_Hour :: nat
  cv_Minute :: nat
  cv_Second :: nat

record 'db Logger =
  lg_database :: "(FeatureLogMessage \<Rightarrow> 'db \<Rightarrow> DbErr option \<times> 'db) option"
  lg_db :: 'db
  lg_location :: "time \<Rightarrow> civil"
  lg_debugMode :: bool
  lg_writer :: "LogEvent list"
  lg_printed :: "string list"

definition NewLogger :: "(time \<Rightarrow> civil) \<Rightarrow> 'db \<Rightarrow> 'db Logger" where
  "NewLogger loc d =
     \<lparr>lg_database = None, lg_db = d, lg_location = loc, lg_debugMode = False, lg_writer = [], lg_printed = []\<rparr>"

definition logger_SetDebugMode :: "bool \<Rightarrow> 'db Logger \<Rightarrow> 'db Logger" where
  "logger_SetDebugMode v l = l\<lparr>lg_debugMode := v\<rparr>"

definition logger_SetDatabase :: "(FeatureLogMessage \<Rightarrow> 'db \<Rightarrow> DbErr option \<times> 'db) \<Rightarrow> 'db Logger \<Rightarrow> 'db Logger" where
  "logger_SetDatabase W l = l\<lparr>lg_database := Some W\<rparr>"

text \<open>The verb \<^verbatim>\<open>%02d\<close> on a number that is not negative.\<close>

definition pad02 :: "nat \<Rightarrow> string" where
  "pad02 n = (if n < 10 then ''0'' else []) @ showNat n"

definition logTime :: "civil \<Rightarrow> string" where
  "logTime t =
     showNat (cv_Year t) @ ''-'' @ pad02 (cv_Month t) @ ''-'' @ pad02 (cv_Day t) @ '' ''
     @ pad02 (cv_Hour t) @ '':'' @ pad02 (cv_Minute t) @ '':'' @ pad02 (cv_Second t)"

definition newFeatureLogMessage :: "'db Logger \<Rightarrow> time \<Rightarrow> string \<Rightarrow> string \<Rightarrow> string \<Rightarrow> FeatureLogMessage" where
  "newFeatureLogMessage l now feature i text =
     \<lparr>lm_Time = logTime (lg_location l now), lm_TimeStamp = now, lm_Feature = feature, lm_ChargePointId = i, lm_Text = text,
      lm_Importance = []\<rparr>"

text \<open>\<open>None\<close>: the channel is full and the caller waits for the writer.\<close>

definition logEvent :: "Importance \<Rightarrow> FeatureLogMessage \<Rightarrow> 'db Logger \<Rightarrow> 'db Logger option" where
  "logEvent importance message l =
     (let message = (if lm_ChargePointId message = [] then message\<lparr>lm_ChargePointId := ''*''\<rparr> else message);
          message = message\<lparr>lm_Importance := importanceText importance\<rparr>
      in if length (lg_writer l) < 100 then
           Some (l\<lparr>lg_writer := lg_writer l @ [\<lparr>le_Importance = importance, le_Message = message\<rparr>]\<rparr>)
         else None)"

definition logger_FeatureEvent :: "time \<Rightarrow> string \<Rightarrow> string \<Rightarrow> string \<Rightarrow> 'db Logger \<Rightarrow> 'db Logger option" where
  "logger_FeatureEvent now feature i text l = logEvent ImpInfo (newFeatureLogMessage l now feature i text) l"

definition logger_Debug :: "time \<Rightarrow> string \<Rightarrow> 'db Logger \<Rightarrow> 'db Logger option" where
  "logger_Debug now text l = logEvent ImpInfo (newFeatureLogMessage l now ''info'' [] text) l"

definition logger_Warn :: "time \<Rightarrow> string \<Rightarrow> 'db Logger \<Rightarrow> 'db Logger option" where
  "logger_Warn now text l = logEvent ImpWarning (newFeatureLogMessage l now ''warning'' [] text) l"

definition logger_Error :: "time \<Rightarrow> string \<Rightarrow> string \<Rightarrow> 'db Logger \<Rightarrow> 'db Logger option" where
  "logger_Error now text err l = logEvent ImpError (newFeatureLogMessage l now ''error'' [] (text @ '': '' @ err)) l"

definition logger_RawDataEvent :: "time \<Rightarrow> string \<Rightarrow> string \<Rightarrow> 'db Logger \<Rightarrow> 'db Logger option" where
  "logger_RawDataEvent now direction data l =
     (if lg_debugMode l then logEvent ImpRaw (newFeatureLogMessage l now ''raw'' [] (direction @ '': '' @ data)) l else Some l)"

definition logLine :: "Importance \<Rightarrow> string \<Rightarrow> 'db Logger \<Rightarrow> 'db Logger" where
  "logLine importance text l =
     (if importance = ImpInfo \<and> lg_database l \<noteq> None then l
      else l\<lparr>lg_printed := lg_printed l @ [importanceText importance @ '' '' @ text]\<rparr>)"

definition writerTurn :: "'db Logger \<Rightarrow> 'db Logger" where
  "writerTurn l =
     (case lg_writer l of [] \<Rightarrow> l
      | event # rest \<Rightarrow>
          (let message = le_Message event;
               l = logLine (le_Importance event)
                     (''['' @ lm_ChargePointId message @ ''] '' @ lm_Feature message @ '': '' @ lm_Text message) (l\<lparr>lg_writer := rest\<rparr>)
           in case lg_database l of None \<Rightarrow> l
              | Some W \<Rightarrow>
                 (case W message (lg_db l) of
                    (None, d) \<Rightarrow> l\<lparr>lg_db := d\<rparr>
                  | (Some err, d) \<Rightarrow>
                      logLine ImpError (''write log to database failed: '' @ errText err @ [CHR 0x0A]) (l\<lparr>lg_db := d\<rparr>))))"

section \<open>Error listener\<close>

text \<open>The gauge of the errors of the day, by location, error code and charge point.\<close>

type_synonym errorGauge = "(string \<times> string \<times> string, int) gomap"

definition ErrorsToday :: "string \<Rightarrow> string \<Rightarrow> string \<Rightarrow> int \<Rightarrow> errorGauge \<Rightarrow> errorGauge" where
  "ErrorsToday location chargePointId code count g =
     (if length location = 0 \<or> length code = 0 \<or> length chargePointId = 0 then g
      else mput (location, code, chargePointId) count g)"

record 'db ErrorDb =
  edb_WriteError :: "ErrorData \<Rightarrow> 'db \<Rightarrow> DbErr option \<times> 'db"
  edb_GetTodayErrorCount :: "time \<Rightarrow> 'db \<Rightarrow> ErrorCount slice_err"

definition mongoErrorDb :: "'db Services \<Rightarrow> 'db ErrorDb" where
  "mongoErrorDb S = \<lparr>edb_WriteError = mongo_WriteError S, edb_GetTodayErrorCount = mongo_GetTodayErrorCount S\<rparr>"

text \<open>The listener's database, the gauge, the observations that are running and the errors it logged.\<close>

record 'db ErrorListener =
  el_db :: 'db
  el_gauge :: errorGauge
  el_observing :: nat
  el_logged :: "(string \<times> DbErr) list"

definition updateCounter :: "'db ErrorListener \<Rightarrow> 'db ErrorListener" where
  "updateCounter e = e\<lparr>el_observing := el_observing e + 1\<rparr>"

definition NewErrorListener :: "'db \<Rightarrow> errorGauge \<Rightarrow> 'db ErrorListener" where
  "NewErrorListener d g = updateCounter \<lparr>el_db = d, el_gauge = g, el_observing = 0, el_logged = []\<rparr>"

definition listener_OnError :: "'db ErrorDb \<Rightarrow> ErrorData \<Rightarrow> 'db ErrorListener \<Rightarrow> 'db ErrorListener" where
  "listener_OnError D data e =
     (case edb_WriteError D data (el_db e) of
        (None, d) \<Rightarrow> updateCounter (e\<lparr>el_db := d\<rparr>)
      | (Some err, d) \<Rightarrow> updateCounter (e\<lparr>el_db := d, el_logged := el_logged e @ [(''writing error data to database'', err)]\<rparr>))"

definition setCount :: "ErrorCount \<Rightarrow> errorGauge \<Rightarrow> errorGauge" where
  "setCount c = ErrorsToday (ec_Location c) (ec_ChargePointID c) (ec_ErrorCode c) (ec_Count c)"

text \<open>One of the running observations.\<close>

definition observeErrors :: "'db ErrorDb \<Rightarrow> time \<Rightarrow> 'db ErrorListener \<Rightarrow> 'db ErrorListener" where
  "observeErrors D now e =
     (case edb_GetTodayErrorCount D now (el_db e) of
        (_, Some err) \<Rightarrow> e\<lparr>el_observing := el_observing e - 1, el_logged := el_logged e @ [(''getting today's error count'', err)]\<rparr>
      | (counter, None) \<Rightarrow> e\<lparr>el_observing := el_observing e - 1, el_gauge := fold setCount counter (el_gauge e)\<rparr>)"

section \<open>The log keeps its order\<close>

text \<open>What the writer does with one event when the database takes it.\<close>

lemma writerTurn_stored:
  assumes "lg_writer l = event # rest" "lg_database l = Some W" "W (le_Message event) (lg_db l) = (None, d)"
  shows "lg_writer (writerTurn l) = rest" "lg_db (writerTurn l) = d" "lg_database (writerTurn l) = Some W"
  using assms by (simp_all add: writerTurn_def logLine_def Let_def)

lemma log_queue_bounded: "length (lg_writer l) \<le> 100 \<Longrightarrow> logEvent importance message l = Some l' \<Longrightarrow> length (lg_writer l') \<le> 100"
  by (auto simp: logEvent_def Let_def split: if_splits)

text \<open>
  The turns of the writer store every queued message exactly once and in the order in which the messages were
  logged, while the database is reachable.
\<close>

theorem log_written_in_order:
  assumes "coll_writes up (logC S) content" "up (lg_db l)" "lg_database l = Some (mongo_WriteLogMessage S)"
  shows "content (lg_db ((writerTurn ^^ length (lg_writer l)) l)) = content (lg_db l) @ map le_Message (lg_writer l)
    \<and> lg_writer ((writerTurn ^^ length (lg_writer l)) l) = []"
  using assms
proof (induction "lg_writer l" arbitrary: l)
  case (Cons event rest)
  obtain d where d: "insertOne (logC S) (le_Message event) (lg_db l) = (None, d)" "up d" "content d = content (lg_db l) @ [le_Message event]"
    using Cons.prems(1,2) unfolding coll_writes_def by blast
  note turn = writerTurn_stored [OF Cons.hyps(2) [symmetric] Cons.prems(3), unfolded mongo_WriteLogMessage_def, OF d(1)]
  have "lg_database (writerTurn l) = Some (mongo_WriteLogMessage S)"
    using turn(3) by (simp add: mongo_WriteLogMessage_def [abs_def])
  then show ?case
    using Cons.hyps(1) [of "writerTurn l"] turn(1,2) d Cons.prems(1) Cons.hyps(2) [symmetric] by (simp add: funpow_swap1)
qed simp

definition logDemo :: "SvcStore Logger" where
  "logDemo = (logger_SetDatabase (mongo_WriteLogMessage listServices)
      (NewLogger (\<lambda>_. \<lparr>cv_Year = 2024, cv_Month = 5, cv_Day = 7, cv_Hour = 9, cv_Minute = 30, cv_Second = 1\<rparr>)
        \<lparr>sv_subs = [], sv_methods = [], sv_orders = [], sv_errors = [], sv_log = [], sv_up = True\<rparr>))"

definition logTwice :: "SvcStore Logger" where
  "logTwice = the (logger_Debug 0 ''first'' logDemo \<bind> logger_Warn 1 ''second'')"

theorem log_written_in_order_witness:
  "map lm_Text (sv_log (lg_db ((writerTurn ^^ length (lg_writer logTwice)) logTwice))) = [''first'', ''second'']"
proof -
  have "lg_writer logTwice = lg_writer logTwice \<and> map lm_Text (map le_Message (lg_writer logTwice)) = [''first'', ''second'']
      \<and> sv_log (lg_db logTwice) = [] \<and> sv_up (lg_db logTwice)"
    by (simp add: logTwice_def logDemo_def logger_Debug_def logger_Warn_def logEvent_def Let_def NewLogger_def logger_SetDatabase_def newFeatureLogMessage_def)
  moreover have "lg_database logTwice = Some (mongo_WriteLogMessage listServices)"
    by (simp add: logTwice_def logDemo_def logger_Debug_def logger_Warn_def logEvent_def Let_def NewLogger_def logger_SetDatabase_def newFeatureLogMessage_def)
  moreover have "coll_writes sv_up (logC listServices) sv_log" by (simp add: listServices_def listColl_ok)
  ultimately show ?thesis using log_written_in_order [of sv_up listServices sv_log logTwice] by (simp add: map_map)
qed

section \<open>The gauge counts the errors of the day\<close>

definition gaugeKey :: "ErrorCount \<Rightarrow> string \<times> string \<times> string" where
  "gaugeKey c = (ec_Location c, ec_ErrorCode c, ec_ChargePointID c)"

definition labelled :: "ErrorCount \<Rightarrow> bool" where
  "labelled c \<longleftrightarrow> ec_Location c \<noteq> [] \<and> ec_ErrorCode c \<noteq> [] \<and> ec_ChargePointID c \<noteq> []"

lemma setCount_simps: "setCount c g = (if labelled c then mput (gaugeKey c) (ec_Count c) g else g)"
  by (simp add: setCount_def ErrorsToday_def labelled_def gaugeKey_def)

lemma fold_setCount:
  assumes "distinct (map gaugeKey cs)"
  shows "map_of (fold setCount cs g) k = (case find (\<lambda>c. labelled c \<and> gaugeKey c = k) cs of None \<Rightarrow> map_of g k | Some c \<Rightarrow> Some (ec_Count c))"
  using assms
proof (induction cs arbitrary: g)
  case (Cons c cs)
  have "find (\<lambda>c. labelled c \<and> gaugeKey c = k) cs = None" if "gaugeKey c = k"
    using Cons.prems that by (auto simp: find_None_iff image_iff)
  with Cons show ?case by (auto simp: setCount_simps split: option.split)
qed simp

definition countOf :: "ErrorData list \<Rightarrow> string \<times> string \<times> string \<Rightarrow> ErrorCount" where
  "countOf xs = (\<lambda>(l, cp, code). \<lparr>ec_Location = l, ec_ChargePointID = cp, ec_ErrorCode = code,
     ec_Count = int (length (filter (\<lambda>x. errorKey x = (l, cp, code)) xs))\<rparr>)"

lemma errorGroups_count: "errorGroups xs = map (countOf xs) (remdups (map errorKey xs))"
  by (simp add: errorGroups_def countOf_def)

lemma errorGroups_keys: "distinct (map gaugeKey (errorGroups xs))"
proof -
  have "inj (gaugeKey \<circ> countOf xs)" by (auto simp: inj_on_def gaugeKey_def countOf_def)
  then have "inj_on (gaugeKey \<circ> countOf xs) (set (remdups (map errorKey xs)))" by (rule inj_on_subset) simp
  then show ?thesis by (simp add: errorGroups_count distinct_map)
qed

lemma group_of_error:
  assumes "x \<in> set xs" "ed_Location x \<noteq> []" "ed_VendorErrorCode x \<noteq> []" "ed_ChargePointID x \<noteq> []"
  shows "find (\<lambda>c. labelled c \<and> gaugeKey c = (ed_Location x, ed_VendorErrorCode x, ed_ChargePointID x)) (errorGroups xs) = Some (countOf xs (errorKey x))"
proof -
  let ?k = "(ed_Location x, ed_VendorErrorCode x, ed_ChargePointID x)"
  have "countOf xs (errorKey x) \<in> set (errorGroups xs)" using assms(1) by (simp add: errorGroups_count)
  moreover have "labelled (countOf xs (errorKey x)) \<and> gaugeKey (countOf xs (errorKey x)) = ?k"
    using assms(2-4) by (simp add: labelled_def gaugeKey_def countOf_def errorKey_def)
  ultimately obtain c where c: "find (\<lambda>c. labelled c \<and> gaugeKey c = ?k) (errorGroups xs) = Some c"
    by (cases "find (\<lambda>c. labelled c \<and> gaugeKey c = ?k) (errorGroups xs)") (auto simp: find_None_iff)
  then have "c \<in> set (errorGroups xs)" "gaugeKey c = ?k" by (auto simp: find_Some_iff)
  moreover have "inj_on gaugeKey (set (errorGroups xs))" using errorGroups_keys [of xs] by (simp add: distinct_map)
  ultimately have "c = countOf xs (errorKey x)"
    using \<open>countOf xs (errorKey x) \<in> set (errorGroups xs)\<close> \<open>labelled (countOf xs (errorKey x)) \<and> gaugeKey (countOf xs (errorKey x)) = ?k\<close>
    by (metis inj_onD)
  with c show ?thesis by simp
qed

definition today :: "time \<Rightarrow> ErrorData \<Rightarrow> bool" where
  "today now x \<longleftrightarrow> startOfDay now \<le> ed_Timestamp x \<and> ed_Timestamp x < startOfDay now + 86400 * nanos_per_second"

text \<open>
  After an error of today with a location, a charge point and a vendor error code is reported and the observation it
  starts has run, the error is stored and the gauge of these labels is the number of such errors stored for today.
\<close>

theorem error_gauge_counts:
  assumes "coll_reads up (errorsC S) content" "coll_writes up (errorsC S) content" "up (el_db e)"
    and "today now x" "ed_Location x \<noteq> []" "ed_VendorErrorCode x \<noteq> []" "ed_ChargePointID x \<noteq> []"
  shows "\<exists>d'. el_db (observeErrors (mongoErrorDb S) now (listener_OnError (mongoErrorDb S) x e)) = d' \<and> content d' = content (el_db e) @ [x]
    \<and> map_of (el_gauge (observeErrors (mongoErrorDb S) now (listener_OnError (mongoErrorDb S) x e)))
        (ed_Location x, ed_VendorErrorCode x, ed_ChargePointID x)
      = Some (1 + int (length (filter (\<lambda>y. today now y \<and> errorKey y = errorKey x) (content (el_db e)))))"
proof -
  let ?D = "mongoErrorDb S"
  obtain d where d: "insertOne (errorsC S) x (el_db e) = (None, d)" "up d" "content d = content (el_db e) @ [x]"
    using assms(2,3) unfolding coll_writes_def by blast
  let ?xs = "filter (today now) (content d)"
  have e1: "listener_OnError ?D x e = updateCounter (e\<lparr>el_db := d\<rparr>)"
    using d(1) by (simp add: listener_OnError_def mongoErrorDb_def mongo_WriteError_def)
  have "mongo_GetTodayErrorCount S now d = (errorGroups ?xs, None)"
    by (simp add: mongo_GetTodayErrorCount_def coll_readsD(2) [OF assms(1) d(2)] today_def [abs_def])
  then have e2: "observeErrors ?D now (listener_OnError ?D x e) =
      e\<lparr>el_db := d, el_gauge := fold setCount (errorGroups ?xs) (el_gauge e)\<rparr>"
    unfolding e1 by (simp add: observeErrors_def mongoErrorDb_def updateCounter_def)
  have "x \<in> set ?xs" using assms(4) d(3) by simp
  note found = group_of_error [OF this assms(5-7)]
  have "map_of (fold setCount (errorGroups ?xs) (el_gauge e)) (ed_Location x, ed_VendorErrorCode x, ed_ChargePointID x)
      = Some (ec_Count (countOf ?xs (errorKey x)))"
    using found by (simp add: fold_setCount [OF errorGroups_keys])
  moreover have "ec_Count (countOf ?xs (errorKey x)) = 1 + int (length (filter (\<lambda>y. today now y \<and> errorKey y = errorKey x) (content (el_db e))))"
    using assms(4) d(3) by (cases "errorKey x") (simp add: countOf_def conj_commute)
  ultimately show ?thesis using d(3) by (simp add: e2)
qed

definition demoError :: ErrorData where
  "demoError = \<lparr>ed_Location = ''L1'', ed_ChargePointID = ''CP1'', ed_ConnectorID = 1, ed_ErrorCode = ''OtherError'', ed_Info = [],
     ed_Status = ''Faulted'', ed_Timestamp = 10, ed_VendorId = [], ed_VendorErrorCode = ''E7''\<rparr>"

theorem error_gauge_counts_witness:
  "map_of (el_gauge (observeErrors (mongoErrorDb listServices) 20 (listener_OnError (mongoErrorDb listServices) demoError
      (NewErrorListener \<lparr>sv_subs = [], sv_methods = [], sv_orders = [], sv_errors = [demoError], sv_log = [], sv_up = True\<rparr> []))))
    (''L1'', ''E7'', ''CP1'') = Some 2"
proof -
  let ?e = "NewErrorListener \<lparr>sv_subs = [], sv_methods = [], sv_orders = [], sv_errors = [demoError], sv_log = [], sv_up = True\<rparr> []"
  have up: "sv_up (el_db ?e)" "sv_errors (el_db ?e) = [demoError]" by (simp_all add: NewErrorListener_def updateCounter_def)
  have x: "today 20 demoError" "ed_Location demoError = ''L1''" "ed_VendorErrorCode demoError = ''E7''" "ed_ChargePointID demoError = ''CP1''"
    by (simp_all add: demoError_def today_def startOfDay_def)
  have "coll_reads sv_up (errorsC listServices) sv_errors" "coll_writes sv_up (errorsC listServices) sv_errors"
    by (simp_all add: listServices_def listColl_ok)
  from error_gauge_counts [OF this up(1) x(1)] x up(2) show ?thesis by simp
qed

end
