(* ===== verification/Dispatch201.thy ===== *)
theory Dispatch201
  imports CentralSystem MessageProps
begin

text \<open>
  The message handlers that implement \<^verbatim>\<open>common.MessageHandler\<close>: the OCPP 2.0.1 handler of
  \<^verbatim>\<open>src/ocpp/v201/handlers/handler.go\<close>, which decodes, validates and dispatches a request to the handler interfaces it is
  configured with, and the placeholder of \<^verbatim>\<open>src/ocpp/v16/handler.go\<close>. The handlers are parameters of the configuration;
  a nil handler is \<open>None\<close>. The theorem compares the dispatch with the central system's own path.
\<close>

section \<open>Configuration\<close>

type_synonym ('r, 's) handle = "string \<Rightarrow> 'r \<Rightarrow> 's \<Rightarrow> ((string + Response201) \<times> 's) go"

record 's ProvisioningHandler =
  ph_OnBootNotification :: "(BootNotification201, 's) handle"
  ph_OnHeartbeat :: "(unit, 's) handle"
  ph_OnNotifyReport :: "(NotifyReport, 's) handle"

record 's AuthorizationHandler =
  ah_OnAuthorize :: "(Authorize201, 's) handle"
  ah_OnClearedChargingLimit :: "(ClearedChargingLimit, 's) handle"

record 's Handler201 =
  h_featureRegistry :: featureRegistry
  h_provisioning :: "'s ProvisioningHandler option"
  h_authorization :: "'s AuthorizationHandler option"
  h_transactions :: "(TransactionEvent201, 's) handle option"
  h_availability :: "(StatusNotification201, 's) handle option"

definition newHandler :: "featureRegistry \<Rightarrow> 's ProvisioningHandler option \<Rightarrow> 's AuthorizationHandler option \<Rightarrow>
    (TransactionEvent201, 's) handle option \<Rightarrow> (StatusNotification201, 's) handle option \<Rightarrow> 's Handler201" where
  "newHandler r p a t v =
     \<lparr>h_featureRegistry = NewHandler201 r, h_provisioning = p, h_authorization = a, h_transactions = t, h_availability = v\<rparr>"

section \<open>Dispatch\<close>

datatype DispatchError =
    UnsupportedRequest string RegistryError | UnmarshalFailed string | InvalidRequest string AnyValidationError
  | NotConfigured string | NoHandler string | Refused string

definition withHandler :: "string \<Rightarrow> 'h option \<Rightarrow> 's \<Rightarrow> ('h \<Rightarrow> ((string + Response201) \<times> 's) go) \<Rightarrow> ((DispatchError + Response201) \<times> 's) go" where
  "withHandler what h s call =
     (case h of
        None \<Rightarrow> Some (Inl (NotConfigured what), s)
      | Some h \<Rightarrow> map_option (\<lambda>(r, s). (case r of Inl err \<Rightarrow> Inl (Refused err) | Inr c \<Rightarrow> Inr c, s)) (call h))"

text \<open>The type assertion of each case panics on another type.\<close>

definition dispatch :: "'s Handler201 \<Rightarrow> string \<Rightarrow> string \<Rightarrow> Payload \<Rightarrow> 's \<Rightarrow> ((DispatchError + Response201) \<times> 's) go" where
  "dispatch h cp action request s =
     (if action = ''BootNotification'' then
        withHandler ''provisioning'' (h_provisioning h) s
          (\<lambda>p. case request of Boot201Payload r \<Rightarrow> ph_OnBootNotification p cp r s | _ \<Rightarrow> None)
      else if action = ''Heartbeat'' then
        withHandler ''provisioning'' (h_provisioning h) s
          (\<lambda>p. case request of Heartbeat201Payload \<Rightarrow> ph_OnHeartbeat p cp () s | _ \<Rightarrow> None)
      else if action = ''NotifyReport'' then
        withHandler ''provisioning'' (h_provisioning h) s
          (\<lambda>p. case request of NotifyReportPayload r \<Rightarrow> ph_OnNotifyReport p cp r s | _ \<Rightarrow> None)
      else if action = ''Authorize'' then
        withHandler ''authorization'' (h_authorization h) s
          (\<lambda>a. case request of Authorize201Payload r \<Rightarrow> ah_OnAuthorize a cp r s | _ \<Rightarrow> None)
      else if action = ''ClearedChargingLimit'' then
        withHandler ''authorization'' (h_authorization h) s
          (\<lambda>a. case request of ClearedChargingLimitPayload r \<Rightarrow> ah_OnClearedChargingLimit a cp r s | _ \<Rightarrow> None)
      else if action = ''TransactionEvent'' then
        withHandler ''transactions'' (h_transactions h) s
          (\<lambda>f. case request of TransactionEventPayload r \<Rightarrow> f cp r s | _ \<Rightarrow> None)
      else if action = ''StatusNotification'' then
        withHandler ''availability'' (h_availability h) s
          (\<lambda>f. case request of Status201Payload r \<Rightarrow> f cp r s | _ \<Rightarrow> None)
      else Some (Inl (NoHandler action), s))"

text \<open>\<open>payload\<close> is \<open>None\<close> when the bytes are not JSON.\<close>

definition HandleRequest :: "(string \<Rightarrow> time option) \<Rightarrow> 's Handler201 \<Rightarrow> string \<Rightarrow> string \<Rightarrow> Json option \<Rightarrow> 's \<Rightarrow>
    ((DispatchError + Response201) \<times> 's) go" where
  "HandleRequest parse h cp action payload s =
     (case GetTypes OCPP201 action (h_featureRegistry h) of
        Inl err \<Rightarrow> Some (Inl (UnsupportedRequest action err), s)
      | Inr types \<Rightarrow>
         (case Option.bind payload (decodePayload parse (ft_requestType types)) of
            None \<Rightarrow> Some (Inl (UnmarshalFailed action), s)
          | Some request \<Rightarrow>
             (case Payload_Validate request of
                Some err \<Rightarrow> Some (Inl (InvalidRequest action err), s)
              | None \<Rightarrow> dispatch h cp action request s)))"

text \<open>\<open>payload\<close> is \<open>None\<close> when the value does not implement the request interface.\<close>

datatype CreateError = UnsupportedCommand string | NotARequest | InvalidCommand string AnyValidationError

definition CreateRequest :: "'s Handler201 \<Rightarrow> string \<Rightarrow> Payload option \<Rightarrow> CreateError + Payload" where
  "CreateRequest h action payload =
     (if \<not> IsSupported OCPP201 action (h_featureRegistry h) then Inl (UnsupportedCommand action)
      else case payload of
             None \<Rightarrow> Inl NotARequest
           | Some request \<Rightarrow>
              (case Payload_Validate request of
                 Some err \<Rightarrow> Inl (InvalidCommand action err)
               | None \<Rightarrow> Inr request))"

definition Handler201_GetVersion :: ProtocolVersion where "Handler201_GetVersion = OCPP201"

definition Handler201_GetSupportedFeatures :: "'s Handler201 \<Rightarrow> string list" where
  "Handler201_GetSupportedFeatures h = GetFeatures OCPP201 (h_featureRegistry h)"

definition Handler201_GetFeatureCount :: "'s Handler201 \<Rightarrow> nat" where
  "Handler201_GetFeatureCount h = GetFeatureCount OCPP201 (h_featureRegistry h)"

text \<open>The error type of \<^verbatim>\<open>src/ocpp/common/interfaces.go\<close>.\<close>

record CommonValidationError =
  ve_Field :: string
  ve_Message :: string

definition NewValidationError :: "string \<Rightarrow> string \<Rightarrow> CommonValidationError" where
  "NewValidationError field message = \<lparr>ve_Field = field, ve_Message = message\<rparr>"

definition CommonValidationError_Error :: "CommonValidationError \<Rightarrow> string" where
  "CommonValidationError_Error e = (if ve_Field e \<noteq> [] then ve_Field e @ '': '' @ ve_Message e else ve_Message e)"

subsection \<open>The handler of OCPP 1.6\<close>

definition Handler16_HandleRequest :: "string \<Rightarrow> Json option \<Rightarrow> string + Response201" where
  "Handler16_HandleRequest action payload = Inl ''HandleRequest not yet implemented for OCPP 1.6J handler''"

definition Handler16_CreateRequest :: "string \<Rightarrow> Payload option \<Rightarrow> string + Payload" where
  "Handler16_CreateRequest action payload = Inl ''CreateRequest not yet implemented for OCPP 1.6J handler''"

definition Handler16_GetVersion :: ProtocolVersion where "Handler16_GetVersion = OCPP16"

definition Handler16_GetSupportedFeatures :: "featureRegistry \<Rightarrow> string list" where
  "Handler16_GetSupportedFeatures r = GetFeatures OCPP16 r"

section \<open>The handlers of the server\<close>

text \<open>The configuration with the handlers of \<^verbatim>\<open>src/server/v201_handlers.go\<close>.\<close>

definition serverProvisioning :: "'db env \<Rightarrow> time \<Rightarrow> 'db sys ProvisioningHandler" where
  "serverProvisioning env now =
     \<lparr>ph_OnBootNotification = (\<lambda>cp r s. map_option (\<lambda>(c, s). (Inr c, s)) (OnBootNotification201 env now cp r s)),
      ph_OnHeartbeat = (\<lambda>cp r s. Some (Inr (OnHeartbeat201 now), s)),
      ph_OnNotifyReport = (\<lambda>cp r s. let (c, s) = OnNotifyReport env cp r s in Some (Inr c, s))\<rparr>"

definition serverAuthorization :: "'db env \<Rightarrow> time \<Rightarrow> 'db sys AuthorizationHandler" where
  "serverAuthorization env now =
     \<lparr>ah_OnAuthorize = (\<lambda>cp r s. let (c, s) = OnAuthorize201 env now cp r s in Some (Inr c, s)),
      ah_OnClearedChargingLimit = (\<lambda>cp r s. Some (Inr OnClearedChargingLimit, s))\<rparr>"

definition serverHandler :: "'db env \<Rightarrow> time \<Rightarrow> featureRegistry \<Rightarrow> 'db sys Handler201" where
  "serverHandler env now r =
     newHandler r (Some (serverProvisioning env now)) (Some (serverAuthorization env now))
       (Some (\<lambda>cp r s. Some (OnTransactionEvent env now cp r s))) (Some (\<lambda>cp r s. Some (OnStatusNotification201 env cp r s)))"

section \<open>Agreement\<close>

text \<open>The path of the central system: the parser of a frame, then its own switch; errors in the terms of the handler.\<close>

definition asDispatch :: "string \<Rightarrow> CsError + OcppResponse \<Rightarrow> DispatchError + Response201" where
  "asDispatch action r =
     (case r of
        Inr (Response201 c) \<Rightarrow> Inr c
      | Inl (HandlerError err) \<Rightarrow> Inl (Refused err)
      | _ \<Rightarrow> Inl (NoHandler action))"

fun asParse :: "string \<Rightarrow> ParseError \<Rightarrow> DispatchError" where
  "asParse action (NotRegistered err) = UnsupportedRequest action err"
| "asParse action (ValidationFailed err) = InvalidRequest action err"
| "asParse action _ = UnmarshalFailed action"

definition centralPath :: "(string \<Rightarrow> time option) \<Rightarrow> 'db env \<Rightarrow> time \<Rightarrow> featureRegistry \<Rightarrow> string \<Rightarrow> string \<Rightarrow> string \<Rightarrow> Json \<Rightarrow> 'db sys \<Rightarrow>
    ((DispatchError + Response201) \<times> 'db sys) go" where
  "centralPath parse env now r cp uniqueId action payload s =
     (case ParseRequestVersionAware parse [encInt CallTypeRequest, JStr uniqueId, JStr action, payload] OCPP201 r of
        Inl err \<Rightarrow> Some (Inl (asParse action err), s)
      | Inr c \<Rightarrow>
          map_option (\<lambda>(r, s). (asDispatch action r, s))
            (routeOCPP201Request True env now cp (Payload_GetFeatureName (cr_Payload c)) (cr_Payload c) s))"

lemma dispatch_server:
  "dispatch (serverHandler env now r) cp action request s =
     map_option (\<lambda>(r, s). (asDispatch action r, s)) (routeOCPP201Request True env now cp action request s)"
proof -
  note defs = dispatch_def serverHandler_def newHandler_def serverProvisioning_def serverAuthorization_def withHandler_def
    routeOCPP201Request_def asDispatch_def result201_def
  show ?thesis
    by (cases request) (simp_all add: defs split_def option.map_comp comp_def Let_def split: sum.split option.split prod.split)
qed

text \<open>A null payload decodes as an empty object.\<close>

lemma decoders201_null: "list_all (\<lambda>(_, d). d JNull = d (JObj [])) (decoders201 parse)"
  by (simp add: decoders201_def decBootNotification201_def decHeartbeat_def decNotifyReport_def decGetBaseReport_def decGetVariables_def
      decSetVariables_def decReset201_def decAuthorize201_def decClearedChargingLimit_def decRequestStartTransaction_def
      decRequestStopTransaction_def decTransactionEvent201_def decStatusNotification201_def)

lemma decodePayload_null:
  assumes "map_of features201 action = Some types"
  shows "decodePayload parse (ft_requestType types) JNull = decodePayload parse (ft_requestType types) (JObj [])"
proof -
  from assms have "(action, types) \<in> set features201" by (rule map_of_SomeD)
  then obtain i where i: "i < length features201" "features201 ! i = (action, types)" by (auto simp: in_set_conv_nth)
  obtain d where d: "decoders201 parse ! i = (ft_requestType types, d)"
    using list_all2_nthD [OF rows201 [of parse] i(1)] i(2) by (cases "decoders201 parse ! i") (simp add: rowSound_def)
  have "(ft_requestType types, d) \<in> set (decoders201 parse)"
    using i(1) list_all2_lengthD [OF rows201 [of parse]] d by (metis nth_mem)
  then have "map_of (decoders16 parse @ decoders201 parse) (ft_requestType types) = Some d"
    using distinct_decoders [of parse] by (intro map_of_is_SomeI) auto
  moreover have "d JNull = d (JObj [])"
    using decoders201_null [of parse] \<open>(ft_requestType types, d) \<in> set (decoders201 parse)\<close> by (auto simp: list_all_iff)
  ultimately show ?thesis by (simp add: decodePayload_def)
qed

definition startRegistry :: featureRegistry where "startRegistry = NewHandler16 NewFeatureRegistry"

lemma startRegistry_201: "lookupFeature (NewHandler201 startRegistry) OCPP201 a = map_of features201 a"
  by (simp add: startRegistry_def handler201_lookup handler16_lookup NewFeatureRegistry_def lookupFeature_def [of "[]"] versionMapOf_def split: option.split)


end
