(* ===== verification/Config.thy ===== *)
theory Config
  imports GoLib
begin

text \<open>
  The configuration of \<^verbatim>\<open>src/internal/config/config.go\<close> and the listeners that are opened with it: the websocket
  listener of \<^verbatim>\<open>src/server/server.go\<close>, the API listener of \<^verbatim>\<open>src/server/server_api.go\<close> and the metrics listener of
  \<^verbatim>\<open>src/metrics/listen/listen.go\<close>, with the options of the MongoDB client. The reader of configuration files, the
  network and the loading of key pairs are parameters.
\<close>

section \<open>The configuration\<close>

record ListenConf =
  li_Type :: string
  li_BindIP :: string
  li_Port :: string
  li_TLS :: bool
  li_CertFile :: string
  li_KeyFile :: string

record ApiConf =
  ac_BindIP :: string
  ac_Port :: string
  ac_TLS :: bool
  ac_CertFile :: string
  ac_KeyFile :: string

record MetricsConf =
  mt_Enabled :: bool
  mt_BindIP :: string
  mt_Port :: string

record MongoConf =
  mg_Enabled :: bool
  mg_Host :: string
  mg_Port :: string
  mg_User :: string
  mg_Password :: string
  mg_Database :: string

record OcpiConf =
  oc_Enabled :: bool
  oc_Url :: string
  oc_Token :: string

record TelegramConf =
  tc_Enabled :: bool
  tc_ApiKey :: string

record Config =
  cfg_IsDebug :: bool
  cfg_TimeZone :: string
  cfg_AcceptUnknownTag :: bool
  cfg_AcceptUnknownChp :: bool
  cfg_MeterValueSampleInterval :: int
  cfg_MeterValuesMeasurands :: "string list"
  cfg_Listen :: ListenConf
  cfg_Api :: ApiConf
  cfg_Metrics :: MetricsConf
  cfg_Mongo :: MongoConf
  cfg_Ocpi :: OcpiConf
  cfg_Telegram :: TelegramConf

text \<open>The zero value the reader is given, and the values of the \<^verbatim>\<open>env-default\<close> tags.\<close>

definition zeroConfig :: Config where
  "zeroConfig =
     \<lparr>cfg_IsDebug = False, cfg_TimeZone = [], cfg_AcceptUnknownTag = False, cfg_AcceptUnknownChp = False,
      cfg_MeterValueSampleInterval = 0, cfg_MeterValuesMeasurands = [],
      cfg_Listen = \<lparr>li_Type = [], li_BindIP = [], li_Port = [], li_TLS = False, li_CertFile = [], li_KeyFile = []\<rparr>,
      cfg_Api = \<lparr>ac_BindIP = [], ac_Port = [], ac_TLS = False, ac_CertFile = [], ac_KeyFile = []\<rparr>,
      cfg_Metrics = \<lparr>mt_Enabled = False, mt_BindIP = [], mt_Port = []\<rparr>,
      cfg_Mongo = \<lparr>mg_Enabled = False, mg_Host = [], mg_Port = [], mg_User = [], mg_Password = [], mg_Database = []\<rparr>,
      cfg_Ocpi = \<lparr>oc_Enabled = False, oc_Url = [], oc_Token = []\<rparr>,
      cfg_Telegram = \<lparr>tc_Enabled = False, tc_ApiKey = []\<rparr>\<rparr>"

definition envDefaults :: Config where
  "envDefaults =
     \<lparr>cfg_IsDebug = False, cfg_TimeZone = ''Europe/Madrid'', cfg_AcceptUnknownTag = False, cfg_AcceptUnknownChp = False,
      cfg_MeterValueSampleInterval = 0, cfg_MeterValuesMeasurands = [],
      cfg_Listen = \<lparr>li_Type = ''port'', li_BindIP = ''0.0.0.0'', li_Port = ''5000'', li_TLS = False, li_CertFile = [], li_KeyFile = []\<rparr>,
      cfg_Api = \<lparr>ac_BindIP = ''0.0.0.0'', ac_Port = ''5001'', ac_TLS = False, ac_CertFile = [], ac_KeyFile = []\<rparr>,
      cfg_Metrics = \<lparr>mt_Enabled = False, mt_BindIP = ''127.0.0.1'', mt_Port = ''5003''\<rparr>,
      cfg_Mongo = \<lparr>mg_Enabled = False, mg_Host = ''127.0.0.1'', mg_Port = ''27017'', mg_User = [], mg_Password = [],
        mg_Database = ''evsys''\<rparr>,
      cfg_Ocpi = \<lparr>oc_Enabled = False, oc_Url = [], oc_Token = []\<rparr>,
      cfg_Telegram = \<lparr>tc_Enabled = False, tc_ApiKey = []\<rparr>\<rparr>"

text \<open>
  The package variables \<^verbatim>\<open>instance\<close> and \<^verbatim>\<open>once\<close>. The reader fills the given value as far as it gets and returns an
  error or not; the description of the fields is a text of the library.
\<close>

record configVars =
  cv_instance :: "Config option"
  cv_once :: bool

definition configInit :: configVars where "configInit = \<lparr>cv_instance = None, cv_once = False\<rparr>"

type_synonym reader = "string \<Rightarrow> Config \<Rightarrow> Config \<times> string option"

definition GetConfig ::
    "reader \<Rightarrow> (Config \<Rightarrow> string) \<Rightarrow> string \<Rightarrow> configVars \<Rightarrow> (Config option \<times> string option) \<times> configVars" where
  "GetConfig ReadConfig GetDescription path v =
     (if cv_once v then ((cv_instance v, None), v)
      else case ReadConfig path zeroConfig of
             (conf, Some err) \<Rightarrow>
               ((None, Some (err @ ''; '' @ GetDescription conf)), \<lparr>cv_instance = None, cv_once = True\<rparr>)
           | (conf, None) \<Rightarrow> ((Some conf, None), \<lparr>cv_instance = Some conf, cv_once = True\<rparr>))"

fun GetConfigs ::
    "reader \<Rightarrow> (Config \<Rightarrow> string) \<Rightarrow> string list \<Rightarrow> configVars \<Rightarrow> (Config option \<times> string option) list" where
  "GetConfigs R D [] v = []"
| "GetConfigs R D (path # paths) v = (case GetConfig R D path v of (r, v) \<Rightarrow> r # GetConfigs R D paths v)"

lemma GetConfigs_once: "cv_once v \<Longrightarrow> GetConfigs R D paths v = replicate (length paths) (cv_instance v, None)"
  by (induction paths) (simp_all add: GetConfig_def)

text \<open>
  The file is read once: the first call decides, the error of a failed read is returned to that call only, and the
  later calls get a nil configuration without an error.
\<close>

lemma config_read_once:
  "GetConfigs R D (path # paths) configInit =
     (case R path zeroConfig of
        (conf, Some err) \<Rightarrow> (None, Some (err @ ''; '' @ D conf)) # replicate (length paths) (None, None)
      | (conf, None) \<Rightarrow> replicate (Suc (length paths)) (Some conf, None))"
  by (simp add: GetConfig_def configInit_def GetConfigs_once split: prod.split option.split)

section \<open>The MongoDB client\<close>

record Credential =
  crd_Username :: string
  crd_Password :: string
  crd_AuthSource :: string

record MongoDB =
  mdb_uri :: string
  mdb_auth :: "Credential option"
  mdb_database :: string

definition NewMongoClient :: "Config \<Rightarrow> MongoDB option" where
  "NewMongoClient conf =
     (let m = cfg_Mongo conf
      in if \<not> mg_Enabled m then None
         else Some \<lparr>mdb_uri = ''mongodb://'' @ mg_Host m @ '':'' @ mg_Port m,
                mdb_auth = (if mg_User m \<noteq> []
                  then Some \<lparr>crd_Username = mg_User m, crd_Password = mg_Password m, crd_AuthSource = mg_Database m\<rparr> else None),
                mdb_database = mg_Database m\<rparr>)"

section \<open>Listeners\<close>

datatype Endpoint = PlainHttp string | TlsHttp string string string

text \<open>The error that ends a server: \<^verbatim>\<open>http.ErrServerClosed\<close> after a shutdown, or another one; it is never nil.\<close>

datatype NetError = ErrServerClosed | NetError string

record net =
  net_Listen :: "string \<Rightarrow> NetError option"
  net_Serve :: "Endpoint \<Rightarrow> NetError"
  net_ListenAndServe :: "Endpoint \<Rightarrow> NetError"
  net_LoadX509KeyPair :: "string \<Rightarrow> string \<Rightarrow> string option"

definition address :: "string \<Rightarrow> string \<Rightarrow> string" where "address ip port = ip @ '':'' @ port"

text \<open>The endpoint that was opened, and the error that is returned.\<close>

definition Server_Start :: "net \<Rightarrow> Config option \<Rightarrow> Endpoint option \<times> NetError option" where
  "Server_Start N conf =
     (case conf of None \<Rightarrow> (None, Some (NetError ''configuration not loaded''))
      | Some conf \<Rightarrow>
         let l = cfg_Listen conf; serverAddress = address (li_BindIP l) (li_Port l)
         in case net_Listen N serverAddress of Some err \<Rightarrow> (None, Some err)
            | None \<Rightarrow>
               let e = (if li_TLS l then TlsHttp serverAddress (li_CertFile l) (li_KeyFile l) else PlainHttp serverAddress)
               in (Some e, Some (net_Serve N e)))"

record Api =
  api_conf :: Config
  api_Addr :: string

definition NewServerApi :: "Config \<Rightarrow> Api" where
  "NewServerApi conf = \<lparr>api_conf = conf, api_Addr = address (ac_BindIP (cfg_Api conf)) (ac_Port (cfg_Api conf))\<rparr>"

text \<open>In the branch with TLS the result is assigned to the variable that the branch declares, so it is lost.\<close>

definition Api_Start :: "net \<Rightarrow> Api \<Rightarrow> Endpoint option \<times> NetError option" where
  "Api_Start N s =
     (let a = cfg_Api (api_conf s)
      in if ac_TLS a then
           (case net_LoadX509KeyPair N (ac_CertFile a) (ac_KeyFile a) of
              Some err \<Rightarrow> (None, Some (NetError (''api: failed to load certificate: '' @ err)))
            | None \<Rightarrow> (Some (TlsHttp (api_Addr s) (ac_CertFile a) (ac_KeyFile a)), None))
         else (Some (PlainHttp (api_Addr s)), Some (net_ListenAndServe N (PlainHttp (api_Addr s)))))"

definition Listen :: "net \<Rightarrow> Config \<Rightarrow> NetError option" where
  "Listen N conf =
     (let m = cfg_Metrics conf
      in if \<not> mt_Enabled m then None
         else Some (net_ListenAndServe N (PlainHttp (address (mt_BindIP m) (mt_Port m)))))"

text \<open>What the goroutines of \<^verbatim>\<open>CentralSystem.Start\<close> log of the ends of the two servers.\<close>

definition serverFailure :: "string \<Rightarrow> NetError option \<Rightarrow> (string \<times> string) list" where
  "serverFailure text err = (case err of Some (NetError e) \<Rightarrow> [(text, e)] | _ \<Rightarrow> [])"

definition startServers :: "net \<Rightarrow> Config \<Rightarrow> (string \<times> string) list \<times> (string \<times> string) list" where
  "startServers N conf =
     (serverFailure ''websocket server failed'' (snd (Server_Start N (Some conf))),
      serverFailure ''api server failed'' (snd (Api_Start N (NewServerApi conf))))"

text \<open>A server with a certificate never serves without it, and the API address is the configured one.\<close>

lemma plain_only_without_tls:
  "fst (Server_Start N (Some conf)) = Some (PlainHttp a) \<Longrightarrow> \<not> li_TLS (cfg_Listen conf)"
  "fst (Api_Start N (NewServerApi conf)) = Some (PlainHttp a) \<Longrightarrow> \<not> ac_TLS (cfg_Api conf)"
  by (auto simp: Server_Start_def Api_Start_def NewServerApi_def Let_def split: option.splits if_splits)

text \<open>
  A failure of the websocket server is logged whichever way it is configured; a failure of the API server only
  without TLS, or if the certificate cannot be loaded.
\<close>

lemma failures_logged:
  "fst (startServers N conf) = [] \<longleftrightarrow>
     (\<exists>e. fst (Server_Start N (Some conf)) = Some e \<and> net_Serve N e = ErrServerClosed)
     \<or> net_Listen N (address (li_BindIP (cfg_Listen conf)) (li_Port (cfg_Listen conf))) = Some ErrServerClosed"
  "snd (startServers N conf) = [] \<longleftrightarrow>
     (\<exists>e. fst (Api_Start N (NewServerApi conf)) = Some e
       \<and> (ac_TLS (cfg_Api conf) \<or> net_ListenAndServe N e = ErrServerClosed))"
  by (auto simp: startServers_def serverFailure_def Server_Start_def Api_Start_def NewServerApi_def Let_def
      split: option.splits NetError.splits)

end
