(* ===== verification/Program.thy ===== *)
theory Program
  imports Config Composition Listeners MigrationProps ServerProps Monitoring
begin

text \<open>
  The program as \<^verbatim>\<open>src/main.go\<close> runs it: the construction of all services from the configuration
  (\<^verbatim>\<open>NewCentralSystem\<close> of \<^verbatim>\<open>src/server/central_system.go\<close>), the start with the metrics listener beside it, and the
  shutdown. The libraries behind the services are the parameters of the parts, collected in \<open>services\<close>. Every part
  that uses the database keeps the state of it that it was given.
\<close>

section \<open>Configuring the system handler\<close>

record 'db services =
  sv_LoadLocation :: "string \<Rightarrow> string option"
  sv_zone :: "time \<Rightarrow> civil"
  sv_raw :: "MongoDB \<Rightarrow> 'db rawDb"
  sv_mongo :: "MongoDB \<Rightarrow> 'db Mongo"
  sv_tables :: "MongoDB \<Rightarrow> 'db Services"
  sv_NewBotAPI :: "string \<Rightarrow> string option"
  sv_validUrl :: "string \<Rightarrow> bool"
  sv_Do :: "time \<Rightarrow> HttpRequest \<Rightarrow> Exchange"
  sv_tie :: bool
  sv_sendOk :: "string \<Rightarrow> bool"
  sv_readConfiguration :: "string \<Rightarrow> (string \<times> string option) list option"
  sv_minuteOfDay :: "time \<Rightarrow> int"
  sv_lbConfiguration :: "string \<Rightarrow> (string \<times> string option) list option option"
  sv_parseTime :: "string \<Rightarrow> time option"
  sv_readJson :: "string \<Rightarrow> Json option"
  sv_readProfile :: "string \<Rightarrow> ChargingProfile option"

definition NewHandlerEnv :: "'db services \<Rightarrow> 'db env" where
  "NewHandlerEnv sv =
     \<lparr>database = None, auth = None, errorListener = False, acceptTags = False, acceptPoints = False,
      meterSampleInterval = 0, meterMeasurands = [], triggerSet = False, serverSet = False, sendOk = sv_sendOk sv,
      readConfiguration = sv_readConfiguration sv,
      minuteOfDay = sv_minuteOfDay sv\<rparr>"

definition handler_SetDatabase :: "'db Database \<Rightarrow> 'db env \<Rightarrow> 'db env" where
  "handler_SetDatabase D h = h\<lparr>database := Some D\<rparr>"

definition SetAuthService :: "(string \<Rightarrow> string \<Rightarrow> string \<Rightarrow> authResult) \<Rightarrow> 'db env \<Rightarrow> 'db env" where
  "SetAuthService a h = h\<lparr>auth := Some a\<rparr>"

text \<open>The debug flag is stored and never read.\<close>

definition SetParameters :: "bool \<Rightarrow> bool \<Rightarrow> bool \<Rightarrow> 'db env \<Rightarrow> 'db env" where
  "SetParameters debug tags points h = h\<lparr>acceptTags := tags, acceptPoints := points\<rparr>"

definition SetErrorListener :: "'db env \<Rightarrow> 'db env" where "SetErrorListener h = h\<lparr>errorListener := True\<rparr>"
definition SetTrigger :: "'db env \<Rightarrow> 'db env" where "SetTrigger h = h\<lparr>triggerSet := True\<rparr>"
definition SetServer :: "'db env \<Rightarrow> 'db env" where "SetServer h = h\<lparr>serverSet := True\<rparr>"

definition SetMeterSampleInterval :: "int \<Rightarrow> 'db env \<Rightarrow> 'db env" where
  "SetMeterSampleInterval interval h = h\<lparr>meterSampleInterval := interval\<rparr>"

definition SetMeterMeasurands :: "string list \<Rightarrow> 'db env \<Rightarrow> 'db env" where
  "SetMeterMeasurands measurands h = h\<lparr>meterMeasurands := measurands\<rparr>"

definition AddEventListener :: "listener \<Rightarrow> listener list \<Rightarrow> listener list" where
  "AddEventListener l ls = ls @ [l]"

definition ocpi_New :: "'db services \<Rightarrow> string \<Rightarrow> string \<Rightarrow> Client" where
  "ocpi_New sv url token = \<lparr>cl_url = url, cl_token = token, cl_validUrl = sv_validUrl sv, cl_Do = sv_Do sv\<rparr>"

definition configureHandler :: "'db services \<Rightarrow> Config \<Rightarrow> MongoDB option \<Rightarrow> time \<Rightarrow> 'db env" where
  "configureHandler sv conf client now =
     (let h = NewHandlerEnv sv;
          h = (case client of None \<Rightarrow> h | Some c \<Rightarrow> handler_SetDatabase (mongo_Database (sv_mongo sv c) now) h);
          h = SetParameters (cfg_IsDebug conf) (cfg_AcceptUnknownTag conf) (cfg_AcceptUnknownChp conf) h;
          h = (if oc_Enabled (cfg_Ocpi conf)
               then SetAuthService (OCPI_Authorize (ocpi_New sv (oc_Url (cfg_Ocpi conf)) (oc_Token (cfg_Ocpi conf))) (sv_tie sv) now) h
               else h);
          h = (case client of None \<Rightarrow> h | Some _ \<Rightarrow> SetErrorListener h)
      in SetMeterMeasurands (cfg_MeterValuesMeasurands conf)
           (SetMeterSampleInterval (cfg_MeterValueSampleInterval conf) (SetServer (SetTrigger h))))"

definition configureCentral :: "'db services \<Rightarrow> Config \<Rightarrow> MongoDB option \<Rightarrow> time \<Rightarrow> 'db csEnv" where
  "configureCentral sv conf client now =
     \<lparr>ce_env = configureHandler sv conf client now,
      ce_lbEnv = \<lparr>lb_database = map_option (\<lambda>c. mongo_Database (sv_mongo sv c) now) client, lb_canSend = sv_sendOk sv,
        lb_configuration = sv_lbConfiguration sv\<rparr>,
      ce_parseTime = sv_parseTime sv, ce_readJson = sv_readJson sv, ce_readProfile = sv_readProfile sv\<rparr>"

section \<open>Construction\<close>

datatype StartError = TimeZoneFailed string | MigrationFailed RunError | BotSetupFailed string | HandlerFailed string

definition openDatabase :: "'db services \<Rightarrow> Config \<Rightarrow> time \<Rightarrow> 'db \<Rightarrow> (StartError + MongoDB option) \<times> 'db" where
  "openDatabase sv conf now d =
     (if mg_Enabled (cfg_Mongo conf) then
        (case NewMongoClient conf of None \<Rightarrow> (Inr None, d)
         | Some c \<Rightarrow>
            (case RunMigrations (sv_raw sv c) now d of
               (Some err, d) \<Rightarrow> (Inl (MigrationFailed err), d)
             | (None, d) \<Rightarrow> (Inr (Some c), d)))
      else (Inr None, d))"

definition openBot :: "'db services \<Rightarrow> Config \<Rightarrow> MongoDB option \<Rightarrow> 'db \<Rightarrow> StartError + 'db TgBot option" where
  "openBot sv conf client d =
     (if tc_Enabled (cfg_Telegram conf) then
        (case NewBot (sv_NewBotAPI sv (tc_ApiKey (cfg_Telegram conf))) d of
           Inl e \<Rightarrow> Inl (BotSetupFailed e)
         | Inr tgBot \<Rightarrow>
            let tgBot = (case client of None \<Rightarrow> tgBot | Some c \<Rightarrow> bot_SetDatabase (mongoBotDb (sv_tables sv c) (sv_mongo sv c)) tgBot)
            in Inr (Some (bot_Start tgBot)))
      else Inr None)"

definition openLogger :: "'db services \<Rightarrow> Config \<Rightarrow> MongoDB option \<Rightarrow> 'db \<Rightarrow> 'db Logger" where
  "openLogger sv conf client d =
     (let l = logger_SetDebugMode (cfg_IsDebug conf) (NewLogger (sv_zone sv) d)
      in case client of None \<Rightarrow> l | Some c \<Rightarrow> logger_SetDatabase (mongo_WriteLogMessage (sv_tables sv c)) l)"

definition openListeners :: "Config \<Rightarrow> listener list" where
  "openListeners conf =
     (let ls = (if tc_Enabled (cfg_Telegram conf) then AddEventListener Bot [] else [])
      in if oc_Enabled (cfg_Ocpi conf) then AddEventListener Roaming ls else ls)"

record 'db program =
  pg_ce :: "'db csEnv"
  pg_central :: "'db central"
  pg_logger :: "'db Logger"
  pg_bot :: "'db TgBot option"
  pg_listeners :: "listener list"
  pg_errors :: "'db ErrorListener option"
  pg_api :: Api
  pg_poolStop :: bool
  pg_logged :: "(string \<times> string) list"

definition NewProgram :: "'db services \<Rightarrow> Config \<Rightarrow> time \<Rightarrow> 'db \<Rightarrow> (StartError + 'db program) \<times> 'db" where
  "NewProgram sv conf now d =
     (case sv_LoadLocation sv ''Europe/Madrid'' of Some err \<Rightarrow> (Inl (TimeZoneFailed err), d)
      | None \<Rightarrow>
         (case openDatabase sv conf now d of (Inl err, d) \<Rightarrow> (Inl err, d)
          | (Inr client, d) \<Rightarrow>
             (case openBot sv conf client d of Inl err \<Rightarrow> (Inl err, d)
              | Inr tgBot \<Rightarrow>
                 let ce = configureCentral sv conf client now
                 in case NewCentralSystem ce d of
                      (Some err, cs) \<Rightarrow> (Inl (HandlerFailed err), db (cs_sys cs))
                    | (None, cs) \<Rightarrow>
                       (Inr \<lparr>pg_ce = ce, pg_central = cs, pg_logger = openLogger sv conf client d, pg_bot = tgBot,
                          pg_listeners = openListeners conf,
                          pg_errors = map_option (\<lambda>_. NewErrorListener d []) client,
                          pg_api = NewServerApi conf, pg_poolStop = False, pg_logged = []\<rparr>,
                        db (cs_sys cs)))))"

text \<open>The rest of \<^verbatim>\<open>main\<close>: the routing is enabled and the goroutines of \<^verbatim>\<open>Start\<close> run.\<close>

definition startProgram :: "'db program \<Rightarrow> 'db program" where
  "startProgram p = p\<lparr>pg_central := StartCentralSystem (EnableVersionAwareRouting (pg_central p))\<rparr>"


lemma configureHandler_simps [simp]:
  "database (configureHandler sv conf client now) = map_option (\<lambda>c. mongo_Database (sv_mongo sv c) now) client"
  "acceptTags (configureHandler sv conf client now) = cfg_AcceptUnknownTag conf"
  "triggerSet (configureHandler sv conf client now)"
  "auth (configureHandler sv conf client now) =
     (if oc_Enabled (cfg_Ocpi conf)
      then Some (OCPI_Authorize (ocpi_New sv (oc_Url (cfg_Ocpi conf)) (oc_Token (cfg_Ocpi conf))) (sv_tie sv) now) else None)"
  by (simp_all add: configureHandler_def Let_def NewHandlerEnv_def handler_SetDatabase_def SetParameters_def
      SetAuthService_def SetErrorListener_def SetTrigger_def SetServer_def SetMeterSampleInterval_def
      SetMeterMeasurands_def split: option.split)

lemma openListeners_order: "openListeners conf = addListeners (tc_Enabled (cfg_Telegram conf)) (oc_Enabled (cfg_Ocpi conf))"
  by (simp add: openListeners_def addListeners_def AddEventListener_def)

text \<open>Whatever the configuration, a program that is constructed is the central system over the environment it gave.\<close>

lemma NewProgram_central:
  assumes run: "NewProgram sv conf now d = (Inr p, d')"
  obtains client dm where "openDatabase sv conf now d = (Inr client, dm)"
    "pg_ce p = configureCentral sv conf client now" "NewCentralSystem (pg_ce p) dm = (None, pg_central p)"
    "d' = db (cs_sys (pg_central p))" "pg_poolStop p = False" "pg_listeners p = openListeners conf"
proof -
  have loc: "sv_LoadLocation sv ''Europe/Madrid'' = None"
    using run by (cases "sv_LoadLocation sv ''Europe/Madrid''") (simp_all add: NewProgram_def)
  obtain r dm where o: "openDatabase sv conf now d = (r, dm)" by (cases "openDatabase sv conf now d")
  obtain client where r: "r = Inr client" using run loc o by (cases r) (simp_all add: NewProgram_def)
  obtain b where b: "openBot sv conf client dm = Inr b"
    using run loc o r by (cases "openBot sv conf client dm") (simp_all add: NewProgram_def)
  obtain err cs where cs: "NewCentralSystem (configureCentral sv conf client now) dm = (err, cs)"
    by (cases "NewCentralSystem (configureCentral sv conf client now) dm")
  show thesis
    using that [of client dm] run loc o r b cs by (cases err) (auto simp: NewProgram_def)
qed

lemma program_main:
  assumes "NewProgram sv conf now d = (Inr p, d')"
  shows "\<exists>dm. main (pg_ce p) dm = Inr (pg_central (startProgram p))"
proof -
  obtain client dm where "NewCentralSystem (pg_ce p) dm = (None, pg_central p)"
    using NewProgram_central [OF assms] by blast
  then show ?thesis by (intro exI [of _ dm]) (simp add: main_def startProgram_def)
qed

section \<open>The database at the start\<close>

lemma openDatabase_enabled:
  assumes "NewMongoClient conf = Some c" "RunMigrations (sv_raw sv c) now d = (None, dm)"
  shows "openDatabase sv conf now d = (Inr (Some c), dm)"
  using assms by (auto simp: openDatabase_def NewMongoClient_def Let_def split: if_splits)

lemma NewCentralSystem_mongo:
  assumes M: "mongo_driver (sv_mongo sv c) up cps conns tags trs meters stops" and up: "up d"
  shows "\<exists>cs. NewCentralSystem (configureCentral sv conf (Some c) now) d = (None, cs) \<and> up (db (cs_sys cs))
    \<and> trs (db (cs_sys cs)) = trs d \<and> (\<forall>t \<in> set (trs d). t_Id t < newTransactionId (cs_sys cs))"
proof -
  let ?env = "configureHandler sv conf (Some c) now" and ?s = "NewSystemHandler (SetDatabase NewAffleck) d"
  obtain err s' where run: "OnStart ?env ?s = (err, s')" by (cases "OnStart ?env ?s")
  have "err = None \<and> up (db s') \<and> trs (db s') = trs (db ?s) \<and> (\<forall>t \<in> set (trs (db ?s)). t_Id t < newTransactionId s')"
    by (rule mongo_driver.OnStart_mongo [OF M _ _ _ run]) (simp_all add: up NewSystemHandler_def)
  with run show ?thesis
    by (simp add: NewCentralSystem_def configureCentral_def NewSystemHandler_def)
qed

lemma NewProgram_mongo:
  assumes mongo: "mongo_driver (sv_mongo sv c) up cps conns tags trs meters stops"
    and conf: "NewMongoClient conf = Some c" "sv_LoadLocation sv ''Europe/Madrid'' = None"
      "tc_Enabled (cfg_Telegram conf) \<Longrightarrow> sv_NewBotAPI sv (tc_ApiKey (cfg_Telegram conf)) = None"
    and dm: "RunMigrations (sv_raw sv c) now d = (None, dm)" "up dm"
  shows "\<exists>p d'. NewProgram sv conf now d = (Inr p, d') \<and> trs d' = trs dm
    \<and> (\<forall>t \<in> set (trs d'). t_Id t < newTransactionId (cs_sys (pg_central p)))"
proof -
  obtain cs where cs: "NewCentralSystem (configureCentral sv conf (Some c) now) dm = (None, cs)"
      "trs (db (cs_sys cs)) = trs dm" "\<forall>t \<in> set (trs dm). t_Id t < newTransactionId (cs_sys cs)"
    using NewCentralSystem_mongo [where conf = conf and now = now, OF mongo dm(2)] by blast
  obtain b where b: "openBot sv conf (Some c) dm = Inr b"
    using conf(3) by (cases "tc_Enabled (cfg_Telegram conf)") (simp_all add: openBot_def NewBot_def Let_def)
  show ?thesis
    using openDatabase_enabled [OF conf(1) dm(1)] conf(2) b cs by (auto simp: NewProgram_def)
qed


text \<open>Documents and collections of one database in memory.\<close>

record FullStore =
  fs_docs :: "string \<Rightarrow> Doc list"
  fs_store :: Store

definition fullUp :: "FullStore \<Rightarrow> bool" where "fullUp d = sto_up (fs_store d)"

definition fullColl :: "(Store \<Rightarrow> 'doc list) \<Rightarrow> ('doc list \<Rightarrow> Store \<Rightarrow> Store) \<Rightarrow> (FullStore, 'doc) coll" where
  "fullColl get put = listColl fullUp (\<lambda>d. get (fs_store d)) (\<lambda>xs d. d\<lparr>fs_store := put xs (fs_store d)\<rparr>)"

definition fullRaw :: "FullStore rawDb" where
  "fullRaw = \<lparr>Collection = (\<lambda>n. listColl fullUp (\<lambda>d. fs_docs d n) (\<lambda>xs d. d\<lparr>fs_docs := (fs_docs d)(n := xs)\<rparr>)),
     CreateOne = (\<lambda>_ _ _ d. (None, d)), DropOne = (\<lambda>_ _ d. (None, d))\<rparr>"

definition fullMongo :: "FullStore Mongo" where
  "fullMongo =
     \<lparr>chargePointsC = fullColl sto_chargePoints (\<lambda>x d. d\<lparr>sto_chargePoints := x\<rparr>),
      connectorsC = fullColl sto_connectors (\<lambda>x d. d\<lparr>sto_connectors := x\<rparr>),
      locationsC = fullColl sto_locations (\<lambda>x d. d\<lparr>sto_locations := x\<rparr>),
      userTagsC = fullColl sto_userTags (\<lambda>x d. d\<lparr>sto_userTags := x\<rparr>),
      usersC = fullColl sto_users (\<lambda>x d. d\<lparr>sto_users := x\<rparr>),
      paymentPlansC = fullColl sto_plans (\<lambda>x d. d\<lparr>sto_plans := x\<rparr>),
      transactionsC = fullColl sto_transactions (\<lambda>x d. d\<lparr>sto_transactions := x\<rparr>),
      meterValuesC = fullColl sto_meters (\<lambda>x d. d\<lparr>sto_meters := x\<rparr>),
      stopTransactionC = fullColl sto_stops (\<lambda>x d. d\<lparr>sto_stops := x\<rparr>)\<rparr>"

interpretation fulldocs: document_store fullRaw fullUp "\<lambda>n d. fs_docs d n"
  by unfold_locales (auto simp: fullRaw_def fullUp_def intro!: listColl_ok listColl_keeps)

interpretation fullstore: mongo_driver fullMongo fullUp "\<lambda>d. sto_chargePoints (fs_store d)" "\<lambda>d. sto_connectors (fs_store d)"
  "\<lambda>d. sto_userTags (fs_store d)" "\<lambda>d. sto_transactions (fs_store d)" "\<lambda>d. sto_meters (fs_store d)" "\<lambda>d. sto_stops (fs_store d)"
  by unfold_locales (simp_all add: fullMongo_def fullColl_def fullUp_def listColl_ok listColl_keeps)

definition noColl :: "(FullStore, 'doc) coll" where "noColl = listColl (\<lambda>_. False) (\<lambda>_. []) (\<lambda>_ d. d)"

definition demoServices :: "FullStore services" where
  "demoServices =
     \<lparr>sv_LoadLocation = (\<lambda>_. None), sv_zone = (\<lambda>_. \<lparr>cv_Year = 2025, cv_Month = 1, cv_Day = 1, cv_Hour = 0, cv_Minute = 0, cv_Second = 0\<rparr>),
      sv_raw = (\<lambda>_. fullRaw), sv_mongo = (\<lambda>_. fullMongo),
      sv_tables = (\<lambda>_. \<lparr>subscriptionsC = noColl, deleteSubscriptionC = (\<lambda>_ d. (Some downErr, d)), paymentMethodsC = noColl,
         paymentOrdersC = noColl, errorsC = noColl, logC = noColl, findDescLimit = (\<lambda>_ _ _. Inl downErr)\<rparr>),
      sv_NewBotAPI = (\<lambda>_. None), sv_validUrl = (\<lambda>_. True),
      sv_Do = (\<lambda>_ _. \<lparr>ex_HeadersTook = 0, ex_Status = Inr 200, ex_BodyTook = 0, ex_Body = Inr None\<rparr>), sv_tie = True,
      sv_sendOk = (\<lambda>_. True), sv_readConfiguration = (\<lambda>_. None), sv_minuteOfDay = (\<lambda>_. 600), sv_lbConfiguration = (\<lambda>_. None),
      sv_parseTime = (\<lambda>_. Some 0), sv_readJson = (\<lambda>_. None), sv_readProfile = (\<lambda>_. None)\<rparr>"

definition demoConf :: Config where
  "demoConf = envDefaults\<lparr>cfg_Mongo := (cfg_Mongo envDefaults)\<lparr>mg_Enabled := True\<rparr>,
     cfg_Metrics := (cfg_Metrics envDefaults)\<lparr>mt_Enabled := True\<rparr>\<rparr>"

definition demoClient :: MongoDB where
  "demoClient = \<lparr>mdb_uri = ''mongodb://127.0.0.1:27017'', mdb_auth = None, mdb_database = ''evsys''\<rparr>"

definition demoFull :: FullStore where
  "demoFull = \<lparr>fs_docs = ds_docs backlogStore, fs_store = oldStore\<rparr>"

lemma demo_client: "NewMongoClient demoConf = Some demoClient"
  by (simp add: NewMongoClient_def demoConf_def envDefaults_def demoClient_def)


lemma demo_starts:
  "fullUp demoFull" "wellFormed (\<lambda>n. fs_docs demoFull n)" "versionOf (\<lambda>n. fs_docs demoFull n) = Some 0"
  "\<exists>p d'. NewProgram demoServices demoConf backlogNow demoFull = (Inr p, d')"
proof -
  show up: "fullUp demoFull" by (simp add: demoFull_def fullUp_def oldStore_def emptyStore_def)
  show wf: "wellFormed (\<lambda>n. fs_docs demoFull n)" "versionOf (\<lambda>n. fs_docs demoFull n) = Some 0"
    using backlogStore_ok(2,3) by (simp_all add: demoFull_def)
  obtain dm where dm: "RunMigrations fullRaw backlogNow demoFull = (None, dm)" "fullUp dm"
    using fulldocs.run_refines [OF up wf] by blast
  have sv: "sv_raw demoServices demoClient = fullRaw" "sv_mongo demoServices demoClient = fullMongo"
      "sv_LoadLocation demoServices ''Europe/Madrid'' = None" "\<not> tc_Enabled (cfg_Telegram demoConf)"
    by (simp_all add: demoServices_def demoConf_def envDefaults_def)
  show "\<exists>p d'. NewProgram demoServices demoConf backlogNow demoFull = (Inr p, d')"
    using NewProgram_mongo [of demoServices demoClient, unfolded sv, OF fullstore.mongo_driver_axioms demo_client refl _ dm] sv(4)
    by blast
qed

end
