(* ===== verification/Lifecycle.thy ===== *)
theory Lifecycle
  imports Program
begin

text \<open>
  The life of the process: \<^verbatim>\<open>main\<close> beside the goroutine of the metrics listener, with which it shares the variable
  \<^verbatim>\<open>err\<close>, the properties that hold from the configuration on, and the shutdown of \<^verbatim>\<open>CentralSystem.Stop\<close>.
\<close>

section \<open>main and the metrics listener\<close>

datatype MainError = ConfigError string | CentralError StartError | MetricsError NetError

datatype mainPc = Loading | Building Config | Checking | Serving | Exited string MainError

text \<open>\<open>mn_metrics\<close> is the configuration the goroutine of the metrics listener runs with, while it runs.\<close>

record 'db mainState =
  mn_pc :: mainPc
  mn_err :: "MainError option"
  mn_metrics :: "Config option"
  mn_program :: "'db program option"

definition mainInit :: "'db mainState" where
  "mainInit = \<lparr>mn_pc = Loading, mn_err = None, mn_metrics = None, mn_program = None\<rparr>"

definition isExited :: "mainPc \<Rightarrow> bool" where
  "isExited pc = (case pc of Exited _ _ \<Rightarrow> True | _ \<Rightarrow> False)"

text \<open>
  The steps of the process. The statement that builds the central system assigns to the \<^verbatim>\<open>err\<close> that the goroutine of
  the metrics listener assigns to when the listener ends.
\<close>

inductive main_step ::
    "reader \<Rightarrow> (Config \<Rightarrow> string) \<Rightarrow> string \<Rightarrow> net \<Rightarrow> 'db services \<Rightarrow> time \<Rightarrow> 'db \<Rightarrow> 'db mainState \<Rightarrow> 'db mainState \<Rightarrow> bool"
  for R D path N sv now d where
  load_fails: "mn_pc m = Loading \<Longrightarrow> GetConfig R D path configInit = ((i, Some e), v) \<Longrightarrow>
    main_step R D path N sv now d m (m\<lparr>mn_pc := Exited ''loading configuration failed'' (ConfigError e)\<rparr>)"
| load: "mn_pc m = Loading \<Longrightarrow> GetConfig R D path configInit = ((Some conf, None), v) \<Longrightarrow>
    main_step R D path N sv now d m
      (m\<lparr>mn_pc := Building conf, mn_err := None, mn_metrics := (if mt_Enabled (cfg_Metrics conf) then Some conf else None)\<rparr>)"
| metrics_end: "mn_metrics m = Some conf \<Longrightarrow> \<not> isExited (mn_pc m) \<Longrightarrow>
    main_step R D path N sv now d m (m\<lparr>mn_err := map_option MetricsError (Listen N conf), mn_metrics := None\<rparr>)"
| build: "mn_pc m = Building conf \<Longrightarrow> NewProgram sv conf now d = (Inr p, d') \<Longrightarrow>
    main_step R D path N sv now d m (m\<lparr>mn_pc := Checking, mn_err := None, mn_program := Some p\<rparr>)"
| build_fails: "mn_pc m = Building conf \<Longrightarrow> NewProgram sv conf now d = (Inl e, d') \<Longrightarrow>
    main_step R D path N sv now d m (m\<lparr>mn_pc := Checking, mn_err := Some (CentralError e)\<rparr>)"
| check_fails: "mn_pc m = Checking \<Longrightarrow> mn_err m = Some e \<Longrightarrow>
    main_step R D path N sv now d m (m\<lparr>mn_pc := Exited ''central system initialization failed'' e\<rparr>)"
| check: "mn_pc m = Checking \<Longrightarrow> mn_err m = None \<Longrightarrow>
    main_step R D path N sv now d m (m\<lparr>mn_pc := Serving, mn_program := map_option startProgram (mn_program m)\<rparr>)"

definition loaded :: "reader \<Rightarrow> (Config \<Rightarrow> string) \<Rightarrow> string \<Rightarrow> Config \<Rightarrow> bool" where
  "loaded R D path conf \<longleftrightarrow> fst (GetConfig R D path configInit) = (Some conf, None)"

text \<open>What can be the reason for an exit after the configuration was loaded.\<close>

definition startFailure :: "net \<Rightarrow> 'db services \<Rightarrow> time \<Rightarrow> 'db \<Rightarrow> Config \<Rightarrow> MainError \<Rightarrow> bool" where
  "startFailure N sv now d conf e \<longleftrightarrow>
     (\<exists>x. e = CentralError x \<and> fst (NewProgram sv conf now d) = Inl x)
     \<or> mt_Enabled (cfg_Metrics conf) \<and> (\<exists>x. e = MetricsError x \<and> Listen N conf = Some x)"

definition built :: "'db services \<Rightarrow> time \<Rightarrow> 'db \<Rightarrow> Config \<Rightarrow> 'db program option \<Rightarrow> bool" where
  "built sv now d conf q \<longleftrightarrow> (\<exists>p. q = Some p \<and> fst (NewProgram sv conf now d) = Inr p)"

definition metricsOk :: "Config \<Rightarrow> 'db mainState \<Rightarrow> bool" where
  "metricsOk conf m \<longleftrightarrow> (\<forall>c. mn_metrics m = Some c \<longrightarrow> c = conf \<and> mt_Enabled (cfg_Metrics conf))"

definition main_inv ::
    "reader \<Rightarrow> (Config \<Rightarrow> string) \<Rightarrow> string \<Rightarrow> net \<Rightarrow> 'db services \<Rightarrow> time \<Rightarrow> 'db \<Rightarrow> 'db mainState \<Rightarrow> bool" where
  "main_inv R D path N sv now d m \<longleftrightarrow>
     (case mn_pc m of
        Loading \<Rightarrow> mn_metrics m = None \<and> mn_program m = None
      | Building conf \<Rightarrow> loaded R D path conf \<and> metricsOk conf m \<and> mn_program m = None
      | Checking \<Rightarrow> (\<exists>conf. loaded R D path conf \<and> metricsOk conf m \<and> (mn_err m = None \<longrightarrow> built sv now d conf (mn_program m))
           \<and> (\<forall>e. mn_err m = Some e \<longrightarrow> startFailure N sv now d conf e))
      | Serving \<Rightarrow> (\<exists>conf p. loaded R D path conf \<and> metricsOk conf m \<and> built sv now d conf (Some p)
           \<and> mn_program m = Some (startProgram p))
      | Exited what e \<Rightarrow> (\<exists>x. e = ConfigError x \<and> snd (fst (GetConfig R D path configInit)) = Some x)
           \<or> (\<exists>conf. loaded R D path conf \<and> startFailure N sv now d conf e))"

lemma Listen_enabled: "mt_Enabled (cfg_Metrics conf) \<Longrightarrow> \<exists>x. Listen N conf = Some x"
  by (simp add: Listen_def Let_def)

lemma main_inv_step:
  assumes "main_step R D path N sv now d m m'" "main_inv R D path N sv now d m"
  shows "main_inv R D path N sv now d m'"
  using assms
proof (cases rule: main_step.cases)
  case (metrics_end conf)
  obtain x where x: "mt_Enabled (cfg_Metrics c) \<Longrightarrow> Listen N c = Some (x c)" for c
    using Listen_enabled [of _ N] by metis
  from metrics_end assms(2) show ?thesis
    by (cases "mn_pc m") (fastforce simp: main_inv_def metricsOk_def startFailure_def isExited_def x)+
qed (fastforce simp: main_inv_def loaded_def metricsOk_def built_def startFailure_def)+

lemma main_inv_reach:
  "(main_step R D path N sv now d)\<^sup>*\<^sup>* mainInit m \<Longrightarrow> main_inv R D path N sv now d m"
  by (induction rule: rtranclp_induct) (auto simp: main_inv_def mainInit_def dest: main_inv_step)


text \<open>
  C39. A failure of the metrics listener, a matter of monitoring only, can end a process whose construction has
  succeeded: the goroutine assigns its error to the variable that \<^verbatim>\<open>main\<close> is about to test. The same start serves when
  the goroutine is scheduled later.
\<close>

theorem metrics_failure_aborts_start:
  assumes conf: "fst (GetConfig R D path configInit) = (Some conf, None)" "mt_Enabled (cfg_Metrics conf)"
    and p: "NewProgram sv conf now d = (Inr p, d')"
  shows "(\<exists>m x. (main_step R D path N sv now d)\<^sup>*\<^sup>* mainInit m
      \<and> mn_pc m = Exited ''central system initialization failed'' (MetricsError x))
    \<and> (\<exists>m. (main_step R D path N sv now d)\<^sup>*\<^sup>* mainInit m \<and> mn_pc m = Serving)"
proof -
  obtain v where v: "GetConfig R D path configInit = ((Some conf, None), v)"
    using conf(1) by (cases "GetConfig R D path configInit") simp
  obtain x where x: "Listen N conf = Some x" using Listen_enabled [OF conf(2)] by blast
  let ?S = "main_step R D path N sv now d"
  let ?m1 = "mainInit\<lparr>mn_pc := Building conf, mn_err := None, mn_metrics := Some conf\<rparr>"
  let ?m2 = "?m1\<lparr>mn_pc := Checking, mn_err := None, mn_program := Some p\<rparr>"
  let ?m3 = "?m2\<lparr>mn_err := Some (MetricsError x), mn_metrics := None\<rparr>"
  have 1: "?S mainInit ?m1" using load [where R = R and m = mainInit, OF _ v] conf(2) by (simp add: mainInit_def)
  have 2: "?S ?m1 ?m2" by (rule build [OF _ p]) simp
  have 3: "?S ?m2 ?m3" using metrics_end [where m = ?m2 and N = N and conf = conf] x by (simp add: isExited_def)
  have 4: "?S ?m3 (?m3\<lparr>mn_pc := Exited ''central system initialization failed'' (MetricsError x)\<rparr>)"
    by (rule check_fails) simp_all
  have 5: "?S ?m2 (?m2\<lparr>mn_pc := Serving, mn_program := map_option startProgram (mn_program ?m2)\<rparr>)"
    by (rule check) simp_all
  from 1 2 3 4 have a: "\<exists>m x. ?S\<^sup>*\<^sup>* mainInit m \<and> mn_pc m = Exited ''central system initialization failed'' (MetricsError x)"
    by (intro exI [of _ "?m3\<lparr>mn_pc := Exited ''central system initialization failed'' (MetricsError x)\<rparr>"] exI [of _ x] conjI)
      (meson converse_rtranclp_into_rtranclp r_into_rtranclp, simp)
  from 1 2 5 have b: "\<exists>m. ?S\<^sup>*\<^sup>* mainInit m \<and> mn_pc m = Serving"
    by (intro exI [of _ "?m2\<lparr>mn_pc := Serving, mn_program := map_option startProgram (mn_program ?m2)\<rparr>"] conjI)
      (meson converse_rtranclp_into_rtranclp r_into_rtranclp, simp)
  from a b show ?thesis by (rule conjI)
qed

text \<open>A configuration without a database, read by a reader that always succeeds.\<close>

definition plainConf :: Config where
  "plainConf = envDefaults\<lparr>cfg_Metrics := (cfg_Metrics envDefaults)\<lparr>mt_Enabled := True\<rparr>\<rparr>"

definition demoNet :: net where
  "demoNet = \<lparr>net_Listen = (\<lambda>_. None), net_Serve = (\<lambda>_. ErrServerClosed),
     net_ListenAndServe = (\<lambda>_. NetError ''address already in use''), net_LoadX509KeyPair = (\<lambda>_ _. None)\<rparr>"

lemma plain_built: "\<exists>p. NewProgram demoServices plainConf 0 demoFull = (Inr p, demoFull)"
  by (simp add: NewProgram_def openDatabase_def openBot_def plainConf_def envDefaults_def demoServices_def
      NewCentralSystem_def configureCentral_def OnStart_def startListening_def Let_def NewSystemHandler_def)

lemma plain_loaded: "fst (GetConfig (\<lambda>_ _. (plainConf, None)) D path configInit) = (Some plainConf, None)"
  by (simp add: GetConfig_def configInit_def)

theorem metrics_failure_aborts_start_witness:
  "\<exists>m x. (main_step (\<lambda>_ _. (plainConf, None)) (\<lambda>_. []) ''config.yml'' demoNet demoServices 0 demoFull)\<^sup>*\<^sup>* mainInit m
     \<and> mn_pc m = Exited ''central system initialization failed'' (MetricsError x)"
proof -
  obtain p where p: "NewProgram demoServices plainConf 0 demoFull = (Inr p, demoFull)" using plain_built by blast
  have "mt_Enabled (cfg_Metrics plainConf)" by (simp add: plainConf_def)
  from metrics_failure_aborts_start [OF plain_loaded this p] show ?thesis by (rule conjunct1)
qed


section \<open>From the configuration to the handlers\<close>


text \<open>
  C33. A closed installation stays closed: with a database, without the setting for unknown tags and without roaming,
  an authorization on a known charge point always answers, and it accepts exactly the tags the database holds as
  enabled, on charge points that are enabled.
\<close>

theorem closed_program_accepts_stored_tags:
  assumes p: "NewProgram sv conf t0 d = (Inr p, d')" "NewMongoClient conf = Some c"
    and closed: "\<not> cfg_AcceptUnknownTag conf" "\<not> oc_Enabled (cfg_Ocpi conf)"
    and st: "map_of (chargePoints s) cp = Some st"
  shows "\<exists>status s'. OnAuthorize (ce_env (pg_ce p)) now cp idTag s = Some (status, s')
    \<and> (status = AuthorizationStatusAccepted \<longleftrightarrow> cp_IsEnabled (cps_model st)
       \<and> (\<exists>tag. fst (mongo_GetUserTag (sv_mongo sv c) (ut_IdTag (NewUserTag idTag)) (db s)) = Some tag \<and> ut_IsEnabled tag))"
proof -
  obtain client dm where "openDatabase sv conf t0 d = (Inr client, dm)" "pg_ce p = configureCentral sv conf client t0"
    using NewProgram_central [OF p(1)] by blast
  then have ce: "ce_env (pg_ce p) = configureHandler sv conf (Some c) t0"
    using p(2) by (auto simp: configureCentral_def openDatabase_def NewMongoClient_def Let_def split: if_splits prod.splits option.splits)
  have get: "GetUserTag (mongo_Database (sv_mongo sv c) t0) = mongo_GetUserTag (sv_mongo sv c)"
    by (simp add: mongo_Database_def)
  show ?thesis
  proof (cases "cp_IsEnabled (cps_model st)")
    case False
    then show ?thesis using st by (simp add: OnAuthorize_def authorizeIdTag_def)
  next
    case True
    show ?thesis
      using True st closed
      by (cases "fst (mongo_GetUserTag (sv_mongo sv c) (ut_IdTag (NewUserTag idTag)) (db s))")
        (auto simp: ce OnAuthorize_def authorizeIdTag_def authorize_def getUserTag_def get Let_def split: prod.split)
  qed
qed


theorem closed_program_accepts_stored_tags_witness:
  "\<exists>p d' status s'. NewProgram demoServices demoConf backlogNow demoFull = (Inr p, d')
     \<and> OnAuthorize (ce_env (pg_ce p)) 0 ''CP1'' ''TAG9''
         ((NewSystemHandler NewAffleck demoFull)\<lparr>chargePoints := [(''CP1'', demoState)]\<rparr>) = Some (status, s')
     \<and> status \<noteq> AuthorizationStatusAccepted"
proof -
  obtain p d' where p: "NewProgram demoServices demoConf backlogNow demoFull = (Inr p, d')" using demo_starts(4) by blast
  let ?s = "(NewSystemHandler NewAffleck demoFull)\<lparr>chargePoints := [(''CP1'', demoState)]\<rparr>"
  have c: "\<not> cfg_AcceptUnknownTag demoConf" "\<not> oc_Enabled (cfg_Ocpi demoConf)" by (simp_all add: demoConf_def envDefaults_def)
  have st: "map_of (chargePoints ?s) ''CP1'' = Some demoState" by simp
  have "fst (mongo_GetUserTag (sv_mongo demoServices demoClient) i (db ?s)) = None" for i
    by (simp add: demoServices_def mongo_GetUserTag_def fullMongo_def fullColl_def listColl_def NewSystemHandler_def demoFull_def
        oldStore_def emptyStore_def fullUp_def decoded_def foundOne_def)
  with closed_program_accepts_stored_tags [OF p demo_client c st, of 0 "''TAG9''"] p show ?thesis by (metis option.distinct(1))
qed

section \<open>Shutdown\<close>

text \<open>Closing the stop channel of the pool; closing it twice panics.\<close>

definition Pool_Stop :: "'db program \<Rightarrow> 'db program go" where
  "Pool_Stop p = (if pg_poolStop p then None else Some (p\<lparr>pg_poolStop := True\<rparr>))"

definition logShutdown :: "string \<Rightarrow> string option \<Rightarrow> 'db program \<Rightarrow> 'db program" where
  "logShutdown text err p = (case err of None \<Rightarrow> p | Some e \<Rightarrow> p\<lparr>pg_logged := pg_logged p @ [(text, e)]\<rparr>)"

text \<open>
  The arguments are the errors of the two calls of \<^verbatim>\<open>Shutdown\<close>, which end after five seconds at the latest. The pool
  is told to stop before the websocket server is shut down.
\<close>

definition StopProgram :: "string option \<Rightarrow> string option \<Rightarrow> 'db program \<Rightarrow> 'db program go" where
  "StopProgram apiErr wsErr p = do {
     b \<leftarrow> (case pg_bot p of None \<Rightarrow> Some None | Some b \<Rightarrow> map_option Some (bot_Stop b));
     let p = logShutdown ''api server shutdown error'' apiErr (p\<lparr>pg_bot := b\<rparr>);
     p \<leftarrow> Pool_Stop p;
     Some (logShutdown ''websocket server shutdown error'' wsErr p)
   }"

text \<open>The last turn of the pool, once it sees the closed channel.\<close>

definition poolEnd :: "'db program \<Rightarrow> 'db program go" where
  "poolEnd p = map_option (\<lambda>s. p\<lparr>pg_central := (pg_central p)\<lparr>cs_server := s\<rparr>\<rparr>) (closeAllClients (cs_server (pg_central p)))"

definition closedAt :: "nat list \<Rightarrow> server \<Rightarrow> nat \<Rightarrow> WebSocket option" where
  "closedAt refs s ref =
     (if ref \<in> set refs then map_option (\<lambda>ws. ws\<lparr>ws_sendClosed := True\<rparr>) (socketOf ref s) else socketOf ref s)"

lemma closeClients_spec:
  assumes "distinct (map snd cs)"
  shows "closeClients cs s = None \<longleftrightarrow> (\<exists>ref \<in> set (map snd cs). \<exists>ws. socketOf ref s = Some ws \<and> ws_sendClosed ws)"
    and "closeClients cs s = Some s' \<Longrightarrow> socketOf ref s' = closedAt (map snd cs) s ref"
  using assms
proof (induction cs s arbitrary: s' rule: closeClients.induct)
  case (2 cid r cs s)
  have other: "socketOf q (putSocket r ws s) = socketOf q s" if "q \<noteq> r" for q ws
    using that by (simp add: socketOf_def putSocket_def)
  have same: "socketOf r (putSocket r ws s) = Some ws" for ws by (simp add: socketOf_def putSocket_def)
  {
    case 1
    show ?case
    proof (cases "socketOf r s")
      case None
      then show ?thesis using "2.IH"(1) 1 by simp
    next
      case (Some ws)
      have "socketOf (snd c) (putSocket r w s) = socketOf (snd c) s" if "c \<in> set cs" for c w
        using 1 that by (intro other) (auto simp: image_iff)
      then show ?thesis using Some "2.IH"(3) [OF Some] 1
        by (cases "ws_sendClosed ws") (simp_all cong: bex_cong_simp)
    qed
  next
    case 2
    show ?case
    proof (cases "socketOf r s")
      case None
      then show ?thesis using "2.IH"(2) 2 by (auto simp: closedAt_def)
    next
      case (Some ws)
      then show ?thesis using "2.IH"(4) [OF Some] 2 other same
        by (cases "ws_sendClosed ws"; cases "ref = r") (simp_all add: closedAt_def)
    qed
  }
qed (simp_all add: closedAt_def)

lemma clients_distinct:
  assumes "server_ok s"
  shows "distinct (map snd (clients s))"
proof -
  have ok: "gomap_ok (clients s)" and cl: "\<And>cid ref. map_of (clients s) cid = Some ref \<Longrightarrow> \<exists>ws. socketOf ref s = Some ws \<and> ws_id ws = cid"
    using assms by (auto simp: server_ok_def tables_ok_def clients_ok_def)
  have "inj_on snd (set (clients s))"
  proof (rule inj_onI, clarsimp)
    fix a b ref
    assume "(a, ref) \<in> set (clients s)" "(b, ref) \<in> set (clients s)"
    then have "map_of (clients s) a = Some ref" "map_of (clients s) b = Some ref" using ok by (simp_all add: gomap_ok_def)
    then show "a = b" using cl [of a ref] cl [of b ref] by auto
  qed
  moreover have "distinct (clients s)" using ok by (simp add: gomap_ok_def distinct_map)
  ultimately show ?thesis by (simp add: distinct_map)
qed

text \<open>
  C38. The shutdown stops the bot and the pool whatever the two servers answer, and logs their errors. The last turn of
  the pool then empties the table of connections and closes the send channel of every registered websocket, with the
  messages that are still queued in it, and of no other; it panics exactly when a registered websocket has its
  channel closed already, as after an overflow of its buffer.
\<close>

theorem shutdown_closes_connections:
  assumes "server_ok s" "s = cs_server (pg_central p)" "\<not> pg_poolStop p" "pg_bot p = Some b" "\<not> tg_stop b"
  shows "\<exists>p'. StopProgram apiErr wsErr p = Some p' \<and> pg_bot p' = Some (b\<lparr>tg_stop := True\<rparr>) \<and> pg_poolStop p'
    \<and> length (pg_logged p') = length (pg_logged p) + (if apiErr = None then 0 else 1) + (if wsErr = None then 0 else 1)
    \<and> (poolEnd p' = None \<longleftrightarrow> (\<exists>ref \<in> snd ` set (clients s). \<exists>ws. socketOf ref s = Some ws \<and> ws_sendClosed ws))
    \<and> (\<forall>q. poolEnd p' = Some q \<longrightarrow> clients (cs_server (pg_central q)) = []
         \<and> (\<forall>ref. socketOf ref (cs_server (pg_central q)) = closedAt (map snd (clients s)) s ref))"
proof -
  obtain p' where p': "StopProgram apiErr wsErr p = Some p'" "pg_bot p' = Some (b\<lparr>tg_stop := True\<rparr>)" "pg_poolStop p'"
      "length (pg_logged p') = length (pg_logged p) + (if apiErr = None then 0 else 1) + (if wsErr = None then 0 else 1)"
      "pg_central p' = pg_central p"
    using assms(3-5)
    by (cases apiErr; cases wsErr) (simp_all add: StopProgram_def bot_Stop_def Pool_Stop_def logShutdown_def)
  note spec = closeClients_spec [OF clients_distinct [OF assms(1)], of s]
  have clear: "socketOf ref (t\<lparr>clients := []\<rparr>) = socketOf ref t" for ref t by (simp add: socketOf_def)
  have "poolEnd p' = None \<longleftrightarrow> (\<exists>ref \<in> snd ` set (clients s). \<exists>ws. socketOf ref s = Some ws \<and> ws_sendClosed ws)"
    using spec(1) assms(2) p'(5) by (simp add: poolEnd_def closeAllClients_def)
  moreover have "clients (cs_server (pg_central q)) = [] \<and> (\<forall>ref. socketOf ref (cs_server (pg_central q)) = closedAt (map snd (clients s)) s ref)"
    if "poolEnd p' = Some q" for q
    using that spec(2) assms(2) p'(5) by (auto simp: poolEnd_def closeAllClients_def clear)
  ultimately show ?thesis using p' by (intro exI [of _ p']) simp
qed

definition demoRunningProgram :: "Store program" where
  "demoRunningProgram = \<lparr>pg_ce = demoCsEnv, pg_central = demoCentral\<lparr>cs_server := demoServer\<rparr>,
     pg_logger = NewLogger (sv_zone demoServices) emptyStore, pg_bot = Some (emptyBot emptyStore), pg_listeners = [Bot], pg_errors = None,
     pg_api = NewServerApi envDefaults, pg_poolStop = False, pg_logged = []\<rparr>"

theorem shutdown_closes_connections_witness:
  "\<exists>p' q. StopProgram (Some ''timeout'') None demoRunningProgram = Some p' \<and> length (pg_logged p') = 1
     \<and> poolEnd p' = Some q \<and> clients (cs_server (pg_central q)) = []
     \<and> map_option ws_sendClosed (socketOf 0 (cs_server (pg_central q))) = Some True"
proof -
  have sock: "clients demoServer = [(''cp1'', 0)]"
      "\<exists>ws. socketOf 0 demoServer = Some ws \<and> \<not> ws_sendClosed ws"
    by (simp_all add: demoServer_def handleWsRequest_def NewServer_def sameId_def checkAddClient_def socketOf_def putSocket_def
        recipientAvailable_def Let_def mput_def)
  have ok: "server_ok demoServer" using runs_ok [OF demo_runs [of "\<lambda>_. []"] NewServer_ok] .
  have pre: "demoServer = cs_server (pg_central demoRunningProgram)" "\<not> pg_poolStop demoRunningProgram"
      "pg_bot demoRunningProgram = Some (emptyBot emptyStore)" "\<not> tg_stop (emptyBot emptyStore)" "pg_logged demoRunningProgram = []"
    by (simp_all add: demoRunningProgram_def emptyBot_def)
  obtain p' where p': "StopProgram (Some ''timeout'') None demoRunningProgram = Some p'" "length (pg_logged p') = 1"
      "poolEnd p' \<noteq> None" "\<And>q. poolEnd p' = Some q \<Longrightarrow> clients (cs_server (pg_central q)) = []
         \<and> (\<forall>ref. socketOf ref (cs_server (pg_central q)) = closedAt (map snd (clients demoServer)) demoServer ref)"
    using shutdown_closes_connections [OF ok pre(1-4), of "Some ''timeout''" None] pre(5) sock by auto
  then obtain q where q: "poolEnd p' = Some q" by auto
  with p' sock show ?thesis by (intro exI [of _ p'] exI [of _ q]) (auto simp: closedAt_def)
qed

end
