(* ===== verification/Vocabulary.thy ===== *)
theory Vocabulary
  imports Prelude
begin

text \<open>
  The enumerations of the messages. In Go each is a named string type with constants and a decoded value may be any
  string; here each is the list of its constants, in the order of the source.
\<close>

section \<open>Values of OCPP 1.6: \<^verbatim>\<open>src/types/types.go\<close>\<close>

definition ReadingContextValues16 :: "string list" where
  "ReadingContextValues16 = [''Interruption.Begin'', ''Interruption.End'', ''Other'', ''Sample.Clock'',
     ''Sample.Periodic'', ''Transaction.Begin'', ''Transaction.End'', ''Trigger'']"

definition ValueFormatValues16 :: "string list" where
  "ValueFormatValues16 = [''Raw'', ''SignedData'']"

definition MeasurandValues16 :: "string list" where
  "MeasurandValues16 = [''Current.Export'', ''Current.Import'', ''Current.Offered'',
     ''Energy.Active.Export.Register'', ''Energy.Active.Import.Register'', ''Energy.Reactive.Export.Register'',
     ''Energy.Reactive.Import.Register'', ''Energy.Active.Export.Interval'', ''Energy.Active.Import.Interval'',
     ''Energy.Reactive.Export.Interval'', ''Energy.Reactive.Import.Interval'', ''Frequency'',
     ''Power.Active.Export'', ''Power.Active.Import'', ''Power.Factor'', ''Power.Offered'',
     ''Power.Reactive.Export'', ''Power.Reactive.Import'', ''RPM'', ''SoC'', ''Temperature'', ''Voltage'']"

definition PhaseValues16 :: "string list" where
  "PhaseValues16 = [''L1'', ''L2'', ''L3'', ''N'', ''L1-N'', ''L2-N'', ''L3-N'', ''L1-L2'', ''L2-L3'', ''L3-L1'']"

definition LocationValues16 :: "string list" where
  "LocationValues16 = [''Body'', ''Cable'', ''EV'', ''Inlet'', ''Outlet'']"

definition UnitOfMeasureValues16 :: "string list" where
  "UnitOfMeasureValues16 = [''Wh'', ''kWh'', ''varh'', ''kvarh'', ''W'', ''kW'', ''VA'', ''kVA'', ''var'',
     ''kvar'', ''A'', ''V'', ''Celsius'', ''Fahrenheit'', ''K'', ''Percent'']"

definition RemoteStartStopStatusValues16 :: "string list" where
  "RemoteStartStopStatusValues16 = [''Accepted'', ''Rejected'']"

definition ChargingProfilePurposeTypeValues16 :: "string list" where
  "ChargingProfilePurposeTypeValues16 = [''ChargePointMaxProfile'', ''TxDefaultProfile'', ''TxProfile'']"

definition ChargingProfileKindTypeValues16 :: "string list" where
  "ChargingProfileKindTypeValues16 = [''Absolute'', ''Recurring'', ''Relative'']"

definition RecurrencyKindTypeValues16 :: "string list" where
  "RecurrencyKindTypeValues16 = [''Daily'', ''Weekly'']"

definition ChargingRateUnitTypeValues16 :: "string list" where
  "ChargingRateUnitTypeValues16 = [''W'', ''A'']"

definition RegistrationStatusValues16 :: "string list" where
  "RegistrationStatusValues16 = [''Accepted'', ''Pending'', ''Rejected'']"

definition DataTransferStatusValues16 :: "string list" where
  "DataTransferStatusValues16 = [''Accepted'', ''Rejected'', ''UnknownMessageId'', ''UnknownVendorId'']"

definition UpdateTypeValues16 :: "string list" where
  "UpdateTypeValues16 = [''Differential'', ''Full'']"

definition UpdateStatusValues16 :: "string list" where
  "UpdateStatusValues16 = [''Accepted'', ''Failed'', ''NotSupported'', ''VersionMismatch'']"

definition TriggerMessageStatusValues16 :: "string list" where
  "TriggerMessageStatusValues16 = [''Accepted'', ''Rejected'', ''NotImplemented'']"

section \<open>Values of OCPP 2.0.1: \<^verbatim>\<open>src/ocpp/v201/types.go\<close>\<close>

definition IdTokenTypeValues201 :: "string list" where
  "IdTokenTypeValues201 = [''Central'', ''eMAID'', ''ISO14443'', ''ISO15693'', ''KeyCode'', ''Local'',
     ''MacAddress'', ''NoAuthorization'']"

definition AuthorizationStatusTypeValues201 :: "string list" where
  "AuthorizationStatusTypeValues201 = [''Accepted'', ''Blocked'', ''ConcurrentTx'', ''Expired'', ''Invalid'',
     ''NoCredit'', ''NotAllowedTypeEVSE'', ''NotAtThisLocation'', ''NotAtThisTime'', ''Unknown'']"

definition ConnectorStatusTypeValues201 :: "string list" where
  "ConnectorStatusTypeValues201 = [''Available'', ''Occupied'', ''Reserved'', ''Unavailable'', ''Faulted'']"

definition ChargingStateTypeValues201 :: "string list" where
  "ChargingStateTypeValues201 = [''Charging'', ''EVConnected'', ''SuspendedEV'', ''SuspendedEVSE'', ''Idle'']"

definition TransactionEventTypeValues201 :: "string list" where
  "TransactionEventTypeValues201 = [''Started'', ''Updated'', ''Ended'']"

definition TriggerReasonTypeValues201 :: "string list" where
  "TriggerReasonTypeValues201 = [''Authorized'', ''CablePluggedIn'', ''ChargingRateChanged'',
     ''ChargingStateChanged'', ''Deauthorized'', ''EnergyLimitReached'', ''EVCommunicationLost'',
     ''EVConnectTimeout'', ''MeterValueClock'', ''MeterValuePeriodic'', ''TimeLimitReached'', ''Trigger'',
     ''UnlockCommand'', ''StopAuthorized'', ''EVDeparted'', ''EVDetected'', ''RemoteStop'', ''RemoteStart'',
     ''AbnormalCondition'', ''SignedDataReceived'', ''ResetCommand'']"

definition ReasonTypeValues201 :: "string list" where
  "ReasonTypeValues201 = [''DeAuthorized'', ''EmergencyStop'', ''EVDisconnected'', ''GroundFault'',
     ''ImmediateReset'', ''Local'', ''LocalOutOfCredit'', ''MasterPass'', ''Other'', ''OvercurrentFault'',
     ''PowerLoss'', ''PowerQuality'', ''Reboot'', ''Remote'', ''SOCLimitReached'', ''StoppedByEV'',
     ''TimeLimitReached'', ''Timeout'']"

definition BootReasonTypeValues201 :: "string list" where
  "BootReasonTypeValues201 = [''ApplicationReset'', ''FirmwareUpdate'', ''LocalReset'', ''PowerUp'',
     ''RemoteReset'', ''ScheduledReset'', ''Triggered'', ''Unknown'', ''Watchdog'']"

definition RegistrationStatusTypeValues201 :: "string list" where
  "RegistrationStatusTypeValues201 = [''Accepted'', ''Pending'', ''Rejected'']"

definition MessagePriorityTypeValues201 :: "string list" where
  "MessagePriorityTypeValues201 = [''AlwaysFront'', ''InFront'', ''NormalCycle'']"

definition MessageStateTypeValues201 :: "string list" where
  "MessageStateTypeValues201 = [''Charging'', ''Faulted'', ''Idle'', ''Unavailable'']"

definition ReadingContextTypeValues201 :: "string list" where
  "ReadingContextTypeValues201 = [''Interruption.Begin'', ''Interruption.End'', ''Other'', ''Sample.Clock'',
     ''Sample.Periodic'', ''Transaction.Begin'', ''Transaction.End'', ''Trigger'']"

definition MeasurandTypeValues201 :: "string list" where
  "MeasurandTypeValues201 = [''Current.Export'', ''Current.Import'', ''Current.Offered'',
     ''Energy.Active.Export.Register'', ''Energy.Active.Import.Register'', ''Energy.Reactive.Export.Register'',
     ''Energy.Reactive.Import.Register'', ''Energy.Active.Export.Interval'', ''Energy.Active.Import.Interval'',
     ''Energy.Active.Net'', ''Energy.Reactive.Export.Interval'', ''Energy.Reactive.Import.Interval'',
     ''Energy.Reactive.Net'', ''Energy.Apparent.Net'', ''Energy.Apparent.Import'', ''Energy.Apparent.Export'',
     ''Frequency'', ''Power.Active.Export'', ''Power.Active.Import'', ''Power.Factor'', ''Power.Offered'',
     ''Power.Reactive.Export'', ''Power.Reactive.Import'', ''SoC'', ''Voltage'']"

definition PhaseTypeValues201 :: "string list" where
  "PhaseTypeValues201 = [''L1'', ''L2'', ''L3'', ''N'', ''L1-N'', ''L2-N'', ''L3-N'', ''L1-L2'', ''L2-L3'',
     ''L3-L1'']"

definition LocationTypeValues201 :: "string list" where
  "LocationTypeValues201 = [''Body'', ''Cable'', ''EV'', ''Inlet'', ''Outlet'']"

definition UnitOfMeasureTypeValues201 :: "string list" where
  "UnitOfMeasureTypeValues201 = [''Wh'', ''kWh'', ''varh'', ''kvarh'', ''W'', ''kW'', ''VA'', ''kVA'', ''var'',
     ''kvar'', ''A'', ''V'', ''Celsius'', ''Fahrenheit'', ''K'', ''Percent'', ''Hz'']"

definition ChargingProfilePurposeTypeValues201 :: "string list" where
  "ChargingProfilePurposeTypeValues201 = [''ChargingStationMaxProfile'', ''TxDefaultProfile'', ''TxProfile'']"

definition ChargingProfileKindTypeValues201 :: "string list" where
  "ChargingProfileKindTypeValues201 = [''Absolute'', ''Recurring'', ''Relative'']"

definition RecurrencyKindTypeValues201 :: "string list" where
  "RecurrencyKindTypeValues201 = [''Daily'', ''Weekly'']"

definition ChargingRateUnitTypeValues201 :: "string list" where
  "ChargingRateUnitTypeValues201 = [''A'', ''W'']"

definition HashAlgorithmTypeValues201 :: "string list" where
  "HashAlgorithmTypeValues201 = [''SHA256'', ''SHA384'', ''SHA512'']"

definition AuthorizeCertificateStatusTypeValues201 :: "string list" where
  "AuthorizeCertificateStatusTypeValues201 = [''Accepted'', ''SignatureError'', ''CertificateExpired'',
     ''CertificateRevoked'', ''NoCertificateAvailable'', ''CertChainError'', ''ContractCancelled'']"

definition ChargingLimitSourceTypeValues201 :: "string list" where
  "ChargingLimitSourceTypeValues201 = [''EMS'', ''Other'', ''SO'', ''CSO'']"

definition GenericDeviceModelStatusTypeValues201 :: "string list" where
  "GenericDeviceModelStatusTypeValues201 = [''Accepted'', ''Rejected'', ''NotSupported'', ''EmptyResultSet'']"

definition GetVariableStatusTypeValues201 :: "string list" where
  "GetVariableStatusTypeValues201 = [''Accepted'', ''Rejected'', ''UnknownComponent'', ''UnknownVariable'',
     ''NotSupportedAttributeType'']"

definition ReportBaseTypeValues201 :: "string list" where
  "ReportBaseTypeValues201 = [''ConfigurationInventory'', ''FullInventory'', ''SummaryInventory'']"

definition AttributeTypeValues201 :: "string list" where
  "AttributeTypeValues201 = [''Actual'', ''Target'', ''MinSet'', ''MaxSet'']"

definition MutabilityTypeValues201 :: "string list" where
  "MutabilityTypeValues201 = [''ReadOnly'', ''WriteOnly'', ''ReadWrite'']"

definition DataTypeValues201 :: "string list" where
  "DataTypeValues201 = [''string'', ''decimal'', ''integer'', ''dateTime'', ''boolean'', ''OptionList'',
     ''SequenceList'', ''MemberList'']"

definition ResetTypeValues201 :: "string list" where
  "ResetTypeValues201 = [''Immediate'', ''OnIdle'']"

definition ResetStatusTypeValues201 :: "string list" where
  "ResetStatusTypeValues201 = [''Accepted'', ''Rejected'', ''Scheduled'']"

definition SetVariableStatusTypeValues201 :: "string list" where
  "SetVariableStatusTypeValues201 = [''Accepted'', ''Rejected'', ''UnknownComponent'', ''UnknownVariable'',
     ''NotSupportedAttributeType'', ''RebootRequired'']"

definition RequestStartStopStatusTypeValues201 :: "string list" where
  "RequestStartStopStatusTypeValues201 = [''Accepted'', ''Rejected'']"

definition PreconditioningStatusTypeValues201 :: "string list" where
  "PreconditioningStatusTypeValues201 = [''Ready'', ''NotReady'', ''InProgress'', ''NotSupported'']"

section \<open>The vocabulary as a whole\<close>

definition vocabulary :: "string list list" where
  "vocabulary =
     [ReadingContextValues16, ValueFormatValues16, MeasurandValues16, PhaseValues16, LocationValues16,
      UnitOfMeasureValues16, RemoteStartStopStatusValues16, ChargingProfilePurposeTypeValues16,
      ChargingProfileKindTypeValues16, RecurrencyKindTypeValues16, ChargingRateUnitTypeValues16,
      RegistrationStatusValues16, DataTransferStatusValues16, UpdateTypeValues16, UpdateStatusValues16,
      TriggerMessageStatusValues16, IdTokenTypeValues201, AuthorizationStatusTypeValues201,
      ConnectorStatusTypeValues201, ChargingStateTypeValues201, TransactionEventTypeValues201,
      TriggerReasonTypeValues201, ReasonTypeValues201, BootReasonTypeValues201, RegistrationStatusTypeValues201,
      MessagePriorityTypeValues201, MessageStateTypeValues201, ReadingContextTypeValues201,
      MeasurandTypeValues201, PhaseTypeValues201, LocationTypeValues201, UnitOfMeasureTypeValues201,
      ChargingProfilePurposeTypeValues201, ChargingProfileKindTypeValues201, RecurrencyKindTypeValues201,
      ChargingRateUnitTypeValues201, HashAlgorithmTypeValues201, AuthorizeCertificateStatusTypeValues201,
      ChargingLimitSourceTypeValues201, GenericDeviceModelStatusTypeValues201, GetVariableStatusTypeValues201,
      ReportBaseTypeValues201, AttributeTypeValues201, MutabilityTypeValues201, DataTypeValues201,
      ResetTypeValues201, ResetStatusTypeValues201, SetVariableStatusTypeValues201,
      RequestStartStopStatusTypeValues201, PreconditioningStatusTypeValues201]"

lemmas vocabulary_defs =
  ReadingContextValues16_def ValueFormatValues16_def MeasurandValues16_def PhaseValues16_def LocationValues16_def
  UnitOfMeasureValues16_def RemoteStartStopStatusValues16_def ChargingProfilePurposeTypeValues16_def
  ChargingProfileKindTypeValues16_def RecurrencyKindTypeValues16_def ChargingRateUnitTypeValues16_def
  RegistrationStatusValues16_def DataTransferStatusValues16_def UpdateTypeValues16_def UpdateStatusValues16_def
  TriggerMessageStatusValues16_def IdTokenTypeValues201_def AuthorizationStatusTypeValues201_def
  ConnectorStatusTypeValues201_def ChargingStateTypeValues201_def TransactionEventTypeValues201_def
  TriggerReasonTypeValues201_def ReasonTypeValues201_def BootReasonTypeValues201_def
  RegistrationStatusTypeValues201_def MessagePriorityTypeValues201_def MessageStateTypeValues201_def
  ReadingContextTypeValues201_def MeasurandTypeValues201_def PhaseTypeValues201_def LocationTypeValues201_def
  UnitOfMeasureTypeValues201_def ChargingProfilePurposeTypeValues201_def ChargingProfileKindTypeValues201_def
  RecurrencyKindTypeValues201_def ChargingRateUnitTypeValues201_def HashAlgorithmTypeValues201_def
  AuthorizeCertificateStatusTypeValues201_def ChargingLimitSourceTypeValues201_def
  GenericDeviceModelStatusTypeValues201_def GetVariableStatusTypeValues201_def ReportBaseTypeValues201_def
  AttributeTypeValues201_def MutabilityTypeValues201_def DataTypeValues201_def ResetTypeValues201_def
  ResetStatusTypeValues201_def SetVariableStatusTypeValues201_def RequestStartStopStatusTypeValues201_def
  PreconditioningStatusTypeValues201_def

text \<open>No constant is written twice and none is empty, so the zero value of such a field is none of them.\<close>

lemma vocabulary_proper: "list_all (\<lambda>vs. distinct vs \<and> [] \<notin> set vs) vocabulary"
  by code_simp

text \<open>What the versions have in common: phases and locations of a measurement are the same, units and contexts of 1.6 are known to 2.0.1.\<close>

lemma shared_vocabulary:
  "PhaseValues16 = PhaseTypeValues201" "LocationValues16 = LocationTypeValues201"
  "ReadingContextValues16 = ReadingContextTypeValues201" "set UnitOfMeasureValues16 \<subseteq> set UnitOfMeasureTypeValues201"
  "filter (\<lambda>m. m \<notin> set MeasurandTypeValues201) MeasurandValues16 = [''RPM'', ''Temperature'']"
  by (simp_all add: vocabulary_defs)

end
