(* ===== verification/PowerRuns.thy ===== *)
theory PowerRuns
  imports Vocabulary BalancerProps
begin

text \<open>
  The power manager over time: passes, boots, the start and the goroutines that wait for a verdict, in every
  interleaving and over a database that others write too. What it ever sends is one of three requests, which are
  compared with the validation tags of their structs (\<^verbatim>\<open>src/types/types.go\<close>,
  \<^verbatim>\<open>src/ocpp/v16/smartcharging\<close>).
\<close>

section \<open>Runs\<close>

inductive lb_step :: "'db lbEnv \<Rightarrow> 'db balancer \<Rightarrow> 'db balancer \<Rightarrow> bool" for env where
  lb_pass: "lb_step env b (CheckPowerLimit env now cp b)"
| lb_boot: "lb_step env b (onChargePointBoot env now cp b)"
| lb_start: "lb_step env b (OnSystemStart env b)"
| lb_verdict: "b_pending b = ps @ p # qs \<Longrightarrow> lb_step env b (onVerdict env now p answer (b\<lparr>b_pending := ps @ qs\<rparr>))"
| lb_others: "lb_step env b (b\<lparr>b_db := d\<rparr>)"

section \<open>Requests\<close>

text \<open>The tags \<open>gte\<close>, \<open>required\<close> and \<open>min\<close>; the tags that name an enumeration ask for one of its constants.\<close>

definition period_tags :: "ChargingSchedulePeriod \<Rightarrow> bool" where
  "period_tags p \<longleftrightarrow> 0 \<le> csp_StartPeriod p \<and> 0 \<le> csp_Limit p \<and> pred_option (\<lambda>n. 0 \<le> n) (csp_NumberPhases p)"

definition schedule_tags :: "ChargingSchedule \<Rightarrow> bool" where
  "schedule_tags s \<longleftrightarrow> pred_option (\<lambda>n. 0 \<le> n) (cs_Duration s) \<and> cs_ChargingRateUnit s \<in> set ChargingRateUnitTypeValues16
     \<and> cs_ChargingSchedulePeriod s \<noteq> [] \<and> list_all period_tags (cs_ChargingSchedulePeriod s)"

definition profile_tags :: "ChargingProfile \<Rightarrow> bool" where
  "profile_tags p \<longleftrightarrow> 0 \<le> pr_StackLevel p \<and> pr_ChargingProfilePurpose p \<in> set ChargingProfilePurposeTypeValues16
     \<and> pr_ChargingProfileKind p \<in> set ChargingProfileKindTypeValues16
     \<and> (pr_RecurrencyKind p = [] \<or> pr_RecurrencyKind p \<in> set RecurrencyKindTypeValues16)
     \<and> schedule_tags (pr_ChargingSchedule p)"

fun request_tags :: "Request \<Rightarrow> bool" where
  "request_tags (SetChargingProfileRequest connectorId p) \<longleftrightarrow> 0 \<le> connectorId \<and> profile_tags p"
| "request_tags (ClearChargingProfileRequest _ connectorId purpose stackLevel) \<longleftrightarrow>
     pred_option (\<lambda>n. 0 \<le> n) connectorId \<and> (purpose = [] \<or> purpose \<in> set ChargingProfilePurposeTypeValues16)
     \<and> pred_option (\<lambda>n. 0 \<le> n) stackLevel"
| "request_tags _ \<longleftrightarrow> True"

definition limits :: "int list" where "limits = baseLimit # powerSlots"

text \<open>The three requests of the power manager.\<close>

inductive powerRequest :: "Request \<Rightarrow> bool" where
  clear_default: "powerRequest NewClearDefaultChargingProfileRequest"
| set_default: "l \<noteq> 0 \<Longrightarrow> powerRequest (SetChargingProfileRequest 0 (NewDefaultChargingProfile t l))"
| set_session: "0 \<le> i \<Longrightarrow> l \<in> set limits \<Longrightarrow> 0 \<le> n \<Longrightarrow> n \<le> TxProfileStackLevel \<Longrightarrow>
    powerRequest (SetChargingProfileRequest c (NewTransactionChargingProfile c i l n))"

lemmas profile_defs = period_tags_def schedule_tags_def profile_tags_def NewDefaultChargingProfile_def
  NewTransactionChargingProfile_def ChargingRateUnitTypeValues16_def ChargingProfilePurposeTypeValues16_def
  ChargingProfileKindTypeValues16_def RecurrencyKindTypeValues16_def

lemma limits_positive: "l \<in> set limits \<Longrightarrow> 0 < l"
  by (auto simp: limits_def baseLimit_def powerSlots_def)

lemma tags_clear: "request_tags NewClearDefaultChargingProfileRequest"
  by (simp add: NewClearDefaultChargingProfileRequest_def ChargingProfilePurposeTypeValues16_def)

lemma tags_default: "l \<noteq> 0 \<Longrightarrow> request_tags (SetChargingProfileRequest 0 (NewDefaultChargingProfile t l)) \<longleftrightarrow> 0 < l"
  by (auto simp: profile_defs)

lemma tags_session:
  "l \<in> set limits \<Longrightarrow> 0 \<le> n \<Longrightarrow>
   request_tags (SetChargingProfileRequest c (NewTransactionChargingProfile c i l n)) \<longleftrightarrow> 0 \<le> c"
  using limits_positive [of l] by (simp add: profile_defs)

section \<open>The invariant\<close>

definition pendingOk :: "PendingProfile \<Rightarrow> bool" where
  "pendingOk p \<longleftrightarrow> pp_powerLimit p \<in> set limits \<and> isActive (pp_connector p)"

fun sentOk :: "LbEffect \<Rightarrow> bool" where
  "sentOk (LbSent _ r) \<longleftrightarrow> powerRequest r"
| "sentOk _ \<longleftrightarrow> True"

definition lb_inv :: "'db balancer \<Rightarrow> bool" where
  "lb_inv b \<longleftrightarrow> list_all pendingOk (b_pending b) \<and> list_all sentOk (b_out b)"

lemma lb_inv_quiet [simp]:
  "lb_inv (b\<lparr>b_db := d\<rparr>) = lb_inv b" "lb_inv (b\<lparr>b_capabilities := s\<rparr>) = lb_inv b"
  "lb_inv (lbDo D w b) = lb_inv b" "lb_inv (lbTry env w b) = lb_inv b"
  by (simp_all add: lb_inv_def lbTry_def lbDo_def split: option.split prod.split)

lemma lb_inv_discover [simp]:
  "lb_inv (discoverCapabilities env cp b) = lb_inv b" "lb_inv (ensureCapabilities env now cp b) = lb_inv b"
  by (simp_all add: lb_inv_def discoverCapabilities_def ensureCapabilities_def Let_def
      split: option.split sum.split prod.split)

lemma lb_inv_session:
  assumes "lb_inv b" "l \<in> set limits" "isActive c"
  shows "lb_inv (snd (sendTransactionProfile env c l n b))"
proof -
  let ?n = "stackLevelFor (getCapabilities (c_ChargePointId c) (b_capabilities b)) TxProfileStackLevel"
  have "0 \<le> ?n \<and> ?n \<le> TxProfileStackLevel"
    using stackLevelFor_range [of TxProfileStackLevel] by (simp add: TxProfileStackLevel_def)
  then have "powerRequest (SetChargingProfileRequest (c_Id c)
      (NewTransactionChargingProfile (c_Id c) (c_CurrentTransactionId c) l ?n))"
    using assms by (intro set_session) (auto simp: isActive_def)
  then show ?thesis
    using assms by (simp add: sendTransactionProfile_def sendProfile_def Let_def lb_inv_def pendingOk_def)
qed

lemma lb_inv_update:
  assumes "lb_inv b" "isActive c \<Longrightarrow> l \<in> set limits"
  shows "lb_inv (snd (updateConnectorPower env l c b))"
proof (cases "isActive c")
  case True
  then show ?thesis
    using lb_inv_session [OF assms(1) assms(2) True, of env stackLevelRetries]
    by (auto simp: updateConnectorPower_def isActive_def Let_def split: prod.split)
next
  case False
  then show ?thesis using assms(1) by (auto simp: updateConnectorPower_def isActive_def Let_def)
qed

lemma lb_inv_clearIdle: "lb_inv b \<Longrightarrow> lb_inv (snd (clearIdle env cs b))"
proof (induction cs arbitrary: b)
  case (Cons c cs)
  let ?u = "if \<not> isActive c \<and> c_CurrentPowerLimit c > 0 then updateConnectorPower env 0 c b else (c, b)"
  obtain c' b' where u: "?u = (c', b')" by (cases ?u)
  have "lb_inv b'" using u Cons.prems lb_inv_update [of b c 0 env] by (auto split: if_splits)
  from Cons.IH [OF this] u show ?case by (simp add: split_beta)
qed simp

lemma lb_inv_assignLimit: "lb_inv b \<Longrightarrow> l \<in> set limits \<Longrightarrow> lb_inv (snd (assignLimit env l cs b))"
proof (induction cs arbitrary: b)
  case (Cons c cs)
  let ?u = "if isActive c \<and> c_CurrentPowerLimit c > 0 then (c, b) else updateConnectorPower env l c b"
  obtain c' b' where u: "?u = (c', b')" by (cases ?u)
  have "lb_inv b'" using u Cons.prems lb_inv_update [of b c l env] by (auto split: if_splits)
  from Cons.IH [OF this Cons.prems(2)] u show ?case by (simp add: split_beta)
qed simp

lemma freeSlot_limits: "freeSlot used \<in> set limits"
  using freeSlot_cases [of used] by (auto simp: limits_def)

lemma lb_inv_pass: "lb_inv b \<Longrightarrow> lb_inv (CheckPowerLimit env now cp b)"
proof -
  assume b: "lb_inv b"
  have "lb_inv (snd (balanceConnectors env cs a))" if "lb_inv a" for cs a
    using lb_inv_clearIdle [OF that, of env cs]
    by (simp add: balanceConnectors_def Let_def split_beta lb_inv_assignLimit freeSlot_limits)
  with b show ?thesis by (simp add: CheckPowerLimit_def Let_def split: option.split)
qed

lemma lb_inv_boot: "lb_inv b \<Longrightarrow> lb_inv (onChargePointBoot env now cp b)"
proof -
  assume b: "lb_inv b"
  have "lb_inv (snd (sendProfile env cp r None a))" if "powerRequest r" "lb_inv a" for r a
    using that by (simp add: sendProfile_def lb_inv_def)
  with b show ?thesis
    by (simp add: onChargePointBoot_def Let_def clear_default set_default split: option.split)
qed

lemma lb_inv_start: "lb_inv b \<Longrightarrow> lb_inv (OnSystemStart env b)"
proof -
  assume b: "lb_inv b"
  have "lb_inv (fold (resetPower D) cs b)" for D cs
    using b by (induction cs arbitrary: b) (simp_all add: resetPower_def)
  with b show ?thesis by (simp add: OnSystemStart_def split: option.split prod.split)
qed

lemma lb_inv_verdict: "lb_inv b \<Longrightarrow> pendingOk p \<Longrightarrow> lb_inv (onVerdict env now p answer b)"
  by (simp add: onVerdict_def recordVerdict_def Let_def pendingOk_def lb_inv_session split: prod.split)

lemma lb_inv_step:
  assumes "lb_step env b b'" "lb_inv b"
  shows "lb_inv b'"
  using assms(1)
proof cases
  case (lb_verdict ps p qs now answer)
  have "pendingOk p" "lb_inv (b\<lparr>b_pending := ps @ qs\<rparr>)" using assms(2) lb_verdict(2) by (simp_all add: lb_inv_def)
  then show ?thesis unfolding lb_verdict(1) by (intro lb_inv_verdict)
qed (use assms(2) in \<open>simp_all add: lb_inv_pass lb_inv_boot lb_inv_start\<close>)

lemma lb_inv_run: "(lb_step env)\<^sup>*\<^sup>* (NewLoadBalancer d) b \<Longrightarrow> lb_inv b"
  by (induction rule: rtranclp_induct) (simp add: NewLoadBalancer_def lb_inv_def, rule lb_inv_step)

lemma sent_powerRequest: "(lb_step env)\<^sup>*\<^sup>* (NewLoadBalancer d) b \<Longrightarrow> LbSent cp r \<in> set (b_out b) \<Longrightarrow> powerRequest r"
  using lb_inv_run by (force simp: lb_inv_def list_all_iff)

text \<open>The requests that are sent, with the tags they meet.\<close>

lemma sent_conforms:
  assumes "(lb_step env)\<^sup>*\<^sup>* (NewLoadBalancer d) b" "LbSent cp r \<in> set (b_out b)"
  shows "r = NewClearDefaultChargingProfileRequest \<and> request_tags r
    \<or> (\<exists>t l. l \<noteq> 0 \<and> r = SetChargingProfileRequest 0 (NewDefaultChargingProfile t l) \<and> (request_tags r \<longleftrightarrow> 0 < l))
    \<or> (\<exists>c i l n. 0 \<le> i \<and> l \<in> set limits \<and> 0 \<le> n \<and> n \<le> TxProfileStackLevel
         \<and> r = SetChargingProfileRequest c (NewTransactionChargingProfile c i l n) \<and> (request_tags r \<longleftrightarrow> 0 \<le> c))"
  using sent_powerRequest [OF assms]
proof cases
  case clear_default
  then show ?thesis using tags_clear by simp
next
  case (set_default l t)
  then show ?thesis using tags_default [OF set_default(2), of t] by blast
next
  case (set_session i l n c)
  then show ?thesis using tags_session [OF set_session(3,4), of c i] by blast
qed

section \<open>Properties\<close>

lemma demo_power_run:
  "(lb_step demoLbEnv)\<^sup>*\<^sup>* (NewLoadBalancer demoLbStore) (CheckPowerLimit demoLbEnv 7 ''CP1'' (NewLoadBalancer demoLbStore))"
  by (rule r_into_rtranclp, rule lb_pass)

lemma demo_power_sent: "demoProfile \<in> set (b_out (CheckPowerLimit demoLbEnv 7 ''CP1'' (NewLoadBalancer demoLbStore)))"
  by code_simp


text \<open>The charge point of the example refuses the profile, and is sent it again one level lower.\<close>

definition demoRetried :: "Store balancer" where
  "demoRetried = onVerdict demoLbEnv 8 demoPending (Answered ''Rejected'')
     ((CheckPowerLimit demoLbEnv 7 ''CP1'' (NewLoadBalancer demoLbStore))\<lparr>b_pending := []\<rparr>)"


end
