(* ===== verification/ProgramPower.thy ===== *)
theory ProgramPower
  imports PowerRuns Composition
begin

text \<open>
  The power manager inside the running program: whatever the program does, its power manager makes a run of its own
  transition system, so what was shown of those runs holds from \<^verbatim>\<open>main\<close> on.
\<close>

section \<open>Steps of the program are steps of the power manager\<close>

lemma finishMessage_balancer: "finishMessage ref cp a routed cs = Done err cs' \<Longrightarrow> cs_balancer cs' = cs_balancer cs"
  by (auto simp: finishMessage_def Let_def split: option.splits sum.splits prod.splits if_splits)

lemma versionAware_balancer:
  "handleIncomingMessageVersionAware ce now ref m v cp cs = Done err cs' \<Longrightarrow> cs_balancer cs' = cs_balancer cs"
  by (cases "ParseRequestVersionAware (ce_parseTime ce) m v (cs_registry cs)")
    (auto simp: handleIncomingMessageVersionAware_def Let_def split: if_splits dest!: finishMessage_balancer)

lemma legacy_balancer: "legacyMessage ce now ref m cp cs = Done err cs' \<Longrightarrow> cs_balancer cs' = cs_balancer cs"
  by (auto simp: legacyMessage_def Let_def split: option.splits sum.splits dest!: finishMessage_balancer)

lemma result_balancer: "handleResult m cs = Done err cs' \<Longrightarrow> cs_balancer cs' = cs_balancer cs"
  by (auto simp: handleResult_def split: sum.splits Resolution.splits)

lemma message_balancer:
  "handleIncomingMessage ce now ref ws data cs = Done err cs' \<Longrightarrow> cs_balancer cs' = cs_balancer cs"
  by (auto simp: handleIncomingMessage_def Let_def split: option.splits sum.splits if_splits
      dest!: versionAware_balancer legacy_balancer result_balancer)

lemma read_balancer: "readPump ce now ref read cs = Done err cs' \<Longrightarrow> cs_balancer cs' = cs_balancer cs"
  by (auto simp: readPump_def split: option.splits dest!: message_balancer)

lemma api_balancer:
  assumes "handleApiRequest ce now uuid ch command cs = (res, cs')"
  shows "cs_balancer cs' = cs_balancer cs"
  using assms by (auto simp: handleApiRequest_def Let_def split: if_splits prod.splits sum.splits)

lemma root_balancer:
  assumes "handleRoot ce now uuid ch method path body cs = (res, cs')"
  shows "cs_balancer cs' = cs_balancer cs"
  using assms by (auto simp: handleRoot_def Let_def split: if_splits option.splits prod.splits ApiResult.splits
      dest!: api_balancer)

lemma withBalancer_run:
  assumes "lb_step env ((cs_balancer cs)\<lparr>b_db := db (cs_sys cs)\<rparr>) (f ((cs_balancer cs)\<lparr>b_db := db (cs_sys cs)\<rparr>))"
  shows "(lb_step env)\<^sup>*\<^sup>* (cs_balancer cs) (cs_balancer (withBalancer f cs))"
proof -
  have "lb_step env (cs_balancer cs) ((cs_balancer cs)\<lparr>b_db := db (cs_sys cs)\<rparr>)" by (rule lb_others)
  then show ?thesis
    using assms by (simp add: withBalancer_def Let_def)
qed

lemma balancer_step:
  assumes "csStep ce cs cs'"
  shows "(lb_step (ce_lbEnv ce))\<^sup>*\<^sup>* (cs_balancer cs) (cs_balancer cs')"
  using assms
proof cases
  case (cs_job js j ks now)
  let ?cs = "cs\<lparr>cs_jobs := js @ ks\<rparr>"
  have "(lb_step (ce_lbEnv ce))\<^sup>*\<^sup>* (cs_balancer ?cs) (cs_balancer (runPowerJob ce now j ?cs))"
    by (cases j; simp only: runPowerJob.simps) (rule withBalancer_run, rule lb_pass lb_boot lb_start)+
  with cs_job(2) show ?thesis by simp
next
  case (cs_verdict ps p qs now answer)
  have "lb_step (ce_lbEnv ce) ((cs_balancer cs)\<lparr>b_db := d\<rparr>)
      (onVerdict (ce_lbEnv ce) now p answer ((cs_balancer cs)\<lparr>b_db := d, b_pending := ps @ qs\<rparr>))" for d
    using lb_verdict [of "(cs_balancer cs)\<lparr>b_db := d\<rparr>" ps p qs "ce_lbEnv ce" now answer] cs_verdict(1) by simp
  from withBalancer_run [where f = "\<lambda>b. onVerdict (ce_lbEnv ce) now p answer (b\<lparr>b_pending := ps @ qs\<rparr>)", OF this] cs_verdict(2)
  show ?thesis by (simp add: takeVerdict_def)
qed (auto simp: finishApiRequest_def Let_def split: prod.splits dest!: message_balancer read_balancer root_balancer)

lemma balancer_run:
  "csSteps ce cs cs' \<Longrightarrow> (lb_step (ce_lbEnv ce))\<^sup>*\<^sup>* (cs_balancer cs) (cs_balancer cs')"
  by (induction rule: rtranclp_induct) (auto dest: balancer_step intro: rtranclp_trans)

lemma main_balancer: "main ce d = Inr cs \<Longrightarrow> \<exists>d. cs_balancer cs = NewLoadBalancer d"
  by (auto simp: main_def NewCentralSystem_def StartCentralSystem_def EnableVersionAwareRouting_def Let_def
      split: prod.splits option.splits)

section \<open>Properties\<close>

text \<open>
  C26. From the start of the program on, along every interleaving of messages, commands, background work, calls of the
  power manager and verdicts of charge points, the power manager sends only: the request that clears the default
  profile; a default profile for the whole charge point with the limit of its location; and a session profile for a
  running transaction with one of the five limits, at a stack level from zero to the default. These requests meet the
  validation tags of their structs, except for a negative default limit of a location and for a negative connector
  number.
\<close>

theorem power_requests_conform:
  assumes "main ce d = Inr cs0" "csSteps ce cs0 cs" "LbSent cp r \<in> set (b_out (cs_balancer cs))"
  shows "r = NewClearDefaultChargingProfileRequest \<and> request_tags r
    \<or> (\<exists>t l. l \<noteq> 0 \<and> r = SetChargingProfileRequest 0 (NewDefaultChargingProfile t l) \<and> (request_tags r \<longleftrightarrow> 0 < l))
    \<or> (\<exists>c i l n. 0 \<le> i \<and> l \<in> set limits \<and> 0 \<le> n \<and> n \<le> TxProfileStackLevel
         \<and> r = SetChargingProfileRequest c (NewTransactionChargingProfile c i l n) \<and> (request_tags r \<longleftrightarrow> 0 \<le> c))"
proof -
  obtain d0 where "(lb_step (ce_lbEnv ce))\<^sup>*\<^sup>* (NewLoadBalancer d0) (cs_balancer cs)"
    using main_balancer [OF assms(1)] balancer_run [OF assms(2)] by auto
  from sent_conforms [OF this assms(3)] show ?thesis .
qed

text \<open>A charge point of a location with a default limit boots.\<close>

definition powerProgram :: "Store central" where
  "powerProgram = StartCentralSystem (EnableVersionAwareRouting (snd (NewCentralSystem demoCsEnv demoLbStore)))"

definition bootFrame :: "Json list" where
  "bootFrame = [JNum 2, JStr ''u1'', JStr ''BootNotification'',
     JObj [(''chargePointModel'', JStr ''M''), (''chargePointVendor'', JStr ''V'')]]"

definition bootRequest :: BootNotificationRequest where
  "bootRequest = \<lparr>bn_ChargePointVendor = ''V'', bn_ChargePointModel = ''M'', bn_ChargePointSerialNumber = [],
     bn_ChargeBoxSerialNumber = [], bn_FirmwareVersion = [], bn_Iccid = [], bn_Imsi = [], bn_MeterType = [], bn_MeterSerialNumber = []\<rparr>"

definition bootedSys :: "Store sys" where
  "bootedSys = snd (OnBootNotification demoEnv ''CP1'' bootRequest (cs_sys powerProgram))"

lemma power_main: "main demoCsEnv demoLbStore = Inr powerProgram"
proof -
  have "fst (NewCentralSystem demoCsEnv demoLbStore) = None" by code_simp
  then show ?thesis by (cases "NewCentralSystem demoCsEnv demoLbStore") (simp add: main_def powerProgram_def)
qed

lemma boot_parsed:
  "ParseRequestVersionAware (\<lambda>_. Some 0) bootFrame OCPP16 (NewHandler16 NewFeatureRegistry) =
   Inr \<lparr>cr_TypeId = CallTypeRequest, cr_UniqueId = ''u1'', cr_feature = ''BootNotification'', cr_Payload = BootPayload bootRequest\<rparr>"
  by code_simp

lemma boot_type: "MessageType bootFrame = Inr CallTypeRequest"
  by code_simp

lemma power_open: "cs_jobs powerProgram = [JobSystemStart] \<and> sockets (cs_server powerProgram) = []"
  by code_simp

lemma power_booted:
  "\<exists>cs. handleIncomingMessage demoCsEnv 0 0 (demoSocket OCPP16) (Some (JArr bootFrame)) powerProgram = Done None cs
     \<and> cs_sys cs = bootedSys \<and> cs_balancer cs = cs_balancer powerProgram
     \<and> cs_jobs cs = [JobSystemStart] @ JobChargePointBoot ''CP1'' # []"
proof -
  have "cs_routingEnabled powerProgram" "cs_registry powerProgram = NewHandler16 NewFeatureRegistry"
    using main_routing [OF power_main] by simp_all
  then show ?thesis
    using boot_parsed boot_type power_open
    by (cases "OnBootNotification demoEnv ''CP1'' bootRequest (cs_sys powerProgram)")
      (auto simp: handleIncomingMessage_def ParseJson_def handleIncomingMessageVersionAware_def demoSocket_def demoCsEnv_def
        routeOCPP16Request_def finishMessage_def Let_def bootedSys_def isClosed_def socketOf_def SetUniqueId_def powerJobs_def)
qed

lemma power_sent:
  "LbSent ''CP1'' (SetChargingProfileRequest 0 (NewDefaultChargingProfile 0 60))
     \<in> set (b_out (onChargePointBoot demoLbEnv 0 ''CP1'' ((cs_balancer powerProgram)\<lparr>b_db := db bootedSys\<rparr>)))"
  by code_simp

theorem power_requests_conform_witness:
  "\<exists>cs cp r. csSteps demoCsEnv powerProgram cs \<and> LbSent cp r \<in> set (b_out (cs_balancer cs)) \<and> request_tags r"
proof -
  obtain cs where cs: "csStep demoCsEnv powerProgram cs" "cs_sys cs = bootedSys" "cs_balancer cs = cs_balancer powerProgram"
      "cs_jobs cs = [JobSystemStart] @ JobChargePointBoot ''CP1'' # []"
    using power_booted cs_message by blast
  let ?cs = "runPowerJob demoCsEnv 0 (JobChargePointBoot ''CP1'') (cs\<lparr>cs_jobs := [JobSystemStart] @ []\<rparr>)"
  have "csStep demoCsEnv cs ?cs" by (rule cs_job [OF cs(4) refl])
  with cs(1) have run: "csSteps demoCsEnv powerProgram ?cs" by simp
  have sent: "LbSent ''CP1'' (SetChargingProfileRequest 0 (NewDefaultChargingProfile 0 60)) \<in> set (b_out (cs_balancer ?cs))"
    using power_sent cs(2,3) by (simp add: withBalancer_def Let_def demoCsEnv_def demoLbEnv_def)
  from power_requests_conform [OF power_main run sent] have "request_tags (SetChargingProfileRequest 0 (NewDefaultChargingProfile 0 60))"
    by (auto simp: NewClearDefaultChargingProfileRequest_def NewDefaultChargingProfile_def NewTransactionChargingProfile_def)
  with run sent show ?thesis by blast
qed

end
