(* ===== verification/Answers.thy ===== *)
theory Answers
  imports MessageProps Vocabulary
begin

text \<open>
  The structs of OCPP 2.0.1 that the handlers fill or that a charge point answers with (\<^verbatim>\<open>src/ocpp/v201\<close>), in full:
  one record per struct, with its encoder and decoder. What a type promises to the messages that contain it is the
  locale \<open>codec\<close>; the commands of the system and the answers to them are read back from their JSON, and the responses
  of the handlers are the full structs with everything optional left out.
\<close>

section \<open>The contract of a type in a message\<close>

locale codec =
  fixes enc :: "'a \<Rightarrow> Json" and dec :: "Json \<Rightarrow> 'a option" and ok :: "'a \<Rightarrow> bool"
  assumes dec_enc: "ok x \<Longrightarrow> dec (enc x) = Some x"
    and enc_value: "enc x \<noteq> JNull"
begin

lemma dec_pointer: "ok x \<Longrightarrow> decPtr dec (enc x) = Some (Some x)"
  using dec_enc [of x] enc_value [of x] by (cases "enc x") auto

lemma dec_array: "list_all ok xs \<Longrightarrow> decList dec (JArr (map enc xs)) = Some xs"
  by (simp add: those_map [where g = "\<lambda>x. x"] list_all_iff dec_enc comp_def)

end

section \<open>Structs\<close>

record StatusInfo =
  si_ReasonCode :: string
  si_AdditionalInfo :: string

definition encStatusInfo :: "StatusInfo \<Rightarrow> Json" where
  "encStatusInfo i =
     JObj ([(''reasonCode'', JStr (si_ReasonCode i))]
       @ omit (si_AdditionalInfo i = []) ''additionalInfo'' (JStr (si_AdditionalInfo i)))"

definition decStatusInfo :: "Json \<Rightarrow> StatusInfo option" where
  "decStatusInfo = decObj (\<lambda>ms. do {
     x0 \<leftarrow> decStr (member ''reasonCode'' ms);
     x1 \<leftarrow> decStr (member ''additionalInfo'' ms);
     Some \<lparr>si_ReasonCode = x0, si_AdditionalInfo = x1\<rparr>
   })"

record DisplayMessage =
  dm_Content :: string
  dm_Format :: string
  dm_Language :: string

definition encDisplayMessage :: "DisplayMessage \<Rightarrow> Json" where
  "encDisplayMessage m =
     JObj ([(''content'', JStr (dm_Content m)), (''format'', JStr (dm_Format m))]
       @ omit (dm_Language m = []) ''language'' (JStr (dm_Language m)))"

record IdTokenInfo =
  iti_Status :: string
  iti_CacheExpiryDateTime :: "time option"
  iti_ChargingPriority :: "int option"
  iti_Language1 :: string
  iti_Language2 :: string
  iti_GroupIdToken :: "IdToken option"
  iti_PersonalMessage :: "DisplayMessage option"

definition encIdTokenInfo :: "(time \<Rightarrow> string) \<Rightarrow> IdTokenInfo \<Rightarrow> Json" where
  "encIdTokenInfo format i =
     JObj ([(''status'', JStr (iti_Status i))]
       @ omitPtr (\<lambda>t. JStr (format t)) ''cacheExpiryDateTime'' (iti_CacheExpiryDateTime i)
       @ omitPtr encInt ''chargingPriority'' (iti_ChargingPriority i)
       @ omit (iti_Language1 i = []) ''language1'' (JStr (iti_Language1 i))
       @ omit (iti_Language2 i = []) ''language2'' (JStr (iti_Language2 i))
       @ omitPtr encIdToken ''groupIdToken'' (iti_GroupIdToken i)
       @ omitPtr encDisplayMessage ''personalMessage'' (iti_PersonalMessage i))"

section \<open>Responses of the handlers\<close>

record BootResponse =
  bres_CurrentTime :: time
  bres_Interval :: int
  bres_Status :: string
  bres_StatusInfo :: "StatusInfo option"

record AuthorizeResult =
  ares_IdTokenInfo :: IdTokenInfo
  ares_CertificateStatus :: string

record TransactionEventResult =
  teres_TotalCost :: "float64 option"
  teres_ChargingPriority :: "int option"
  teres_IdTokenInfo :: "IdTokenInfo option"
  teres_UpdatedPersonalMessage :: "DisplayMessage option"

datatype ResponseStruct =
    BootStruct BootResponse
  | HeartbeatStruct time
  | AuthorizeStruct AuthorizeResult
  | TransactionEventStruct TransactionEventResult
  | EmptyStruct

fun encStruct :: "(time \<Rightarrow> string) \<Rightarrow> ResponseStruct \<Rightarrow> Json" where
  "encStruct format (BootStruct r) =
     JObj ([(''currentTime'', JStr (format (bres_CurrentTime r))), (''interval'', encInt (bres_Interval r)),
            (''status'', JStr (bres_Status r))]
       @ omitPtr encStatusInfo ''statusInfo'' (bres_StatusInfo r))"
| "encStruct format (HeartbeatStruct t) = JObj [(''currentTime'', JStr (format t))]"
| "encStruct format (AuthorizeStruct r) =
     JObj ([(''idTokenInfo'', encIdTokenInfo format (ares_IdTokenInfo r))]
       @ omit (ares_CertificateStatus r = []) ''certificateStatus'' (JStr (ares_CertificateStatus r)))"
| "encStruct format (TransactionEventStruct r) =
     JObj (omitPtr JNum ''totalCost'' (teres_TotalCost r) @ omitPtr encInt ''chargingPriority'' (teres_ChargingPriority r)
       @ omitPtr (encIdTokenInfo format) ''idTokenInfo'' (teres_IdTokenInfo r)
       @ omitPtr encDisplayMessage ''updatedPersonalMessage'' (teres_UpdatedPersonalMessage r))"
| "encStruct format EmptyStruct = JObj []"

text \<open>The structs as the handlers build them: only the named fields are set.\<close>

definition newIdTokenInfo :: "string \<Rightarrow> IdTokenInfo" where
  "newIdTokenInfo status =
     \<lparr>iti_Status = status, iti_CacheExpiryDateTime = None, iti_ChargingPriority = None, iti_Language1 = [],
      iti_Language2 = [], iti_GroupIdToken = None, iti_PersonalMessage = None\<rparr>"

fun structOf :: "Response201 \<Rightarrow> ResponseStruct" where
  "structOf (BootNotificationResponse201 t interval status) =
     BootStruct \<lparr>bres_CurrentTime = t, bres_Interval = interval, bres_Status = status, bres_StatusInfo = None\<rparr>"
| "structOf (HeartbeatResponse201 t) = HeartbeatStruct t"
| "structOf (AuthorizeResponse201 status) =
     AuthorizeStruct \<lparr>ares_IdTokenInfo = newIdTokenInfo status, ares_CertificateStatus = []\<rparr>"
| "structOf TransactionEventResponse =
     TransactionEventStruct \<lparr>teres_TotalCost = None, teres_ChargingPriority = None, teres_IdTokenInfo = None,
       teres_UpdatedPersonalMessage = None\<rparr>"
| "structOf NotifyReportResponse = EmptyStruct"
| "structOf ClearedChargingLimitResponse = EmptyStruct"
| "structOf StatusNotificationResponse201 = EmptyStruct"

text \<open>The short form in which the responses are kept prints what the full struct prints.\<close>

lemma encStruct_structOf: "encStruct format (structOf r) = encResponse201 format r"
  by (cases r) (simp_all add: encIdTokenInfo_def newIdTokenInfo_def omit_def omitPtr_def)

section \<open>Commands read back\<close>

definition evseOk :: "EVSE \<Rightarrow> bool" where
  "evseOk e \<longleftrightarrow> int64 (evse_Id e) \<and> pred_option int64 (evse_ConnectorId e)"

definition componentOk :: "Component \<Rightarrow> bool" where
  "componentOk c \<longleftrightarrow> pred_option evseOk (cm_Evse c)"

interpretation evse: codec encEVSE decEVSE evseOk
proof
  fix e show "evseOk e \<Longrightarrow> decEVSE (encEVSE e) = Some e"
    by (cases "evse_ConnectorId e")
      (simp_all add: evseOk_def encEVSE_def decEVSE_def omitPtr_def member_def fold_names encInt_def [symmetric])
qed (simp add: encEVSE_def)

interpretation variable: codec encVariable decVariable "\<lambda>_. True"
proof
  fix v show "decVariable (encVariable v) = Some v"
    by (cases "vr_Instance v = []") (simp_all add: encVariable_def decVariable_def omit_def member_def fold_names)
qed (simp add: encVariable_def)

interpretation component: codec encComponent decComponent componentOk
proof
  fix c assume ok: "componentOk c"
  have "decPtr decEVSE (encEVSE e) = Some (Some e)" if "cm_Evse c = Some e" for e
    using evse.dec_pointer [of e] ok that by (simp add: componentOk_def)
  then show "decComponent (encComponent c) = Some c"
    by (cases "cm_Instance c = []"; cases "cm_Evse c")
      (simp_all add: encComponent_def decComponent_def omit_def omitPtr_def member_def fold_names)
qed (simp add: encComponent_def)

interpretation statusInfo: codec encStatusInfo decStatusInfo "\<lambda>_. True"
proof
  fix i show "decStatusInfo (encStatusInfo i) = Some i"
    by (cases "si_AdditionalInfo i = []") (simp_all add: encStatusInfo_def decStatusInfo_def omit_def member_def fold_names)
qed (simp add: encStatusInfo_def)

interpretation additionalInfo: codec
  "\<lambda>a. JObj [(''additionalIdToken'', JStr (ai_AdditionalIdToken a)), (''type'', JStr (ai_Type a))]" decAdditionalInfo "\<lambda>_. True"
  by unfold_locales (simp_all add: decAdditionalInfo_def member_def fold_names)

interpretation idToken: codec encIdToken decIdToken "\<lambda>_. True"
proof
  fix t show "decIdToken (encIdToken t) = Some t"
    using additionalInfo.dec_array [of "it_AdditionalInfo t"]
    by (cases "it_AdditionalInfo t = []")
      (simp_all add: encIdToken_def decIdToken_def omit_def member_def fold_names list_all_iff)
qed (simp add: encIdToken_def)

definition getDataOk :: "GetVariableDataType \<Rightarrow> bool" where "getDataOk d \<longleftrightarrow> componentOk (gv_Component d)"
definition setDataOk :: "SetVariableDataType \<Rightarrow> bool" where "setDataOk d \<longleftrightarrow> componentOk (sx_Component d)"

interpretation getData: codec encGetVariableData decGetVariableDataType getDataOk
proof
  fix d assume "getDataOk d"
  then show "decGetVariableDataType (encGetVariableData d) = Some d"
    using component.dec_enc [of "gv_Component d"] variable.dec_enc [of "gv_Variable d"]
    by (cases "gv_AttributeType d = []")
      (simp_all add: getDataOk_def encGetVariableData_def decGetVariableDataType_def omit_def member_def fold_names)
qed (simp add: encGetVariableData_def)

interpretation setData: codec encSetVariableData decSetVariableDataType setDataOk
proof
  fix d assume "setDataOk d"
  then show "decSetVariableDataType (encSetVariableData d) = Some d"
    using component.dec_enc [of "sx_Component d"] variable.dec_enc [of "sx_Variable d"]
    by (cases "sx_AttributeType d = []")
      (simp_all add: setDataOk_def encSetVariableData_def decSetVariableDataType_def omit_def member_def fold_names)
qed (simp add: encSetVariableData_def)

fun payload201 :: "Request201 \<Rightarrow> Payload" where
  "payload201 (RequestStartTransactionRequest201 token i evseId) =
     RequestStartPayload \<lparr>rs_IdToken = token, rs_RemoteStartId = i, rs_EvseId = evseId, rs_ChargingProfile = None, rs_GroupIdToken = None\<rparr>"
| "payload201 (RequestStopTransactionRequest201 t) = RequestStopPayload \<lparr>rt_TransactionId = t\<rparr>"
| "payload201 (ResetRequest201 ty) = Reset201Payload \<lparr>r2_Type = ty, r2_EvseId = None\<rparr>"
| "payload201 (GetVariablesRequest201 ds) = GetVariablesPayload ds"
| "payload201 (SetVariablesRequest201 ds) = SetVariablesPayload ds"

text \<open>Numbers fit into 64 bits.\<close>

fun request201Ok :: "Request201 \<Rightarrow> bool" where
  "request201Ok (RequestStartTransactionRequest201 _ i evseId) = (int64 i \<and> pred_option int64 evseId)"
| "request201Ok (GetVariablesRequest201 ds) = list_all getDataOk ds"
| "request201Ok (SetVariablesRequest201 ds) = list_all setDataOk ds"
| "request201Ok _ = True"

definition commandType201 :: "Request201 \<Rightarrow> reflectType" where
  "commandType201 r =
     (case map_of features201 (Request201_GetFeatureName r) of None \<Rightarrow> [] | Some types \<Rightarrow> ft_requestType types)"

lemma decRequestStart_enc:
  "int64 i \<Longrightarrow> pred_option int64 e \<Longrightarrow>
   decRequestStartTransaction parse (encRequest201 (RequestStartTransactionRequest201 t i e)) =
     Some \<lparr>rs_IdToken = t, rs_RemoteStartId = i, rs_EvseId = e, rs_ChargingProfile = None, rs_GroupIdToken = None\<rparr>"
  using idToken.dec_enc [of t]
  by (cases e) (simp_all add: decRequestStartTransaction_def omitPtr_def member_def fold_names)

lemma decVariables_enc:
  "list_all getDataOk gs \<Longrightarrow> decGetVariables (encRequest201 (GetVariablesRequest201 gs)) = Some gs"
  "list_all setDataOk ss \<Longrightarrow> decSetVariables (encRequest201 (SetVariablesRequest201 ss)) = Some ss"
  using getData.dec_array [of gs] setData.dec_array [of ss]
  by (simp_all add: decGetVariables_def decSetVariables_def member_def)

lemma decodePayload_command201:
  assumes "request201Ok r"
  shows "decodePayload parse (commandType201 r) (encRequest201 r) = Some (payload201 r)"
  using assms
  by (cases r)
    (simp_all add: commandType201_def features201_def feature_def decodePayload_def decoders16_def decoders201_def
      decRequestStart_enc decVariables_enc decRequestStopTransaction_def decReset201_def member_def fold_names
      del: encRequest201.simps(1,4,5))

lemma GetTypes_command201:
  "\<exists>types. GetTypes OCPP201 (Request201_GetFeatureName r) (NewHandler201 registry) = Inr types
     \<and> ft_requestType types = commandType201 r"
  by (cases r) (simp_all add: GetTypes_lookup handler201_lookup commandType201_def features201_def feature_def)

lemma encRequest201_object: "encRequest201 r \<noteq> JNull"
  by (cases r) simp_all



end
