(* ===== verification/ChargerAnswers.thy ===== *)
theory ChargerAnswers
  imports Answers
begin

text \<open>
  The structs a charge point of OCPP 2.0.1 answers the commands of the system with (\<^verbatim>\<open>src/ocpp/v201/provisioning\<close>,
  \<^verbatim>\<open>src/ocpp/v201/remotecontrol\<close>), with their encoders and decoders. The program hands the payload of an answer to the
  caller undecoded, so these types are what the payload of a well formed answer is.
\<close>

section \<open>Answers with a status\<close>

record ResetResponse =
  rr_Status :: string
  rr_StatusInfo :: "StatusInfo option"

record GetBaseReportResponse =
  bt_Status :: string
  bt_StatusInfo :: "StatusInfo option"

record RequestStopTransactionResponse =
  sp_Status :: string
  sp_StatusInfo :: "StatusInfo option"

record RequestStartTransactionResponse =
  sa_Status :: string
  sa_StatusInfo :: "StatusInfo option"
  sa_TransactionId :: string

definition encResetResponse :: "ResetResponse \<Rightarrow> Json" where
  "encResetResponse r = JObj ([(''status'', JStr (rr_Status r))] @ omitPtr encStatusInfo ''statusInfo'' (rr_StatusInfo r))"

definition decResetResponse :: "Json \<Rightarrow> ResetResponse option" where
  "decResetResponse = decObj (\<lambda>ms. do {
     x0 \<leftarrow> decStr (member ''status'' ms);
     x1 \<leftarrow> decPtr decStatusInfo (member ''statusInfo'' ms);
     Some \<lparr>rr_Status = x0, rr_StatusInfo = x1\<rparr>
   })"

definition encGetBaseReportResponse :: "GetBaseReportResponse \<Rightarrow> Json" where
  "encGetBaseReportResponse r =
     JObj ([(''status'', JStr (bt_Status r))] @ omitPtr encStatusInfo ''statusInfo'' (bt_StatusInfo r))"

definition decGetBaseReportResponse :: "Json \<Rightarrow> GetBaseReportResponse option" where
  "decGetBaseReportResponse = decObj (\<lambda>ms. do {
     x0 \<leftarrow> decStr (member ''status'' ms);
     x1 \<leftarrow> decPtr decStatusInfo (member ''statusInfo'' ms);
     Some \<lparr>bt_Status = x0, bt_StatusInfo = x1\<rparr>
   })"

definition encRequestStopTransactionResponse :: "RequestStopTransactionResponse \<Rightarrow> Json" where
  "encRequestStopTransactionResponse r =
     JObj ([(''status'', JStr (sp_Status r))] @ omitPtr encStatusInfo ''statusInfo'' (sp_StatusInfo r))"

definition decRequestStopTransactionResponse :: "Json \<Rightarrow> RequestStopTransactionResponse option" where
  "decRequestStopTransactionResponse = decObj (\<lambda>ms. do {
     x0 \<leftarrow> decStr (member ''status'' ms);
     x1 \<leftarrow> decPtr decStatusInfo (member ''statusInfo'' ms);
     Some \<lparr>sp_Status = x0, sp_StatusInfo = x1\<rparr>
   })"

definition encRequestStartTransactionResponse :: "RequestStartTransactionResponse \<Rightarrow> Json" where
  "encRequestStartTransactionResponse r =
     JObj ([(''status'', JStr (sa_Status r))] @ omitPtr encStatusInfo ''statusInfo'' (sa_StatusInfo r)
       @ omit (sa_TransactionId r = []) ''transactionId'' (JStr (sa_TransactionId r)))"

definition decRequestStartTransactionResponse :: "Json \<Rightarrow> RequestStartTransactionResponse option" where
  "decRequestStartTransactionResponse = decObj (\<lambda>ms. do {
     x0 \<leftarrow> decStr (member ''status'' ms);
     x1 \<leftarrow> decPtr decStatusInfo (member ''statusInfo'' ms);
     x2 \<leftarrow> decStr (member ''transactionId'' ms);
     Some \<lparr>sa_Status = x0, sa_StatusInfo = x1, sa_TransactionId = x2\<rparr>
   })"

section \<open>Variables\<close>

record GetVariableResultType =
  gt_AttributeStatus :: string
  gt_AttributeType :: string
  gt_AttributeValue :: string
  gt_Component :: Component
  gt_Variable :: Variable
  gt_AttributeStatusInfo :: "StatusInfo option"

record SetVariableResultType =
  sq_AttributeType :: string
  sq_AttributeStatus :: string
  sq_Component :: Component
  sq_Variable :: Variable
  sq_AttributeStatusInfo :: "StatusInfo option"

definition encGetVariableResult :: "GetVariableResultType \<Rightarrow> Json" where
  "encGetVariableResult r =
     JObj ([(''attributeStatus'', JStr (gt_AttributeStatus r))]
       @ omit (gt_AttributeType r = []) ''attributeType'' (JStr (gt_AttributeType r))
       @ omit (gt_AttributeValue r = []) ''attributeValue'' (JStr (gt_AttributeValue r))
       @ [(''component'', encComponent (gt_Component r)), (''variable'', encVariable (gt_Variable r))]
       @ omitPtr encStatusInfo ''attributeStatusInfo'' (gt_AttributeStatusInfo r))"

definition decGetVariableResult :: "Json \<Rightarrow> GetVariableResultType option" where
  "decGetVariableResult = decObj (\<lambda>ms. do {
     x0 \<leftarrow> decStr (member ''attributeStatus'' ms);
     x1 \<leftarrow> decStr (member ''attributeType'' ms);
     x2 \<leftarrow> decStr (member ''attributeValue'' ms);
     x3 \<leftarrow> decComponent (member ''component'' ms);
     x4 \<leftarrow> decVariable (member ''variable'' ms);
     x5 \<leftarrow> decPtr decStatusInfo (member ''attributeStatusInfo'' ms);
     Some \<lparr>gt_AttributeStatus = x0, gt_AttributeType = x1, gt_AttributeValue = x2, gt_Component = x3, gt_Variable = x4,
       gt_AttributeStatusInfo = x5\<rparr>
   })"

definition encSetVariableResult :: "SetVariableResultType \<Rightarrow> Json" where
  "encSetVariableResult r =
     JObj (omit (sq_AttributeType r = []) ''attributeType'' (JStr (sq_AttributeType r))
       @ [(''attributeStatus'', JStr (sq_AttributeStatus r)),
          (''component'', encComponent (sq_Component r)), (''variable'', encVariable (sq_Variable r))]
       @ omitPtr encStatusInfo ''attributeStatusInfo'' (sq_AttributeStatusInfo r))"

definition decSetVariableResult :: "Json \<Rightarrow> SetVariableResultType option" where
  "decSetVariableResult = decObj (\<lambda>ms. do {
     x0 \<leftarrow> decStr (member ''attributeType'' ms);
     x1 \<leftarrow> decStr (member ''attributeStatus'' ms);
     x2 \<leftarrow> decComponent (member ''component'' ms);
     x3 \<leftarrow> decVariable (member ''variable'' ms);
     x4 \<leftarrow> decPtr decStatusInfo (member ''attributeStatusInfo'' ms);
     Some \<lparr>sq_AttributeType = x0, sq_AttributeStatus = x1, sq_Component = x2, sq_Variable = x3, sq_AttributeStatusInfo = x4\<rparr>
   })"

definition encGetVariablesResponse :: "GetVariableResultType list \<Rightarrow> Json" where
  "encGetVariablesResponse rs = JObj [(''getVariableResult'', JArr (map encGetVariableResult rs))]"

definition decGetVariablesResponse :: "Json \<Rightarrow> GetVariableResultType list option" where
  "decGetVariablesResponse = decObj (\<lambda>ms. decList decGetVariableResult (member ''getVariableResult'' ms))"

definition encSetVariablesResponse :: "SetVariableResultType list \<Rightarrow> Json" where
  "encSetVariablesResponse rs = JObj [(''setVariableResult'', JArr (map encSetVariableResult rs))]"

definition decSetVariablesResponse :: "Json \<Rightarrow> SetVariableResultType list option" where
  "decSetVariablesResponse = decObj (\<lambda>ms. decList decSetVariableResult (member ''setVariableResult'' ms))"

section \<open>Answers read back\<close>

lemma statusInfo_pointer: "decPtr decStatusInfo (encStatusInfo i) = Some (Some i)"
  by (rule statusInfo.dec_pointer) simp

interpretation resetResponse: codec encResetResponse decResetResponse "\<lambda>_. True"
proof
  fix r show "decResetResponse (encResetResponse r) = Some r"
    by (cases "rr_StatusInfo r")
      (simp_all add: encResetResponse_def decResetResponse_def omitPtr_def member_def fold_names statusInfo_pointer)
qed (simp add: encResetResponse_def)

interpretation baseReportResponse: codec encGetBaseReportResponse decGetBaseReportResponse "\<lambda>_. True"
proof
  fix r show "decGetBaseReportResponse (encGetBaseReportResponse r) = Some r"
    by (cases "bt_StatusInfo r")
      (simp_all add: encGetBaseReportResponse_def decGetBaseReportResponse_def omitPtr_def member_def fold_names statusInfo_pointer)
qed (simp add: encGetBaseReportResponse_def)

interpretation requestStopResponse: codec encRequestStopTransactionResponse decRequestStopTransactionResponse "\<lambda>_. True"
proof
  fix r show "decRequestStopTransactionResponse (encRequestStopTransactionResponse r) = Some r"
    by (cases "sp_StatusInfo r")
      (simp_all add: encRequestStopTransactionResponse_def decRequestStopTransactionResponse_def omitPtr_def member_def fold_names
        statusInfo_pointer)
qed (simp add: encRequestStopTransactionResponse_def)

interpretation requestStartResponse: codec encRequestStartTransactionResponse decRequestStartTransactionResponse "\<lambda>_. True"
proof
  fix r show "decRequestStartTransactionResponse (encRequestStartTransactionResponse r) = Some r"
    by (cases "sa_StatusInfo r"; cases "sa_TransactionId r = []")
      (simp_all add: encRequestStartTransactionResponse_def decRequestStartTransactionResponse_def omit_def omitPtr_def member_def
        fold_names statusInfo_pointer)
qed (simp add: encRequestStartTransactionResponse_def)

interpretation getResult: codec encGetVariableResult decGetVariableResult "\<lambda>r. componentOk (gt_Component r)"
proof
  fix r :: GetVariableResultType
  assume "componentOk (gt_Component r)"
  then show "decGetVariableResult (encGetVariableResult r) = Some r"
    using component.dec_enc [of "gt_Component r"] variable.dec_enc [of "gt_Variable r"]
    by (cases "gt_AttributeStatusInfo r"; cases "gt_AttributeType r = []"; cases "gt_AttributeValue r = []")
      (simp_all add: encGetVariableResult_def decGetVariableResult_def omit_def omitPtr_def member_def fold_names statusInfo_pointer)
qed (simp add: encGetVariableResult_def)

interpretation setResult: codec encSetVariableResult decSetVariableResult "\<lambda>r. componentOk (sq_Component r)"
proof
  fix r :: SetVariableResultType
  assume "componentOk (sq_Component r)"
  then show "decSetVariableResult (encSetVariableResult r) = Some r"
    using component.dec_enc [of "sq_Component r"] variable.dec_enc [of "sq_Variable r"]
    by (cases "sq_AttributeStatusInfo r"; cases "sq_AttributeType r = []")
      (simp_all add: encSetVariableResult_def decSetVariableResult_def omit_def omitPtr_def member_def fold_names statusInfo_pointer)
qed (simp add: encSetVariableResult_def)

interpretation getVariablesResponse: codec encGetVariablesResponse decGetVariablesResponse
  "list_all (\<lambda>r. componentOk (gt_Component r))"
  by unfold_locales
    (simp_all add: encGetVariablesResponse_def decGetVariablesResponse_def member_def getResult.dec_array del: decList.simps)

interpretation setVariablesResponse: codec encSetVariablesResponse decSetVariablesResponse
  "list_all (\<lambda>r. componentOk (sq_Component r))"
  by unfold_locales
    (simp_all add: encSetVariablesResponse_def decSetVariablesResponse_def member_def setResult.dec_array del: decList.simps)

text \<open>An answer frame with variables: what the waiting caller is handed decodes to the results.\<close>

lemma variables_answer_read:
  assumes "list_all (\<lambda>r. componentOk (gt_Component r)) rs"
  shows "\<exists>c. ParseResultUnchecked [encInt CallTypeResult, JStr u, encGetVariablesResponse rs] = Inr c
    \<and> cres_UniqueId c = u \<and> decGetVariablesResponse (cres_Payload c) = Some rs"
proof -
  have "MessageType [encInt CallTypeResult, JStr u, j] = Inr CallTypeResult" for j
    using int_of_float_of_int [of 3] by (simp add: MessageType_def encInt_def int64_def)
  then show ?thesis
    using getVariablesResponse.dec_enc [OF assms] by (simp add: ParseResultUnchecked_def)
qed

end
