(* ===== verification/Conformance.thy ===== *)
theory Conformance
  imports ChargerAnswers CentralSystem HandlerProps
begin

text \<open>
  Both protocol versions against their messages: the answers of the handlers belong to the request's feature and use
  constants of the vocabulary only, and the readers of meter values of the two versions agree on samples that say the
  same.
\<close>

section \<open>Answers\<close>

fun Response16_GetFeatureName :: "Response16 \<Rightarrow> string" where
  "Response16_GetFeatureName (BootNotificationResponse _ _ _) = ''BootNotification''"
| "Response16_GetFeatureName (AuthorizeResponse _) = ''Authorize''"
| "Response16_GetFeatureName (HeartbeatResponse _) = ''Heartbeat''"
| "Response16_GetFeatureName (StartTransactionResponse _ _) = ''StartTransaction''"
| "Response16_GetFeatureName StopTransactionResponse = ''StopTransaction''"
| "Response16_GetFeatureName MeterValuesResponse = ''MeterValues''"
| "Response16_GetFeatureName StatusNotificationResponse = ''StatusNotification''"
| "Response16_GetFeatureName (DataTransferResponse _) = ''DataTransfer''"
| "Response16_GetFeatureName DiagnosticsStatusNotificationResponse = ''DiagnosticsStatusNotification''"
| "Response16_GetFeatureName FirmwareStatusNotificationResponse = ''FirmwareStatusNotification''"

fun Response201_GetFeatureName :: "Response201 \<Rightarrow> string" where
  "Response201_GetFeatureName (BootNotificationResponse201 _ _ _) = ''BootNotification''"
| "Response201_GetFeatureName (HeartbeatResponse201 _) = ''Heartbeat''"
| "Response201_GetFeatureName NotifyReportResponse = ''NotifyReport''"
| "Response201_GetFeatureName (AuthorizeResponse201 _) = ''Authorize''"
| "Response201_GetFeatureName ClearedChargingLimitResponse = ''ClearedChargingLimit''"
| "Response201_GetFeatureName TransactionEventResponse = ''TransactionEvent''"
| "Response201_GetFeatureName StatusNotificationResponse201 = ''StatusNotification''"

fun OcppResponse_GetFeatureName :: "OcppResponse \<Rightarrow> string" where
  "OcppResponse_GetFeatureName (Response16 r) = Response16_GetFeatureName r"
| "OcppResponse_GetFeatureName (Response201 r) = Response201_GetFeatureName r"

definition AuthorizationStatusValues16 :: "string list" where
  "AuthorizationStatusValues16 = [''Accepted'', ''Blocked'', ''Expired'', ''Invalid'', ''ConcurrentTx'']"

text \<open>The status of an answer on the wire: a member of the object or of its tag information.\<close>

fun statusMember :: "Json \<Rightarrow> string option" where
  "statusMember (JObj ms) = (case map_of ms ''status'' of Some (JStr st) \<Rightarrow> Some st | _ \<Rightarrow> None)"
| "statusMember _ = None"

fun answerStatus :: "Json \<Rightarrow> string option" where
  "answerStatus (JObj ms) =
     (case map_of ms ''idTagInfo'' of Some j \<Rightarrow> statusMember j
      | None \<Rightarrow> (case map_of ms ''idTokenInfo'' of Some j \<Rightarrow> statusMember j | None \<Rightarrow> statusMember (JObj ms)))"
| "answerStatus _ = None"

text \<open>The type of the status field of a response.\<close>

fun statusValues :: "OcppResponse \<Rightarrow> string list" where
  "statusValues (Response16 (BootNotificationResponse _ _ _)) = RegistrationStatusValues16"
| "statusValues (Response16 (DataTransferResponse _)) = DataTransferStatusValues16"
| "statusValues (Response16 (AuthorizeResponse _)) = AuthorizationStatusValues16"
| "statusValues (Response16 (StartTransactionResponse _ _)) = AuthorizationStatusValues16"
| "statusValues (Response201 (BootNotificationResponse201 _ _ _)) = RegistrationStatusTypeValues201"
| "statusValues (Response201 (AuthorizeResponse201 _)) = AuthorizationStatusTypeValues201"
| "statusValues _ = []"

definition conforms :: "(time \<Rightarrow> string) \<Rightarrow> string \<Rightarrow> OcppResponse \<Rightarrow> bool" where
  "conforms format action r \<longleftrightarrow> OcppResponse_GetFeatureName r = action
     \<and> (case answerStatus (encOcppResponse format r) of None \<Rightarrow> True | Some st \<Rightarrow> st \<in> set (statusValues r))"

definition statusOk201 :: "Response201 \<Rightarrow> bool" where
  "statusOk201 q = (case q of BootNotificationResponse201 _ _ st \<Rightarrow> st \<in> set RegistrationStatusTypeValues201
     | AuthorizeResponse201 st \<Rightarrow> st \<in> set AuthorizationStatusTypeValues201 | _ \<Rightarrow> True)"

lemma conforms16:
  assumes "\<And>st. q = DataTransferResponse st \<Longrightarrow> st \<in> set DataTransferStatusValues16"
  shows "conforms format (Response16_GetFeatureName q) (Response16 q)"
proof -
  have auth: "authStatusText st \<in> set AuthorizationStatusValues16" for st
    by (cases st) (simp_all add: AuthorizationStatusValues16_def)
  show ?thesis using assms by (cases q) (simp_all add: conforms_def encIdTagInfo_def auth RegistrationStatusValues16_def)
qed

lemma conforms201: "statusOk201 q \<Longrightarrow> conforms format (Response201_GetFeatureName q) (Response201 q)"
  by (cases q) (simp_all add: conforms_def statusOk201_def)

lemma OnDataTransfer_status: "OnDataTransfer env cp s = (st, s') \<Longrightarrow> st \<in> set DataTransferStatusValues16"
  by (auto simp: OnDataTransfer_def DataTransferStatusValues16_def split: prod.splits option.splits)

lemma route16_conforms:
  assumes "routeOCPP16Request env now cp action p s = Some (Inr r, s')"
  shows "conforms format action r"
proof -
  obtain q where q: "r = Response16 q" "Response16_GetFeatureName q = action"
      "\<And>st. q = DataTransferResponse st \<Longrightarrow> \<exists>s2. OnDataTransfer env cp s = (st, s2)"
    using assms unfolding routeOCPP16Request_def
    by (cases p) (auto split: if_splits prod.splits)
  have "st \<in> set DataTransferStatusValues16" if "q = DataTransferResponse st" for st
    using q(3) [OF that] OnDataTransfer_status by blast
  from conforms16 [of q format, OF this] q(1,2) show ?thesis by simp
qed

lemma OnBootNotification201_status:
  assumes "OnBootNotification201 env now cp r s = Some (c, s')"
  shows "Response201_GetFeatureName c = ''BootNotification'' \<and> statusOk201 c"
proof -
  obtain f s1 where g: "getChargePoint env cp s = (f, s1)" by (cases "getChargePoint env cp s")
  obtain h s2 where a: "addChargePoint env cp s1 = (h, s2)" by (cases "addChargePoint env cp s1")
  show ?thesis
    using assms g a
    by (cases f; cases h)
      (auto simp: OnBootNotification201_def Let_def statusOk201_def RegistrationStatusTypeValues201_def
        RegistrationStatusAccepted_def RegistrationStatusRejected_def split: if_splits)
qed

lemma OnAuthorize201_status:
  assumes "OnAuthorize201 env now cp r s = (c, s')"
  shows "Response201_GetFeatureName c = ''Authorize'' \<and> statusOk201 c"
proof -
  let ?tag = "IdToken201ToIdTag (Some (a2_IdToken r))"
  obtain u s1 where u: "getUserTag env now ?tag s = (u, s1)" by (cases "getUserTag env now ?tag s")
  obtain f s2 where g: "getChargePoint env cp s1 = (f, s2)" by (cases "getChargePoint env cp s1")
  have "\<exists>st \<in> {''Accepted'', ''Blocked'', ''Expired'', ''Invalid''}. c = AuthorizeResponse201 st"
    using assms u g by (auto simp: OnAuthorize201_def Let_def split: option.splits if_splits)
  then show ?thesis by (auto simp: statusOk201_def AuthorizationStatusTypeValues201_def)
qed

lemma OnNotifyReport_response: "OnNotifyReport env cp n s = (c, s') \<Longrightarrow> c = NotifyReportResponse"
  by (cases "getChargePoint env cp s"; cases "fst (getChargePoint env cp s)") (auto simp: OnNotifyReport_def Let_def)

lemma OnTransactionEvent_response: "OnTransactionEvent env now cp e s = (Inr c, s') \<Longrightarrow> c = TransactionEventResponse"
  by (cases "getChargePoint env cp s"; cases "fst (getChargePoint env cp s)")
    (auto simp: OnTransactionEvent_def Let_def split_beta)

lemma OnStatusNotification201_response: "OnStatusNotification201 env cp q s = (Inr c, s') \<Longrightarrow> c = StatusNotificationResponse201"
  by (cases "getChargePoint env cp s"; cases "fst (getChargePoint env cp s)")
    (auto simp: OnStatusNotification201_def Let_def split_beta)

lemma result201_response: "result201 x = (Inr r, s') \<Longrightarrow> \<exists>c. x = (Inr c, s') \<and> r = Response201 c"
  by (cases x; cases "fst x") (auto simp: result201_def)

lemma route201_conforms:
  assumes "routeOCPP201Request h env now cp action p s = Some (Inr r, s')"
  shows "conforms format action r"
proof -
  obtain q where "r = Response201 q" "Response201_GetFeatureName q = action" "statusOk201 q"
    using assms unfolding routeOCPP201Request_def
    by (cases p)
      (auto simp: OnHeartbeat201_def OnClearedChargingLimit_def statusOk201_def split: if_splits prod.splits
        dest!: result201_response OnNotifyReport_response OnTransactionEvent_response OnStatusNotification201_response
          OnBootNotification201_status OnAuthorize201_status)
  with conforms201 [of q format] show ?thesis by simp
qed

text \<open>
  C9. Every answer the program gives belongs to its request: on both protocol versions, the response of a handler is
  the response struct of the feature that was asked for, and the status it carries on the wire, if it has one, is a
  constant of the status type of that struct.
\<close>

theorem answers_conform:
  assumes "routeOCPP16Request env now cp action p s = Some (Inr r, s')
    \<or> routeOCPP201Request handlersSet env now cp action p s = Some (Inr r, s')"
  shows "OcppResponse_GetFeatureName r = action
    \<and> (\<forall>st. answerStatus (encOcppResponse format r) = Some st \<longrightarrow> st \<in> set (statusValues r))"
proof -
  have "conforms format action r" using assms route16_conforms route201_conforms by blast
  then show ?thesis by (auto simp: conforms_def)
qed

theorem answers_conform_witness:
  "\<exists>r s'. routeOCPP201Request True demoEnv 0 ''CP1'' ''Authorize''
       (Authorize201Payload \<lparr>a2_IdToken = \<lparr>it_IdToken = ''TAG1'', it_Type = ''ISO14443'', it_AdditionalInfo = []\<rparr>,
          a2_Certificate = [], a2_Iso15118CertificateHashData = []\<rparr>) demoSys = Some (Inr r, s')
     \<and> OcppResponse_GetFeatureName r = ''Authorize''"
proof -
  let ?run = "routeOCPP201Request True demoEnv 0 ''CP1'' ''Authorize''
       (Authorize201Payload \<lparr>a2_IdToken = \<lparr>it_IdToken = ''TAG1'', it_Type = ''ISO14443'', it_AdditionalInfo = []\<rparr>,
          a2_Certificate = [], a2_Iso15118CertificateHashData = []\<rparr>) demoSys"
  obtain r s' where run: "?run = Some (Inr r, s')"
    by (cases "OnAuthorize201 demoEnv 0 ''CP1'' \<lparr>a2_IdToken = \<lparr>it_IdToken = ''TAG1'', it_Type = ''ISO14443'', it_AdditionalInfo = []\<rparr>,
          a2_Certificate = [], a2_Iso15118CertificateHashData = []\<rparr> demoSys") (simp add: routeOCPP201Request_def)
  from answers_conform [OF disjI2 [OF run]] run show ?thesis by blast
qed

section \<open>Meter values\<close>

text \<open>A sample of each version that say the same: the value as a text and as a number, without a multiplier.\<close>

definition sameSample :: "SampledValue \<Rightarrow> SampledValue201 \<Rightarrow> bool" where
  "sameSample v w \<longleftrightarrow> sv_Measurand v = s2_Measurand w \<and> s2_Measurand w \<noteq> [] \<and> sv_Location v = s2_Location w
     \<and> ParseFloat (sv_Value v) = Some (s2_Value w)
     \<and> (case s2_UnitOfMeasure w of None \<Rightarrow> True | Some u \<Rightarrow> um_Multiplier u \<in> {None, Some 0})"

definition sameReading :: "TransactionMeter \<Rightarrow> TransactionMeter \<Rightarrow> bool" where
  "sameReading m n \<longleftrightarrow> m_Value m = m_Value n \<and> m_PowerActive m = m_PowerActive n \<and> m_BatteryLevel m = m_BatteryLevel n
     \<and> m_Voltage m = m_Voltage n \<and> m_CurrentImport m = m_CurrentImport n \<and> m_CurrentOffered m = m_CurrentOffered n"

lemma scaleSample_none: "sameSample v w \<Longrightarrow> scaleSample w n = n"
  by (auto simp: sameSample_def scaleSample_def applyMultiplier_def split: option.splits)

lemma sameSample_parts:
  assumes "sameSample v w"
  shows "isVehicleSideReading v = isVehicleSideReading201 w" "ToInt (sv_Value v) = int_of_float (s2_Value w)"
    "sv_Measurand v = s2_Measurand w" "s2_Measurand w \<noteq> []" "keepHigher x (sv_Value v) = (if s2_Value w > x then s2_Value w else x)"
  using assms by (auto simp: sameSample_def isVehicleSideReading_def isVehicleSideReading201_def ToInt_def keepHigher_def)

lemma energyReading_others [simp]:
  "m_PowerActive (energyReading tr p v m) = m_PowerActive m" "m_BatteryLevel (energyReading tr p v m) = m_BatteryLevel m"
  by (cases p; simp add: energyReading_def Let_def)+

lemma electricalReading_others [simp]:
  "m_Value (electricalReading v m) = m_Value m" "m_PowerActive (electricalReading v m) = m_PowerActive m"
  "m_BatteryLevel (electricalReading v m) = m_BatteryLevel m"
  by (simp_all add: electricalReading_def)

lemma readSample_register:
  "m_Value (readSample tr p v m) = (if sv_Measurand v = ''Energy.Active.Import.Register'' then ToInt (sv_Value v) else m_Value m)"
  "m_PowerActive (readSample tr p v m) = (if sv_Measurand v = ''Power.Active.Import'' then ToInt (sv_Value v) else m_PowerActive m)"
  "m_BatteryLevel (readSample tr p v m) = (if sv_Measurand v = ''SoC'' then ToInt (sv_Value v) else m_BatteryLevel m)"
  by (simp_all add: readSample_def Let_def)

lemma sameReading_step:
  assumes "sameSample v w" "sameReading m n"
  shows "sameReading (readSample tr p v m) (scaleSample w (readSample201 w n))"
  using assms(2) sameSample_parts [OF assms(1)] unfolding scaleSample_none [OF assms(1)]
  by (simp add: sameReading_def readSample_fields readSample_register readSample201_def Let_def MeasurandEnergy_def keepMax_def)

lemma sameReading_fold:
  "list_all2 sameSample vs ws \<Longrightarrow> sameReading m n \<Longrightarrow>
   sameReading (fold (readSample tr p) vs m) (fold (\<lambda>w n. scaleSample w (readSample201 w n)) ws n)"
  by (induction arbitrary: m n rule: list_all2_induct) (simp_all add: sameReading_step)



text \<open>A sample that leaves the measurand out is the energy register in OCPP 2.0.1 and is passed over in OCPP 1.6.\<close>

lemma readers_differ_without_measurand:
  assumes "sv_Measurand v = []" "s2_Measurand w = []"
  shows "m_Value (readSample tr p v m) = m_Value m" "m_Value (readSample201 w m) = int_of_float (s2_Value w)"
  using assms by (simp_all add: readSample_register readSample201_def)

end
