(* ===== verification/Spec2Isabelle.thy ===== *)
theory Spec2Isabelle
  imports HandlerProps Startup BalancerProps Props201 Composition MigrationProps TelegramProps OcpiProps Listeners Monitoring Dispatch201
    Lifecycle ProgramPower Conformance
begin

text \<open>
  A verification development of \<^verbatim>\<open>evsys\<close>, a central system for charge points that speak OCPP 1.6 and 2.0.1
  over websockets, written in Go.

  \<^bold>\<open>The program.\<close> Charge points connect to the websocket server (\<^verbatim>\<open>server/server.go\<close>). A frame they send is
  classified and parsed by the message layer (\<^verbatim>\<open>server/message.go\<close>, the structs of \<^verbatim>\<open>ocpp/v16\<close>, \<^verbatim>\<open>ocpp/v201\<close> and
  \<^verbatim>\<open>types\<close>, and the feature registry of \<^verbatim>\<open>ocpp/common\<close>). The central system (\<^verbatim>\<open>server/central_system.go\<close>) routes the
  request to a handler of the system handler (\<^verbatim>\<open>server/system_handler.go\<close>) or of the 2.0.1 handlers
  (\<^verbatim>\<open>server/v201_handlers.go\<close>, which convert with \<^verbatim>\<open>server/protocol_adapter.go\<close> and work on the same state), queues
  the response and calls the power manager (\<^verbatim>\<open>power\<close>). The handlers keep charge points, connectors and open
  transactions in memory, write them to MongoDB (\<^verbatim>\<open>internal/mongo.go\<close>), price them with the billing service
  (\<^verbatim>\<open>billing/affleck.go\<close>), ask for meter values through the trigger (\<^verbatim>\<open>server/trigger.go\<close>) and report events and
  metrics. Operators send commands through the API (\<^verbatim>\<open>server/server_api.go\<close>), which become requests to a charge
  point whose answer the server hands to the waiting caller. Events go to the Telegram bot (\<^verbatim>\<open>telegram\<close>) and the
  roaming client (\<^verbatim>\<open>ocpi\<close>), which also decides on tags that are not known locally; errors go to the error listener, log
  messages to the logger (\<^verbatim>\<open>internal\<close>). \<^verbatim>\<open>main.go\<close> reads the configuration (\<^verbatim>\<open>internal/config\<close>), starts the metrics
  listener and has all of this built from it; before anything else runs, the migrations bring the documents of the
  database to the current schema (\<^verbatim>\<open>internal/migrations.go\<close>).

  \<^bold>\<open>Theories, in the order of their imports.\<close>
  \<^item> \<open>Prelude\<close>, \<open>GoLib\<close>: generic facts, 64-bit integers, Go maps as association lists with distinct keys, and
    what is used of \<^verbatim>\<open>time\<close>, \<^verbatim>\<open>strings\<close>, \<^verbatim>\<open>strconv\<close> and \<^verbatim>\<open>encoding/json\<close>'s key comparison.
  \<^item> \<open>Entities\<close> (\<^verbatim>\<open>entity\<close>), \<open>Utility\<close> (\<^verbatim>\<open>utility\<close>), \<open>Core16\<close> (\<^verbatim>\<open>ocpp/v16\<close>, \<^verbatim>\<open>types\<close>): records, constructors and
    validation.
  \<^item> \<open>Database\<close>: the storage interface as a record of operations over an abstract store, with its laws as the
    locale \<open>database\<close>. \<open>Mongo\<close>: the queries and updates of \<^verbatim>\<open>internal/mongo.go\<close> over a driver given by a record
    of collections; the locale \<open>mongo_driver\<close> states what the driver promises, and a sublocale gives
    \<open>database\<close> from it. A store of lists interprets both.
  \<^item> \<open>Billing\<close>: plans and prices; the locale \<open>billing_service\<close> is what the handlers rely on.
  \<^item> \<open>SystemState\<close>, \<open>Transactions\<close>, \<open>Handlers\<close>: the system handler. Its state is the record \<open>sys\<close>, its
    configuration and collaborators the record \<open>env\<close>; effects (writes, requests sent, metrics, events) are
    appended to the trace \<open>out\<close>, and goroutines to \<open>spawned\<close>. One definition per handler; the parts of the
    long ones are named after what they do.
  \<^item> \<open>Session\<close>, \<open>HandlerProps\<close>, \<open>Startup\<close>: what the handlers do. \<open>System\<close>: the handler as a step relation.
  \<^item> \<open>Capabilities\<close>, \<open>LoadBalancer\<close>, \<open>BalancerProps\<close>: the power manager, with the locale \<open>ceiling_store\<close> for
    the stack level it may ask for.
  \<^item> \<open>Protocol\<close>: versions and the feature registry, with the locale \<open>feature_registry\<close>.
  \<^item> \<open>Json\<close>, \<open>Codec16\<close>, \<open>Types201\<close>, \<open>Messages201\<close>: JSON values and the decoding and encoding of every struct.
    \<open>Messages\<close>, \<open>MessageProps\<close>: frames and parsers; the locale \<open>typed_decoders\<close> ties decoders to features.
  \<^item> \<open>Server\<close>, \<open>ServerProps\<close>: the websocket server; a Go channel is the list of the values in it, and each case
    of a \<^verbatim>\<open>select\<close> loop is one operation.
  \<^item> \<open>Adapter\<close>, \<open>Handlers201\<close>, \<open>Props201\<close>: the conversions and handlers of OCPP 2.0.1.
  \<^item> \<open>CentralSystem\<close>, \<open>CentralProps\<close>, \<open>Composition\<close>: routing, API, construction, and the program as one step
    relation over all of its parts. \<open>Dispatch201\<close>: the message handler of \<^verbatim>\<open>ocpp/v201/handlers\<close> with its handler
    interfaces as parameters.
  \<^item> \<open>Migrations\<close>, \<open>MigrationProps\<close>: documents as maps from field names to BSON values, the migrations up and down,
    the run and the schema version, over the locale \<open>document_store\<close>; specifications are functions on the contents
    of all collections.
  \<^item> \<open>ServiceStore\<close>: the tables of the other services, with the locale \<open>subscription_table\<close>. \<open>Telegram\<close>,
    \<open>TelegramProps\<close>: the bot, its channels and pumps as a step relation. \<open>Ocpi\<close>, \<open>OcpiProps\<close>: the roaming client in
    time, with the network as a parameter. \<open>Listeners\<close>: the notifications of the handlers, one goroutine each, that
    call the bot and then the roaming client. \<open>Monitoring\<close>: the logger and the error listener.
  \<^item> \<open>Config\<close>: the configuration, the options of the MongoDB client and the three listeners, with the reader of files
    and the network as parameters. \<open>Program\<close>: the construction of every service from the configuration. \<open>Lifecycle\<close>:
    \<^verbatim>\<open>main\<close> beside the goroutine of the metrics listener as a step relation, and the shutdown.
  \<^item> \<open>Vocabulary\<close>: the constants of the enumerations of both protocol versions. \<open>Answers\<close>, \<open>ChargerAnswers\<close>: the
    response structs of OCPP 2.0.1 in full, with the locale \<open>codec\<close> for what a type promises to the messages that
    contain it, interpreted on every type of a command and of an answer to it. \<open>PowerRuns\<close>: the power manager as a
    step relation over its database; \<open>ProgramPower\<close>: every run of the program is one of its runs. \<open>Conformance\<close>: the answers of the handlers and the readers of meter values
    against the messages of both versions.

  \<^bold>\<open>What is shown.\<close>
  \<^item> Sessions: order of writes of a stop, amounts by tariff, idempotent starts, no start on a taken
    connector, releases that touch only their own connector, the sweep's selection; transaction ids are unique
    along every interleaving, of the handler and of the whole program from \<^verbatim>\<open>main\<close> on, and across restarts.
  \<^item> Billing: the price is the tariff without effects of 64-bit arithmetic, the running price is the final
    price at that reading and never falls.
  \<^item> Power manager: limits after a pass, exclusive slots, acceptable profiles, an end of the retries.
  \<^item> Messages: no JSON makes a 1.6 connection's goroutine panic; commands survive encoding and parsing; the
    registry refines a map.
  \<^item> Server: its tables and buffers stay consistent and bounded along every run, and an answer reaches the
    caller that waits for it. Central system: one response per request, under its id.
  \<^item> Migrations: the run refines its specification, a second run changes nothing, no connector is left pointing at
    a finished transaction, billed, recent and active sessions are left alone, and the rollback reopens what was closed.
  \<^item> Roaming: a tag is accepted on the word of the service only if it answered so in time; which attempts can decide;
    bounds on time and requests. Bot: queued events reach every subscriber in order, escaped texts read back, restarts
    keep the subscribers, channels stay bounded. All notifications can end while the pump of the bot runs, and none
    that waits for the bot once it has stopped with a full channel. Logger and error listener: nothing is lost or reordered, the gauge
    counts the errors of the day. The 2.0.1 dispatch agrees with the path of the central system.
  \<^item> Program: with a reachable database the construction succeeds on migrated documents, ids are fresh from the
    configuration on, a closed installation accepts stored tags only, the process serves only what was built
    completely, and the shutdown closes the registered connections. Every answer belongs to its request and uses
    constants of its type; commands of OCPP 2.0.1 survive encoding and parsing; both readers of meter values agree. Along
    every run the power manager sends only well formed profiles, whose ids keep connectors apart.
  \<^item> Behaviour that differs from its intent is stated as it is: what a 2.0.1 transaction event does to the id
    counter, the events that change nothing, the refusal of all 2.0.1 requests, a late stop that takes a
    connector away, panics without a database, a metrics failure that ends a start, a shutdown that may panic.

  \<^bold>\<open>Bounds.\<close> Go's \<^verbatim>\<open>int\<close> is an \<open>int\<close> with \<open>wrap64\<close> where it is computed with; floats are reals. No definition uses
  fuel: every loop is structural recursion, and the loops that run forever are one operation per turn. A panic is
  \<open>None\<close> of \<open>'a go\<close>. A lock makes a handler one step; code the program runs outside its locks is one step too.
  Iteration over a Go map takes the order of the association list. The clock is an argument.

  \<^bold>\<open>Not modelled.\<close> The text level of JSON and of RFC 3339 (parameters of the environments), the MongoDB driver and
  server, the Telegram API, the roaming service and its network (parameters, with laws where a proof needs them), the
  calendar of a time zone (a parameter of the logger), the reader of configuration files and the network with TLS
  (parameters), the log lines of the handlers. Of the entities, the tariffs and the records of the payment service
  have no code that uses them. An attempt of the roaming client and a turn of a pump are one step each; two calls of the
  Telegram API for different messages do not interleave.
\<close>

section \<open>Properties of the running system\<close>

text \<open>A session of the concrete installation as two steps of the transition system.\<close>

lemma demo_ok: "sys_ok demoSys"
  by code_simp

lemma demo_step: "steps demoEnv demoSys demoRunning"
  unfolding demoRunning_def by (rule r_into_rtranclp, rule step_start, rule prod.collapse [symmetric])

lemma demo_added: "addedIds (out demoRunning) = [1]"
  by code_simp



text \<open>
  C17. The energy counter is never given a negative increment, which the metrics library answers with a
  panic, and the maps of the handler keep distinct keys and consistent transaction entries, along every
  interleaving.
\<close>

theorem energy_counter_safe:
  assumes "sys_ok s" "steps env s s'"
  shows "sys_ok s' \<and> (\<exists>es. out s' = out s @ es
    \<and> (\<forall>l cp x. ConsumedPowerCounter l cp x \<in> set es \<longrightarrow> 0 \<le> x))"
proof -
  obtain es where es: "out s' = out s @ es" "\<forall>e \<in> set es. countsUp e"
    using steps_advance [OF assms(2,1)] unfolding advances_def by blast
  have "0 \<le> x" if "ConsumedPowerCounter l cp x \<in> set es" for l cp x
    using bspec [OF es(2) that] by simp
  moreover have "sys_ok s'" using steps_advance [OF assms(2,1)] assms(1) by (simp add: advances_def)
  ultimately show ?thesis using es(1) by blast
qed

theorem energy_counter_safe_witness: "sys_ok demoRunning"
  using energy_counter_safe [OF demo_ok demo_step] by blast

end
